(* ===== verification/Prelude.thy ===== *)
theory Prelude
  imports Main "HOL-Library.Char_ord" "HOL-Library.List_Lexorder" "HOL-Library.Sublist"
    "HOL-Library.AList"
begin

text \<open>
  Shared vocabulary of the development.

  \<^item> Python exceptions as values: \<open>exn_kind\<close> lists the exception classes the sources raise or
    catch, \<open>exn\<close> is one raised exception (class, message, keyword details).
  \<^item> Python code without side effects is a function into \<open>exn + 'a\<close>; code that talks to the
    registry, the clock or a payload stream is a state-passing function \<open>('w, 'a) io\<close> over a
    world \<open>'w\<close>. An exception keeps the world it was raised in, as a Python exception does.
  \<^item> Strings. A Python \<open>str\<close> is a \<open>string\<close> holding the octets of its UTF-8 encoding and
    \<open>bytes\<close> is a \<open>string\<close> of octets, so \<open>s.encode("utf-8")\<close> is the identity of the
    representation, and comparing code points is comparing octets.
  \<^item> Decimal and hexadecimal numerals, digit tests, prefix tests and splitting, as
    \<open>str\<close> and \<open>int\<close> do them.
\<close>

named_theorems io_simps \<open>one-step evaluation of the io combinators\<close>
named_theorems io_elims \<open>inversion of a successful io run\<close>

section \<open>Exceptions\<close>

datatype exn_kind =
    ConditionalConflict | DigestMismatch | ImmutableObjectConflict | IncompleteUpload
  | MultipartInvalid | ObjectAuthenticationFailed | ObjectAuthorizationFailed
  | ObjectCapabilityMismatch | ObjectInvalidRequest | ObjectNotFound | ObjectQuotaExceeded
  | ObjectRateLimited | ObjectUnavailable | RangeNotSatisfiable | RetentionDenied
  | ValueError | TypeError | KeyError | AssertionError | JSONDecodeError | UnicodeDecodeError
  | HTTPError | OtherError string

datatype exn = Exn (exn_kind_of: exn_kind) (exn_msg: "string option")
  (exn_details: "(string \<times> string) list")

abbreviation exn_of :: "exn_kind \<Rightarrow> string \<Rightarrow> exn" where
  "exn_of k m \<equiv> Exn k (Some m) []"

abbreviation bare_exn :: "exn_kind \<Rightarrow> exn" where
  "bare_exn k \<equiv> Exn k None []"

text \<open>The classes an \<open>except ValueError\<close> clause catches: the decoding errors derive from it.\<close>

definition is_value_error :: "exn \<Rightarrow> bool" where
  "is_value_error e \<longleftrightarrow> exn_kind_of e \<in> {ValueError, JSONDecodeError, UnicodeDecodeError}"

definition is_type_or_value_error :: "exn \<Rightarrow> bool" where
  "is_type_or_value_error e \<longleftrightarrow> is_value_error e \<or> exn_kind_of e = TypeError"

section \<open>Fallible and effectful computations\<close>

fun bindE :: "exn + 'a \<Rightarrow> ('a \<Rightarrow> exn + 'b) \<Rightarrow> exn + 'b" where
  "bindE (Inl e) f = Inl e"
| "bindE (Inr a) f = f a"

text \<open>\<open>guardE c e\<close> is the statement \<open>if not c: raise e\<close>.\<close>

definition guardE :: "bool \<Rightarrow> exn \<Rightarrow> exn + unit" where
  "guardE c e = (if c then Inr () else Inl e)"

type_synonym ('w, 'a) io = "'w \<Rightarrow> (exn + 'a) \<times> 'w"

definition ret :: "'a \<Rightarrow> ('w, 'a) io" where
  "ret a = (\<lambda>w. (Inr a, w))"

definition raise :: "exn \<Rightarrow> ('w, 'a) io" where
  "raise e = (\<lambda>w. (Inl e, w))"

definition lift :: "exn + 'a \<Rightarrow> ('w, 'a) io" where
  "lift r = (\<lambda>w. (r, w))"

definition bnd :: "('w, 'a) io \<Rightarrow> ('a \<Rightarrow> ('w, 'b) io) \<Rightarrow> ('w, 'b) io" where
  "bnd m f = (\<lambda>w. case m w of (Inl e, w') \<Rightarrow> (Inl e, w') | (Inr a, w') \<Rightarrow> f a w')"

text \<open>\<open>catch m h\<close> is \<open>try: m except: h\<close>; a handler that does not apply re-raises.\<close>

definition catch :: "('w, 'a) io \<Rightarrow> (exn \<Rightarrow> ('w, 'a) io) \<Rightarrow> ('w, 'a) io" where
  "catch m h = (\<lambda>w. case m w of (Inl e, w') \<Rightarrow> h e w' | (Inr a, w') \<Rightarrow> (Inr a, w'))"

definition catchE :: "exn + 'a \<Rightarrow> (exn \<Rightarrow> bool) \<Rightarrow> exn \<Rightarrow> exn + 'a" where
  "catchE r p e' = (case r of Inl e \<Rightarrow> Inl (if p e then e' else e) | Inr a \<Rightarrow> Inr a)"

text \<open>\<open>outcome m\<close> runs \<open>m\<close> and hands its outcome, exception or value, to the code that follows.\<close>

definition outcome :: "('w, 'a) io \<Rightarrow> ('w, exn + 'a) io" where
  "outcome m = (\<lambda>w. case m w of (r, w') \<Rightarrow> (Inr r, w'))"

text \<open>\<open>try_safely m\<close> runs \<open>m\<close> for its effect and swallows every exception.\<close>

definition try_safely :: "('w, 'a) io \<Rightarrow> ('w, unit) io" where
  "try_safely m = (\<lambda>w. (Inr (), snd (m w)))"

text \<open>\<open>finally m f\<close> runs \<open>f\<close> after \<open>m\<close>, whether or not \<open>m\<close> raised.\<close>

definition finally_io :: "('w, 'a) io \<Rightarrow> ('w, unit) io \<Rightarrow> ('w, 'a) io" where
  "finally_io m f = (\<lambda>w. case m w of (r, w') \<Rightarrow>
     (case f w' of (Inl e, w'') \<Rightarrow> (Inl e, w'') | (Inr _, w'') \<Rightarrow> (r, w'')))"

text \<open>\<open>inner m\<close> runs \<open>m\<close> in a world that carries a second component, such as the local variables of a
  function or the state of an object, which \<open>m\<close> does not touch.\<close>

definition inner :: "('w, 'a) io \<Rightarrow> ('w \<times> 's, 'a) io" where
  "inner m = (\<lambda>(w, s). case m w of (r, w') \<Rightarrow> (r, w', s))"

lemma inner_iff: "inner m (w, s) = (r, w', s') \<longleftrightarrow> m w = (r, w') \<and> s' = s"
  by (auto simp: inner_def split: prod.splits)

lemma io_basic [io_simps]:
  "ret a w = (Inr a, w)" "raise e w = (Inl e, w)" "lift r w = (r, w)"
  by (simp_all add: ret_def raise_def lift_def)

lemma bnd_Inr [io_simps]: "m w = (Inr a, w') \<Longrightarrow> bnd m f w = f a w'"
  and bnd_Inl [io_simps]: "m w = (Inl e, w') \<Longrightarrow> bnd m f w = (Inl e, w')"
  by (simp_all add: bnd_def)

lemma bnd_bool [io_simps]:
  "m w = (Inr True, w') \<Longrightarrow> bnd m g w = g True w'" "m w = (Inr False, w') \<Longrightarrow> bnd m g w = g False w'"
  by (simp_all add: bnd_def)

lemma bnd_ret [simp]: "bnd (ret a) f = f a" and bnd_raise [simp]: "bnd (raise e) f = raise e"
  and bnd_lift_Inr [simp]: "bnd (lift (Inr a)) f = f a"
  and bnd_lift_Inl [simp]: "bnd (lift (Inl e)) f = raise e"
  by (simp_all add: fun_eq_iff bnd_def ret_def raise_def lift_def)

lemma catch_Inr [io_simps]: "m w = (Inr a, w') \<Longrightarrow> catch m h w = (Inr a, w')"
  and catch_Inl [io_simps]: "m w = (Inl e, w') \<Longrightarrow> catch m h w = h e w'"
  by (simp_all add: catch_def)

lemma outcome_iff [simp]: "outcome m w = (Inr r, w') \<longleftrightarrow> m w = (r, w')"
  and outcome_not_Inl [simp]: "outcome m w \<noteq> (Inl e, w')"
  by (auto simp: outcome_def split: prod.splits)

lemma bnd_SuccE [elim!, io_elims]:
  assumes "bnd m f w = (Inr b, w2)"
  obtains a w1 where "m w = (Inr a, w1)" and "f a w1 = (Inr b, w2)"
  using assms by (auto simp: bnd_def split: prod.splits sum.splits)

lemma bnd_FailE [io_elims]:
  assumes "bnd m f w = (Inl e, w2)"
  obtains (first) "m w = (Inl e, w2)"
    | (second) a w1 where "m w = (Inr a, w1)" and "f a w1 = (Inl e, w2)"
  using assms by (auto simp: bnd_def split: prod.splits sum.splits)

lemma ret_SuccD [simp]: "ret a w = (r, w2) \<longleftrightarrow> r = Inr a \<and> w2 = w"
  and raise_iff [simp]: "raise e w = (r, w2) \<longleftrightarrow> r = Inl e \<and> w2 = w"
  and lift_iff [simp]: "lift x w = (r, w2) \<longleftrightarrow> x = r \<and> w2 = w"
  by (auto simp: ret_def raise_def lift_def)

text \<open>\<open>assign f\<close> updates the second component of such a world, \<open>gets f\<close> reads it.\<close>

definition assign :: "('s \<Rightarrow> 's) \<Rightarrow> ('w \<times> 's, unit) io" where
  "assign f = (\<lambda>(w, s). (Inr (), w, f s))"

definition gets :: "('s \<Rightarrow> 'a) \<Rightarrow> ('w \<times> 's, 'a) io" where
  "gets f = (\<lambda>(w, s). (Inr (f s), w, s))"

lemma assign_iff: "assign f (w, s) = (r, w', s') \<longleftrightarrow> r = Inr () \<and> w' = w \<and> s' = f s"
  and gets_iff: "gets g (w, s) = (x, w', s') \<longleftrightarrow> x = Inr (g s) \<and> w' = w \<and> s' = s"
  by (auto simp: assign_def gets_def)

text \<open>\<open>keeps P m\<close>: a run of \<open>m\<close>, whatever its outcome, keeps \<open>P\<close> of the world.\<close>

definition keeps :: "('w \<Rightarrow> bool) \<Rightarrow> ('w, 'a) io \<Rightarrow> bool" where
  "keeps P m \<longleftrightarrow> (\<forall>w r w'. P w \<longrightarrow> m w = (r, w') \<longrightarrow> P w')"

lemma keepsD: "keeps P m \<Longrightarrow> m w = (r, w') \<Longrightarrow> P w \<Longrightarrow> P w'"
  by (simp add: keeps_def)

lemma keepsI: "(\<And>w r w'. P w \<Longrightarrow> m w = (r, w') \<Longrightarrow> P w') \<Longrightarrow> keeps P m"
  by (simp add: keeps_def)

lemma keeps_pure: "keeps P (ret a)" "keeps P (raise e)" "keeps P (lift r)"
  by (auto simp: keeps_def)

lemma keeps_bnd: "keeps P m \<Longrightarrow> (\<And>a. keeps P (f a)) \<Longrightarrow> keeps P (bnd m f)"
proof (rule keepsI)
  fix w r w'
  assume k: "keeps P m" "\<And>a. keeps P (f a)" and "P w" and run: "bnd m f w = (r, w')"
  obtain x w1 where m: "m w = (x, w1)" by fastforce
  from keepsD [OF k(1) m \<open>P w\<close>] have "P w1" .
  with run m keepsD [OF k(2)] show "P w'" by (cases x) (simp_all add: io_simps)
qed

lemma keeps_catch: "keeps P m \<Longrightarrow> (\<And>e. keeps P (h e)) \<Longrightarrow> keeps P (catch m h)"
proof (rule keepsI)
  fix w r w'
  assume k: "keeps P m" "\<And>e. keeps P (h e)" and "P w" and run: "catch m h w = (r, w')"
  obtain x w1 where m: "m w = (x, w1)" by fastforce
  from keepsD [OF k(1) m \<open>P w\<close>] have "P w1" .
  with run m keepsD [OF k(2)] show "P w'" by (cases x) (simp_all add: io_simps)
qed

lemma keeps_outcome: "keeps P m \<Longrightarrow> keeps P (outcome m)"
  by (rule keepsI) (auto simp: outcome_def split: prod.splits dest: keepsD)

lemma keeps_finally: "keeps P m \<Longrightarrow> keeps P f \<Longrightarrow> keeps P (finally_io m f)"
proof (rule keepsI)
  fix w r w'
  assume k: "keeps P m" "keeps P f" and "P w" and run: "finally_io m f w = (r, w')"
  obtain x w1 y w2 where m: "m w = (x, w1)" "f w1 = (y, w2)" by fastforce
  from keepsD [OF k(2) m(2) keepsD [OF k(1) m(1) \<open>P w\<close>]] have "P w2" .
  with run m show "P w'" by (cases y) (simp_all add: finally_io_def)
qed

lemma keeps_if: "(c \<Longrightarrow> keeps P m) \<Longrightarrow> (\<not> c \<Longrightarrow> keeps P n) \<Longrightarrow> keeps P (if c then m else n)"
  by simp

lemmas keeps_rules = keeps_pure keeps_bnd keeps_catch keeps_outcome keeps_finally keeps_if

lemma bindE_Inr [elim!]:
  assumes "bindE m f = Inr b"
  obtains a where "m = Inr a" and "f a = Inr b"
  using assms by (cases m) auto

lemma bindE_Inr_iff: "bindE m f = Inr b \<longleftrightarrow> (\<exists>a. m = Inr a \<and> f a = Inr b)"
  by (cases m) auto

lemma guardE_simps [simp]:
  "guardE True e = Inr ()" "guardE False e = Inl e"
  "guardE c e = Inr u \<longleftrightarrow> c" "guardE c e = Inl e' \<longleftrightarrow> \<not> c \<and> e' = e"
  by (auto simp: guardE_def)

lemma catchE_Inr_iff [simp]: "catchE r p e' = Inr a \<longleftrightarrow> r = Inr a"
  and catchE_Inr [simp]: "catchE (Inr b) p e' = Inr b"
  by (auto simp: catchE_def split: sum.splits)

section \<open>Text\<close>

text \<open>\<open>str.isdigit\<close> on the ASCII text of protocol fields, and \<open>int(text)\<close> for such text.\<close>

definition is_digit :: "char \<Rightarrow> bool" where
  "is_digit c \<longleftrightarrow> 48 \<le> (of_char c :: nat) \<and> (of_char c :: nat) \<le> 57"

definition py_isdigit :: "string \<Rightarrow> bool" where
  "py_isdigit s \<longleftrightarrow> s \<noteq> [] \<and> list_all is_digit s"

definition digit_val :: "char \<Rightarrow> nat" where
  "digit_val c = of_char c - 48"

definition digits_val :: "string \<Rightarrow> nat" where
  "digits_val s = foldl (\<lambda>n c. 10 * n + digit_val c) 0 s"

definition digit_char :: "nat \<Rightarrow> char" where
  "digit_char n = char_of (48 + n)"

text \<open>\<open>str(n)\<close> for a non-negative and for any integer.\<close>

fun str_nat :: "nat \<Rightarrow> string" where
  "str_nat n = (if n < 10 then [digit_char n] else str_nat (n div 10) @ [digit_char (n mod 10)])"

declare str_nat.simps [simp del]

definition str_int :: "int \<Rightarrow> string" where
  "str_int i = (if i < 0 then CHR ''-'' # str_nat (nat (- i)) else str_nat (nat i))"

definition hex_char :: "nat \<Rightarrow> char" where
  "hex_char n = char_of (if n < 10 then 48 + n else 87 + n)"

definition is_hex_lower :: "char \<Rightarrow> bool" where
  "is_hex_lower c \<longleftrightarrow> is_digit c \<or> (97 \<le> (of_char c :: nat) \<and> (of_char c :: nat) \<le> 102)"

text \<open>\<open>text.startswith(p)\<close>, \<open>p in text\<close>, \<open>text.rsplit(sep, 1)[-1]\<close>, \<open>sep.join(parts)\<close>.\<close>

abbreviation startswith :: "string \<Rightarrow> string \<Rightarrow> bool" where
  "startswith s p \<equiv> prefix p s"

abbreviation contains :: "string \<Rightarrow> string \<Rightarrow> bool" where
  "contains s p \<equiv> sublist p s"

definition rsplit_last :: "char \<Rightarrow> string \<Rightarrow> string" where
  "rsplit_last c s = rev (takeWhile (\<lambda>x. x \<noteq> c) (rev s))"

fun join :: "string \<Rightarrow> string list \<Rightarrow> string" where
  "join sep [] = []"
| "join sep [x] = x"
| "join sep (x # y # ys) = x @ sep @ join sep (y # ys)"

text \<open>\<open>text.split(sep)\<close> for a one-character separator: at least one part.\<close>

fun split_char :: "char \<Rightarrow> string \<Rightarrow> string list" where
  "split_char c [] = [[]]"
| "split_char c (x # xs) =
     (if x = c then [] # split_char c xs
      else (case split_char c xs of [] \<Rightarrow> [[x]] | p # ps \<Rightarrow> (x # p) # ps))"

text \<open>\<open>text.split(sep, 1)[0]\<close> and \<open>text.partition(sep)\<close>.\<close>

definition before :: "char \<Rightarrow> string \<Rightarrow> string" where
  "before c s = takeWhile (\<lambda>x. x \<noteq> c) s"

definition after :: "char \<Rightarrow> string \<Rightarrow> string" where
  "after c s = drop 1 (dropWhile (\<lambda>x. x \<noteq> c) s)"

subsection \<open>Numerals\<close>

lemma digit_char_props [simp]:
  assumes "n < 10"
  shows "is_digit (digit_char n)" and "digit_val (digit_char n) = n"
proof -
  have "(of_char (digit_char n) :: nat) = 48 + n"
    using assms by (simp add: digit_char_def)
  then show "is_digit (digit_char n)" "digit_val (digit_char n) = n"
    using assms by (simp_all add: is_digit_def digit_val_def)
qed

lemma digits_val_snoc [simp]: "digits_val (s @ [c]) = 10 * digits_val s + digit_val c"
  by (simp add: digits_val_def)

lemma digits_val_Nil [simp]: "digits_val [] = 0"
  by (simp add: digits_val_def)

lemma str_nat_digits: "list_all is_digit (str_nat n)"
  by (induction n rule: str_nat.induct) (subst str_nat.simps, simp)

lemma str_nat_nonempty [simp]: "str_nat n \<noteq> []"
  by (subst str_nat.simps) simp

lemma digits_val_str_nat [simp]: "digits_val (str_nat n) = n"
proof (induction n rule: str_nat.induct)
  case (1 n)
  show ?case
  proof (cases "n < 10")
    case True
    then show ?thesis using digits_val_snoc [of "[]"] by (simp add: str_nat.simps [of n])
  next
    case False
    with 1 have "digits_val (str_nat (n div 10)) = n div 10" by simp
    with False show ?thesis by (simp add: str_nat.simps [of n])
  qed
qed

lemma py_isdigit_str_nat [simp]: "py_isdigit (str_nat n)"
  by (simp add: py_isdigit_def str_nat_digits)

lemma str_nat_inj: "str_nat m = str_nat n \<Longrightarrow> m = n"
  by (metis digits_val_str_nat)

lemma hex_char_lower [simp]: "n < 16 \<Longrightarrow> is_hex_lower (hex_char n)"
  by (auto simp: hex_char_def is_hex_lower_def is_digit_def)

lemma of_hex_char: "n < 16 \<Longrightarrow> (of_char (hex_char n) :: nat) = (if n < 10 then 48 + n else 87 + n)"
  by (simp add: hex_char_def)

lemma hex_char_inj:
  assumes "m < 16" "n < 16" "hex_char m = hex_char n"
  shows "m = n"
proof -
  have "(if m < 10 then 48 + m else 87 + m) = (if n < 10 then 48 + n else 87 + n)"
    using of_hex_char [OF assms(1)] of_hex_char [OF assms(2)] assms(3) by simp
  then show ?thesis using assms(1,2) by (simp split: if_splits)
qed

subsection \<open>Prefixes and joining\<close>

lemma startswith_append [simp]: "startswith (p @ s) p"
  by simp

lemma rsplit_last_append:
  assumes "c \<notin> set t"
  shows "rsplit_last c (s @ c # t) = t"
proof -
  have "takeWhile (\<lambda>x. x \<noteq> c) (rev t @ c # rev s) = rev t"
    using assms by (subst takeWhile_append2) auto
  then show ?thesis by (simp add: rsplit_last_def)
qed

end
