(* ===== verification/Json.thy ===== *)
theory Json
  imports Prelude
begin

text \<open>
  \<^verbatim>\<open>src/src/meridian_storage/adapters/oci/_json.py\<close> and the parts of the standard \<open>json\<close>
  module it uses.

  \<^item> \<open>json\<close> is the dynamic value \<open>json.loads\<close> returns and \<open>json.dumps\<close> takes. A Python
    dict is an association list with dict update (first position, last value); a float is the
    text it is written with.
  \<^item> \<open>dumps_sorted\<close> is \<open>json.dumps(v, separators=(",", ":"), sort_keys=True)\<close> with
    \<open>ensure_ascii=False\<close>, \<open>dumps_ascii\<close> the same with the default \<open>ensure_ascii=True\<close>.
  \<^item> \<open>json_loads\<close> is \<open>json.loads\<close> on bytes: encoding detection, decoding, the scanner and
    the trailing-data check. The scanner recurses on fuel, the length of the text; theory
    \<open>Json_Laws\<close> proves that this is always enough.
\<close>

section \<open>Values\<close>

datatype json =
    JNull | JBool bool | JInt int | JFloat string | JStr string
  | JArr "json list" | JObj "(string \<times> json) list"

text \<open>\<open>isinstance(v, Mapping)\<close>, \<open>isinstance(v, str)\<close>; \<open>d.get(key)\<close>, absent as \<open>None\<close>.\<close>

fun is_obj :: "json \<Rightarrow> bool" where
  "is_obj (JObj _) = True"
| "is_obj _ = False"

fun is_str :: "json \<Rightarrow> bool" where
  "is_str (JStr _) = True"
| "is_str _ = False"

fun fields_of :: "json \<Rightarrow> (string \<times> json) list" where
  "fields_of (JObj ps) = ps"
| "fields_of _ = []"

definition obj_get :: "(string \<times> json) list \<Rightarrow> string \<Rightarrow> json" where
  "obj_get ps k = (case map_of ps k of None \<Rightarrow> JNull | Some v \<Rightarrow> v)"

text \<open>
  \<open>d.get(key) == n\<close> for an integer \<open>n\<close>: Python compares ints, bools and floats by value. The
  text of a float equals 2 after rounding to binary64 exactly when its decimal value lies within
  half a unit in the last place of 2.
\<close>

definition decimal_parts :: "string \<Rightarrow> bool \<times> nat \<times> int" where
  "decimal_parts s =
     (let neg = startswith s ''-'';
          body = (if neg then drop 1 s else s);
          mant = takeWhile (\<lambda>c. c \<noteq> CHR ''e'' \<and> c \<noteq> CHR ''E'') body;
          ex = drop 1 (dropWhile (\<lambda>c. c \<noteq> CHR ''e'' \<and> c \<noteq> CHR ''E'') body);
          frac = after (CHR ''.'') mant;
          exv = (if startswith ex ''-'' then - int (digits_val (drop 1 ex))
                 else if startswith ex ''+'' then int (digits_val (drop 1 ex))
                 else int (digits_val ex))
      in (neg, digits_val (before (CHR ''.'') mant @ frac), exv - int (length frac)))"

definition float_eq_2 :: "string \<Rightarrow> bool" where
  "float_eq_2 s =
     (case decimal_parts s of (neg, m, e) \<Rightarrow>
        \<not> neg \<and> is_digit (hd s) \<and>
        (if 0 \<le> e then m * 10 ^ nat e = 2
         else (2 ^ 54 - 1) * 10 ^ nat (- e) \<le> m * 2 ^ 53 \<and> m * 2 ^ 52 \<le> (2 ^ 53 + 1) * 10 ^ nat (- e)))"

fun json_eq_2 :: "json \<Rightarrow> bool" where
  "json_eq_2 (JInt i) = (i = 2)"
| "json_eq_2 (JFloat s) = float_eq_2 s"
| "json_eq_2 _ = False"

section \<open>Writing\<close>

definition hex4 :: "nat \<Rightarrow> string" where
  "hex4 n = [hex_char (n div 4096 mod 16), hex_char (n div 256 mod 16), hex_char (n div 16 mod 16),
             hex_char (n mod 16)]"

definition u_escape :: "nat \<Rightarrow> string" where
  "u_escape n = [CHR 0x5C, CHR ''u''] @ hex4 n"

text \<open>\<open>ESCAPE_DCT\<close> of \<open>json.encoder\<close>; a control character without a short escape is \<open>\uXXXX\<close>.\<close>

definition escape_char :: "char \<Rightarrow> string" where
  "escape_char c =
     (if c = CHR 0x22 then [CHR 0x5C, CHR 0x22]
      else if c = CHR 0x5C then [CHR 0x5C, CHR 0x5C]
      else if c = CHR 0x0A then [CHR 0x5C, CHR ''n'']
      else if c = CHR 0x0D then [CHR 0x5C, CHR ''r'']
      else if c = CHR 0x09 then [CHR 0x5C, CHR ''t'']
      else if c = CHR 0x0C then [CHR 0x5C, CHR ''f'']
      else if c = CHR 0x08 then [CHR 0x5C, CHR ''b'']
      else if of_char c < (32 :: nat) then u_escape (of_char c)
      else [c])"

definition quote_str :: "string \<Rightarrow> string" where
  "quote_str s = CHR 0x22 # concat (map escape_char s) @ [CHR 0x22]"

fun write_members :: "(string \<times> string) list \<Rightarrow> string" where
  "write_members ps = join '','' (map (\<lambda>(k, t). quote_str k @ '':'' @ t) ps)"

primrec write_json :: "json \<Rightarrow> string" where
  "write_json JNull = ''null''"
| "write_json (JBool b) = (if b then ''true'' else ''false'')"
| "write_json (JInt i) = str_int i"
| "write_json (JFloat s) = s"
| "write_json (JStr s) = quote_str s"
| "write_json (JArr xs) = ''['' @ join '','' (map write_json xs) @ '']''"
| "write_json (JObj ps) = ''{'' @ write_members (map (map_prod id write_json) ps) @ ''}''"

primrec sort_json :: "json \<Rightarrow> json" where
  "sort_json JNull = JNull"
| "sort_json (JBool b) = JBool b"
| "sort_json (JInt i) = JInt i"
| "sort_json (JFloat s) = JFloat s"
| "sort_json (JStr s) = JStr s"
| "sort_json (JArr xs) = JArr (map sort_json xs)"
| "sort_json (JObj ps) = JObj (sort_key fst (map (map_prod id sort_json) ps))"

definition dumps_sorted :: "json \<Rightarrow> string" where
  "dumps_sorted v = write_json (sort_json v)"

text \<open>Texts are UTF-8 throughout, so \<open>.encode("utf-8")\<close> is the identity. A text with a lone surrogate, which \<open>json.loads\<close>
  can produce and whose \<open>encode\<close> raises \<open>UnicodeEncodeError\<close>, is written like any other here: the raise is not
  modelled.\<close>

definition canonical_json :: "(string \<times> json) list \<Rightarrow> string" where
  "canonical_json ps = dumps_sorted (JObj ps)"

section \<open>Decoding bytes\<close>

abbreviation oct :: "char \<Rightarrow> nat" where
  "oct c \<equiv> of_char c"

definition cont_byte :: "char \<Rightarrow> bool" where
  "cont_byte c \<longleftrightarrow> 128 \<le> oct c \<and> oct c < 192"

text \<open>
  UTF-8 with the \<open>surrogatepass\<close> error handler (\<open>ED A0..BF\<close> is accepted): the length of the
  sequence at the head of the text, 0 for an invalid one.
\<close>

definition lead_len :: "nat \<Rightarrow> nat" where
  "lead_len a =
     (if a < 128 then 1 else if 194 \<le> a \<and> a < 224 then 2 else if 224 \<le> a \<and> a < 240 then 3
      else if 240 \<le> a \<and> a < 245 then 4 else 0)"

definition second_ok :: "nat \<Rightarrow> nat \<Rightarrow> bool" where
  "second_ok a b \<longleftrightarrow> (a = 224 \<longrightarrow> 160 \<le> b) \<and> (a = 240 \<longrightarrow> 144 \<le> b) \<and> (a = 244 \<longrightarrow> b < 144)"

definition utf8_len :: "string \<Rightarrow> nat" where
  "utf8_len s =
     (case s of [] \<Rightarrow> 0
      | a # t \<Rightarrow> (let n = lead_len (oct a)
          in if n \<le> length s \<and> list_all cont_byte (take (n - 1) t)
                \<and> (1 < n \<longrightarrow> second_ok (oct a) (oct (hd t))) then n else 0))"

lemma utf8_len_le: "utf8_len s \<le> length s"
  by (cases s) (auto simp: utf8_len_def Let_def)

function utf8_ok :: "string \<Rightarrow> bool" where
  "utf8_ok s = (if s = [] then True else if utf8_len s = 0 then False
     else utf8_ok (drop (utf8_len s) s))"
  by pat_completeness auto
termination by (relation "measure length") auto

declare utf8_ok.simps [simp del]

text \<open>The octets of one code point.\<close>

definition utf8_char :: "nat \<Rightarrow> string" where
  "utf8_char n =
     (if n < 128 then [char_of n]
      else if n < 2048 then [char_of (192 + n div 64), char_of (128 + n mod 64)]
      else if n < 65536
      then [char_of (224 + n div 4096), char_of (128 + n div 64 mod 64), char_of (128 + n mod 64)]
      else [char_of (240 + n div 262144), char_of (128 + n div 4096 mod 64),
            char_of (128 + n div 64 mod 64), char_of (128 + n mod 64)])"

definition is_high :: "nat \<Rightarrow> bool" where "is_high n \<longleftrightarrow> 55296 \<le> n \<and> n < 56320"
definition is_low :: "nat \<Rightarrow> bool" where "is_low n \<longleftrightarrow> 56320 \<le> n \<and> n < 57344"

definition pair_surrogates :: "nat \<Rightarrow> nat \<Rightarrow> nat" where
  "pair_surrogates h l = 65536 + (h - 55296) * 1024 + (l - 56320)"

fun utf16_units :: "bool \<Rightarrow> string \<Rightarrow> nat list option" where
  "utf16_units be [] = Some []"
| "utf16_units be [a] = None"
| "utf16_units be (a # b # s) =
     map_option (Cons (if be then 256 * oct a + oct b else 256 * oct b + oct a)) (utf16_units be s)"

fun utf16_text :: "nat list \<Rightarrow> string" where
  "utf16_text [] = []"
| "utf16_text [u] = utf8_char u"
| "utf16_text (u # v # us) =
     (if is_high u \<and> is_low v then utf8_char (pair_surrogates u v) @ utf16_text us
      else utf8_char u @ utf16_text (v # us))"

fun utf32_text :: "bool \<Rightarrow> string \<Rightarrow> string option" where
  "utf32_text be [] = Some []"
| "utf32_text be (a # b # c # d # s) =
     (let n = (if be then ((256 * oct a + oct b) * 256 + oct c) * 256 + oct d
               else ((256 * oct d + oct c) * 256 + oct b) * 256 + oct a)
      in if n < 1114112 then map_option (append (utf8_char n)) (utf32_text be s) else None)"
| "utf32_text be _ = None"

definition decode_utf16 :: "bool \<Rightarrow> string \<Rightarrow> string option" where
  "decode_utf16 be s = map_option utf16_text (utf16_units be s)"

text \<open>\<open>json.detect_encoding\<close> and the decoding it selects; \<open>None\<close> is \<open>UnicodeDecodeError\<close>.\<close>

definition decode_json_bytes :: "string \<Rightarrow> string option" where
  "decode_json_bytes s =
     (let nul = (\<lambda>i. oct (s ! i) = 0);
          utf8 = (if utf8_ok s then Some s else None)
      in if startswith s [CHR 0x00, CHR 0x00, CHR 0xFE, CHR 0xFF] then utf32_text True (drop 4 s)
         else if startswith s [CHR 0xFF, CHR 0xFE, CHR 0x00, CHR 0x00] then utf32_text False (drop 4 s)
         else if startswith s [CHR 0xFE, CHR 0xFF] then decode_utf16 True (drop 2 s)
         else if startswith s [CHR 0xFF, CHR 0xFE] then decode_utf16 False (drop 2 s)
         else if startswith s [CHR 0xEF, CHR 0xBB, CHR 0xBF]
         then (if utf8_ok (drop 3 s) then Some (drop 3 s) else None)
         else if 4 \<le> length s \<and> nul 0 then (if nul 1 then utf32_text True s else decode_utf16 True s)
         else if 4 \<le> length s \<and> nul 1
         then (if nul 2 \<and> nul 3 then utf32_text False s else decode_utf16 False s)
         else if length s = 2 \<and> nul 0 then decode_utf16 True s
         else if length s = 2 \<and> nul 1 then decode_utf16 False s
         else utf8)"

text \<open>
  \<open>json.dumps\<close> with its default \<open>ensure_ascii=True\<close>: every code point outside the printable
  ASCII range, which can only stand inside a string literal, is written as \<open>\uXXXX\<close>, beyond the
  basic plane as a surrogate pair.
\<close>

fun point_of :: "string \<Rightarrow> nat" where
  "point_of [a] = oct a"
| "point_of [a, b] = (oct a - 192) * 64 + (oct b - 128)"
| "point_of [a, b, c] = ((oct a - 224) * 64 + (oct b - 128)) * 64 + (oct c - 128)"
| "point_of [a, b, c, d] = (((oct a - 240) * 64 + (oct b - 128)) * 64 + (oct c - 128)) * 64 + (oct d - 128)"
| "point_of _ = 0"

definition ascii_point :: "nat \<Rightarrow> string" where
  "ascii_point n =
     (if n < 127 then [char_of n] else if n < 65536 then u_escape n
      else u_escape (55296 + (n - 65536) div 1024) @ u_escape (56320 + (n - 65536) mod 1024))"

function ascii_text :: "string \<Rightarrow> string" where
  "ascii_text s =
     (if s = [] then []
      else (let n = max 1 (utf8_len s) in ascii_point (point_of (take n s)) @ ascii_text (drop n s)))"
  by pat_completeness auto
termination by (relation "measure length") auto

declare ascii_text.simps [simp del]

definition dumps_ascii :: "json \<Rightarrow> string" where
  "dumps_ascii v = ascii_text (dumps_sorted v)"

section \<open>Scanning\<close>

definition is_ws :: "char \<Rightarrow> bool" where
  "is_ws c \<longleftrightarrow> c = CHR 0x20 \<or> c = CHR 0x09 \<or> c = CHR 0x0A \<or> c = CHR 0x0D"

abbreviation skip_ws :: "string \<Rightarrow> string" where
  "skip_ws s \<equiv> dropWhile is_ws s"

definition hex_val :: "char \<Rightarrow> nat option" where
  "hex_val c =
     (if is_digit c then Some (oct c - 48)
      else if 97 \<le> oct c \<and> oct c \<le> 102 then Some (oct c - 87)
      else if 65 \<le> oct c \<and> oct c \<le> 70 then Some (oct c - 55)
      else None)"

fun scan_hex4 :: "string \<Rightarrow> (nat \<times> string) option" where
  "scan_hex4 (a # b # c # d # s) =
     (case (hex_val a, hex_val b, hex_val c, hex_val d) of
        (Some x, Some y, Some z, Some t) \<Rightarrow> Some (((x * 16 + y) * 16 + z) * 16 + t, s)
      | _ \<Rightarrow> None)"
| "scan_hex4 _ = None"

lemma scan_hex4_shorter: "scan_hex4 s = Some (n, r) \<Longrightarrow> length r < length s"
  by (induction s rule: scan_hex4.induct) (auto split: option.splits)

text \<open>The second half of a surrogate pair, when one follows.\<close>

definition scan_low :: "string \<Rightarrow> (nat \<times> string) option" where
  "scan_low s =
     (if startswith s [CHR 0x5C, CHR ''u'']
      then (case scan_hex4 (drop 2 s) of
              Some (l, r) \<Rightarrow> if is_low l then Some (l, r) else None
            | None \<Rightarrow> None)
      else None)"

definition simple_escape :: "char \<Rightarrow> char option" where
  "simple_escape c =
     (if c = CHR 0x22 then Some (CHR 0x22) else if c = CHR 0x5C then Some (CHR 0x5C)
      else if c = CHR 0x2F then Some (CHR 0x2F) else if c = CHR ''b'' then Some (CHR 0x08)
      else if c = CHR ''f'' then Some (CHR 0x0C) else if c = CHR ''n'' then Some (CHR 0x0A)
      else if c = CHR ''r'' then Some (CHR 0x0D) else if c = CHR ''t'' then Some (CHR 0x09)
      else None)"

text \<open>
  One step of \<open>scanstring\<close> after the opening quote: the end of the string, one decoded piece and
  the rest, or an error (unterminated, control character, bad escape).
\<close>

datatype str_step = StrEnd string | StrPiece string string | StrError

definition scan_str_step :: "string \<Rightarrow> str_step" where
  "scan_str_step s =
     (case s of [] \<Rightarrow> StrError
      | c # r \<Rightarrow>
        (if c = CHR 0x22 then StrEnd r
         else if c = CHR 0x5C then
           (case r of [] \<Rightarrow> StrError
            | d # r1 \<Rightarrow>
              (if d = CHR ''u'' then
                 (case scan_hex4 r1 of None \<Rightarrow> StrError
                  | Some (h, r2) \<Rightarrow>
                    (if is_high h then
                       (case scan_low r2 of None \<Rightarrow> StrPiece (utf8_char h) r2
                        | Some (l, r3) \<Rightarrow> StrPiece (utf8_char (pair_surrogates h l)) r3)
                     else StrPiece (utf8_char h) r2))
               else (case simple_escape d of None \<Rightarrow> StrError | Some e \<Rightarrow> StrPiece [e] r1)))
         else if oct c < 32 then StrError
         else StrPiece [c] r))"

lemma scan_low_shorter: "scan_low s = Some (l, r) \<Longrightarrow> length r < length s"
  using scan_hex4_shorter by (fastforce simp: scan_low_def split: if_splits option.splits)

lemma scan_str_step_shorter:
  "scan_str_step s = StrPiece p r \<Longrightarrow> length r < length s"
  "scan_str_step s = StrEnd r \<Longrightarrow> length r < length s"
  by (auto simp: scan_str_step_def split: list.splits if_splits option.splits
      dest!: scan_hex4_shorter scan_low_shorter)

function scan_str :: "string \<Rightarrow> (string \<times> string) option" where
  "scan_str s =
     (case scan_str_step s of StrError \<Rightarrow> None
      | StrEnd r \<Rightarrow> Some ([], r)
      | StrPiece p r \<Rightarrow> map_option (\<lambda>(t, r'). (p @ t, r')) (scan_str r))"
  by pat_completeness auto
termination by (relation "measure length") (auto dest: scan_str_step_shorter)

declare scan_str.simps [simp del]

text \<open>\<open>NUMBER_RE\<close>: integer part, optional fraction, optional exponent, each as long as possible.\<close>

definition scan_digits :: "string \<Rightarrow> string \<times> string" where
  "scan_digits s = (takeWhile is_digit s, dropWhile is_digit s)"

definition scan_natpart :: "string \<Rightarrow> (string \<times> string) option" where
  "scan_natpart s =
     (case s of [] \<Rightarrow> None
      | c # r \<Rightarrow> if c = CHR ''0'' then Some ([c], r)
                 else if is_digit c then Some (scan_digits s) else None)"

definition scan_frac :: "string \<Rightarrow> string \<times> string" where
  "scan_frac s =
     (if startswith s ''.'' \<and> fst (scan_digits (drop 1 s)) \<noteq> []
      then (case scan_digits (drop 1 s) of (d, r) \<Rightarrow> (CHR ''.'' # d, r)) else ([], s))"

definition scan_exp :: "string \<Rightarrow> string \<times> string" where
  "scan_exp s =
     (case s of [] \<Rightarrow> ([], s)
      | e # r \<Rightarrow>
        (let sg = (case r of [] \<Rightarrow> [] | c # _ \<Rightarrow> if c = CHR ''-'' \<or> c = CHR ''+'' then [c] else []);
             dr = scan_digits (drop (length sg) r)
         in if (e = CHR ''e'' \<or> e = CHR ''E'') \<and> fst dr \<noteq> []
            then (e # sg @ fst dr, snd dr) else ([], s)))"

definition scan_number :: "string \<Rightarrow> (json \<times> string) option" where
  "scan_number s =
     (let sg = (if startswith s ''-'' then ''-'' else [])
      in case scan_natpart (drop (length sg) s) of None \<Rightarrow> None
         | Some (i, r) \<Rightarrow>
           (case scan_frac r of (f, r1) \<Rightarrow> case scan_exp r1 of (e, r2) \<Rightarrow>
              (if f = [] \<and> e = []
               then Some (JInt (if sg = [] then int (digits_val i) else - int (digits_val i)), r2)
               else Some (JFloat (sg @ i @ f @ e), r2))))"

definition json_constants :: "(string \<times> json) list" where
  "json_constants = [(''null'', JNull), (''true'', JBool True), (''false'', JBool False),
     (''NaN'', JFloat ''NaN''), (''Infinity'', JFloat ''Infinity''), (''-Infinity'', JFloat ''-Infinity'')]"

definition scan_atom :: "string \<Rightarrow> (json \<times> string) option" where
  "scan_atom s =
     (case find (\<lambda>(t, _). startswith s t) json_constants of
        Some (t, v) \<Rightarrow> Some (v, drop (length t) s)
      | None \<Rightarrow> scan_number s)"

text \<open>
  \<open>scan_once\<close> with the object and array loops of the scanner. \<open>scan_items\<close> and
  \<open>scan_members\<close> are entered at the first element; \<open>None\<close> is \<open>JSONDecodeError\<close>.
\<close>

fun scan_value :: "nat \<Rightarrow> string \<Rightarrow> (json \<times> string) option"
and scan_items :: "nat \<Rightarrow> json list \<Rightarrow> string \<Rightarrow> (json \<times> string) option"
and scan_members :: "nat \<Rightarrow> (string \<times> json) list \<Rightarrow> string \<Rightarrow> (json \<times> string) option"
where
  "scan_value 0 s = None"
| "scan_value (Suc n) s =
     (case s of [] \<Rightarrow> None
      | c # r \<Rightarrow>
        (if c = CHR 0x22 then map_option (map_prod JStr id) (scan_str r)
         else if c = CHR ''{'' then
           (if startswith (skip_ws r) ''}'' then Some (JObj [], drop 1 (skip_ws r))
            else scan_members n [] (skip_ws r))
         else if c = CHR ''['' then
           (if startswith (skip_ws r) '']'' then Some (JArr [], drop 1 (skip_ws r))
            else scan_items n [] (skip_ws r))
         else scan_atom s))"
| "scan_items 0 acc s = None"
| "scan_items (Suc n) acc s =
     (case scan_value n s of None \<Rightarrow> None
      | Some (v, r) \<Rightarrow>
        (let r1 = skip_ws r
         in if startswith r1 '']'' then Some (JArr (acc @ [v]), drop 1 r1)
            else if startswith r1 '','' then scan_items n (acc @ [v]) (skip_ws (drop 1 r1))
            else None))"
| "scan_members 0 acc s = None"
| "scan_members (Suc n) acc s =
     (if \<not> startswith s [CHR 0x22] then None
      else (case scan_str (drop 1 s) of None \<Rightarrow> None
      | Some (k, r) \<Rightarrow>
        (if \<not> startswith (skip_ws r) '':'' then None
         else (case scan_value n (skip_ws (drop 1 (skip_ws r))) of None \<Rightarrow> None
         | Some (v, r1) \<Rightarrow>
           (let r2 = skip_ws r1; acc' = AList.update k v acc
            in if startswith r2 ''}'' then Some (JObj acc', drop 1 r2)
               else if startswith r2 '','' then scan_members n acc' (skip_ws (drop 1 r2))
               else None)))))"

definition loads_text :: "string \<Rightarrow> json option" where
  "loads_text t =
     (case scan_value (Suc (length t)) (skip_ws t) of None \<Rightarrow> None
      | Some (v, r) \<Rightarrow> if skip_ws r = [] then Some v else None)"

definition json_loads :: "string \<Rightarrow> exn + json" where
  "json_loads b =
     (case decode_json_bytes b of None \<Rightarrow> Inl (bare_exn UnicodeDecodeError)
      | Some t \<Rightarrow> (case loads_text t of None \<Rightarrow> Inl (bare_exn JSONDecodeError) | Some v \<Rightarrow> Inr v))"

definition parse_json_object :: "string \<Rightarrow> string \<Rightarrow> exn + (string \<times> json) list" where
  "parse_json_object b label =
     bindE (catchE (json_loads b) (\<lambda>e. exn_kind_of e \<in> {UnicodeDecodeError, JSONDecodeError})
              (exn_of ValueError (label @ '' is not valid UTF-8 JSON'')))
       (\<lambda>v. case v of JObj ps \<Rightarrow> Inr ps
            | _ \<Rightarrow> Inl (exn_of ValueError (label @ '' must be a JSON object'')))"

end
