(* ===== verification/Json_Laws.thy ===== *)
theory Json_Laws
  imports Json "HOL-Library.Multiset"
begin

text \<open>
  Laws of the JSON reader and writer: the scanner's fuel is enough, and reading back what
  \<open>canonical_json\<close> wrote gives the value with its keys sorted, so that every lookup agrees.
\<close>

section \<open>Fuel\<close>

text \<open>
  A successful scan consumes text, and the number of characters it consumes is enough fuel: a run
  with less than unbounded fuel never turns a success into an error.
\<close>

lemma skip_ws_le: "length (skip_ws s) \<le> length s"
  by (rule length_dropWhile_le)

lemma scan_digits_le: "scan_digits s = (d, r) \<Longrightarrow> length r \<le> length s"
  by (auto simp: scan_digits_def length_dropWhile_le)

lemma scan_str_shorter: "scan_str s = Some (t, r) \<Longrightarrow> length r < length s"
proof (induction s arbitrary: t rule: scan_str.induct)
  case (1 s)
  show ?case
  proof (cases "scan_str_step s")
    case (StrEnd u)
    with "1.prems" show ?thesis by (auto simp: scan_str.simps [of s] dest: scan_str_step_shorter)
  next
    case (StrPiece p u)
    with "1.prems" obtain t' where "scan_str u = Some (t', r)"
      by (auto simp: scan_str.simps [of s])
    from "1.IH" [OF StrPiece this] scan_str_step_shorter(1) [OF StrPiece] show ?thesis by simp
  next
    case StrError
    with "1.prems" show ?thesis by (simp add: scan_str.simps [of s])
  qed
qed

lemma scan_natpart_shorter: "scan_natpart s = Some (i, r) \<Longrightarrow> length r < length s"
  by (auto simp: scan_natpart_def scan_digits_def less_Suc_eq_le length_dropWhile_le
      split: list.splits if_splits)

lemma scan_frac_le: "scan_frac s = (f, r) \<Longrightarrow> length r \<le> length s"
  using length_dropWhile_le [of is_digit "drop 1 s"]
  by (auto simp: scan_frac_def scan_digits_def split: if_splits)

lemma scan_exp_le: "scan_exp s = (f, r) \<Longrightarrow> length r \<le> length s"
  by (auto simp: scan_exp_def scan_digits_def Let_def le_SucI length_dropWhile_le
      intro: le_trans [OF length_dropWhile_le] split: list.splits if_splits)

lemma scan_number_shorter: "scan_number s = Some (v, r) \<Longrightarrow> length r < length s"
  by (auto simp: scan_number_def Let_def split: option.splits prod.splits if_splits
      dest!: scan_natpart_shorter scan_frac_le scan_exp_le)

lemma scan_atom_shorter:
  assumes "scan_atom s = Some (v, r)"
  shows "length r < length s"
proof (cases "find (\<lambda>(t, _). startswith s t) json_constants")
  case None
  with assms show ?thesis by (simp add: scan_atom_def scan_number_shorter)
next
  case (Some tv)
  then obtain i where "i < length json_constants" "json_constants ! i = tv" "startswith s (fst tv)"
    by (auto simp: find_Some_iff)
  then obtain t u where tv: "tv = (t, u)" and "(t, u) \<in> set json_constants" "startswith s t"
    by (cases tv) (metis fst_conv nth_mem)
  then have "0 < length t" "length t \<le> length s"
    by (auto simp: json_constants_def prefix_length_le)
  then have "length s - length t < length s" by linarith
  with assms Some tv show ?thesis by (auto simp: scan_atom_def)
qed

lemma scan_consumes:
  "scan_value m s = Some (v, r) \<Longrightarrow> length r < length s"
  "scan_items m acc s = Some (v, r) \<Longrightarrow> length r < length s"
  "scan_members m acc' s = Some (v, r) \<Longrightarrow> length r < length s"
proof (induction m s and m acc s and m acc' s arbitrary: v r and v r and v r
    rule: scan_value_scan_items_scan_members.induct)
  case (2 n s)
  show ?case
  proof (cases s)
    case Nil
    with "2.prems" show ?thesis by simp
  next
    case (Cons c t)
    note le = skip_ws_le [of t]
    show ?thesis
    proof (cases "c = CHR ''{'' \<or> c = CHR ''[''")
      case True
      with "2.prems" "2.IH" Cons le show ?thesis
        by (fastforce split: if_splits)
    next
      case False
      with "2.prems" Cons show ?thesis
        by (auto split: if_splits dest: scan_str_shorter scan_atom_shorter)
    qed
  qed
next
  case (4 n acc s)
  from "4.prems" obtain w t where t: "scan_value n s = Some (w, t)"
    by (auto split: option.splits)
  note lt = "4.IH"(1) [OF t] and le = skip_ws_le [of t] skip_ws_le [of "drop 1 (skip_ws t)"]
  from "4.prems" t consider "r = drop 1 (skip_ws t)"
    | "scan_items n (acc @ [w]) (skip_ws (drop 1 (skip_ws t))) = Some (v, r)"
      "\<not> startswith (skip_ws t) '']''" "startswith (skip_ws t) '',''"
    by (auto simp: Let_def split: if_splits)
  then show ?case
  proof cases
    case 1
    with lt le show ?thesis by simp
  next
    case 2
    from "4.IH"(2) [OF t refl refl 2(2,3,1)] lt le show ?thesis by simp
  qed
next
  case (6 n acc s)
  from "6.prems" obtain k t w u where q: "startswith s [CHR 0x22]"
    and k: "scan_str (drop 1 s) = Some (k, t)" and c: "startswith (skip_ws t) '':''"
    and u: "scan_value n (skip_ws (drop 1 (skip_ws t))) = Some (w, u)"
    by (auto split: option.splits if_splits)
  from "6.IH"(1) [of "(k, t)" k t] q k c u
  have lt: "length u < length (skip_ws (drop 1 (skip_ws t)))" by simp
  note le = scan_str_shorter [OF k] skip_ws_le [of t] skip_ws_le [of "drop 1 (skip_ws t)"]
    skip_ws_le [of u] skip_ws_le [of "drop 1 (skip_ws u)"]
  from "6.prems" q k c u consider "r = drop 1 (skip_ws u)"
    | "scan_members n (AList.update k w acc) (skip_ws (drop 1 (skip_ws u))) = Some (v, r)"
      "\<not> startswith (skip_ws u) ''}''" "startswith (skip_ws u) '',''"
    by (auto simp: Let_def split: if_splits)
  then show ?case
  proof cases
    case 1
    with lt le show ?thesis by simp
  next
    case 2
    from "6.IH"(2) [of "(k, t)" k t "(w, u)" w u "skip_ws u" "AList.update k w acc"] q k c u 2
    have "length r < length (skip_ws (drop 1 (skip_ws u)))" by simp
    with lt le show ?thesis by simp
  qed
qed simp_all

lemma scan_fuel_enough:
  "scan_value m s = Some (v, r) \<Longrightarrow> length s \<le> n + length r \<Longrightarrow> scan_value n s = Some (v, r)"
  "scan_items m acc s = Some (v, r) \<Longrightarrow> length s \<le> n + length r \<Longrightarrow> scan_items n acc s = Some (v, r)"
  "scan_members m acc' s = Some (v, r) \<Longrightarrow> length s \<le> n + length r \<Longrightarrow>
     scan_members n acc' s = Some (v, r)"
proof (induction m s and m acc s and m acc' s arbitrary: v r n and v r n and v r n
    rule: scan_value_scan_items_scan_members.induct)
  case (2 m s)
  have "length r < length s" by (rule scan_consumes(1) [OF "2.prems"(1)])
  with "2.prems"(2) obtain n' where n: "n = Suc n'" by (cases n) auto
  show ?case
  proof (cases s)
    case Nil
    with "2.prems" show ?thesis by simp
  next
    case (Cons c t)
    with n "2.prems"(2) skip_ws_le [of t] have le: "length (skip_ws t) \<le> n' + length r" by simp
    consider (obj) "c = CHR ''{''" "\<not> startswith (skip_ws t) ''}''"
      | (arr) "c = CHR ''[''" "\<not> startswith (skip_ws t) '']''"
      | (flat) "c = CHR ''{'' \<longrightarrow> startswith (skip_ws t) ''}''"
        "c = CHR ''['' \<longrightarrow> startswith (skip_ws t) '']''"
      by blast
    then show ?thesis
    proof cases
      case obj
      with "2.prems"(1) Cons have "scan_members m [] (skip_ws t) = Some (v, r)" by simp
      with "2.IH"(1) [OF Cons _ _ _ this le] obj Cons n show ?thesis by simp
    next
      case arr
      with "2.prems"(1) Cons have "scan_items m [] (skip_ws t) = Some (v, r)" by simp
      with "2.IH"(2) [OF Cons _ _ _ _ this le] arr Cons n show ?thesis by simp
    next
      case flat
      with "2.prems"(1) Cons n show ?thesis by (simp split: if_splits)
    qed
  qed
next
  case (4 m acc s)
  have "length r < length s" by (rule scan_consumes(2) [OF "4.prems"(1)])
  with "4.prems"(2) obtain n' where n: "n = Suc n'" by (cases n) auto
  from "4.prems"(1) obtain w t where t: "scan_value m s = Some (w, t)"
    by (auto split: option.splits)
  note le = scan_consumes(1) [OF t] skip_ws_le [of t] skip_ws_le [of "drop 1 (skip_ws t)"]
  from "4.prems"(1) t consider (last) "v = JArr (acc @ [w])" "r = drop 1 (skip_ws t)" "startswith (skip_ws t) '']''"
    | (more) "scan_items m (acc @ [w]) (skip_ws (drop 1 (skip_ws t))) = Some (v, r)"
      "\<not> startswith (skip_ws t) '']''" "startswith (skip_ws t) '',''"
    by (auto simp: Let_def split: if_splits)
  then show ?case
  proof cases
    case last
    then have "length r < length t" using le by (auto simp: prefix_def)
    then have "scan_value n' s = Some (w, t)"
      using "4.IH"(1) [OF t] "4.prems"(2) n by simp
    with last n show ?thesis by simp
  next
    case more
    have rt: "length r < length t" using scan_consumes(2) [OF more(1)] le by simp
    then have "scan_value n' s = Some (w, t)"
      using "4.IH"(1) [OF t] "4.prems"(2) n by simp
    moreover have "scan_items n' (acc @ [w]) (skip_ws (drop 1 (skip_ws t))) = Some (v, r)"
      using "4.IH"(2) [OF t refl refl more(2,3,1)] "4.prems"(2) n le rt by simp
    ultimately show ?thesis using more n by simp
  qed
next
  case (6 m acc s)
  have "length r < length s" by (rule scan_consumes(3) [OF "6.prems"(1)])
  with "6.prems"(2) obtain n' where n: "n = Suc n'" by (cases n) auto
  from "6.prems"(1) obtain k t w u where q: "startswith s [CHR 0x22]"
    and k: "scan_str (drop 1 s) = Some (k, t)" and c: "startswith (skip_ws t) '':''"
    and u: "scan_value m (skip_ws (drop 1 (skip_ws t))) = Some (w, u)"
    by (auto split: option.splits if_splits)
  note le = scan_str_shorter [OF k] skip_ws_le [of t] skip_ws_le [of "drop 1 (skip_ws t)"]
    scan_consumes(1) [OF u] skip_ws_le [of u] skip_ws_le [of "drop 1 (skip_ws u)"]
  from "6.prems"(1) q k c u consider
    (last) "v = JObj (AList.update k w acc)" "r = drop 1 (skip_ws u)" "startswith (skip_ws u) ''}''"
    | (more) "scan_members m (AList.update k w acc) (skip_ws (drop 1 (skip_ws u))) = Some (v, r)"
      "\<not> startswith (skip_ws u) ''}''" "startswith (skip_ws u) '',''"
    by (auto simp: Let_def split: if_splits)
  then show ?case
  proof cases
    case last
    then have "length r < length u" using le by (auto simp: prefix_def)
    then have "scan_value n' (skip_ws (drop 1 (skip_ws t))) = Some (w, u)"
      using "6.IH"(1) [of "(k, t)" k t w u n'] q k c u "6.prems"(2) n le by simp
    with last q k c n show ?thesis by simp
  next
    case more
    have ru: "length r < length u" using scan_consumes(3) [OF more(1)] le by simp
    then have "scan_value n' (skip_ws (drop 1 (skip_ws t))) = Some (w, u)"
      using "6.IH"(1) [of "(k, t)" k t w u n'] q k c u "6.prems"(2) n le by simp
    moreover have "scan_members n' (AList.update k w acc) (skip_ws (drop 1 (skip_ws u))) = Some (v, r)"
      using "6.IH"(2) [of "(k, t)" k t "(w, u)" w u "skip_ws u" "AList.update k w acc" v r n']
        q k c u more "6.prems"(2) n le ru by simp
    ultimately show ?thesis using more q k c n by simp
  qed
qed simp_all

text \<open>The text's own length is the fuel \<open>loads_text\<close> uses: no amount of fuel finds more.\<close>

lemma loads_text_fuel:
  assumes "scan_value m (skip_ws t) = Some (v, r)" and "skip_ws r = []"
  shows "loads_text t = Some v"
proof -
  have "scan_value (Suc (length t)) (skip_ws t) = Some (v, r)"
    using scan_fuel_enough(1) [OF assms(1), of "Suc (length t)"] skip_ws_le [of t] by simp
  with assms(2) show ?thesis by (simp add: loads_text_def)
qed

section \<open>Round trip\<close>

definition ok_rest :: "string \<Rightarrow> bool" where
  "ok_rest r \<longleftrightarrow> r = [] \<or> hd r = CHR '','' \<or> hd r = CHR '']'' \<or> hd r = CHR ''}''"

subsection \<open>Strings\<close>

lemma hex_val_hex_char [simp]: "n < 16 \<Longrightarrow> hex_val (hex_char n) = Some n"
  by (auto simp: hex_val_def of_hex_char is_digit_def)

lemma scan_hex4_hex4: "n < 65536 \<Longrightarrow> scan_hex4 (hex4 n @ t) = Some (n, t)"
proof -
  assume n: "n < 65536"
  have q: "n div 16 div 16 = n div 256" "n div 256 div 16 = n div 4096"
    by (simp_all add: div_mult2_eq [symmetric])
  have "n div 4096 < 16" "n div 4096 mod 16 = n div 4096" using n by simp_all
  moreover have "16 * (n div 4096) + n div 256 mod 16 = n div 256"
    using mult_div_mod_eq [of 16 "n div 256"] q by simp
  moreover have "16 * (n div 256) + n div 16 mod 16 = n div 16"
    using mult_div_mod_eq [of 16 "n div 16"] q by simp
  moreover have "16 * (n div 16) + n mod 16 = n"
    by (rule mult_div_mod_eq)
  ultimately show ?thesis by (simp add: hex4_def mult.commute)
qed

lemma scan_str_step_escape: "scan_str_step (escape_char c @ t) = StrPiece [c] t"
proof (cases "oct c < 32")
  case True
  have "scan_str_step (u_escape (oct c) @ t) = StrPiece [c] t"
    using True by (simp add: scan_str_step_def u_escape_def scan_hex4_hex4 is_high_def utf8_char_def)
  then show ?thesis
    by (auto simp: escape_char_def scan_str_step_def simple_escape_def)
next
  case False
  then show ?thesis
    by (auto simp: escape_char_def scan_str_step_def simple_escape_def)
qed

lemma scan_str_quote: "scan_str (concat (map escape_char s) @ CHR 0x22 # r) = Some (s, r)"
proof (induction s)
  case Nil
  show ?case by (simp add: scan_str.simps [of "CHR 0x22 # r"] scan_str_step_def)
next
  case (Cons c s)
  let ?t = "concat (map escape_char s) @ CHR 0x22 # r"
  have "scan_str (escape_char c @ ?t) = Some (c # s, r)"
    by (subst scan_str.simps) (simp add: scan_str_step_escape Cons.IH)
  then show ?case by simp
qed

subsection \<open>Numbers and constants\<close>

lemma ok_rest_not_digit: "ok_rest r \<Longrightarrow> r = [] \<or> \<not> is_digit (hd r)"
  by (auto simp: ok_rest_def is_digit_def)

lemma takeWhile_digits_append:
  assumes "ok_rest r"
  shows "takeWhile is_digit (s @ r) = takeWhile is_digit s"
    and "dropWhile is_digit (s @ r) = dropWhile is_digit s @ r"
proof -
  have r: "takeWhile is_digit r = []" "dropWhile is_digit r = r"
    using ok_rest_not_digit [OF assms] by (cases r; simp)+
  show "takeWhile is_digit (s @ r) = takeWhile is_digit s"
    "dropWhile is_digit (s @ r) = dropWhile is_digit s @ r"
    using r by (auto simp: takeWhile_append dropWhile_append takeWhile_eq_all_conv [THEN iffD2])
qed

lemma scan_digits_append:
  "ok_rest r \<Longrightarrow> scan_digits (s @ r) = (fst (scan_digits s), snd (scan_digits s) @ r)"
  by (simp add: scan_digits_def takeWhile_digits_append)

lemma scan_natpart_append:
  "ok_rest r \<Longrightarrow> scan_natpart s = Some (i, t) \<Longrightarrow> scan_natpart (s @ r) = Some (i, t @ r)"
  using takeWhile_digits_append [of r s]
  by (auto simp: scan_natpart_def scan_digits_def split: list.splits if_splits)

lemma scan_frac_append:
  assumes r: "ok_rest r" and "scan_frac s = (f, t)"
  shows "scan_frac (s @ r) = (f, t @ r)"
proof (cases s)
  case Nil
  with assms show ?thesis by (cases r) (auto simp: scan_frac_def ok_rest_def)
next
  case (Cons c s')
  with assms scan_digits_append [OF r, of s'] show ?thesis
    by (auto simp: scan_frac_def split: prod.splits if_splits)
qed

lemma scan_exp_append:
  assumes r: "ok_rest r" and e: "scan_exp s = (f, t)"
  shows "scan_exp (s @ r) = (f, t @ r)"
proof (cases s)
  case Nil
  with assms show ?thesis by (cases r) (auto simp: scan_exp_def ok_rest_def Let_def)
next
  case (Cons c s')
  show ?thesis
  proof (cases s')
    case Nil
    with Cons assms show ?thesis
      by (cases r) (auto simp: scan_exp_def ok_rest_def Let_def scan_digits_def is_digit_def split: if_splits)
  next
    case (Cons d s'')
    with \<open>s = c # s'\<close> e scan_digits_append [OF r, of s''] scan_digits_append [OF r, of s'] show ?thesis
      by (auto simp: scan_exp_def Let_def split: if_splits)
  qed
qed

lemma scan_number_append:
  assumes r: "ok_rest r" and s: "scan_number s = Some (v, t)"
  shows "scan_number (s @ r) = Some (v, t @ r)"
proof -
  have ne: "s \<noteq> []" using s by (auto simp: scan_number_def scan_natpart_def Let_def)
  then have sw: "startswith (s @ r) ''-'' = startswith s ''-''" by (cases s) auto
  define sg where "sg = (if startswith s ''-'' then ''-'' else [])"
  have d: "drop (length sg) (s @ r) = drop (length sg) s @ r" using ne by (cases s) (auto simp: sg_def)
  from s obtain i t1 f t2 e where p: "scan_natpart (drop (length sg) s) = Some (i, t1)"
      "scan_frac t1 = (f, t2)" "scan_exp t2 = (e, t)"
      "v = (if f = [] \<and> e = [] then JInt (if sg = [] then int (digits_val i) else - int (digits_val i))
            else JFloat (sg @ i @ f @ e))"
    by (auto simp: scan_number_def sg_def Let_def split: option.splits prod.splits if_splits)
  then have "scan_natpart (drop (length sg) (s @ r)) = Some (i, t1 @ r)"
    "scan_frac (t1 @ r) = (f, t2 @ r)" "scan_exp (t2 @ r) = (e, t @ r)"
    using r d by (simp_all add: scan_natpart_append scan_frac_append scan_exp_append)
  with p sw show ?thesis by (auto simp: scan_number_def sg_def Let_def)
qed

lemma scan_natpart_head: "scan_natpart s = Some x \<Longrightarrow> \<exists>d s'. s = d # s' \<and> is_digit d"
  by (auto simp: scan_natpart_def is_digit_def split: list.splits if_splits)

lemma scan_number_head:
  assumes "scan_number s = Some (v, t)"
  shows "is_digit (hd s) \<or> (hd s = CHR ''-'' \<and> 1 < length s \<and> is_digit (s ! 1))" and "s \<noteq> []"
proof -
  obtain x where x: "scan_natpart (if startswith s ''-'' then drop 1 s else s) = Some x"
    using assms by (auto simp: scan_number_def Let_def split: option.splits if_splits)
  show "s \<noteq> []" using scan_natpart_head [OF x] by auto
  then show "is_digit (hd s) \<or> (hd s = CHR ''-'' \<and> 1 < length s \<and> is_digit (s ! 1))"
    using scan_natpart_head [OF x] by (cases s) (auto split: if_splits)
qed

lemma digit_not_constant:
  "is_digit c \<Longrightarrow> CHR ''n'' \<noteq> c \<and> CHR ''t'' \<noteq> c \<and> CHR ''f'' \<noteq> c \<and> CHR ''N'' \<noteq> c \<and> CHR ''I'' \<noteq> c
     \<and> CHR ''-'' \<noteq> c"
  by (auto simp: is_digit_def)

lemma number_no_constant:
  assumes "is_digit (hd s) \<or> (hd s = CHR ''-'' \<and> 1 < length s \<and> is_digit (s ! 1))" and "s \<noteq> []"
  shows "find (\<lambda>(t, _). startswith (s @ r) t) json_constants = None"
proof -
  obtain c s' where s: "s = c # s'" using assms(2) by (cases s) auto
  show ?thesis
  proof (cases "is_digit c")
    case True
    with s digit_not_constant [OF True] show ?thesis by (simp add: json_constants_def)
  next
    case False
    with assms(1) s obtain d s'' where "c = CHR ''-''" "s' = d # s''" and d: "is_digit d"
      by (cases s') auto
    with s digit_not_constant [OF d] show ?thesis by (simp add: json_constants_def)
  qed
qed

lemma scan_atom_number:
  assumes "scan_number s = Some (v, [])" and "ok_rest r"
  shows "scan_atom (s @ r) = Some (v, r)"
  using scan_number_append [OF assms(2,1)] number_no_constant [OF scan_number_head [OF assms(1)]]
  by (simp add: scan_atom_def)

lemma str_nat_zero_head: "0 < n \<Longrightarrow> hd (str_nat n) \<noteq> CHR ''0''"
proof (induction n rule: str_nat.induct)
  case (1 n)
  show ?case
  proof (cases "n < 10")
    case True
    with "1.prems" have "(of_char (digit_char n) :: nat) = 48 + n" by (simp add: digit_char_def)
    with True "1.prems" show ?thesis by (auto simp: str_nat.simps [of n])
  next
    case False
    with 1 show ?thesis by (simp add: str_nat.simps [of n])
  qed
qed

lemma scan_natpart_str_nat: "scan_natpart (str_nat n) = Some (str_nat n, [])"
proof (cases "n = 0")
  case True
  have "digit_char 0 = CHR ''0''" by code_simp
  then have "str_nat 0 = ''0''" by (subst str_nat.simps) simp
  with True show ?thesis by (simp add: scan_natpart_def)
next
  case False
  obtain c s where cs: "str_nat n = c # s" by (cases "str_nat n") auto
  have d: "list_all is_digit (str_nat n)" by (rule str_nat_digits)
  have "c \<noteq> CHR ''0''" using str_nat_zero_head [of n] False cs by simp
  moreover have "is_digit c" using d cs by simp
  moreover have "scan_digits (str_nat n) = (str_nat n, [])"
    using d by (simp add: scan_digits_def list_all_iff takeWhile_eq_all_conv)
  ultimately show ?thesis by (simp add: scan_natpart_def cs)
qed

lemma scan_number_str_int: "scan_number (str_int i) = Some (JInt i, [])"
proof -
  have f: "scan_frac [] = ([], [])" "scan_exp [] = ([], [])"
    by (simp_all add: scan_frac_def scan_exp_def)
  show ?thesis
  proof (cases "i < 0")
    case True
    with f show ?thesis
      by (simp add: scan_number_def str_int_def scan_natpart_str_nat)
  next
    case False
    obtain c s where cs: "str_nat (nat i) = c # s" by (cases "str_nat (nat i)") auto
    then have "is_digit c" using str_nat_digits [of "nat i"] by simp
    then have "\<not> startswith (str_nat (nat i)) ''-''" using cs by (auto simp: is_digit_def)
    with False f show ?thesis
      by (simp add: scan_number_def str_int_def scan_natpart_str_nat)
  qed
qed

lemma scan_atom_str_int: "ok_rest r \<Longrightarrow> scan_atom (str_int i @ r) = Some (JInt i, r)"
  by (rule scan_atom_number [OF scan_number_str_int])

text \<open>A float is written as the text it was read from: a numeral with a fraction or exponent, or a
  named constant.\<close>

definition wf_float :: "string \<Rightarrow> bool" where
  "wf_float s \<longleftrightarrow> list_all (\<lambda>c. oct c < 128) s \<and>
     (s \<in> {''NaN'', ''Infinity'', ''-Infinity''} \<or> scan_number s = Some (JFloat s, []))"

lemma scan_atom_float:
  assumes "wf_float s" and "ok_rest r"
  shows "scan_atom (s @ r) = Some (JFloat s, r)"
proof (cases "scan_number s = Some (JFloat s, [])")
  case True
  then show ?thesis using assms(2) by (rule scan_atom_number)
next
  case False
  with assms(1) have "s = ''NaN'' \<or> s = ''Infinity'' \<or> s = ''-Infinity''" by (simp add: wf_float_def)
  then show ?thesis by (auto simp: scan_atom_def json_constants_def)
qed

subsection \<open>Values\<close>

text \<open>
  The values the writer is applied to: well-formed floats, UTF-8 strings, and dicts (distinct keys).
\<close>

primrec json_wf :: "json \<Rightarrow> bool" where
  "json_wf JNull = True"
| "json_wf (JBool b) = True"
| "json_wf (JInt i) = True"
| "json_wf (JFloat s) = wf_float s"
| "json_wf (JStr s) = utf8_ok s"
| "json_wf (JArr xs) = list_all id (map json_wf xs)"
| "json_wf (JObj ps) = (distinct (map fst ps) \<and> list_all (\<lambda>(k, b). utf8_ok k \<and> b) (map (map_prod id json_wf) ps))"

definition head_ok :: "string \<Rightarrow> bool" where
  "head_ok s \<longleftrightarrow> s \<noteq> [] \<and> \<not> is_ws (hd s) \<and> hd s \<notin> {CHR '']'', CHR ''}'', CHR '',''}"

lemma head_ok_append: "head_ok s \<Longrightarrow> head_ok (s @ t)"
  by (cases s) (auto simp: head_ok_def)

lemma head_ok_skip: "head_ok s \<Longrightarrow> skip_ws (s @ t) = s @ t"
  by (cases s) (auto simp: head_ok_def)

lemma scan_atom_head_ok:
  assumes "scan_atom s = Some (v, [])" and "s \<noteq> []"
  shows "head_ok s \<and> hd s \<notin> {CHR 0x22, CHR ''{'', CHR ''[''}"
proof (cases "find (\<lambda>(t, _). startswith s t) json_constants")
  case None
  with assms have n: "scan_number s = Some (v, [])" by (simp add: scan_atom_def)
  have "is_digit (hd s) \<or> hd s = CHR ''-''" using scan_number_head(1) [OF n] by blast
  then show ?thesis using assms(2) by (auto simp: head_ok_def is_ws_def is_digit_def)
next
  case (Some tv)
  then obtain i where "i < length json_constants" "json_constants ! i = tv" "startswith s (fst tv)"
    by (auto simp: find_Some_iff)
  then have "tv \<in> set json_constants" "startswith s (fst tv)" using nth_mem by blast+
  then show ?thesis
    by (auto simp: json_constants_def head_ok_def is_ws_def prefix_def)
qed

lemma write_json_atom:
  assumes "scan_atom (write_json v) = Some (v, [])" and "write_json v \<noteq> []"
    and "scan_atom (write_json v @ r) = Some (v, r)"
  shows "scan_value (Suc n) (write_json v @ r) = Some (v, r)"
  using scan_atom_head_ok [OF assms(1,2)] assms(2,3)
  by (cases "write_json v") auto

lemma scan_atom_const:
  "scan_atom (''null'' @ r) = Some (JNull, r)" "scan_atom (''true'' @ r) = Some (JBool True, r)"
  "scan_atom (''false'' @ r) = Some (JBool False, r)"
  by (simp_all add: scan_atom_def json_constants_def)

lemma write_json_head: "json_wf v \<Longrightarrow> head_ok (write_json v)"
proof (cases v)
  case (JInt i)
  have "str_int i \<noteq> []" by (simp add: str_int_def)
  moreover have "scan_atom (str_int i) = Some (JInt i, [])"
    using scan_atom_str_int [of "[]" i] by (simp add: ok_rest_def)
  ultimately show ?thesis using JInt scan_atom_head_ok by simp
next
  case (JFloat s)
  assume "json_wf v"
  with JFloat have w: "wf_float s" by simp
  then have "s \<noteq> []" by (auto simp: wf_float_def scan_number_def scan_natpart_def Let_def)
  moreover have "scan_atom s = Some (JFloat s, [])"
    using scan_atom_float [OF w, of "[]"] by (simp add: ok_rest_def)
  ultimately show ?thesis using JFloat scan_atom_head_ok by simp
qed (auto simp: head_ok_def is_ws_def quote_str_def)

lemma ok_rest_Cons: "ok_rest (c # r) \<longleftrightarrow> c = CHR '','' \<or> c = CHR '']'' \<or> c = CHR ''}''"
  by (simp add: ok_rest_def)

definition reads_back :: "json \<Rightarrow> bool" where
  "reads_back v \<longleftrightarrow> (\<forall>n r. ok_rest r \<longrightarrow> length (write_json v) \<le> n \<longrightarrow>
     scan_value n (write_json v @ r) = Some (v, r))"

lemma reads_back_atom:
  assumes "\<And>r. ok_rest r \<Longrightarrow> scan_atom (write_json v @ r) = Some (v, r)" and "write_json v \<noteq> []"
  shows "reads_back v"
proof -
  have "scan_value n (write_json v @ r) = Some (v, r)"
    if "ok_rest r" "length (write_json v) \<le> n" for n r
  proof (cases n)
    case 0
    with that assms(2) show ?thesis by simp
  next
    case (Suc m)
    with that assms(1) [of "[]"] assms(1) [OF that(1)] assms(2) show ?thesis
      using write_json_atom by (simp add: ok_rest_def)
  qed
  then show ?thesis by (simp add: reads_back_def)
qed

lemma scan_items_write:
  assumes "\<And>v. v \<in> set xs \<Longrightarrow> reads_back v \<and> head_ok (write_json v)" and "xs \<noteq> []"
    and "length (join '','' (map write_json xs)) < n"
  shows "scan_items n acc (join '','' (map write_json xs) @ CHR '']'' # r) = Some (JArr (acc @ xs), r)"
  using assms
proof (induction xs arbitrary: acc n)
  case (Cons v xs)
  obtain m where n: "n = Suc m" using Cons.prems(3) by (cases n) auto
  have v: "reads_back v" "head_ok (write_json v)" using Cons.prems(1) by auto
  show ?case
  proof (cases xs)
    case Nil
    have "scan_value m (write_json v @ CHR '']'' # r) = Some (v, CHR '']'' # r)"
      using v(1) Cons.prems(3) Nil n by (simp add: reads_back_def ok_rest_Cons)
    with n Nil show ?thesis by (simp add: is_ws_def)
  next
    case more: (Cons x xs')
    let ?rest = "join '','' (map write_json xs) @ CHR '']'' # r"
    have tx: "join '','' (map write_json (v # xs)) @ CHR '']'' # r = write_json v @ CHR '','' # ?rest"
      using more by simp
    have len: "length (write_json v) \<le> m" "length (join '','' (map write_json xs)) < m"
      using Cons.prems(3) n more by simp_all
    have "scan_value m (write_json v @ CHR '','' # ?rest) = Some (v, CHR '','' # ?rest)"
      using v(1) len by (simp add: reads_back_def ok_rest_Cons)
    moreover have "head_ok (join '','' (map write_json xs))"
      using Cons.prems(1) more by (cases xs') (auto intro: head_ok_append)
    then have "skip_ws ?rest = ?rest" by (rule head_ok_skip)
    moreover have "scan_items m (acc @ [v]) ?rest = Some (JArr ((acc @ [v]) @ xs), r)"
      using Cons.IH [of m "acc @ [v]"] Cons.prems(1) more len by simp
    ultimately show ?thesis unfolding tx n by (simp add: is_ws_def)
  qed
qed simp

lemma AList_update_new: "k \<notin> fst ` set ps \<Longrightarrow> AList.update k v ps = ps @ [(k, v)]"
  by (induction ps) auto

lemma scan_members_write:
  assumes "\<And>k v. (k, v) \<in> set ps \<Longrightarrow> reads_back v \<and> head_ok (write_json v)" and "ps \<noteq> []"
    and "distinct (map fst acc @ map fst ps)"
    and "length (write_members (map (map_prod id write_json) ps)) < n"
  shows "scan_members n acc (write_members (map (map_prod id write_json) ps) @ CHR ''}'' # r)
    = Some (JObj (acc @ ps), r)"
  using assms
proof (induction ps arbitrary: acc n)
  case (Cons kv ps)
  obtain k v where kv: "kv = (k, v)" by (cases kv)
  obtain m where n: "n = Suc m" using Cons.prems(4) by (cases n) auto
  have v: "reads_back v" "head_ok (write_json v)" using Cons.prems(1) kv by auto
  have upd: "AList.update k v acc = acc @ [(k, v)]"
    using Cons.prems(3) kv by (intro AList_update_new) auto
  have key: "scan_str (concat (map escape_char k) @ CHR 0x22 # t) = Some (k, t)" for t
    by (rule scan_str_quote)
  have colon: "skip_ws (CHR '':'' # t) = CHR '':'' # t" for t by (simp add: is_ws_def)
  have val: "skip_ws (write_json v @ t) = write_json v @ t" for t by (rule head_ok_skip [OF v(2)])
  show ?case
  proof (cases ps)
    case Nil
    have "scan_value m (write_json v @ CHR ''}'' # r) = Some (v, CHR ''}'' # r)"
      using v(1) Cons.prems(4) Nil n kv by (simp add: reads_back_def ok_rest_Cons)
    with n Nil kv show ?thesis by (simp add: quote_str_def key colon val upd is_ws_def)
  next
    case more: (Cons p ps')
    let ?rest = "write_members (map (map_prod id write_json) ps) @ CHR ''}'' # r"
    have tx: "write_members (map (map_prod id write_json) (kv # ps)) @ CHR ''}'' # r
        = quote_str k @ CHR '':'' # write_json v @ CHR '','' # ?rest"
      using more kv by (cases p) simp
    have "length (quote_str k @ CHR '':'' # write_json v @ CHR '','' # ?rest) < n + length (CHR ''}'' # r)"
      using Cons.prems(4) by (subst tx [symmetric]) (simp add: id_def del: write_members.simps)
    then have len: "length (write_json v) \<le> m"
        "length (write_members (map (map_prod id write_json) ps)) < m"
      using n by (simp_all del: write_members.simps)
    have "scan_value m (write_json v @ CHR '','' # ?rest) = Some (v, CHR '','' # ?rest)"
      using v(1) len by (simp add: reads_back_def ok_rest_Cons)
    moreover have "skip_ws ?rest = ?rest"
      using more by (cases ps'; cases p) (simp_all add: quote_str_def is_ws_def)
    moreover have "scan_members m (acc @ [(k, v)]) ?rest = Some (JObj ((acc @ [(k, v)]) @ ps), r)"
    proof (rule Cons.IH)
      show "length (write_members (map (map_prod id write_json) ps)) < m" by (rule len(2))
    qed (use Cons.prems(1,3) kv more in auto)
    ultimately show ?thesis unfolding tx n
      by (simp add: quote_str_def key colon val upd is_ws_def kv)
  qed
qed simp

lemma reads_back_wf: "json_wf v \<Longrightarrow> reads_back v"
proof (induction v)
  case (JInt i)
  have "str_int i \<noteq> []" by (simp add: str_int_def)
  then show ?case by (intro reads_back_atom) (simp_all add: scan_atom_str_int)
next
  case (JFloat s)
  then have "s \<noteq> []" by (auto simp: wf_float_def scan_number_def scan_natpart_def Let_def)
  with JFloat show ?case by (intro reads_back_atom) (simp_all add: scan_atom_float)
next
  case (JStr s)
  have "scan_value (Suc n) (write_json (JStr s) @ r) = Some (JStr s, r)" for n r
    by (simp add: quote_str_def scan_str_quote)
  then show ?case
    by (auto simp: reads_back_def quote_str_def scan_str_quote Suc_le_eq gr0_conv_Suc dest!: less_imp_Suc_add)
next
  case (JArr xs)
  have "scan_value n (write_json (JArr xs) @ r) = Some (JArr xs, r)"
    if n: "length (write_json (JArr xs)) \<le> n" for n r
  proof (cases "xs = []")
    case True
    with n show ?thesis by (cases n) (auto simp: is_ws_def)
  next
    case False
    obtain m where m: "n = Suc m" "length (join '','' (map write_json xs)) < m"
      using n by (cases n) auto
    have all: "reads_back v \<and> head_ok (write_json v)" if "v \<in> set xs" for v
      using JArr that by (auto simp: list_all_iff write_json_head)
    have "head_ok (join '','' (map write_json xs))"
      using False all by (cases xs; cases "tl xs") (auto intro: head_ok_append)
    then have hd: "skip_ws (join '','' (map write_json xs) @ CHR '']'' # r) = join '','' (map write_json xs) @ CHR '']'' # r"
      "\<not> startswith (join '','' (map write_json xs) @ CHR '']'' # r) '']''"
      by (auto simp: head_ok_skip) (auto simp: head_ok_def neq_Nil_conv)
    show ?thesis
      using scan_items_write [OF all False m(2), of "[]" r] hd m(1) by (simp add: is_ws_def)
  qed
  then show ?case by (simp add: reads_back_def)
next
  case (JObj ps)
  have "scan_value n (write_json (JObj ps) @ r) = Some (JObj ps, r)"
    if n: "length (write_json (JObj ps)) \<le> n" for n r
  proof (cases "ps = []")
    case True
    with n show ?thesis by (cases n) (auto simp: is_ws_def)
  next
    case False
    obtain m where m: "n = Suc m" "length (write_members (map (map_prod id write_json) ps)) < m"
      using n by (cases n) auto
    have all: "reads_back v \<and> head_ok (write_json v)" if "(k, v) \<in> set ps" for k v
      using JObj that by (fastforce simp: list_all_iff write_json_head)
    obtain t where t: "write_members (map (map_prod id write_json) ps) = CHR 0x22 # t"
      using False by (cases ps; cases "tl ps") (auto simp: quote_str_def split: prod.splits)
    have "distinct (map fst [] @ map fst ps)" using JObj.prems by simp
    from scan_members_write [OF all False this m(2), where r = r] t m(1) show ?thesis
      by (simp add: is_ws_def)
  qed
  then show ?case by (simp add: reads_back_def)
qed (auto intro!: reads_back_atom simp: scan_atom_const [simplified] split: if_splits)

subsection \<open>Octets\<close>

lemma escape_char_high: "128 \<le> oct c \<Longrightarrow> escape_char c = [c]"
proof -
  assume "128 \<le> oct c"
  then have "c \<noteq> CHR 0x22 \<and> c \<noteq> CHR 0x5C \<and> c \<noteq> CHR 0x0A \<and> c \<noteq> CHR 0x0D \<and> c \<noteq> CHR 0x09 \<and> c \<noteq> CHR 0x0C
    \<and> c \<noteq> CHR 0x08 \<and> \<not> oct c < 32"
    by (intro conjI notI) simp_all
  then show ?thesis by (simp add: escape_char_def)
qed

lemma hex_char_ascii: "n < 16 \<Longrightarrow> oct (hex_char n) < 128"
  by (simp add: of_hex_char)

lemma escape_char_ascii: "oct c < 128 \<Longrightarrow> list_all (\<lambda>c. oct c < 128) (escape_char c)"
  by (simp add: escape_char_def u_escape_def hex4_def hex_char_ascii)

lemma utf8_len_append:
  assumes "0 < utf8_len s"
  shows "utf8_len (s @ u) = utf8_len s"
proof -
  obtain a t where s: "s = a # t" using assms by (cases s) (auto simp: utf8_len_def)
  define n where "n = lead_len (oct a)"
  have n: "n \<le> Suc (length t)" "list_all cont_byte (take (n - 1) t)"
    "1 < n \<longrightarrow> second_ok (oct a) (oct (hd t))"
    using assms by (simp_all add: s utf8_len_def n_def Let_def split: if_splits)
  have "take (n - 1) (t @ u) = take (n - 1) t" using n(1) by simp
  moreover have "1 < n \<longrightarrow> hd (t @ u) = hd t" using n(1) by (cases t) auto
  ultimately show ?thesis using n by (simp add: s utf8_len_def n_def [symmetric])
qed

lemma utf8_ok_append: "utf8_ok s \<Longrightarrow> utf8_ok t \<Longrightarrow> utf8_ok (s @ t)"
proof (induction s rule: utf8_ok.induct)
  case (1 s)
  show ?case
  proof (cases "s = []")
    case False
    with "1.prems"(1) have s: "0 < utf8_len s" "utf8_ok (drop (utf8_len s) s)"
      by (auto simp: utf8_ok.simps [of s] split: if_splits)
    with "1.IH" False "1.prems"(2) have "utf8_ok (drop (utf8_len s) s @ t)" by simp
    with s(1) utf8_len_le [of s] show ?thesis
      by (subst utf8_ok.simps) (simp add: utf8_len_append)
  qed (use "1.prems" in simp)
qed

lemma utf8_ok_Nil [simp]: "utf8_ok []"
  by (simp add: utf8_ok.simps)

lemma utf8_ok_Cons_ascii [simp]: "oct c < 128 \<Longrightarrow> utf8_ok (c # s) = utf8_ok s"
  by (subst utf8_ok.simps) (simp add: utf8_len_def lead_len_def)

lemma utf8_ok_ascii: "list_all (\<lambda>c. oct c < 128) s \<Longrightarrow> utf8_ok s"
  by (induction s) auto

lemma lead_len_high: "1 < lead_len a \<Longrightarrow> 128 \<le> a"
  by (simp add: lead_len_def split: if_splits)

lemma utf8_len_high:
  assumes "1 < utf8_len s"
  shows "\<forall>c \<in> set (take (utf8_len s) s). 128 \<le> oct c" and "utf8_ok (take (utf8_len s) s)"
proof -
  obtain a t where s: "s = a # t" using assms by (cases s) (auto simp: utf8_len_def)
  define n where "n = lead_len (oct a)"
  have n: "utf8_len s = n" "1 < n" "n \<le> length s" "list_all cont_byte (take (n - 1) t)"
    "second_ok (oct a) (oct (hd t))"
    using assms by (simp_all add: s utf8_len_def n_def Let_def split: if_splits)
  have tk: "take n s = a # take (n - 1) t" using n(2) s by (cases n) auto
  have "128 \<le> oct a" using n(2) by (simp add: n_def lead_len_high)
  then show "\<forall>c \<in> set (take (utf8_len s) s). 128 \<le> oct c"
    using n(4) by (auto simp: n(1) tk list_all_iff cont_byte_def)
  have "hd (take (n - 1) t) = hd t" using n(2) by (intro hd_take) simp
  then have "utf8_len (a # take (n - 1) t) = n"
    using n(2-5) s by (simp add: utf8_len_def n_def [symmetric])
  then have "utf8_len (take n s) = n" unfolding tk .
  then show "utf8_ok (take (utf8_len s) s)"
    unfolding n(1) using n(2) by (subst utf8_ok.simps) simp
qed

lemma utf8_ok_escape: "utf8_ok s \<Longrightarrow> utf8_ok (concat (map escape_char s))"
proof (induction s rule: utf8_ok.induct)
  case (1 s)
  show ?case
  proof (cases "s = []")
    case False
    let ?n = "utf8_len s"
    from False "1.prems" have s: "0 < ?n" "utf8_ok (drop ?n s)"
      by (auto simp: utf8_ok.simps [of s] split: if_splits)
    with "1.IH" False have IH: "utf8_ok (concat (map escape_char (drop ?n s)))" by simp
    have "utf8_ok (concat (map escape_char (take ?n s)))"
    proof (cases "?n = 1")
      case True
      then have "oct (hd s) < 128"
        using False by (cases s) (auto simp: utf8_len_def Let_def lead_len_def split: if_splits)
      then show ?thesis using False True
        by (cases s) (auto intro: utf8_ok_ascii escape_char_ascii)
    next
      case False
      then have hi: "\<forall>c \<in> set (take ?n s). 128 \<le> oct c" "utf8_ok (take ?n s)"
        using s(1) by (intro utf8_len_high; simp)+
      from hi(1) have "concat (map escape_char (take ?n s)) = take ?n s"
        by (simp add: escape_char_high cong: map_cong)
      with hi(2) show ?thesis by simp
    qed
    with IH have "utf8_ok (concat (map escape_char (take ?n s @ drop ?n s)))"
      unfolding map_append concat_append by (intro utf8_ok_append)
    then show ?thesis by simp
  qed simp
qed
lemma utf8_ok_quote: "utf8_ok s \<Longrightarrow> utf8_ok (quote_str s)"
  using utf8_ok_append [OF utf8_ok_escape, of s "[CHR 0x22]"] by (simp add: quote_str_def)

lemma utf8_ok_join: "utf8_ok sep \<Longrightarrow> list_all utf8_ok ts \<Longrightarrow> utf8_ok (join sep ts)"
  by (induction sep ts rule: join.induct) (auto intro!: utf8_ok_append)

lemma str_nat_ascii: "list_all (\<lambda>c. oct c < 128) (str_nat n)"
  using str_nat_digits [of n] by (auto simp: list_all_iff is_digit_def)

lemma utf8_ok_write: "json_wf v \<Longrightarrow> utf8_ok (write_json v)"
proof (induction v)
  case (JInt i)
  then show ?case by (auto simp: str_int_def intro: utf8_ok_ascii str_nat_ascii)
next
  case (JFloat s)
  then show ?case by (auto simp: wf_float_def intro: utf8_ok_ascii)
next
  case (JArr xs)
  then have "utf8_ok (join '','' (map write_json xs))"
    by (intro utf8_ok_join) (auto simp: list_all_iff)
  then show ?case by (auto intro: utf8_ok_append)
next
  case (JObj ps)
  then have "utf8_ok (write_members (map (map_prod id write_json) ps))"
    unfolding write_members.simps
    by (intro utf8_ok_join) (fastforce simp: list_all_iff intro!: utf8_ok_append utf8_ok_quote)+
  then have "utf8_ok (write_members (map (map_prod id write_json) ps) @ ''}'')"
    by (intro utf8_ok_append) simp_all
  then show ?case by (simp del: write_members.simps)
qed (auto simp: utf8_ok_quote)

subsection \<open>Sorted keys\<close>

lemma distinct_sort_key_fst: "distinct (map fst ps) \<Longrightarrow> distinct (map fst (sort_key fst ps))"
  by (metis mset_eq_imp_distinct_iff mset_map mset_sort)

lemma map_of_sort_key: "distinct (map fst ps) \<Longrightarrow> map_of (sort_key fst ps) = map_of ps"
  by (simp add: map_of_inject_set distinct_sort_key_fst)

lemma json_wf_sort: "json_wf v \<Longrightarrow> json_wf (sort_json v)"
proof (induction v)
  case (JObj ps)
  then have "distinct (map fst (map (map_prod id sort_json) ps))"
    by (simp add: comp_def)
  with JObj show ?case
    by (fastforce simp: list_all_iff distinct_sort_key_fst)
qed (auto simp: list_all_iff)

definition sort_fields :: "(string \<times> json) list \<Rightarrow> (string \<times> json) list" where
  "sort_fields ps = fields_of (sort_json (JObj ps))"

lemma obj_get_sort_fields:
  assumes "distinct (map fst ps)"
  shows "obj_get (sort_fields ps) k = sort_json (obj_get ps k)"
proof -
  have "map_of (sort_fields ps) = map_of (map (map_prod id sort_json) ps)"
    using assms by (simp add: sort_fields_def map_of_sort_key comp_def)
  moreover have "map_of (map (map_prod id sort_json) ps) k = map_option sort_json (map_of ps k)"
    by (induction ps) auto
  ultimately show ?thesis by (simp add: obj_get_def split: option.splits)
qed

lemma map_of_sort_fields:
  assumes "distinct (map fst ps)"
  shows "map_of (sort_fields ps) k = map_option sort_json (map_of ps k)"
proof -
  have "map_of (sort_fields ps) = map_of (map (map_prod id sort_json) ps)"
    using assms by (simp add: sort_fields_def map_of_sort_key comp_def)
  moreover have "map_of (map (map_prod id sort_json) ps) k = map_option sort_json (map_of ps k)"
    by (induction ps) auto
  ultimately show ?thesis by simp
qed

subsection \<open>Reading back canonical JSON\<close>

lemma loads_text_write: "json_wf v \<Longrightarrow> loads_text (write_json v) = Some v"
proof -
  assume wf: "json_wf v"
  have "scan_value (Suc (length (write_json v))) (write_json v @ []) = Some (v, [])"
    using reads_back_wf [OF wf] unfolding reads_back_def ok_rest_def by (simp del: scan_value.simps)
  with head_ok_skip [OF write_json_head [OF wf], of "[]"] show ?thesis
    by (simp add: loads_text_def del: scan_value.simps)
qed

lemma decode_utf8_object:
  assumes "utf8_ok s" and "s = CHR ''{'' # c # t" and "oct c \<noteq> 0"
  shows "decode_json_bytes s = Some s"
  using assms by (simp add: decode_json_bytes_def)

lemma parse_canonical_json:
  assumes "json_wf (JObj ps)"
  shows "parse_json_object (canonical_json ps) label = Inr (sort_fields ps)"
proof -
  let ?v = "sort_json (JObj ps)"
  have wf: "json_wf ?v" by (rule json_wf_sort [OF assms])
  obtain qs where v: "?v = JObj qs" by simp
  obtain c t where ct: "write_json ?v = CHR ''{'' # c # t" and c: "oct c \<noteq> 0"
    unfolding v by (cases qs; cases "tl qs") (auto simp: quote_str_def split: prod.splits)
  have "decode_json_bytes (write_json ?v) = Some (write_json ?v)"
    using utf8_ok_write [OF wf] ct c by (rule decode_utf8_object)
  with loads_text_write [OF wf] v show ?thesis
    by (simp add: parse_json_object_def json_loads_def canonical_json_def dumps_sorted_def sort_fields_def)
qed

end
