(* ===== verification/Codecs.thy ===== *)
theory Codecs
  imports Json_Laws
begin

unbundle bit_operations_syntax

text \<open>
  The digests and encodings of the standard library that the sources call: \<open>hashlib.sha256\<close>
  (FIPS 180-4), \<open>hmac.new(key, msg, sha256)\<close> (RFC 2104) and URL-safe Base64 as
  \<^verbatim>\<open>_naming.py\<close> uses it (\<open>_b64\<close>, \<open>_unb64\<close>), with \<open>sha256_digest\<close> of
  \<^verbatim>\<open>_json.py\<close>. A 32-bit word is an \<open>int\<close> below \<open>2^32\<close>; sums are cut back with
  \<open>take_bit 32\<close>.
\<close>

section \<open>SHA-256\<close>

text \<open>The round constants: the first 32 bits of the fractional parts of the cube roots of the first 64
  primes, in decimal; below, the initial state likewise from the square roots of the first eight.\<close>

definition sha_k :: "int list" where
  "sha_k = [1116352408, 1899447441, 3049323471, 3921009573, 961987163, 1508970993, 2453635748, 2870763221,
   3624381080, 310598401, 607225278, 1426881987, 1925078388, 2162078206, 2614888103, 3248222580,
   3835390401, 4022224774, 264347078, 604807628, 770255983, 1249150122, 1555081692, 1996064986,
   2554220882, 2821834349, 2952996808, 3210313671, 3336571891, 3584528711, 113926993, 338241895,
   666307205, 773529912, 1294757372, 1396182291, 1695183700, 1986661051, 2177026350, 2456956037,
   2730485921, 2820302411, 3259730800, 3345764771, 3516065817, 3600352804, 4094571909, 275423344,
   430227734, 506948616, 659060556, 883997877, 958139571, 1322822218, 1537002063, 1747873779,
   1955562222, 2024104815, 2227730452, 2361852424, 2428436474, 2756734187, 3204031479, 3329325298]"

definition rotr :: "nat \<Rightarrow> int \<Rightarrow> int" where
  "rotr n x = drop_bit n x + push_bit (32 - n) (take_bit n x)"

definition sig0 :: "int \<Rightarrow> int" where "sig0 x = rotr 7 x XOR rotr 18 x XOR drop_bit 3 x"
definition sig1 :: "int \<Rightarrow> int" where "sig1 x = rotr 17 x XOR rotr 19 x XOR drop_bit 10 x"
definition Sig0 :: "int \<Rightarrow> int" where "Sig0 x = rotr 2 x XOR rotr 13 x XOR rotr 22 x"
definition Sig1 :: "int \<Rightarrow> int" where "Sig1 x = rotr 6 x XOR rotr 11 x XOR rotr 25 x"
definition Ch :: "int \<Rightarrow> int \<Rightarrow> int \<Rightarrow> int" where "Ch x y z = (x AND y) XOR ((x XOR 0xffffffff) AND z)"
definition Maj :: "int \<Rightarrow> int \<Rightarrow> int \<Rightarrow> int" where "Maj x y z = (x AND y) XOR (x AND z) XOR (y AND z)"

type_synonym sha_state = "int \<times> int \<times> int \<times> int \<times> int \<times> int \<times> int \<times> int"

fun sha_step :: "int \<Rightarrow> int \<Rightarrow> sha_state \<Rightarrow> sha_state" where
  "sha_step t1 t2 (a, b, c, d, e, f, g, h) = (take_bit 32 (t1 + t2), a, b, c, take_bit 32 (d + t1), e, f, g)"

fun sha_round :: "int \<Rightarrow> int \<Rightarrow> sha_state \<Rightarrow> sha_state" where
  "sha_round k w (a, b, c, d, e, f, g, h) =
     sha_step (h + Sig1 e + Ch e f g + k + w) (Sig0 a + Maj a b c) (a, b, c, d, e, f, g, h)"

text \<open>The 64 rounds of one block; the sixteen words are the sliding window of the schedule.\<close>

fun sha_rounds :: "int list \<Rightarrow> int list \<Rightarrow> sha_state \<Rightarrow> sha_state" where
  "sha_rounds (k # ks) (w0 # w1 # w2 # w3 # w4 # w5 # w6 # w7 # w8 # w9 # w10 # w11 # w12 # w13 # w14 # w15 # _) s =
     sha_rounds ks [w1, w2, w3, w4, w5, w6, w7, w8, w9, w10, w11, w12, w13, w14, w15,
                    take_bit 32 (sig1 w14 + w9 + sig0 w1 + w0)] (sha_round k w0 s)"
| "sha_rounds _ _ s = s"

fun sha_add :: "sha_state \<Rightarrow> sha_state \<Rightarrow> sha_state" where
  "sha_add (a, b, c, d, e, f, g, h) (a', b', c', d', e', f', g', h') =
     (take_bit 32 (a + a'), take_bit 32 (b + b'), take_bit 32 (c + c'), take_bit 32 (d + d'),
      take_bit 32 (e + e'), take_bit 32 (f + f'), take_bit 32 (g + g'), take_bit 32 (h + h'))"

fun be_words :: "int list \<Rightarrow> int list" where
  "be_words (a # b # c # d # xs) = (((a * 256 + b) * 256 + c) * 256 + d) # be_words xs"
| "be_words _ = []"

function sha_blocks :: "int list \<Rightarrow> sha_state \<Rightarrow> sha_state" where
  "sha_blocks ws s = (if ws = [] then s
     else sha_blocks (drop 16 ws) (sha_add s (sha_rounds sha_k (take 16 ws) s)))"
  by pat_completeness auto
termination by (relation "measure (length \<circ> fst)") auto

declare sha_blocks.simps [simp del]

definition sha_init :: sha_state where
  "sha_init = (1779033703, 3144134277, 1013904242, 2773480762, 1359893119, 2600822924, 528734635, 1541459225)"

definition sha_pad :: "int list \<Rightarrow> int list" where
  "sha_pad m =
     (let n = 8 * int (length m)
      in m @ 128 # replicate ((119 - length m mod 64) mod 64) 0
         @ map (\<lambda>i. n div 2 ^ (8 * i) mod 256) [7, 6, 5, 4, 3, 2, 1, 0])"

definition be_bytes :: "int \<Rightarrow> nat list" where
  "be_bytes w = map nat [w div 16777216 mod 256, w div 65536 mod 256, w div 256 mod 256, w mod 256]"

fun sha_bytes :: "sha_state \<Rightarrow> nat list" where
  "sha_bytes (a, b, c, d, e, f, g, h) = concat (map be_bytes [a, b, c, d, e, f, g, h])"

definition sha256_bytes :: "string \<Rightarrow> nat list" where
  "sha256_bytes m = sha_bytes (sha_blocks (be_words (sha_pad (map of_char m))) sha_init)"

definition hex2 :: "nat \<Rightarrow> string" where
  "hex2 n = [hex_char (n div 16), hex_char (n mod 16)]"

text \<open>\<open>hashlib.sha256(m).digest()\<close> and \<open>.hexdigest()\<close>.\<close>

definition sha256 :: "string \<Rightarrow> string" where
  "sha256 m = map char_of (sha256_bytes m)"

definition hexdigest :: "string \<Rightarrow> string" where
  "hexdigest m = concat (map hex2 (sha256_bytes m))"

definition sha256_digest :: "string \<Rightarrow> string" where
  "sha256_digest b = ''sha256:'' @ hexdigest b"

text \<open>Kernel evaluation of a digest, and the FIPS 180-4 example as a check of the transcription.\<close>

lemma replicate_numeral: "replicate (numeral k) x = x # replicate (pred_numeral k) x"
  by (simp add: numeral_eq_Suc)

lemmas sha_eval = sha256_bytes_def sha_pad_def replicate_numeral sha_blocks.simps sha_init_def sha_k_def
  be_bytes_def rotr_def sig0_def sig1_def Sig0_def Sig1_def Ch_def Maj_def

lemma sha256_abc:
  "sha256_bytes ''abc'' = [186, 120, 22, 191, 143, 1, 207, 234, 65, 65, 64, 222, 93, 174, 34, 35,
     176, 3, 97, 163, 150, 23, 122, 156, 180, 16, 255, 97, 242, 0, 21, 173]"
  by (simp add: sha_eval)

lemma sha_bytes_shape: "length (sha_bytes s) = 32" "\<forall>b \<in> set (sha_bytes s). b < 256"
  by (cases s; auto simp: be_bytes_def nat_less_iff)+

lemma hexdigest_length: "length (hexdigest m) = 64"
proof -
  have "length (concat (map hex2 bs)) = 2 * length bs" for bs
    by (induction bs) (auto simp: hex2_def)
  then show ?thesis by (simp add: hexdigest_def sha256_bytes_def sha_bytes_shape)
qed

lemma hexdigest_lower: "list_all is_hex_lower (hexdigest m)"
proof -
  have "list_all is_hex_lower (hex2 b)" if "b < 256" for b
    using that by (simp add: hex2_def)
  moreover have "\<forall>b \<in> set (sha256_bytes m). b < 256"
    unfolding sha256_bytes_def by (rule sha_bytes_shape(2))
  ultimately show ?thesis by (auto simp: hexdigest_def list_all_iff)
qed

section \<open>HMAC\<close>

definition xor_byte :: "nat \<Rightarrow> char \<Rightarrow> char" where
  "xor_byte n c = char_of (n XOR of_char c)"

definition hmac_key :: "string \<Rightarrow> string" where
  "hmac_key key = (let k = (if 64 < length key then sha256 key else key)
     in k @ replicate (64 - length k) (CHR 0x00))"

definition hmac_sha256 :: "string \<Rightarrow> string \<Rightarrow> string" where
  "hmac_sha256 key m =
     sha256 (map (xor_byte 0x5c) (hmac_key key) @ sha256 (map (xor_byte 0x36) (hmac_key key) @ m))"

definition hmac_hexdigest :: "string \<Rightarrow> string \<Rightarrow> string" where
  "hmac_hexdigest key m =
     hexdigest (map (xor_byte 0x5c) (hmac_key key) @ sha256 (map (xor_byte 0x36) (hmac_key key) @ m))"

section \<open>Base64\<close>

definition b64_char :: "nat \<Rightarrow> char" where
  "b64_char n =
     (if n < 26 then char_of (65 + n) else if n < 52 then char_of (71 + n)
      else if n < 62 then char_of (n - 4) else if n = 62 then CHR ''-'' else CHR ''_'')"

text \<open>The sextet of a character; the standard and the URL-safe alphabet are both read.\<close>

definition b64_val :: "char \<Rightarrow> nat option" where
  "b64_val c =
     (let n = oct c
      in if 65 \<le> n \<and> n \<le> 90 then Some (n - 65) else if 97 \<le> n \<and> n \<le> 122 then Some (n - 71)
         else if 48 \<le> n \<and> n \<le> 57 then Some (n + 4)
         else if c = CHR ''-'' \<or> c = CHR ''+'' then Some 62
         else if c = CHR ''_'' \<or> c = CHR ''/'' then Some 63 else None)"

text \<open>\<open>base64.urlsafe_b64encode(value).decode("ascii").rstrip("=")\<close>.\<close>

fun b64 :: "string \<Rightarrow> string" where
  "b64 [] = []"
| "b64 [a] = [b64_char (oct a div 4), b64_char (oct a mod 4 * 16)]"
| "b64 [a, b] = [b64_char (oct a div 4), b64_char (oct a mod 4 * 16 + oct b div 16), b64_char (oct b mod 16 * 4)]"
| "b64 (a # b # c # s) =
     b64_char (oct a div 4) # b64_char (oct a mod 4 * 16 + oct b div 16)
     # b64_char (oct b mod 16 * 4 + oct c div 64) # b64_char (oct c mod 64) # b64 s"

text \<open>
  \<open>binascii.a2b_base64\<close> in its default, non-strict mode: characters outside the alphabet are
  skipped, a complete pad sequence ends the data. Arguments: position in the quad, the bits left
  over, the pads seen; \<open>None\<close> is \<open>binascii.Error\<close>.
\<close>

fun a2b :: "nat \<Rightarrow> nat \<Rightarrow> nat \<Rightarrow> string \<Rightarrow> string option" where
  "a2b q l p [] = (if q = 0 then Some [] else None)"
| "a2b q l p (c # s) =
     (if c = CHR ''='' then
        (if 2 \<le> q \<and> 4 \<le> q + Suc p then Some [] else a2b q l (if 2 \<le> q then Suc p else p) s)
      else (case b64_val c of None \<Rightarrow> a2b q l p s
        | Some v \<Rightarrow>
          (if q = 0 then a2b 1 v 0 s
           else if q = 1 then map_option (Cons (char_of (l * 4 + v div 16))) (a2b 2 (v mod 16) 0 s)
           else if q = 2 then map_option (Cons (char_of (l * 16 + v div 4))) (a2b 3 (v mod 4) 0 s)
           else map_option (Cons (char_of (l * 64 + v))) (a2b 0 0 0 s))))"

text \<open>\<open>_unb64\<close>: pads to a multiple of four, refuses non-ASCII text, decodes.\<close>

definition unb64 :: "string \<Rightarrow> exn + string" where
  "unb64 s =
     (if \<not> list_all (\<lambda>c. oct c < 128) s then Inl (bare_exn ValueError)
      else (case a2b 0 0 0 (s @ replicate (nat ((- int (length s)) mod 4)) (CHR ''='')) of
              None \<Rightarrow> Inl (bare_exn ValueError) | Some b \<Rightarrow> Inr b))"

lemma oct_b64_char: "n < 64 \<Longrightarrow> oct (b64_char n) =
    (if n < 26 then 65 + n else if n < 52 then 71 + n else if n < 62 then n - 4
     else if n = 62 then 45 else 95)"
  by (simp add: b64_char_def)

lemma b64_char_ascii: "n < 64 \<Longrightarrow> oct (b64_char n) < 128"
  by (auto simp: oct_b64_char)

lemma b64_char_neq: "n < 64 \<Longrightarrow> b64_char n \<noteq> CHR ''=''" "n < 64 \<Longrightarrow> b64_char n \<noteq> CHR ''.''"
  using oct_b64_char [of n] by (auto split: if_splits)

lemma b64_val_char [simp]: "n < 64 \<Longrightarrow> b64_val (b64_char n) = Some n"
proof -
  assume n: "n < 64"
  consider "n < 26" | "26 \<le> n" "n < 52" | "52 \<le> n" "n < 62" | "n = 62" | "n = 63" using n by linarith
  then show ?thesis
  proof cases
    case 3
    then have "oct (b64_char n) = n - 4" using oct_b64_char [OF n] by simp
    with 3 show ?thesis by (auto simp: b64_val_def Let_def)
  qed (use oct_b64_char [OF n] in \<open>auto simp: b64_val_def Let_def b64_char_def\<close>)
qed

lemma b64_parts:
  fixes a b c :: nat
  assumes "a < 256" "b < 256" "c < 256"
  shows "a div 4 < 64" "a mod 4 * 16 + b div 16 < 64" "b mod 16 * 4 + c div 64 < 64" "c mod 64 < 64"
    "a mod 4 * 16 < 64" "b mod 16 * 4 < 64"
    "a div 4 * 4 + (a mod 4 * 16 + b div 16) div 16 = a"
    "a div 4 * 4 + (a mod 4 * 16) div 16 = a"
    "(a mod 4 * 16 + b div 16) mod 16 = b div 16" "(a mod 4 * 16) mod 16 = 0"
    "b div 16 * 16 + (b mod 16 * 4 + c div 64) div 4 = b"
    "b div 16 * 16 + (b mod 16 * 4) div 4 = b"
    "(b mod 16 * 4 + c div 64) mod 4 = c div 64" "(b mod 16 * 4) mod 4 = 0"
    "c div 64 * 64 + c mod 64 = c"
proof -
  have d: "a div 4 < 64" "b div 16 < 16" "c div 64 < 4" using assms by simp_all
  have m: "a mod 4 < 4" "b mod 16 < 16" by simp_all
  show "a div 4 < 64" "a mod 4 * 16 + b div 16 < 64" "b mod 16 * 4 + c div 64 < 64" "c mod 64 < 64"
    "a mod 4 * 16 < 64" "b mod 16 * 4 < 64"
    using d m by simp_all
  show "a div 4 * 4 + (a mod 4 * 16 + b div 16) div 16 = a" "a div 4 * 4 + (a mod 4 * 16) div 16 = a"
    "(a mod 4 * 16 + b div 16) mod 16 = b div 16" "(a mod 4 * 16) mod 16 = 0"
    "b div 16 * 16 + (b mod 16 * 4 + c div 64) div 4 = b" "b div 16 * 16 + (b mod 16 * 4) div 4 = b"
    "(b mod 16 * 4 + c div 64) mod 4 = c div 64" "(b mod 16 * 4) mod 4 = 0"
    "c div 64 * 64 + c mod 64 = c"
    using d by simp_all
qed

lemmas octet_parts =
  b64_parts [OF nat_of_char_less_256 nat_of_char_less_256 nat_of_char_less_256]

lemma b64_alphabet: "list_all (\<lambda>c. c \<in> b64_char ` {..<64}) (b64 s)"
proof (induction s rule: b64.induct)
  case (2 a)
  show ?case by (simp only: b64.simps list.pred_inject simp_thms imageI lessThan_iff octet_parts)
next
  case (3 a b)
  show ?case by (simp only: b64.simps list.pred_inject simp_thms imageI lessThan_iff octet_parts)
next
  case (4 a b c s)
  then show ?case by (simp only: b64.simps list.pred_inject simp_thms imageI lessThan_iff octet_parts)
qed simp

lemma b64_ascii: "c \<in> set (b64 s) \<Longrightarrow> oct c < 128 \<and> c \<noteq> CHR ''.'' \<and> c \<noteq> CHR ''=''"
proof -
  assume "c \<in> set (b64 s)"
  then obtain k where k: "k < 64" "c = b64_char k" using b64_alphabet [of s] by (auto simp: list_all_iff)
  show ?thesis unfolding k(2) using b64_char_ascii [OF k(1)] b64_char_neq [OF k(1)] by blast
qed

lemma a2b_quad:
  assumes "x < 64" "y < 64" "z < 64" "u < 64"
  shows "a2b 0 0 0 (b64_char x # b64_char y # b64_char z # b64_char u # s) =
    map_option (\<lambda>t. char_of (x * 4 + y div 16) # char_of (y mod 16 * 16 + z div 4)
      # char_of (z mod 4 * 64 + u) # t) (a2b 0 0 0 s)"
  using assms by (simp add: b64_char_neq option.map_comp comp_def)

lemma a2b_pair:
  assumes "x < 64" "y < 64"
  shows "a2b 0 0 0 [b64_char x, b64_char y, CHR ''='', CHR ''=''] = Some [char_of (x * 4 + y div 16)]"
  using assms by (simp add: b64_char_neq)

lemma a2b_triple:
  assumes "x < 64" "y < 64" "z < 64"
  shows "a2b 0 0 0 [b64_char x, b64_char y, b64_char z, CHR ''='']
    = Some [char_of (x * 4 + y div 16), char_of (y mod 16 * 16 + z div 4)]"
  using assms by (simp add: b64_char_neq)

definition b64_pad :: "string \<Rightarrow> string" where
  "b64_pad s = replicate (nat ((- int (length s)) mod 4)) (CHR ''='')"

lemma b64_pad_simps:
  "b64_pad [a, b] = ''==''" "b64_pad [a, b, c] = ''=''" "b64_pad [] = []"
  "b64_pad (a # b # c # d # s) = b64_pad s"
proof -
  show "b64_pad [a, b] = ''==''" "b64_pad [a, b, c] = ''=''" "b64_pad [] = []"
    by (simp_all add: b64_pad_def numeral_2_eq_2)
  have "(- int (length (a # b # c # d # s))) mod 4 = (- int (length s) - 4) mod 4"
    by (simp add: algebra_simps)
  also have "\<dots> = (- int (length s)) mod 4" by (rule minus_mod_self2)
  finally show "b64_pad (a # b # c # d # s) = b64_pad s" by (simp add: b64_pad_def)
qed

lemma a2b_b64: "a2b 0 0 0 (b64 s @ b64_pad (b64 s)) = Some s"
proof (induction s rule: b64.induct)
  case (4 a b c s)
  show ?case
    by (simp only: b64.simps b64_pad_simps append_Cons a2b_quad octet_parts 4 option.map char_of_char)
next
  case (2 a)
  show ?case
    by (simp only: b64.simps b64_pad_simps append_Cons append_Nil a2b_pair octet_parts char_of_char)
next
  case (3 a b)
  show ?case
    by (simp only: b64.simps b64_pad_simps append_Cons append_Nil a2b_triple octet_parts char_of_char)
next
  case 1
  show ?case by (simp add: b64_pad_simps)
qed

lemma unb64_b64: "unb64 (b64 s) = Inr s"
  using a2b_b64 [of s] b64_ascii [of _ s] by (simp add: unb64_def list_all_iff b64_pad_def)

section \<open>The digest interface\<close>

text \<open>
  What the naming and transport layers rely on: a digest of 64 lower-case hexadecimal characters.
  Everything they prove about tags and digest references is proved from this.
\<close>

locale hex_digest =
  fixes hx :: "string \<Rightarrow> string"
  assumes hx_length: "length (hx m) = 64"
    and hx_lower: "list_all is_hex_lower (hx m)"
begin

lemma hx_nonempty: "hx m \<noteq> []"
  using hx_length [of m] by auto

lemma hx_take_append_inj:
  assumes "p @ hx m @ t = p @ hx n @ t"
  shows "hx m = hx n"
  using assms by simp

end

interpretation sha: hex_digest hexdigest
  by unfold_locales (rule hexdigest_length, rule hexdigest_lower)

end
