(* ===== verification/Naming.thy ===== *)
theory Naming
  imports Codecs
begin

text \<open>
  \<^verbatim>\<open>src/src/meridian_storage/adapters/oci/_naming.py\<close>: the deterministic private tags and the
  signed maintenance cursor. The laws of the tags are proved in the digest interface of
  \<open>Codecs\<close> and hold for the sources through its interpretation on SHA-256.
\<close>

section \<open>Tags\<close>

text \<open>\<open>_DIGEST_RE.fullmatch(digest)\<close>, giving the captured hexadecimal part.\<close>

definition digest_match :: "string \<Rightarrow> string option" where
  "digest_match d =
     (if startswith d ''sha256:'' \<and> length d = 71 \<and> list_all is_hex_lower (drop 7 d)
      then Some (drop 7 d) else None)"

definition tag_first :: "char \<Rightarrow> bool" where
  "tag_first c \<longleftrightarrow> is_digit c \<or> (65 \<le> oct c \<and> oct c \<le> 90) \<or> (97 \<le> oct c \<and> oct c \<le> 122) \<or> c = CHR ''_''"

definition tag_rest :: "char \<Rightarrow> bool" where
  "tag_rest c \<longleftrightarrow> tag_first c \<or> c = CHR ''.'' \<or> c = CHR ''-''"

text \<open>\<open>_TAG_RE.fullmatch(value)\<close>.\<close>

definition tag_match :: "string \<Rightarrow> bool" where
  "tag_match s \<longleftrightarrow> s \<noteq> [] \<and> tag_first (hd s) \<and> list_all tag_rest (tl s) \<and> length (tl s) \<le> 127"

text \<open>The object id is hashed in UTF-8, the form it has here; that \<open>encode\<close> raises on a lone surrogate is not modelled.\<close>

definition object_id_hash :: "string \<Rightarrow> string" where
  "object_id_hash object_id = hexdigest object_id"

definition check_tag :: "string \<Rightarrow> exn + string" where
  "check_tag v = (if \<not> tag_match v then Inl (exn_of ValueError ''generated OCI tag is invalid'') else Inr v)"

definition anchor_tag :: "string \<Rightarrow> exn + string" where
  "anchor_tag object_id = check_tag (''m-a1-'' @ object_id_hash object_id)"

definition latest_tag :: "string \<Rightarrow> exn + string" where
  "latest_tag object_id = check_tag (''m-l1-'' @ object_id_hash object_id)"

definition version_tag :: "string \<Rightarrow> string \<Rightarrow> exn + string" where
  "version_tag object_id digest =
     (case digest_match digest of
        None \<Rightarrow> Inl (exn_of ValueError ''OCI version tags require a SHA-256 digest'')
      | Some h \<Rightarrow> check_tag (''m-v1-'' @ take 32 (object_id_hash object_id) @ ''-'' @ h))"

definition version_tag_prefix :: "string option \<Rightarrow> string" where
  "version_tag_prefix object_id =
     (case object_id of None \<Rightarrow> ''m-v1-''
      | Some i \<Rightarrow> ''m-v1-'' @ take 32 (object_id_hash i) @ ''-'')"

section \<open>Cursors\<close>

text \<open>\<open>CursorCodec(key)\<close>: construction, \<open>encode\<close> and \<open>decode\<close>.\<close>

record cursor_codec =
  codec_key :: string

definition mk_cursor_codec :: "string \<Rightarrow> exn + cursor_codec" where
  "mk_cursor_codec key =
     (if length key < 16 then Inl (exn_of ValueError ''cursor signing key must contain at least 16 bytes'')
      else Inr \<lparr>codec_key = key\<rparr>)"

definition cursor_payload :: "string \<Rightarrow> string" where
  "cursor_payload last_tag =
     dumps_ascii (JObj [(''formatVersion'', JStr ''meridian.oci.cursor.v1''), (''last'', JStr last_tag)])"

definition cursor_encode :: "cursor_codec \<Rightarrow> string \<Rightarrow> string" where
  "cursor_encode cc last_tag =
     (let payload = cursor_payload last_tag; signature = hmac_sha256 (codec_key cc) payload
      in ''v1.'' @ b64 payload @ ''.'' @ b64 signature)"

abbreviation bad_cursor :: exn where
  "bad_cursor \<equiv> exn_of ObjectInvalidRequest ''invalid OCI maintenance cursor''"

text \<open>\<open>cursor.split(".", 2)\<close>; fewer than three parts cannot be unpacked.\<close>

definition split3 :: "string \<Rightarrow> exn + string \<times> string \<times> string" where
  "split3 c =
     (let r = after (CHR ''.'') c
      in if CHR ''.'' \<in> set c \<and> CHR ''.'' \<in> set r
         then Inr (before (CHR ''.'') c, before (CHR ''.'') r, after (CHR ''.'') r)
         else Inl (bare_exn ValueError))"

definition cursor_decode :: "cursor_codec \<Rightarrow> string \<Rightarrow> exn + string" where
  "cursor_decode cc c =
     bindE (catchE (bindE (split3 c) (\<lambda>(version, payload_value, signature_value).
              bindE (unb64 payload_value) (\<lambda>payload.
              bindE (unb64 signature_value) (\<lambda>signature. Inr (version, payload, signature)))))
            is_type_or_value_error bad_cursor)
     (\<lambda>(version, payload, signature).
     bindE (guardE (version = ''v1'' \<and> signature = hmac_sha256 (codec_key cc) payload) bad_cursor) (\<lambda>_.
     bindE (catchE (json_loads payload)
              (\<lambda>e. exn_kind_of e \<in> {UnicodeDecodeError, JSONDecodeError}) bad_cursor) (\<lambda>v.
     bindE (guardE (is_obj v \<and> fst ` set (fields_of v) = {''formatVersion'', ''last''}) bad_cursor) (\<lambda>_.
     (case obj_get (fields_of v) ''last'' of
        JStr t \<Rightarrow>
          bindE (guardE (obj_get (fields_of v) ''formatVersion'' = JStr ''meridian.oci.cursor.v1'') bad_cursor) (\<lambda>_.
          bindE (guardE (tag_match t) bad_cursor) (\<lambda>_. Inr t))
      | _ \<Rightarrow> Inl bad_cursor)))))"

section \<open>Laws of the tags\<close>

lemma hex_tag_rest: "is_hex_lower c \<Longrightarrow> tag_rest c"
  unfolding is_hex_lower_def tag_rest_def tag_first_def by linarith

lemma list_all_hex_tag_rest: "list_all is_hex_lower s \<Longrightarrow> list_all tag_rest s"
  by (auto simp: list_all_iff hex_tag_rest)

lemma tag_rest_literals:
  "tag_rest (CHR ''-'')" "tag_rest (CHR ''a'')" "tag_rest (CHR ''l'')" "tag_rest (CHR ''v'')"
  "tag_rest (CHR ''1'')" "tag_first (CHR ''m'')"
  by (simp_all add: tag_rest_def tag_first_def is_digit_def)

lemma digest_match_Some: "digest_match d = Some h \<longleftrightarrow> d = ''sha256:'' @ h \<and> length h = 64 \<and> list_all is_hex_lower h"
  by (auto simp: digest_match_def prefix_def)

context hex_digest
begin

lemma tag_match_hx: "tag_match (''m-a1-'' @ hx m)" "tag_match (''m-l1-'' @ hx m)"
  using hx_length [of m] list_all_hex_tag_rest [OF hx_lower, of m]
  by (simp_all add: tag_match_def tag_rest_literals)

lemma tag_match_version:
  assumes "length h = 64" and "list_all is_hex_lower h"
  shows "tag_match (''m-v1-'' @ take 32 (hx m) @ ''-'' @ h)"
proof -
  have "list_all tag_rest (take 32 (hx m))"
    using list_all_hex_tag_rest [OF hx_lower, of m] by (auto simp: list_all_iff dest: in_set_takeD)
  then show ?thesis
    using hx_length [of m] list_all_hex_tag_rest [OF assms(2)] assms(1)
    by (simp add: tag_match_def tag_rest_literals)
qed

lemma digest_match_hx: "digest_match (''sha256:'' @ hx m) = Some (hx m)"
  using hx_length [of m] hx_lower [of m] by (simp add: digest_match_Some)

lemma take_hx_length: "length (take 32 (hx m)) = 32"
  using hx_length [of m] by simp

end

lemma anchor_tag_eq: "anchor_tag i = Inr (''m-a1-'' @ object_id_hash i)"
  and latest_tag_eq: "latest_tag i = Inr (''m-l1-'' @ object_id_hash i)"
  using sha.tag_match_hx [of i] by (simp_all add: anchor_tag_def latest_tag_def check_tag_def object_id_hash_def)

lemma version_tag_eq:
  "version_tag i d = (case digest_match d of
      None \<Rightarrow> Inl (exn_of ValueError ''OCI version tags require a SHA-256 digest'')
    | Some h \<Rightarrow> Inr (''m-v1-'' @ take 32 (object_id_hash i) @ ''-'' @ h))"
proof (cases "digest_match d")
  case (Some h)
  then have "tag_match (''m-v1-'' @ take 32 (hexdigest i) @ ''-'' @ h)"
    by (intro sha.tag_match_version) (simp_all add: digest_match_Some)
  with Some show ?thesis by (simp add: version_tag_def check_tag_def object_id_hash_def)
qed (simp add: version_tag_def)

lemma digest_match_sha256 [simp]: "digest_match (sha256_digest b) = Some (hexdigest b)"
  unfolding sha256_digest_def by (rule sha.digest_match_hx)

lemma version_tag_sha256:
  "version_tag i (sha256_digest b) = Inr (''m-v1-'' @ take 32 (object_id_hash i) @ ''-'' @ hexdigest b)"
  by (simp add: version_tag_eq)

lemma hex_not_dash: "is_hex_lower c \<Longrightarrow> c \<noteq> CHR ''-''"
  by (auto simp: is_hex_lower_def is_digit_def)

text \<open>A version tag determines the content digest, and with it the first 32 hexadecimal
  characters of the object-id hash: two versions share a tag only if they share both.\<close>

lemma version_tag_injective:
  assumes "version_tag i d = Inr t" and "version_tag j e = Inr t"
  shows "d = e \<and> take 32 (object_id_hash i) = take 32 (object_id_hash j)"
proof -
  obtain g h where g: "digest_match d = Some g" "t = ''m-v1-'' @ take 32 (object_id_hash i) @ ''-'' @ g"
    and h: "digest_match e = Some h" "t = ''m-v1-'' @ take 32 (object_id_hash j) @ ''-'' @ h"
    using assms by (auto simp: version_tag_eq split: option.splits)
  have "length (take 32 (object_id_hash i)) = length (take 32 (object_id_hash j))"
    by (simp add: object_id_hash_def hexdigest_length)
  with g(2) h(2) have "take 32 (object_id_hash i) = take 32 (object_id_hash j)" "g = h"
    by (auto simp: append_eq_append_conv)
  with g(1) h(1) show ?thesis by (simp add: digest_match_Some)
qed


section \<open>Laws of the cursor\<close>

lemma tag_match_ascii: "tag_match t \<Longrightarrow> c \<in> set t \<Longrightarrow> 32 \<le> oct c \<and> oct c < 127"
proof -
  have r: "tag_rest c \<Longrightarrow> 32 \<le> oct c \<and> oct c < 127" for c
  proof (cases "c = CHR ''_'' \<or> c = CHR ''.'' \<or> c = CHR ''-''")
    case False
    then show "tag_rest c \<Longrightarrow> 32 \<le> oct c \<and> oct c < 127"
      unfolding tag_rest_def tag_first_def is_digit_def by linarith
  qed auto
  assume "tag_match t" "c \<in> set t"
  then have "tag_rest c" by (cases t) (auto simp: tag_match_def list_all_iff tag_rest_def)
  then show ?thesis by (rule r)
qed

lemma ascii_text_id: "(\<forall>c \<in> set s. oct c < 127) \<Longrightarrow> ascii_text s = s"
proof (induction s)
  case (Cons c s)
  then have "utf8_len (c # s) = 1" by (simp add: utf8_len_def lead_len_def)
  with Cons show ?case by (subst ascii_text.simps) (simp add: ascii_point_def)
qed (simp add: ascii_text.simps)

lemma escape_plain:
  assumes "\<forall>c \<in> set t. 32 \<le> oct c \<and> oct c < 127"
  shows "\<forall>c \<in> set (quote_str t). oct c < 127"
proof -
  have "\<forall>d \<in> set (escape_char c). oct d < 127" if "32 \<le> oct c" "oct c < 127" for c
    using that by (simp add: escape_char_def)
  with assms show ?thesis by (auto simp: quote_str_def)
qed

definition cursor_object :: "string \<Rightarrow> json" where
  "cursor_object t = JObj [(''formatVersion'', JStr ''meridian.oci.cursor.v1''), (''last'', JStr t)]"

lemma sort_cursor_object: "sort_json (cursor_object t) = cursor_object t"
  by (simp add: cursor_object_def insort_key.simps)

lemma cursor_payload_eq: "tag_match t \<Longrightarrow> cursor_payload t = write_json (cursor_object t)"
proof -
  assume t: "tag_match t"
  have w: "write_json (cursor_object t) = ''{'' @ quote_str ''formatVersion'' @ '':''
      @ quote_str ''meridian.oci.cursor.v1'' @ '','' @ quote_str ''last'' @ '':'' @ quote_str t @ ''}''"
    by (simp add: cursor_object_def)
  have "\<forall>c \<in> set (quote_str ''formatVersion''). oct c < 127" "\<forall>c \<in> set (quote_str ''last''). oct c < 127"
    "\<forall>c \<in> set (quote_str ''meridian.oci.cursor.v1''). oct c < 127" "\<forall>c \<in> set (quote_str t). oct c < 127"
    using tag_match_ascii [OF t] by (intro escape_plain; simp)+
  then have "\<forall>c \<in> set (write_json (cursor_object t)). oct c < 127"
    unfolding w set_append ball_Un by simp
  then show ?thesis
    using ascii_text_id sort_cursor_object [of t]
    by (simp add: cursor_payload_def dumps_ascii_def dumps_sorted_def cursor_object_def)
qed

lemma cursor_object_wf: "tag_match t \<Longrightarrow> json_wf (cursor_object t)"
proof -
  assume t: "tag_match t"
  have "list_all (\<lambda>c. oct c < 128) t" using tag_match_ascii [OF t] by (fastforce simp: list_all_iff)
  then show ?thesis by (simp add: cursor_object_def utf8_ok_ascii)
qed

lemma loads_cursor_payload: "tag_match t \<Longrightarrow> json_loads (cursor_payload t) = Inr (cursor_object t)"
proof -
  assume t: "tag_match t"
  have "decode_json_bytes (write_json (cursor_object t)) = Some (write_json (cursor_object t))"
  proof (rule decode_utf8_object [OF utf8_ok_write [OF cursor_object_wf [OF t]]])
    show "oct (CHR 0x22) \<noteq> 0" by code_simp
  qed (simp add: cursor_object_def quote_str_def)
  then show ?thesis
    by (simp add: cursor_payload_eq [OF t] json_loads_def loads_text_write [OF cursor_object_wf [OF t]])
qed

lemma split3_join:
  assumes "CHR ''.'' \<notin> set a" "CHR ''.'' \<notin> set b"
  shows "split3 (a @ ''.'' @ b @ ''.'' @ c) = Inr (a, b, c)"
proof -
  have t: "takeWhile (\<lambda>x. x \<noteq> CHR ''.'') (a @ ''.'' @ r) = a"
    "dropWhile (\<lambda>x. x \<noteq> CHR ''.'') (a @ ''.'' @ r) = ''.'' @ r"
    if "CHR ''.'' \<notin> set a" for a r
    using that by (auto simp: takeWhile_append dropWhile_append)
  show ?thesis
    using t [OF assms(1), of "b @ ''.'' @ c"] t [OF assms(2), of c]
    by (simp add: split3_def after_def before_def)
qed

text \<open>C33. The cursor round trip: a codec decodes the cursor it encoded for a valid tag back to
  that tag, so a listing resumes exactly where the previous page stopped.\<close>

theorem cursor_roundtrip:
  assumes "tag_match t"
  shows "cursor_decode cc (cursor_encode cc t) = Inr t"
proof -
  have "split3 (cursor_encode cc t)
      = Inr (''v1'', b64 (cursor_payload t), b64 (hmac_sha256 (codec_key cc) (cursor_payload t)))"
    using split3_join [of "''v1''" "b64 (cursor_payload t)"] b64_ascii
    by (fastforce simp: cursor_encode_def Let_def)
  then show ?thesis
    using assms by (auto simp: cursor_decode_def unb64_b64 loads_cursor_payload cursor_object_def obj_get_def)
qed

theorem cursor_roundtrip_witness:
  "tag_match ''m-v1-0a'' \<and>
   cursor_decode \<lparr>codec_key = ''0123456789abcdef''\<rparr> (cursor_encode \<lparr>codec_key = ''0123456789abcdef''\<rparr> ''m-v1-0a'')
     = Inr ''m-v1-0a''"
proof -
  have t: "tag_match ''m-v1-0a''"
    by (simp add: tag_match_def tag_first_def tag_rest_def is_digit_def)
  show ?thesis using t cursor_roundtrip [OF t] by blast
qed

text \<open>C34. Cursor authenticity: a cursor is accepted only if its last part is the HMAC, under the
  codec's key, of the payload its second part decodes to, the payload is the cursor document naming
  the returned tag, and that tag satisfies the tag grammar.\<close>

theorem cursor_decode_authentic:
  assumes "cursor_decode cc c = Inr t"
  shows "\<exists>p s payload ps. split3 c = Inr (''v1'', p, s) \<and> unb64 p = Inr payload
    \<and> unb64 s = Inr (hmac_sha256 (codec_key cc) payload) \<and> json_loads payload = Inr (JObj ps)
    \<and> obj_get ps ''last'' = JStr t \<and> tag_match t"
proof -
  from assms obtain p s payload v where
    "split3 c = Inr (''v1'', p, s)" "unb64 p = Inr payload"
    "unb64 s = Inr (hmac_sha256 (codec_key cc) payload)" "json_loads payload = Inr v"
    and o: "is_obj v" and l: "(case obj_get (fields_of v) ''last'' of
        JStr t \<Rightarrow>
          bindE (guardE (obj_get (fields_of v) ''formatVersion'' = JStr ''meridian.oci.cursor.v1'') bad_cursor) (\<lambda>_.
          bindE (guardE (tag_match t) bad_cursor) (\<lambda>_. Inr t))
      | _ \<Rightarrow> Inl bad_cursor) = Inr t"
    unfolding cursor_decode_def by (auto simp: bindE_Inr_iff)
  moreover from l have v: "obj_get (fields_of v) ''last'' = JStr t" "tag_match t"
    by (cases "obj_get (fields_of v) ''last''"; auto)+
  moreover from o obtain ps where "v = JObj ps" by (cases v) auto
  ultimately show ?thesis by auto
qed

theorem cursor_decode_authentic_witness:
  "\<exists>p s payload ps. split3 (cursor_encode \<lparr>codec_key = ''0123456789abcdef''\<rparr> ''t'') = Inr (''v1'', p, s)
    \<and> unb64 p = Inr payload \<and> unb64 s = Inr (hmac_sha256 ''0123456789abcdef'' payload)
    \<and> json_loads payload = Inr (JObj ps) \<and> obj_get ps ''last'' = JStr ''t'' \<and> tag_match ''t''"
proof -
  let ?cc = "\<lparr>codec_key = ''0123456789abcdef''\<rparr>"
  have "tag_match ''t''" by (simp add: tag_match_def tag_first_def is_digit_def)
  then have "json_loads (cursor_payload ''t'') = Inr (cursor_object ''t'')"
    by (rule loads_cursor_payload)
  moreover have "split3 (cursor_encode ?cc ''t'')
      = Inr (''v1'', b64 (cursor_payload ''t''), b64 (hmac_sha256 ''0123456789abcdef'' (cursor_payload ''t'')))"
    using split3_join [of "''v1''" "b64 (cursor_payload ''t'')"] b64_ascii
    by (fastforce simp: cursor_encode_def Let_def)
  ultimately have "cursor_decode ?cc (cursor_encode ?cc ''t'') = Inr ''t''"
    using \<open>tag_match ''t''\<close> by (auto simp: cursor_decode_def unb64_b64 cursor_object_def obj_get_def)
  from cursor_decode_authentic [OF this] show ?thesis by simp
qed

end
