(* ===== verification/Url.thy ===== *)
theory Url
  imports Prelude
begin

text \<open>
  The parts of \<open>urllib.parse\<close> the sources use: \<open>urlsplit\<close> with the \<open>hostname\<close>, \<open>port\<close>,
  \<open>username\<close> and \<open>password\<close> properties of its result, \<open>urlunsplit\<close>, \<open>urljoin\<close> and
  \<open>quote\<close>, transcribed from the library. Two library checks on exotic hosts are left out: the
  syntax of a bracketed IP literal and the NFKC normalisation of a non-ASCII host.
\<close>

section \<open>Splitting\<close>

record split_result =
  sr_scheme :: string
  sr_netloc :: string
  sr_path :: string
  sr_query :: string
  sr_fragment :: string

definition is_alpha :: "char \<Rightarrow> bool" where
  "is_alpha c \<longleftrightarrow> (65 \<le> (of_char c :: nat) \<and> (of_char c :: nat) \<le> 90) \<or> (97 \<le> (of_char c :: nat) \<and> (of_char c :: nat) \<le> 122)"

definition to_lower :: "char \<Rightarrow> char" where
  "to_lower c = (if 65 \<le> (of_char c :: nat) \<and> (of_char c :: nat) \<le> 90 then char_of (of_char c + 32 :: nat) else c)"

definition scheme_char :: "char \<Rightarrow> bool" where
  "scheme_char c \<longleftrightarrow> is_alpha c \<or> is_digit c \<or> c = CHR ''+'' \<or> c = CHR ''-'' \<or> c = CHR ''.''"

definition strip_url :: "string \<Rightarrow> string" where
  "strip_url u = filter (\<lambda>c. c \<noteq> CHR 0x09 \<and> c \<noteq> CHR 0x0D \<and> c \<noteq> CHR 0x0A)
     (dropWhile (\<lambda>c. (of_char c :: nat) \<le> 32) u)"

definition split_scheme :: "string \<Rightarrow> string \<Rightarrow> string \<times> string" where
  "split_scheme dflt u =
     (let s = before (CHR '':'') u
      in if CHR '':'' \<in> set u \<and> s \<noteq> [] \<and> is_alpha (hd u) \<and> list_all scheme_char s
         then (map to_lower s, after (CHR '':'') u) else (dflt, u))"

definition netloc_delim :: "char \<Rightarrow> bool" where
  "netloc_delim c \<longleftrightarrow> c = CHR ''/'' \<or> c = CHR ''?'' \<or> c = CHR ''#''"

definition urlsplit_with :: "string \<Rightarrow> string \<Rightarrow> exn + split_result" where
  "urlsplit_with dflt url =
     (case split_scheme dflt (strip_url url) of (scheme, u) \<Rightarrow>
      let has = startswith u ''//'';
          netloc = (if has then takeWhile (\<lambda>c. \<not> netloc_delim c) (drop 2 u) else []);
          u1 = (if has then dropWhile (\<lambda>c. \<not> netloc_delim c) (drop 2 u) else u);
          u2 = before (CHR ''#'') u1;
          fragment = after (CHR ''#'') u1
      in if (CHR ''['' \<in> set netloc) \<noteq> (CHR '']'' \<in> set netloc)
         then Inl (exn_of ValueError ''Invalid IPv6 URL'')
         else Inr \<lparr>sr_scheme = scheme, sr_netloc = netloc, sr_path = before (CHR ''?'') u2,
                   sr_query = after (CHR ''?'') u2, sr_fragment = fragment\<rparr>)"

abbreviation urlsplit :: "string \<Rightarrow> exn + split_result" where
  "urlsplit url \<equiv> urlsplit_with [] url"

text \<open>\<open>netloc.rpartition("@")\<close>.\<close>

definition host_info :: "string \<Rightarrow> string" where
  "host_info netloc = rsplit_last (CHR ''@'') netloc"

definition sr_username :: "split_result \<Rightarrow> string option" where
  "sr_username r =
     (if CHR ''@'' \<in> set (sr_netloc r)
      then Some (before (CHR '':'') (take (length (sr_netloc r) - length (host_info (sr_netloc r)) - 1) (sr_netloc r)))
      else None)"

definition sr_password :: "split_result \<Rightarrow> string option" where
  "sr_password r =
     (let userinfo = take (length (sr_netloc r) - length (host_info (sr_netloc r)) - 1) (sr_netloc r)
      in if CHR ''@'' \<in> set (sr_netloc r) \<and> CHR '':'' \<in> set userinfo
         then Some (after (CHR '':'') userinfo) else None)"

definition host_port :: "split_result \<Rightarrow> string \<times> string" where
  "host_port r =
     (let h = host_info (sr_netloc r)
      in if CHR ''['' \<in> set h
         then (let b = after (CHR ''['') h
               in (before (CHR '']'') b, after (CHR '':'') (after (CHR '']'') b)))
         else (before (CHR '':'') h, after (CHR '':'') h))"

definition sr_hostname :: "split_result \<Rightarrow> string option" where
  "sr_hostname r =
     (let h = fst (host_port r)
      in if h = [] then None
         else Some (map to_lower (before (CHR ''%'') h) @ dropWhile (\<lambda>c. c \<noteq> CHR ''%'') h))"

definition sr_port :: "split_result \<Rightarrow> exn + nat option" where
  "sr_port r =
     (let p = snd (host_port r)
      in if p = [] then Inr None
         else if \<not> py_isdigit p then Inl (exn_of ValueError ''Port could not be cast to integer value'')
         else if 65535 < digits_val p then Inl (exn_of ValueError ''Port out of range 0-65535'')
         else Inr (Some (digits_val p)))"

section \<open>Joining\<close>

definition uses_relative :: "string list" where
  "uses_relative = ['''', ''ftp'', ''http'', ''gopher'', ''nntp'', ''imap'', ''wais'', ''file'', ''https'',
     ''shttp'', ''mms'', ''prospero'', ''rtsp'', ''rtsps'', ''rtspu'', ''sftp'', ''svn'', ''svn+ssh'', ''ws'', ''wss'']"

definition uses_netloc :: "string list" where
  "uses_netloc = ['''', ''ftp'', ''http'', ''gopher'', ''nntp'', ''telnet'', ''imap'', ''wais'', ''file'', ''mms'',
     ''https'', ''shttp'', ''snews'', ''prospero'', ''rtsp'', ''rtsps'', ''rtspu'', ''rsync'', ''svn'', ''svn+ssh'',
     ''sftp'', ''nfs'', ''git'', ''git+ssh'', ''ws'', ''wss'', ''itms-services'']"

definition uses_params :: "string list" where
  "uses_params = ['''', ''ftp'', ''hdl'', ''prospero'', ''http'', ''imap'', ''https'', ''shttp'', ''rtsp'', ''rtsps'',
     ''rtspu'', ''sip'', ''sips'', ''mms'', ''sftp'', ''tel'']"

definition urlunsplit :: "split_result \<Rightarrow> string" where
  "urlunsplit r =
     (let u = sr_path r;
          u1 = (if sr_netloc r \<noteq> [] \<or> (sr_scheme r \<noteq> [] \<and> sr_scheme r \<in> set uses_netloc \<and> \<not> startswith u ''//'')
                then ''//'' @ sr_netloc r @ (if u \<noteq> [] \<and> \<not> startswith u ''/'' then ''/'' @ u else u) else u);
          u2 = (if sr_scheme r \<noteq> [] then sr_scheme r @ '':'' @ u1 else u1);
          u3 = (if sr_query r \<noteq> [] then u2 @ ''?'' @ sr_query r else u2)
      in if sr_fragment r \<noteq> [] then u3 @ ''#'' @ sr_fragment r else u3)"

text \<open>\<open>_splitparams\<close>: the parameters follow the first semicolon of the last segment.\<close>

definition split_params :: "string \<Rightarrow> string \<Rightarrow> string \<times> string" where
  "split_params scheme path =
     (let seg = rsplit_last (CHR ''/'') path; dir = take (length path - length seg) path
      in if scheme \<in> set uses_params \<and> CHR '';'' \<in> set seg
         then (dir @ before (CHR '';'') seg, after (CHR '';'') seg) else (path, []))"

definition with_params :: "string \<Rightarrow> string \<Rightarrow> string" where
  "with_params path params = (if params \<noteq> [] then path @ '';'' @ params else path)"

fun resolve_segments :: "string list \<Rightarrow> string list \<Rightarrow> string list" where
  "resolve_segments acc [] = acc"
| "resolve_segments acc (s # ss) =
     (if s = ''..'' then resolve_segments (butlast acc) ss
      else if s = ''.'' then resolve_segments acc ss
      else resolve_segments (acc @ [s]) ss)"

definition join_path :: "string \<Rightarrow> string \<Rightarrow> string" where
  "join_path bpath path =
     (let bp = split_char (CHR ''/'') bpath;
          base_parts = (if last bp \<noteq> [] then butlast bp else bp);
          raw = split_char (CHR ''/'') path;
          all = base_parts @ raw;
          segs = (if startswith path ''/'' then raw
                  else if length all \<le> 2 then all
                  else hd all # filter (\<lambda>s. s \<noteq> []) (butlast (tl all)) @ [last all]);
          res = resolve_segments [] segs;
          res' = (if last segs \<in> {''.'', ''..''} then res @ [[]] else res);
          j = join ''/'' res'
      in if j = [] then ''/'' else j)"

definition urljoin :: "string \<Rightarrow> string \<Rightarrow> exn + string" where
  "urljoin base url =
     (if base = [] then Inr url else if url = [] then Inr base
      else bindE (urlsplit base) (\<lambda>b.
           bindE (urlsplit_with (sr_scheme b) url) (\<lambda>r.
           let (bpath, bparams) = split_params (sr_scheme b) (sr_path b);
               (path, params) = split_params (sr_scheme r) (sr_path r)
           in if sr_scheme r \<noteq> sr_scheme b \<or> sr_scheme r \<notin> set uses_relative then Inr url
              else if sr_scheme r \<in> set uses_netloc \<and> sr_netloc r \<noteq> []
              then Inr (urlunsplit (r\<lparr>sr_path := with_params path params\<rparr>))
              else (let r' = (if sr_scheme r \<in> set uses_netloc then r\<lparr>sr_netloc := sr_netloc b\<rparr> else r)
                in if path = [] \<and> params = []
                   then Inr (urlunsplit (r'\<lparr>sr_path := with_params bpath bparams,
                              sr_query := (if sr_query r = [] then sr_query b else sr_query r)\<rparr>))
                   else Inr (urlunsplit (r'\<lparr>sr_path := with_params (join_path bpath path) params\<rparr>))))))"

section \<open>Quoting\<close>

definition hex_upper :: "nat \<Rightarrow> char" where
  "hex_upper n = char_of (if n < 10 then 48 + n else 55 + n)"

definition always_safe :: "char \<Rightarrow> bool" where
  "always_safe c \<longleftrightarrow> is_alpha c \<or> is_digit c \<or> c = CHR ''_'' \<or> c = CHR ''.'' \<or> c = CHR ''-'' \<or> c = CHR ''~''"

definition quote :: "string \<Rightarrow> string \<Rightarrow> string" where
  "quote safe s = concat (map (\<lambda>c. if always_safe c \<or> c \<in> set safe then [c]
     else [CHR ''%'', hex_upper (of_char c div 16), hex_upper (of_char c mod 16)]) s)"

lemma quote_safe: "(\<forall>c \<in> set s. always_safe c \<or> c \<in> set safe) \<Longrightarrow> quote safe s = s"
  by (induction s) (auto simp: quote_def)

end
