(* ===== verification/Config.thy ===== *)
theory Config
  imports Naming Url
begin

text \<open>
  \<^verbatim>\<open>src/src/meridian_storage/adapters/oci/descriptor/config.py\<close>: credentials, the private binding
  and its validation.

  Constructor arguments are dynamically typed in the source and checked with \<open>isinstance\<close>, so the
  arguments are values of \<open>pyval\<close>, and a constructed binding (\<open>binding\<close>) has the fields at the types
  the checks establish. \<open>ResourceRef.parse\<close> and \<open>secrets.token_bytes\<close> are not code of the
  repository; the constructor takes the parser and the generated token as arguments.
\<close>

section \<open>Dynamically typed arguments\<close>

text \<open>A finite float is \<open>m * 2 ^ e\<close>; \<open>Infinite True\<close> is \<open>-inf\<close>.\<close>

datatype pyfloat = Finite_float int int | Infinite bool | NaN

datatype pyval = PyNone | PyBool bool | PyInt int | PyFloat pyfloat | PyStr string | PyBytes string

fun float_le_zero :: "pyfloat \<Rightarrow> bool" where
  "float_le_zero (Finite_float m e) = (m \<le> 0)"
| "float_le_zero (Infinite neg) = neg"
| "float_le_zero NaN = False"

fun truthy :: "pyval \<Rightarrow> bool" where
  "truthy PyNone = False"
| "truthy (PyBool b) = b"
| "truthy (PyInt i) = (i \<noteq> 0)"
| "truthy (PyFloat f) = (case f of Finite_float m e \<Rightarrow> m \<noteq> 0 | _ \<Rightarrow> True)"
| "truthy (PyStr s) = (s \<noteq> [])"
| "truthy (PyBytes s) = (s \<noteq> [])"

text \<open>\<open>len(text)\<close> counts code points: the octets that do not continue a sequence.\<close>

definition py_len :: "string \<Rightarrow> nat" where
  "py_len s = length (filter (\<lambda>c. \<not> (128 \<le> oct c \<and> oct c < 192)) s)"

text \<open>The code points \<open>str.strip\<close> removes, in UTF-8, and the test \<open>not text.strip()\<close>.\<close>

definition space_encodings :: "string list" where
  "space_encodings = map (map (char_of :: nat \<Rightarrow> char))
     ([[9], [10], [11], [12], [13], [28], [29], [30], [31], [32], [194, 133], [194, 160], [225, 154, 128],
       [226, 128, 168], [226, 128, 169], [226, 128, 175], [226, 129, 159], [227, 128, 128]]
      @ map (\<lambda>n. [226, 128, 128 + n]) [0..<11])"

function py_blank :: "string \<Rightarrow> bool" where
  "py_blank s = (s = [] \<or>
     (case List.find (\<lambda>e. prefix e s \<and> e \<noteq> []) space_encodings of
        None \<Rightarrow> False
      | Some e \<Rightarrow> py_blank (drop (length e) s)))"
  by pat_completeness auto
termination
proof (relation "measure length", goal_cases)
  case (2 s e)
  then have "prefix e s" "e \<noteq> []" by (auto simp: find_Some_iff)
  then show ?case by (auto simp: prefix_def)
qed simp

declare py_blank.simps [simp del]

definition single_line :: "string \<Rightarrow> bool" where
  "single_line s \<longleftrightarrow> CHR 0x0D \<notin> set s \<and> CHR 0x0A \<notin> set s"

section \<open>Credentials\<close>

text \<open>\<open>OtherCredentials\<close> stands for a caller's own implementation of the protocol, \<open>NotCredentials\<close>
  for an object without \<open>authorization_header\<close>.\<close>

datatype 'w credentials =
    AnonymousCredentials
  | BasicCredentials string string
  | BearerCredentials string
  | CallbackCredentials "('w, pyval) io"
  | OtherCredentials "('w, string option) io"
  | NotCredentials

definition mk_basic_credentials :: "string \<Rightarrow> string \<Rightarrow> exn + 'w credentials" where
  "mk_basic_credentials username password =
     (if username = [] \<or> \<not> single_line username
      then Inl (exn_of ValueError ''basic-auth username must be non-empty and single-line'')
      else if password = [] \<or> \<not> single_line password
      then Inl (exn_of ValueError ''basic-auth password must be non-empty and single-line'')
      else Inr (BasicCredentials username password))"

definition mk_bearer_credentials :: "string \<Rightarrow> exn + 'w credentials" where
  "mk_bearer_credentials token =
     (if token = [] \<or> \<not> single_line token
      then Inl (exn_of ValueError ''bearer token must be non-empty and single-line'')
      else Inr (BearerCredentials token))"

text \<open>\<open>base64.b64encode\<close>: the standard alphabet, padded.\<close>

definition b64_std :: "string \<Rightarrow> string" where
  "b64_std s =
     (let t = map (\<lambda>c. if c = CHR ''-'' then CHR ''+'' else if c = CHR ''_'' then CHR ''/'' else c) (b64 s)
      in t @ replicate ((4 - length t mod 4) mod 4) (CHR ''=''))"

definition resolved_header :: "pyval \<Rightarrow> exn + string option" where
  "resolved_header v =
     (case v of
        PyNone \<Rightarrow> Inr None
      | PyStr s \<Rightarrow> if s = [] \<or> \<not> single_line s
          then Inl (exn_of ValueError ''resolved Authorization header must be non-empty and single-line'')
          else Inr (Some s)
      | _ \<Rightarrow> Inl (exn_of ValueError ''resolved Authorization header must be non-empty and single-line''))"

fun authorization_header :: "'w credentials \<Rightarrow> ('w, string option) io" where
  "authorization_header AnonymousCredentials = ret None"
| "authorization_header (BasicCredentials u p) = ret (Some (''Basic '' @ b64_std (u @ '':'' @ p)))"
| "authorization_header (BearerCredentials t) = ret (Some (''Bearer '' @ t))"
| "authorization_header (CallbackCredentials resolver) = bnd resolver (\<lambda>v. lift (resolved_header v))"
| "authorization_header (OtherCredentials provider) = provider"
| "authorization_header NotCredentials = raise (bare_exn (OtherError ''AttributeError''))"

section \<open>Grammars\<close>

definition lower_alnum :: "char \<Rightarrow> bool" where
  "lower_alnum c \<longleftrightarrow> is_digit c \<or> (97 \<le> oct c \<and> oct c \<le> 122)"

text \<open>One path component of \<open>_REPOSITORY_RE\<close>: runs of lower-case alphanumerics joined by
  \<open>.\<close>, \<open>_\<close>, \<open>__\<close> or a run of dashes. The separators are not alphanumeric, so greedy splitting
  finds the only possible parse.\<close>

definition repo_separator :: "string \<Rightarrow> bool" where
  "repo_separator s \<longleftrightarrow> s = ''.'' \<or> s = ''_'' \<or> s = ''__'' \<or> (s \<noteq> [] \<and> list_all (\<lambda>c. c = CHR ''-'') s)"

function repo_component :: "string \<Rightarrow> bool" where
  "repo_component s =
     (let rest = dropWhile lower_alnum s
      in if takeWhile lower_alnum s = [] then False
         else if rest = [] then True
         else if \<not> repo_separator (takeWhile (\<lambda>c. \<not> lower_alnum c) rest) then False
         else repo_component (dropWhile (\<lambda>c. \<not> lower_alnum c) rest))"
  by pat_completeness auto
termination
proof (relation "measure length", goal_cases)
  case (2 s rest)
  have "length (dropWhile (\<lambda>c. \<not> lower_alnum c) rest) \<le> length rest" by (rule length_dropWhile_le)
  moreover have "length (takeWhile lower_alnum s) + length rest = length s"
    using 2(1) by (simp flip: length_append)
  ultimately show ?case using 2(2) by (cases "takeWhile lower_alnum s") auto
qed simp

declare repo_component.simps [simp del]

definition repository_match :: "string \<Rightarrow> bool" where
  "repository_match s \<longleftrightarrow> list_all repo_component (split_char (CHR ''/'') s)"

definition image_rest :: "char \<Rightarrow> bool" where
  "image_rest c \<longleftrightarrow> is_alpha c \<or> is_digit c \<or> c \<in> set ''._/:-''"

text \<open>The pattern of \<open>registry_image\<close>: its name part has no \<open>@\<close>.\<close>

definition image_match :: "string \<Rightarrow> bool" where
  "image_match s \<longleftrightarrow>
     (let name = before (CHR ''@'') s; d = after (CHR ''@'') s
      in CHR ''@'' \<in> set s \<and> name \<noteq> [] \<and> (is_alpha (hd name) \<or> is_digit (hd name))
         \<and> list_all image_rest (tl name) \<and> digest_match d \<noteq> None)"

section \<open>Field checks\<close>

definition endpoint_checked :: "pyval \<Rightarrow> bool \<Rightarrow> exn + string" where
  "endpoint_checked value allow_http =
     (case value of
        PyStr v \<Rightarrow>
          bindE (urlsplit v) (\<lambda>parsed.
          bindE (catchE (sr_port parsed) is_value_error (exn_of ValueError ''endpoint contains an invalid port'')) (\<lambda>_.
          bindE (guardE (sr_scheme parsed \<in> (if allow_http then {''https'', ''http''} else {''https''}))
                   (exn_of ValueError ''endpoint must use HTTPS unless insecure HTTP is explicitly allowed'')) (\<lambda>_.
          bindE (guardE (sr_hostname parsed \<noteq> None \<and> sr_username parsed = None \<and> sr_password parsed = None)
                   (exn_of ValueError ''endpoint must contain a host and no userinfo'')) (\<lambda>_.
          bindE (guardE (sr_query parsed = [] \<and> sr_fragment parsed = [] \<and> sr_path parsed \<in> {'''', ''/''})
                   (exn_of ValueError ''endpoint cannot contain a path, query, or fragment'')) (\<lambda>_.
          Inr (rev (dropWhile (\<lambda>c. c = CHR ''/'')
            (rev (urlunsplit (parsed\<lparr>sr_path := [], sr_query := [], sr_fragment := []\<rparr>)))))) ))))
      | _ \<Rightarrow> Inl (exn_of TypeError ''endpoint must be a string''))"

definition positive_number :: "pyval \<Rightarrow> string \<Rightarrow> exn + pyval" where
  "positive_number value name =
     (case value of
        PyInt i \<Rightarrow> if i \<le> 0 then Inl (exn_of ValueError (name @ '' must be positive'')) else Inr value
      | PyFloat f \<Rightarrow> if float_le_zero f then Inl (exn_of ValueError (name @ '' must be positive'')) else Inr value
      | _ \<Rightarrow> Inl (exn_of ValueError (name @ '' must be positive'')))"

definition bounded_int :: "pyval \<Rightarrow> string \<Rightarrow> int \<Rightarrow> int option \<Rightarrow> exn + int" where
  "bounded_int value name minimum maximum =
     (case value of
        PyInt i \<Rightarrow>
          if i < minimum then Inl (exn_of ValueError (name @ '' must be an integer of at least '' @ str_int minimum))
          else (case maximum of
                  None \<Rightarrow> Inr i
                | Some m \<Rightarrow> if m < i then Inl (exn_of ValueError (name @ '' must not exceed '' @ str_int m)) else Inr i)
      | _ \<Rightarrow> Inl (exn_of ValueError (name @ '' must be an integer of at least '' @ str_int minimum)))"

definition boolean_field :: "pyval \<Rightarrow> string \<Rightarrow> exn + bool" where
  "boolean_field value name =
     (case value of PyBool b \<Rightarrow> Inr b | _ \<Rightarrow> Inl (exn_of TypeError (name @ '' must be boolean'')))"

definition release_field :: "pyval \<Rightarrow> exn + string option" where
  "release_field value =
     (case value of
        PyNone \<Rightarrow> Inr None
      | PyStr s \<Rightarrow>
          if py_blank s \<or> 128 < py_len s \<or> \<not> list_all (\<lambda>c. 32 \<le> oct c) s
          then Inl (exn_of ValueError ''registry_release must be a non-empty single-line provenance label'')
          else Inr (Some s)
      | _ \<Rightarrow> Inl (exn_of ValueError ''registry_release must be a non-empty single-line provenance label''))"

definition image_field :: "pyval \<Rightarrow> exn + string option" where
  "image_field value =
     (case value of
        PyNone \<Rightarrow> Inr None
      | PyStr s \<Rightarrow>
          if 512 < py_len s \<or> contains s ''://'' \<or> \<not> image_match s
          then Inl (exn_of ValueError ''registry_image must be an immutable image reference with SHA-256'')
          else Inr (Some s)
      | _ \<Rightarrow> Inl (exn_of ValueError ''registry_image must be an immutable image reference with SHA-256''))"

definition cursor_key_field :: "string \<Rightarrow> pyval \<Rightarrow> exn + string" where
  "cursor_key_field token value =
     (case (if value = PyNone then PyBytes token else value) of
        PyBytes k \<Rightarrow> if length k < 16 then Inl (exn_of ValueError ''cursor_signing_key must contain at least 16 bytes'')
                     else Inr k
      | _ \<Rightarrow> Inl (exn_of ValueError ''cursor_signing_key must contain at least 16 bytes''))"

datatype verify_tls = VerifyBool bool | CaBundle string

definition verify_field :: "pyval \<Rightarrow> exn + verify_tls" where
  "verify_field value =
     (case value of
        PyBool b \<Rightarrow> Inr (VerifyBool b)
      | PyStr s \<Rightarrow> if s = [] then Inl (exn_of TypeError ''verify_tls must be a boolean or non-empty CA-bundle path'')
                   else Inr (CaBundle s)
      | _ \<Rightarrow> Inl (exn_of TypeError ''verify_tls must be a boolean or non-empty CA-bundle path''))"

definition repository_field :: "pyval \<Rightarrow> exn + string" where
  "repository_field value =
     (case value of
        PyStr s \<Rightarrow> if \<not> repository_match s
          then Inl (exn_of ValueError ''repository does not match the OCI Distribution name grammar'') else Inr s
      | _ \<Rightarrow> Inl (bare_exn TypeError))"

datatype create_mode = SingleWriter | RegistryEnforced

primrec mode_name :: "create_mode \<Rightarrow> string" where
  "mode_name SingleWriter = ''single-writer''"
| "mode_name RegistryEnforced = ''registry-enforced''"

definition mode_field :: "pyval \<Rightarrow> exn + create_mode" where
  "mode_field value =
     (if value = PyStr ''single-writer'' then Inr SingleWriter
      else if value = PyStr ''registry-enforced'' then Inr RegistryEnforced
      else Inl (exn_of ValueError ''conditional_create_mode must be single-writer or registry-enforced''))"

section \<open>The binding\<close>

text \<open>A parsed \<open>ResourceRef\<close>: its parts and its canonical text, computed by the core package.\<close>

record resource_ref =
  rr_namespace :: string
  rr_name :: string
  rr_canonical :: string

record ('w, 'r) binding_args =
  a_resource :: 'r
  a_endpoint :: pyval
  a_repository :: pyval
  a_credentials :: "'w credentials"
  a_verify_tls :: pyval
  a_allow_insecure_http :: pyval
  a_timeout_seconds :: pyval
  a_chunk_size :: pyval
  a_max_object_bytes :: pyval
  a_max_range_bytes :: pyval
  a_max_manifest_bytes :: pyval
  a_max_metadata_bytes :: pyval
  a_max_list_page_size :: pyval
  a_max_scan_tags :: pyval
  a_max_multipart_parts :: pyval
  a_conditional_create_mode :: pyval
  a_deletion_enabled :: pyval
  a_retention_enforced :: pyval
  a_referrers_required :: pyval
  a_cursor_signing_key :: pyval
  a_registry_release :: pyval
  a_registry_image :: pyval

text \<open>The dataclass defaults.\<close>

definition default_binding_args :: "'r \<Rightarrow> string \<Rightarrow> string \<Rightarrow> ('w, 'r) binding_args" where
  "default_binding_args resource endpoint repository =
     \<lparr>a_resource = resource, a_endpoint = PyStr endpoint, a_repository = PyStr repository,
      a_credentials = AnonymousCredentials, a_verify_tls = PyBool True, a_allow_insecure_http = PyBool False,
      a_timeout_seconds = PyFloat (Finite_float 30 0), a_chunk_size = PyInt (4 * 1024 * 1024),
      a_max_object_bytes = PyInt (5 * 1024 ^ 4), a_max_range_bytes = PyInt (256 * 1024 * 1024),
      a_max_manifest_bytes = PyInt (4 * 1024 * 1024), a_max_metadata_bytes = PyInt (512 * 1024),
      a_max_list_page_size = PyInt 1000, a_max_scan_tags = PyInt 2000, a_max_multipart_parts = PyInt 10000,
      a_conditional_create_mode = PyStr ''single-writer'', a_deletion_enabled = PyBool False,
      a_retention_enforced = PyBool False, a_referrers_required = PyBool False,
      a_cursor_signing_key = PyNone, a_registry_release = PyNone, a_registry_image = PyNone\<rparr>"

record 'w binding =
  b_resource :: resource_ref
  b_endpoint :: string
  b_repository :: string
  b_credentials :: "'w credentials"
  b_verify_tls :: verify_tls
  b_allow_insecure_http :: bool
  b_timeout_seconds :: pyval
  b_chunk_size :: int
  b_max_object_bytes :: int
  b_max_range_bytes :: int
  b_max_manifest_bytes :: int
  b_max_metadata_bytes :: int
  b_max_list_page_size :: int
  b_max_scan_tags :: int
  b_max_multipart_parts :: int
  b_conditional_create_mode :: create_mode
  b_deletion_enabled :: bool
  b_retention_enforced :: bool
  b_referrers_required :: bool
  b_cursor_signing_key :: string
  b_registry_release :: "string option"
  b_registry_image :: "string option"

text \<open>\<open>OciDistributionBinding.__post_init__\<close>, the checks in the order of the source.\<close>

definition mk_binding ::
  "('r \<Rightarrow> exn + resource_ref) \<Rightarrow> string \<Rightarrow> ('w, 'r) binding_args \<Rightarrow> exn + 'w binding" where
  "mk_binding parse_resource token a =
     bindE (parse_resource (a_resource a)) (\<lambda>resource.
     bindE (endpoint_checked (a_endpoint a) (truthy (a_allow_insecure_http a))) (\<lambda>endpoint.
     bindE (repository_field (a_repository a)) (\<lambda>repository.
     bindE (guardE (case a_credentials a of NotCredentials \<Rightarrow> False | _ \<Rightarrow> True)
              (exn_of TypeError ''credentials must implement CredentialProvider'')) (\<lambda>_.
     bindE (verify_field (a_verify_tls a)) (\<lambda>verify_tls.
     bindE (positive_number (a_timeout_seconds a) ''timeout_seconds'') (\<lambda>timeout.
     bindE (bounded_int (a_chunk_size a) ''chunk_size'' (64 * 1024) (Some (16 * 1024 * 1024))) (\<lambda>chunk_size.
     bindE (bounded_int (a_max_object_bytes a) ''max_object_bytes'' 1 None) (\<lambda>max_object_bytes.
     bindE (bounded_int (a_max_range_bytes a) ''max_range_bytes'' 1 None) (\<lambda>max_range_bytes.
     bindE (bounded_int (a_max_manifest_bytes a) ''max_manifest_bytes'' 1024 None) (\<lambda>max_manifest_bytes.
     bindE (bounded_int (a_max_metadata_bytes a) ''max_metadata_bytes'' 1024 None) (\<lambda>max_metadata_bytes.
     bindE (bounded_int (a_max_list_page_size a) ''max_list_page_size'' 1 (Some 1000)) (\<lambda>max_list_page_size.
     bindE (bounded_int (a_max_scan_tags a) ''max_scan_tags'' max_list_page_size None) (\<lambda>max_scan_tags.
     bindE (bounded_int (a_max_multipart_parts a) ''max_multipart_parts'' 1 (Some 100000)) (\<lambda>max_multipart_parts.
     bindE (mode_field (a_conditional_create_mode a)) (\<lambda>mode.
     bindE (boolean_field (a_allow_insecure_http a) ''allow_insecure_http'') (\<lambda>allow_insecure_http.
     bindE (boolean_field (a_deletion_enabled a) ''deletion_enabled'') (\<lambda>deletion_enabled.
     bindE (boolean_field (a_retention_enforced a) ''retention_enforced'') (\<lambda>retention_enforced.
     bindE (boolean_field (a_referrers_required a) ''referrers_required'') (\<lambda>referrers_required.
     bindE (release_field (a_registry_release a)) (\<lambda>registry_release.
     bindE (image_field (a_registry_image a)) (\<lambda>registry_image.
     bindE (cursor_key_field token (a_cursor_signing_key a)) (\<lambda>cursor_key.
     Inr \<lparr>b_resource = resource, b_endpoint = endpoint, b_repository = repository,
          b_credentials = a_credentials a, b_verify_tls = verify_tls, b_allow_insecure_http = allow_insecure_http,
          b_timeout_seconds = timeout, b_chunk_size = chunk_size, b_max_object_bytes = max_object_bytes,
          b_max_range_bytes = max_range_bytes, b_max_manifest_bytes = max_manifest_bytes,
          b_max_metadata_bytes = max_metadata_bytes, b_max_list_page_size = max_list_page_size,
          b_max_scan_tags = max_scan_tags, b_max_multipart_parts = max_multipart_parts,
          b_conditional_create_mode = mode, b_deletion_enabled = deletion_enabled,
          b_retention_enforced = retention_enforced, b_referrers_required = referrers_required,
          b_cursor_signing_key = cursor_key, b_registry_release = registry_release,
          b_registry_image = registry_image\<rparr>))))))))))))))))))))))"

definition binding_origin :: "'w binding \<Rightarrow> exn + string \<times> string \<times> nat option" where
  "binding_origin b =
     bindE (urlsplit (b_endpoint b)) (\<lambda>v.
     bindE (sr_port v) (\<lambda>port.
     Inr (sr_scheme v, (case sr_hostname v of None \<Rightarrow> [] | Some h \<Rightarrow> h), port)))"

definition py_bool_text :: "bool \<Rightarrow> string" where
  "py_bool_text b = (if b then ''True'' else ''False'')"

definition public_fingerprint :: "'w binding \<Rightarrow> string" where
  "public_fingerprint b =
     ''sha256:'' @ hexdigest (rr_canonical (b_resource b) @ ''|'' @ mode_name (b_conditional_create_mode b)
       @ ''|'' @ py_bool_text (b_deletion_enabled b))"

section \<open>URLs with a validated authority\<close>

definition url_clean :: "char \<Rightarrow> bool" where
  "url_clean c \<longleftrightarrow> c \<noteq> CHR 0x09 \<and> c \<noteq> CHR 0x0D \<and> c \<noteq> CHR 0x0A"

text \<open>The authority part of a normalised endpoint: no delimiter, no userinfo, no stripped character.\<close>

definition plain_authority :: "string \<Rightarrow> bool" where
  "plain_authority n \<longleftrightarrow> n \<noteq> [] \<and> list_all (\<lambda>c. \<not> netloc_delim c \<and> url_clean c \<and> c \<noteq> CHR ''@'') n
     \<and> (CHR ''['' \<in> set n) = (CHR '']'' \<in> set n)"

lemma strip_url_filter: "strip_url u = filter url_clean (dropWhile (\<lambda>c. oct c \<le> 32) u)"
  by (simp add: strip_url_def url_clean_def cong: filter_cong)

lemma http_schemes:
  assumes "s = ''https'' \<or> s = ''http''"
  shows "split_scheme d (s @ '':'' @ u) = (s, u)" "strip_url (s @ '':'' @ u) = s @ '':'' @ filter url_clean u"
  using assms
  by (auto simp: split_scheme_def before_def after_def is_alpha_def scheme_char_def to_lower_def
      strip_url_filter url_clean_def)

lemma takeWhile_authority:
  assumes "plain_authority n" and "p = [] \<or> netloc_delim (hd p)"
  shows "takeWhile (\<lambda>c. \<not> netloc_delim c) (n @ p) = n" "dropWhile (\<lambda>c. \<not> netloc_delim c) (n @ p) = p"
proof -
  have n: "\<forall>c \<in> set n. \<not> netloc_delim c"
    using assms(1) by (auto simp: plain_authority_def list_all_iff)
  have "takeWhile (\<lambda>c. \<not> netloc_delim c) p = []" "dropWhile (\<lambda>c. \<not> netloc_delim c) p = p"
    using assms(2) by (cases p; auto)+
  with n show "takeWhile (\<lambda>c. \<not> netloc_delim c) (n @ p) = n"
    "dropWhile (\<lambda>c. \<not> netloc_delim c) (n @ p) = p"
    by (simp_all add: takeWhile_append dropWhile_append)
qed

lemma filter_clean_hd:
  assumes "p = [] \<or> netloc_delim (hd p)"
  shows "filter url_clean p = [] \<or> netloc_delim (hd (filter url_clean p))"
  using assms by (cases p) (auto simp: netloc_delim_def url_clean_def)

lemma urlsplit_authority:
  assumes "s = ''https'' \<or> s = ''http''" and "plain_authority n" and "p = [] \<or> netloc_delim (hd p)"
  shows "urlsplit_with d (s @ ''://'' @ n @ p) = Inr \<lparr>sr_scheme = s, sr_netloc = n,
     sr_path = before (CHR ''?'') (before (CHR ''#'') (filter url_clean p)),
     sr_query = after (CHR ''?'') (before (CHR ''#'') (filter url_clean p)),
     sr_fragment = after (CHR ''#'') (filter url_clean p)\<rparr>"
proof -
  have n: "filter url_clean n = n"
    using assms(2) by (auto simp: plain_authority_def list_all_iff filter_id_conv)
  have c: "url_clean (CHR ''/'')" by (simp add: url_clean_def)
  have "strip_url (s @ ''://'' @ n @ p) = s @ '':'' @ ''//'' @ n @ filter url_clean p"
    using http_schemes(2) [OF assms(1), of "''//'' @ n @ p"] n c by simp
  moreover have "split_scheme d (s @ '':'' @ ''//'' @ n @ filter url_clean p) = (s, ''//'' @ n @ filter url_clean p)"
    by (rule http_schemes(1) [OF assms(1)])
  moreover have "(CHR ''['' \<in> set n) = (CHR '']'' \<in> set n)" using assms(2) by (simp add: plain_authority_def)
  ultimately show ?thesis
    using takeWhile_authority [OF assms(2) filter_clean_hd [OF assms(3)]]
    by (simp add: urlsplit_with_def Let_def)
qed

lemma urlsplit_netloc_plain:
  assumes "urlsplit_with d u = Inr r" and "CHR ''@'' \<notin> set (sr_netloc r)" and "sr_netloc r \<noteq> []"
  shows "plain_authority (sr_netloc r)"
proof -
  obtain sc v where v: "split_scheme d (strip_url u) = (sc, v)" by fastforce
  have r: "sr_netloc r = (if startswith v ''//'' then takeWhile (\<lambda>c. \<not> netloc_delim c) (drop 2 v) else [])"
    and b: "(CHR ''['' \<in> set (sr_netloc r)) = (CHR '']'' \<in> set (sr_netloc r))"
    using assms(1) v by (auto simp: urlsplit_with_def Let_def split: if_splits)
  have "set v \<subseteq> set (strip_url u)"
    using v by (auto simp: split_scheme_def Let_def after_def split: if_splits dest: in_set_dropD set_dropWhileD)
  then have "url_clean c" if "c \<in> set v" for c using that by (auto simp: strip_url_filter)
  then have "list_all (\<lambda>c. \<not> netloc_delim c \<and> url_clean c) (sr_netloc r)"
    using r by (auto simp: list_all_iff dest: set_takeWhileD in_set_dropD)
  with assms(2,3) b show ?thesis by (auto simp: plain_authority_def list_all_iff)
qed

lemma no_userinfo: "sr_username r = None \<longleftrightarrow> CHR ''@'' \<notin> set (sr_netloc r)"
  by (simp add: sr_username_def)

lemma hostname_netloc: "sr_hostname r \<noteq> None \<Longrightarrow> sr_netloc r \<noteq> []"
  by (auto simp: sr_hostname_def host_port_def host_info_def rsplit_last_def before_def Let_def)

lemma rstrip_authority:
  assumes "plain_authority n"
  shows "rev (dropWhile (\<lambda>c. c = CHR ''/'') (rev (s @ ''://'' @ n))) = s @ ''://'' @ n"
proof -
  obtain c m where m: "n = m @ [c]" using assms by (cases n rule: rev_exhaust) (auto simp: plain_authority_def)
  then have "c \<noteq> CHR ''/''" using assms by (auto simp: plain_authority_def list_all_iff netloc_delim_def)
  with m show ?thesis by simp
qed

text \<open>The shape of a normalised endpoint.\<close>

definition endpoint_shape :: "bool \<Rightarrow> string \<Rightarrow> bool" where
  "endpoint_shape allow_http e \<longleftrightarrow>
     (\<exists>s n. e = s @ ''://'' @ n \<and> (s = ''https'' \<or> allow_http \<and> s = ''http'') \<and> plain_authority n)"

lemma endpoint_checked_shape:
  assumes "endpoint_checked v allow_http = Inr e"
  shows "endpoint_shape allow_http e" "endpoint_checked (PyStr e) allow_http = Inr e"
proof -
  obtain u r po where v: "v = PyStr u" and r: "urlsplit u = Inr r" and po: "sr_port r = Inr po"
    and s: "sr_scheme r = ''https'' \<or> allow_http \<and> sr_scheme r = ''http''"
    and h: "sr_hostname r \<noteq> None" "sr_username r = None" "sr_password r = None"
    and e: "e = rev (dropWhile (\<lambda>c. c = CHR ''/'')
            (rev (urlunsplit (r\<lparr>sr_path := [], sr_query := [], sr_fragment := []\<rparr>))))"
    using assms by (cases v) (auto simp: endpoint_checked_def bindE_Inr_iff split: if_splits)
  let ?n = "sr_netloc r"
  have n: "plain_authority ?n"
    using urlsplit_netloc_plain [OF r] h(1,2) hostname_netloc [of r] by (simp add: no_userinfo)
  have sh: "sr_scheme r = ''https'' \<or> sr_scheme r = ''http''" using s by blast
  have "urlunsplit (r\<lparr>sr_path := [], sr_query := [], sr_fragment := []\<rparr>) = sr_scheme r @ ''://'' @ ?n"
    using n sh by (auto simp: urlunsplit_def plain_authority_def)
  with e have e': "e = sr_scheme r @ ''://'' @ ?n" using rstrip_authority [OF n] by simp
  with s n show "endpoint_shape allow_http e" by (auto simp: endpoint_shape_def)
  define r' where "r' = r\<lparr>sr_path := [], sr_query := [], sr_fragment := []\<rparr>"
  have u: "r'\<lparr>sr_path := [], sr_query := [], sr_fragment := []\<rparr> = r'" by (simp add: r'_def)
  have "urlsplit e = Inr r'"
    using urlsplit_authority [OF sh n, of "[]"] by (simp add: e' r'_def before_def after_def)
  moreover have "sr_port r' = sr_port r" "sr_hostname r' = sr_hostname r" "sr_username r' = sr_username r"
    "sr_password r' = sr_password r"
    by (simp_all add: r'_def sr_port_def sr_hostname_def sr_username_def sr_password_def host_port_def)
  moreover have "sr_scheme r' = sr_scheme r" "sr_query r' = []" "sr_fragment r' = []" "sr_path r' = []"
    by (simp_all add: r'_def)
  moreover have "e = rev (dropWhile (\<lambda>c. c = CHR ''/'') (rev (urlunsplit r')))"
    using e by (simp add: r'_def)
  ultimately show "endpoint_checked (PyStr e) allow_http = Inr e"
    using po s h by (auto simp: endpoint_checked_def u)
qed

section \<open>What a constructed binding guarantees\<close>

lemma bounded_int_Inr [simp]:
  "bounded_int v name lo hi = Inr i \<longleftrightarrow> v = PyInt i \<and> lo \<le> i \<and> (case hi of None \<Rightarrow> True | Some m \<Rightarrow> i \<le> m)"
  by (cases v; auto simp: bounded_int_def split: option.splits)

lemma boolean_field_Inr [simp]: "boolean_field v name = Inr b \<longleftrightarrow> v = PyBool b"
  by (cases v; auto simp: boolean_field_def)

lemma positive_number_Inr [simp]:
  "positive_number v name = Inr w \<longleftrightarrow> w = v \<and> (case v of PyInt i \<Rightarrow> 0 < i | PyFloat f \<Rightarrow> \<not> float_le_zero f | _ \<Rightarrow> False)"
  by (cases v; auto simp: positive_number_def)

lemma repository_field_Inr [simp]: "repository_field v = Inr s \<longleftrightarrow> v = PyStr s \<and> repository_match s"
  by (cases v; auto simp: repository_field_def)

lemma cursor_key_field_length: "cursor_key_field token v = Inr k \<Longrightarrow> 16 \<le> length k"
  by (cases v; auto simp: cursor_key_field_def split: if_splits)

lemma image_field_Some: "image_field v = Inr (Some s) \<Longrightarrow> image_match s"
  by (cases v; auto simp: image_field_def split: if_splits)

text \<open>The invariant of a binding.\<close>

definition binding_wf :: "'w binding \<Rightarrow> bool" where
  "binding_wf b \<longleftrightarrow>
     endpoint_shape (b_allow_insecure_http b) (b_endpoint b)
     \<and> endpoint_checked (PyStr (b_endpoint b)) (b_allow_insecure_http b) = Inr (b_endpoint b)
     \<and> repository_match (b_repository b)
     \<and> 65536 \<le> b_chunk_size b \<and> b_chunk_size b \<le> 16777216
     \<and> 1 \<le> b_max_object_bytes b \<and> 1 \<le> b_max_range_bytes b
     \<and> 1024 \<le> b_max_manifest_bytes b \<and> 1024 \<le> b_max_metadata_bytes b
     \<and> 1 \<le> b_max_list_page_size b \<and> b_max_list_page_size b \<le> 1000
     \<and> b_max_list_page_size b \<le> b_max_scan_tags b
     \<and> 1 \<le> b_max_multipart_parts b \<and> b_max_multipart_parts b \<le> 100000
     \<and> 16 \<le> length (b_cursor_signing_key b)
     \<and> (case b_registry_image b of None \<Rightarrow> True | Some i \<Rightarrow> image_match i)"

lemma constructed_binding_wf:
  assumes "mk_binding parse_resource token a = Inr b"
  shows "binding_wf b"
proof -
  have e: "endpoint_checked (a_endpoint a) (b_allow_insecure_http b) = Inr (b_endpoint b)"
    and "cursor_key_field token (a_cursor_signing_key a) = Inr (b_cursor_signing_key b)"
    and "image_field (a_registry_image a) = Inr (b_registry_image b)"
    and "repository_match (b_repository b)"
    and "65536 \<le> b_chunk_size b \<and> b_chunk_size b \<le> 16777216"
      "1 \<le> b_max_object_bytes b \<and> 1 \<le> b_max_range_bytes b"
      "1024 \<le> b_max_manifest_bytes b \<and> 1024 \<le> b_max_metadata_bytes b"
      "1 \<le> b_max_list_page_size b \<and> b_max_list_page_size b \<le> 1000"
      "b_max_list_page_size b \<le> b_max_scan_tags b"
      "1 \<le> b_max_multipart_parts b \<and> b_max_multipart_parts b \<le> 100000"
    using assms unfolding mk_binding_def by auto
  then show ?thesis
    using endpoint_checked_shape [OF e] cursor_key_field_length image_field_Some
    by (auto simp: binding_wf_def split: option.splits)
qed

text \<open>C32. Every binding the constructor accepts is well formed: the endpoint is a normalised
  HTTPS origin (plain HTTP only when it was explicitly allowed) without userinfo, path, query or
  fragment, and normalising it again changes nothing; the repository matches the OCI grammar; all
  limits are within their bounds, a scan covers at least a page, and the cursor key has 16 bytes.\<close>

theorem mk_binding_wf:
  assumes "mk_binding parse_resource token a = Inr b"
  shows "binding_wf b"
  using assms by (rule constructed_binding_wf)

definition example_binding_args :: "('w, resource_ref) binding_args" where
  "example_binding_args =
     (default_binding_args \<lparr>rr_namespace = ''ns'', rr_name = ''media'', rr_canonical = ''object:ns/media''\<rparr>
        ''https://registry.example:5000/'' ''team/objects'')
     \<lparr>a_cursor_signing_key := PyBytes ''0123456789abcdef'', a_credentials := BearerCredentials ''token''\<rparr>"

definition example_binding :: "'w binding" where
  "example_binding =
     \<lparr>b_resource = \<lparr>rr_namespace = ''ns'', rr_name = ''media'', rr_canonical = ''object:ns/media''\<rparr>,
      b_endpoint = ''https://registry.example:5000'', b_repository = ''team/objects'',
      b_credentials = BearerCredentials ''token'', b_verify_tls = VerifyBool True, b_allow_insecure_http = False,
      b_timeout_seconds = PyFloat (Finite_float 30 0), b_chunk_size = 4194304,
      b_max_object_bytes = 5497558138880, b_max_range_bytes = 268435456,
      b_max_manifest_bytes = 4194304, b_max_metadata_bytes = 524288,
      b_max_list_page_size = 1000, b_max_scan_tags = 2000, b_max_multipart_parts = 10000,
      b_conditional_create_mode = SingleWriter, b_deletion_enabled = False,
      b_retention_enforced = False, b_referrers_required = False,
      b_cursor_signing_key = ''0123456789abcdef'', b_registry_release = None, b_registry_image = None\<rparr>"

lemmas url_eval = urlsplit_with_def strip_url_def split_scheme_def before_def after_def is_alpha_def
  scheme_char_def to_lower_def netloc_delim_def sr_port_def host_port_def host_info_def rsplit_last_def
  sr_hostname_def sr_username_def sr_password_def py_isdigit_def is_digit_def digits_val_def digit_val_def
  urlunsplit_def uses_netloc_def

lemma example_endpoint:
  "endpoint_checked (PyStr ''https://registry.example:5000/'') False = Inr ''https://registry.example:5000''"
  by (simp add: endpoint_checked_def url_eval)

lemma example_repository: "repository_match ''team/objects''"
  by (simp add: repository_match_def repo_component.simps lower_alnum_def is_digit_def)

lemma example_mk_binding: "mk_binding Inr token example_binding_args = Inr example_binding"
  using example_endpoint example_repository
  by (simp add: mk_binding_def example_binding_args_def default_binding_args_def example_binding_def
      repository_field_def verify_field_def positive_number_def bounded_int_def mode_field_def
      boolean_field_def release_field_def image_field_def cursor_key_field_def)

theorem mk_binding_wf_witness:
  "mk_binding Inr ''t'' (example_binding_args :: (unit, resource_ref) binding_args) = Inr example_binding
   \<and> binding_wf (example_binding :: unit binding)"
  using example_mk_binding [of "''t''"] mk_binding_wf [OF example_mk_binding [of "''t''"]] by blast

end
