(* ===== verification/Capabilities.thy ===== *)
theory Capabilities
  imports Config
begin

text \<open>
  \<^verbatim>\<open>src/src/meridian_storage/adapters/oci/descriptor/capabilities.py\<close>: the adapter descriptor and
  the capability manifest of a binding. The guarantee and limit identifiers are imported constants of
  the object-common package whose text is not in the repository; they appear here by name, as
  constructors. \<open>AdapterDescriptor\<close>, \<open>OperationCapability\<close> and \<open>CapabilityManifest\<close> are the
  records of the arguments the source constructs them with.
\<close>

datatype guarantee =
    GUARANTEE_BOUNDED_PREFIX_LIST | GUARANTEE_CONDITIONAL_CREATE | GUARANTEE_DIGEST_SHA256
  | GUARANTEE_DIGEST_VERIFICATION | GUARANTEE_EXACT_VERSION_DELETE | GUARANTEE_IMMUTABILITY_INTENT
  | GUARANTEE_METADATA_AFTER_COMMIT | GUARANTEE_MULTIPART | GUARANTEE_RANGE_READ
  | GUARANTEE_RETENTION_ENFORCEMENT | GUARANTEE_RETENTION_INTENT | GUARANTEE_STREAMING

datatype limit =
    LIMIT_MAX_LIST_PAGE_SIZE | LIMIT_MAX_MULTIPART_PART_BYTES | LIMIT_MAX_MULTIPART_PARTS
  | LIMIT_MAX_OBJECT_BYTES | LIMIT_MAX_RANGE_BYTES | LIMIT_MAX_USER_METADATA_ENTRIES

datatype operation_version = OBJECT_OPERATION_VERSION

record operation_capability =
  oc_contract :: string
  oc_versions :: "operation_version list"
  oc_guarantees :: "guarantee list"
  oc_limits :: "(limit \<times> int) list"
  oc_cursor_behavior :: "string option"
  oc_migration_behavior :: "string option"
  oc_health_probes :: "string list"
  oc_extensions :: "(string \<times> json) list"

record adapter_descriptor =
  ad_adapter_id :: string
  ad_contract_version :: string
  ad_driver :: string
  ad_engine_versions :: "(string \<times> string list) list"
  ad_capabilities :: "operation_capability list"

record capability_manifest =
  cm_descriptor :: adapter_descriptor
  cm_engine_profile :: string
  cm_engine_version :: string
  cm_available :: "string list"
  cm_extensions :: "(string \<times> json) list"

definition ADAPTER_ID :: string where "ADAPTER_ID = ''oci-distribution''"
definition ADAPTER_CONTRACT_VERSION :: string where "ADAPTER_CONTRACT_VERSION = ''1.0.0''"
definition ENGINE_PROFILE :: string where "ENGINE_PROFILE = ''oci-distribution''"
definition OCI_DISTRIBUTION_VERSION :: string where "OCI_DISTRIBUTION_VERSION = ''1.1.1''"

definition common_extensions :: "(string \<times> json) list" where
  "common_extensions =
     [(''design.hldRevision'', JInt 56), (''design.catalogRevision'', JInt 70),
      (''design.objectLldRevision'', JInt 12), (''oci.distributionSpec'', JStr OCI_DISTRIBUTION_VERSION),
      (''oci.imageSpec'', JStr ''1.1.1'')]"

definition put_guarantees :: "'w binding \<Rightarrow> guarantee list" where
  "put_guarantees b =
     [GUARANTEE_CONDITIONAL_CREATE, GUARANTEE_DIGEST_SHA256, GUARANTEE_IMMUTABILITY_INTENT,
      GUARANTEE_METADATA_AFTER_COMMIT, GUARANTEE_MULTIPART, GUARANTEE_RETENTION_INTENT, GUARANTEE_STREAMING]
     @ (if b_retention_enforced b then [GUARANTEE_RETENTION_ENFORCEMENT] else [])"

definition oci_distribution_descriptor :: "'w binding \<Rightarrow> adapter_descriptor" where
  "oci_distribution_descriptor b =
     \<lparr>ad_adapter_id = ADAPTER_ID, ad_contract_version = ADAPTER_CONTRACT_VERSION, ad_driver = ''httpx'',
      ad_engine_versions = [(ENGINE_PROFILE, [OCI_DISTRIBUTION_VERSION])],
      ad_capabilities =
       [\<lparr>oc_contract = ''meridian.object.put'', oc_versions = [OBJECT_OPERATION_VERSION],
         oc_guarantees = put_guarantees b,
         oc_limits = [(LIMIT_MAX_OBJECT_BYTES, b_max_object_bytes b), (LIMIT_MAX_USER_METADATA_ENTRIES, 128),
           (LIMIT_MAX_MULTIPART_PARTS, b_max_multipart_parts b), (LIMIT_MAX_MULTIPART_PART_BYTES, b_chunk_size b)],
         oc_cursor_behavior = None, oc_migration_behavior = Some ''logical-export-import'',
         oc_health_probes = [''authenticated'', ''push-pull'', ''range''],
         oc_extensions = common_extensions
           @ [(''conditionalCreateMode'', JStr (mode_name (b_conditional_create_mode b))),
              (''retentionEnforcement'', JBool (b_retention_enforced b))]\<rparr>,
        \<lparr>oc_contract = ''meridian.object.get'', oc_versions = [OBJECT_OPERATION_VERSION],
         oc_guarantees = [GUARANTEE_DIGEST_VERIFICATION, GUARANTEE_STREAMING],
         oc_limits = [(LIMIT_MAX_OBJECT_BYTES, b_max_object_bytes b)],
         oc_cursor_behavior = None, oc_migration_behavior = Some ''logical-export-import'',
         oc_health_probes = [''authenticated'', ''pull''], oc_extensions = common_extensions\<rparr>,
        \<lparr>oc_contract = ''meridian.object.stat'', oc_versions = [OBJECT_OPERATION_VERSION],
         oc_guarantees = [GUARANTEE_DIGEST_VERIFICATION], oc_limits = [],
         oc_cursor_behavior = None, oc_migration_behavior = None,
         oc_health_probes = [''authenticated'', ''pull''], oc_extensions = common_extensions\<rparr>,
        \<lparr>oc_contract = ''meridian.object.read_range'', oc_versions = [OBJECT_OPERATION_VERSION],
         oc_guarantees = [GUARANTEE_DIGEST_VERIFICATION, GUARANTEE_RANGE_READ],
         oc_limits = [(LIMIT_MAX_RANGE_BYTES, b_max_range_bytes b)],
         oc_cursor_behavior = None, oc_migration_behavior = None,
         oc_health_probes = [''authenticated'', ''range''], oc_extensions = common_extensions\<rparr>,
        \<lparr>oc_contract = ''meridian.object.list'', oc_versions = [OBJECT_OPERATION_VERSION],
         oc_guarantees = [GUARANTEE_BOUNDED_PREFIX_LIST],
         oc_limits = [(LIMIT_MAX_LIST_PAGE_SIZE, b_max_list_page_size b)],
         oc_cursor_behavior = Some ''opaque-stable'', oc_migration_behavior = None,
         oc_health_probes = [''authenticated'', ''content-discovery''], oc_extensions = common_extensions\<rparr>,
        \<lparr>oc_contract = ''meridian.object.delete'', oc_versions = [OBJECT_OPERATION_VERSION],
         oc_guarantees = [GUARANTEE_EXACT_VERSION_DELETE, GUARANTEE_RETENTION_INTENT], oc_limits = [],
         oc_cursor_behavior = None, oc_migration_behavior = Some ''external-policy'',
         oc_health_probes = [''authenticated'', ''content-management''], oc_extensions = common_extensions\<rparr>]\<rparr>"

definition available_operations :: "'w binding \<Rightarrow> string list" where
  "available_operations b =
     [''meridian.object.put'', ''meridian.object.get'', ''meridian.object.stat'', ''meridian.object.read_range'',
      ''meridian.object.list''] @ (if b_deletion_enabled b then [''meridian.object.delete''] else [])"

definition selected_registry :: "'w binding \<Rightarrow> (string \<times> json) list" where
  "selected_registry b =
     (case b_registry_release b of None \<Rightarrow> [] | Some r \<Rightarrow> [(''release'', JStr r)])
     @ (case b_registry_image b of None \<Rightarrow> [] | Some i \<Rightarrow> [(''image'', JStr i)])"

definition configured_capability_manifest :: "'w binding \<Rightarrow> capability_manifest" where
  "configured_capability_manifest b =
     \<lparr>cm_descriptor = oci_distribution_descriptor b, cm_engine_profile = ENGINE_PROFILE,
      cm_engine_version = OCI_DISTRIBUTION_VERSION, cm_available = available_operations b,
      cm_extensions =
        [(''verification'', JStr ''configured''), (''bindingFingerprint'', JStr (public_fingerprint b)),
         (''referrersRequired'', JBool (b_referrers_required b))]
        @ (if selected_registry b \<noteq> [] then [(''selectedRegistry'', JObj (selected_registry b))] else [])\<rparr>"

section \<open>Properties\<close>

lemma capability_contracts:
  "map oc_contract (ad_capabilities (oci_distribution_descriptor b)) =
     [''meridian.object.put'', ''meridian.object.get'', ''meridian.object.stat'', ''meridian.object.read_range'',
      ''meridian.object.list'', ''meridian.object.delete'']"
  by (simp add: oci_distribution_descriptor_def)

lemma capability_guarantees:
  "map oc_guarantees (ad_capabilities (oci_distribution_descriptor b)) =
     [put_guarantees b, [GUARANTEE_DIGEST_VERIFICATION, GUARANTEE_STREAMING], [GUARANTEE_DIGEST_VERIFICATION],
      [GUARANTEE_DIGEST_VERIFICATION, GUARANTEE_RANGE_READ], [GUARANTEE_BOUNDED_PREFIX_LIST],
      [GUARANTEE_EXACT_VERSION_DELETE, GUARANTEE_RETENTION_INTENT]]"
  by (simp add: oci_distribution_descriptor_def)

text \<open>The capability manifest is honest: its contracts are distinct, exactly the declared
  operations are available, with delete among them precisely when the binding enables deletion; retention
  enforcement is guaranteed on some operation precisely when the binding declares it; and the size limits
  it publishes, for put and get, are the binding's own.\<close>

lemma capability_manifest_honest:
  "let m = configured_capability_manifest b; caps = ad_capabilities (cm_descriptor m) in
     distinct (map oc_contract caps)
     \<and> filter (\<lambda>c. if c = ''meridian.object.delete'' then b_deletion_enabled b else True) (map oc_contract caps) = cm_available m
     \<and> (''meridian.object.delete'' \<in> set (cm_available m)) = b_deletion_enabled b
     \<and> (GUARANTEE_RETENTION_ENFORCEMENT \<in> set (concat (map oc_guarantees caps))) = b_retention_enforced b
     \<and> map (\<lambda>c. map_of (oc_limits c) LIMIT_MAX_OBJECT_BYTES) caps
         = [Some (b_max_object_bytes b), Some (b_max_object_bytes b), None, None, None, None]"
proof -
  let ?caps = "ad_capabilities (oci_distribution_descriptor b)"
  have "distinct (map oc_contract ?caps)" by (simp add: capability_contracts)
  moreover have "filter (\<lambda>c. if c = ''meridian.object.delete'' then b_deletion_enabled b else True) (map oc_contract ?caps)
      = available_operations b"
    by (simp add: capability_contracts available_operations_def)
  moreover have "(''meridian.object.delete'' \<in> set (available_operations b)) = b_deletion_enabled b"
    by (simp add: available_operations_def)
  moreover have "(GUARANTEE_RETENTION_ENFORCEMENT \<in> set (concat (map oc_guarantees ?caps))) = b_retention_enforced b"
    by (simp add: capability_guarantees put_guarantees_def)
  moreover have "map (\<lambda>c. map_of (oc_limits c) LIMIT_MAX_OBJECT_BYTES) ?caps
      = [Some (b_max_object_bytes b), Some (b_max_object_bytes b), None, None, None, None]"
    by (simp add: oci_distribution_descriptor_def)
  ultimately show ?thesis by (simp add: configured_capability_manifest_def)
qed

text \<open>The capability manifest reveals nothing physical or secret: it does not change with the
  endpoint, the repository, the credentials, the TLS settings, the timeout or the cursor key.\<close>

lemma capability_manifest_hides_binding:
  "configured_capability_manifest (b\<lparr>b_endpoint := e, b_repository := r, b_credentials := c,
      b_verify_tls := v, b_allow_insecure_http := h, b_timeout_seconds := t, b_cursor_signing_key := k\<rparr>)
   = configured_capability_manifest b"
  by (simp add: configured_capability_manifest_def oci_distribution_descriptor_def available_operations_def
      put_guarantees_def selected_registry_def public_fingerprint_def)

end
