(* ===== verification/Object_Common.thy ===== *)
theory Object_Common
  imports Capabilities
begin

text \<open>
  The interface of the packages the adapter builds on (\<open>meridian_storage.object_common\<close> and the
  core), which are not part of the repository. Values of their classes are records of the attributes
  the sources read; every function of theirs the sources call is a field of the parameter record
  \<open>object_common\<close> (pure functions and constructors, which may reject their arguments) or of
  \<open>payload_registry\<close> (the process-local payload handles, with effects on the world). Nothing is
  assumed of these fields here: a property that relies on documented behaviour states it.
\<close>

type_synonym fields = "(string \<times> json) list"

text \<open>A \<open>datetime\<close> as the sources use it: an instant, in microseconds, if it is timezone-aware.\<close>

datatype datetime = NaiveTime int | AwareTime int

text \<open>\<open>ResourceReference(catalog, namespace, name)\<close>; the members of \<open>CatalogName\<close> appear by name, as constructors.\<close>

datatype catalog_name = CATALOG_OBJECT | CATALOG_OTHER string

record semantic_resource =
  sem_catalog :: catalog_name
  sem_namespace :: string
  sem_name :: string

record object_reference =
  or_resource :: semantic_resource
  or_object_id :: string
  or_digest :: "string option"

record object_metadata =
  om_ref :: object_reference
  om_digest :: string
  om_byte_length :: int
  om_media_type :: string
  om_created_at :: string
  om_creation_context :: json
  om_user_metadata :: json
  om_mutability :: string
  om_provenance :: fields

text \<open>The arguments of the \<open>ObjectMetadata\<close> constructor, with the creation instant.\<close>

record metadata_args =
  ma_ref :: object_reference
  ma_digest :: string
  ma_byte_length :: int
  ma_media_type :: json
  ma_created_at :: int
  ma_creation_context :: json
  ma_user_metadata :: json
  ma_mutability :: string
  ma_provenance :: fields

record immutability_request =
  im_mutability :: string
  im_publish_once :: bool

text \<open>\<open>rt_terms\<close> holds the attributes of a retention request that the sources do not read.\<close>

record retention_request =
  rt_retain_until :: "int option"
  rt_terms :: fields

record content_identity =
  ci_digest :: string
  ci_byte_length :: int

record payload_reference =
  pl_handle :: string
  pl_replayable :: bool
  pl_expected_digest :: "string option"
  pl_expected_length :: "int option"

record selected_range =
  sel_start :: int
  sel_end :: int
  sel_length :: int

text \<open>A serialized byte range, resolved against an object size by \<open>ByteRange.resolve\<close>.\<close>

record byte_range =
  brg_start :: "int option"
  brg_end :: "int option"

text \<open>The states of \<open>PutStateMachine\<close> that the sources name, and any other.\<close>

datatype put_state = PUT_UPLOADING | PUT_VERIFYING | PUT_COMMITTED | PUT_ABORTED | PutStateOther string

record object_common =
  oc_put_initial :: put_state
  oc_put_transition :: "put_state \<Rightarrow> put_state \<Rightarrow> exn + put_state"
  oc_put_fail :: "put_state \<Rightarrow> bool \<Rightarrow> exn + put_state"
  oc_parse_metadata :: "fields \<Rightarrow> exn + object_metadata"
  oc_metadata_to_dict :: "object_metadata \<Rightarrow> fields"
  oc_mk_metadata :: "metadata_args \<Rightarrow> exn + object_metadata"
  oc_mk_immutability :: "string \<Rightarrow> bool \<Rightarrow> exn + immutability_request"
  oc_immutability_from :: "json \<Rightarrow> exn + immutability_request"
  oc_immutability_to_dict :: "immutability_request \<Rightarrow> fields"
  oc_retention_from :: "json \<Rightarrow> exn + retention_request"
  oc_retention_to_dict :: "retention_request \<Rightarrow> fields"
  oc_require_delete_allowed :: "retention_request \<Rightarrow> int \<Rightarrow> exn + unit"
  oc_mk_reference :: "semantic_resource \<Rightarrow> string \<Rightarrow> string option \<Rightarrow> exn + object_reference"
  oc_parse_reference :: "fields \<Rightarrow> bool \<Rightarrow> exn + object_reference"
  oc_mk_identity :: "string \<Rightarrow> int \<Rightarrow> exn + content_identity"
  oc_payload_from :: "fields \<Rightarrow> exn + payload_reference"
  oc_payload_to_dict :: "payload_reference \<Rightarrow> fields"
  oc_byte_range_from :: "fields \<Rightarrow> exn + byte_range"
  oc_byte_range_resolve :: "byte_range \<Rightarrow> int \<Rightarrow> exn + selected_range"
  oc_selected_to_dict :: "selected_range \<Rightarrow> fields"
  oc_require_capabilities :: "capability_manifest \<Rightarrow> json \<Rightarrow> exn + unit"
  oc_manifest_fingerprint :: "capability_manifest \<Rightarrow> string"

text \<open>A stream of chunks: the chunks an iterator yields, and the exception it ends with, if any.\<close>

type_synonym chunk_stream = "string list \<times> exn option"

text \<open>\<open>payloads.open\<close> composed with \<open>iter_payload_chunks\<close> for a chunk size, and
  \<open>payloads.register\<close> of a source with its opener, expected length and expected digest.\<close>

record 'w payload_registry =
  pr_open :: "payload_reference \<Rightarrow> int \<Rightarrow> ('w, chunk_stream) io"
  pr_register :: "('w, chunk_stream) io \<Rightarrow> int \<Rightarrow> string option \<Rightarrow> ('w, payload_reference) io"

end
