(* ===== verification/Models.thy ===== *)
theory Models
  imports Object_Common
begin

text \<open>
  \<^verbatim>\<open>src/src/meridian_storage/adapters/oci/transport/models.py\<close>: OCI descriptors, manifests, the
  stored-object envelope, and their strict parsers.
\<close>

definition OCI_MANIFEST_MEDIA_TYPE :: string where
  "OCI_MANIFEST_MEDIA_TYPE = ''application/vnd.oci.image.manifest.v1+json''"
definition OCI_EMPTY_MEDIA_TYPE :: string where
  "OCI_EMPTY_MEDIA_TYPE = ''application/vnd.oci.empty.v1+json''"
definition MERIDIAN_OBJECT_ARTIFACT_TYPE :: string where
  "MERIDIAN_OBJECT_ARTIFACT_TYPE = ''application/vnd.meridian.object.v1''"
definition MERIDIAN_OBJECT_ANCHOR_TYPE :: string where
  "MERIDIAN_OBJECT_ANCHOR_TYPE = ''application/vnd.meridian.object.anchor.v1''"
definition MERIDIAN_OBJECT_CONFIG_MEDIA_TYPE :: string where
  "MERIDIAN_OBJECT_CONFIG_MEDIA_TYPE = ''application/vnd.meridian.object.config.v1+json''"
definition STORED_METADATA_FORMAT :: string where
  "STORED_METADATA_FORMAT = ''meridian.oci.stored-object.v1''"
definition EMPTY_JSON :: string where "EMPTY_JSON = ''{}''"

lemmas media_types = OCI_MANIFEST_MEDIA_TYPE_def OCI_EMPTY_MEDIA_TYPE_def MERIDIAN_OBJECT_ARTIFACT_TYPE_def
  MERIDIAN_OBJECT_ANCHOR_TYPE_def MERIDIAN_OBJECT_CONFIG_MEDIA_TYPE_def STORED_METADATA_FORMAT_def

section \<open>Descriptors\<close>

record oci_descriptor =
  d_media_type :: string
  d_digest :: string
  d_size :: nat

text \<open>\<open>OciDescriptor.__post_init__\<close> on dynamically typed values: matching a pattern against a value
  that is not text raises \<open>TypeError\<close>.\<close>

definition checked_descriptor :: "json \<Rightarrow> json \<Rightarrow> json \<Rightarrow> exn + oci_descriptor" where
  "checked_descriptor media_type digest sz =
     (case media_type of
        JStr m \<Rightarrow>
          if CHR ''/'' \<notin> set m then Inl (exn_of ValueError ''OCI descriptor media type is invalid'')
          else (case digest of
             JStr d \<Rightarrow>
               if digest_match d = None then Inl (exn_of ValueError ''OCI descriptor digest must be SHA-256'')
               else (case sz of
                  JInt n \<Rightarrow>
                    if n < 0 then Inl (exn_of ValueError ''OCI descriptor size must be a non-negative integer'')
                    else Inr \<lparr>d_media_type = m, d_digest = d, d_size = nat n\<rparr>
                | _ \<Rightarrow> Inl (exn_of ValueError ''OCI descriptor size must be a non-negative integer''))
           | _ \<Rightarrow> Inl (bare_exn TypeError))
      | _ \<Rightarrow> Inl (exn_of ValueError ''OCI descriptor media type is invalid''))"

definition mk_descriptor :: "string \<Rightarrow> string \<Rightarrow> int \<Rightarrow> exn + oci_descriptor" where
  "mk_descriptor media_type digest sz = checked_descriptor (JStr media_type) (JStr digest) (JInt sz)"

definition descriptor_to_dict :: "oci_descriptor \<Rightarrow> fields" where
  "descriptor_to_dict d =
     [(''mediaType'', JStr (d_media_type d)), (''digest'', JStr (d_digest d)), (''size'', JInt (int (d_size d)))]"

definition descriptor_from_mapping :: "fields \<Rightarrow> exn + oci_descriptor" where
  "descriptor_from_mapping v =
     (if \<not> {''mediaType'', ''digest'', ''size''} \<subseteq> fst ` set v
      then Inl (exn_of ValueError ''OCI descriptor is missing required fields'')
      else checked_descriptor (obj_get v ''mediaType'') (obj_get v ''digest'') (obj_get v ''size''))"

definition EMPTY_DESCRIPTOR :: oci_descriptor where
  "EMPTY_DESCRIPTOR = \<lparr>d_media_type = OCI_EMPTY_MEDIA_TYPE, d_digest = sha256_digest EMPTY_JSON, d_size = length EMPTY_JSON\<rparr>"

definition descriptor_for_bytes :: "string \<Rightarrow> string \<Rightarrow> exn + oci_descriptor" where
  "descriptor_for_bytes media_type v = mk_descriptor media_type (sha256_digest v) (int (length v))"

section \<open>Manifests\<close>

record manifest_document =
  md_body :: string
  md_digest :: string
  md_media_type :: string
  md_value :: fields

definition parse_manifest :: "string \<Rightarrow> string option \<Rightarrow> int \<Rightarrow> exn + manifest_document" where
  "parse_manifest body expected_digest maximum_bytes =
     bindE (guardE (int (length body) \<le> maximum_bytes)
              (exn_of ValueError ''OCI manifest exceeds the configured size bound'')) (\<lambda>_.
     bindE (guardE (case expected_digest of None \<Rightarrow> True | Some d \<Rightarrow> sha256_digest body = d)
              (exn_of ValueError ''OCI manifest digest does not match'')) (\<lambda>_.
     bindE (parse_json_object body ''OCI manifest'') (\<lambda>v.
     bindE (guardE (json_eq_2 (obj_get v ''schemaVersion''))
              (exn_of ValueError ''OCI manifest schemaVersion must be 2'')) (\<lambda>_.
     bindE (guardE (obj_get v ''mediaType'' = JStr OCI_MANIFEST_MEDIA_TYPE)
              (exn_of ValueError ''OCI manifest mediaType is unsupported'')) (\<lambda>_.
     Inr \<lparr>md_body = body, md_digest = sha256_digest body, md_media_type = OCI_MANIFEST_MEDIA_TYPE,
          md_value = v\<rparr>)))))"

definition anchor_manifest_fields :: "string \<Rightarrow> fields" where
  "anchor_manifest_fields object_hash =
     [(''schemaVersion'', JInt 2), (''mediaType'', JStr OCI_MANIFEST_MEDIA_TYPE),
      (''artifactType'', JStr MERIDIAN_OBJECT_ANCHOR_TYPE),
      (''config'', JObj (descriptor_to_dict EMPTY_DESCRIPTOR)),
      (''layers'', JArr [JObj (descriptor_to_dict EMPTY_DESCRIPTOR)]),
      (''annotations'', JObj
        [(''org.meridian.adapter.id'', JStr ''oci-distribution''),
         (''org.meridian.object.anchor'', JStr object_hash),
         (''org.meridian.object.format'', JStr STORED_METADATA_FORMAT)])]"

definition build_anchor_manifest :: "string \<Rightarrow> string" where
  "build_anchor_manifest object_hash = canonical_json (anchor_manifest_fields object_hash)"

definition object_manifest_fields ::
  "oci_descriptor \<Rightarrow> oci_descriptor \<Rightarrow> oci_descriptor \<Rightarrow> string \<Rightarrow> string \<Rightarrow> string \<Rightarrow> fields" where
  "object_manifest_fields anchor config payload object_hash created_at mutability =
     [(''schemaVersion'', JInt 2), (''mediaType'', JStr OCI_MANIFEST_MEDIA_TYPE),
      (''artifactType'', JStr MERIDIAN_OBJECT_ARTIFACT_TYPE),
      (''config'', JObj (descriptor_to_dict config)),
      (''layers'', JArr [JObj (descriptor_to_dict payload)]),
      (''subject'', JObj (descriptor_to_dict anchor)),
      (''annotations'', JObj
        [(''org.opencontainers.image.created'', JStr created_at),
         (''org.meridian.adapter.id'', JStr ''oci-distribution''),
         (''org.meridian.object.digest'', JStr (d_digest payload)),
         (''org.meridian.object.id-sha256'', JStr object_hash),
         (''org.meridian.object.mutability'', JStr mutability)])]"

definition build_object_manifest ::
  "oci_descriptor \<Rightarrow> oci_descriptor \<Rightarrow> oci_descriptor \<Rightarrow> string \<Rightarrow> string \<Rightarrow> string \<Rightarrow> string" where
  "build_object_manifest anchor config payload object_hash created_at mutability =
     canonical_json (object_manifest_fields anchor config payload object_hash created_at mutability)"

definition manifest_descriptors ::
  "manifest_document \<Rightarrow> exn + oci_descriptor \<times> oci_descriptor \<times> oci_descriptor" where
  "manifest_descriptors document =
     (let v = md_value document
      in bindE (guardE (obj_get v ''artifactType'' = JStr MERIDIAN_OBJECT_ARTIFACT_TYPE)
                  (exn_of ValueError ''manifest is not a Meridian Object artifact'')) (\<lambda>_.
         bindE (guardE (is_obj (obj_get v ''config'') \<and> is_obj (obj_get v ''subject''))
                  (exn_of ValueError ''Meridian Object manifest descriptors are invalid'')) (\<lambda>_.
         bindE (case obj_get v ''layers'' of
                  JArr [JObj layer] \<Rightarrow> Inr layer
                | _ \<Rightarrow> Inl (exn_of ValueError ''Meridian Object manifest requires exactly one payload layer'')) (\<lambda>layer.
         bindE (descriptor_from_mapping (fields_of (obj_get v ''config''))) (\<lambda>config_descriptor.
         bindE (descriptor_from_mapping layer) (\<lambda>payload_descriptor.
         bindE (descriptor_from_mapping (fields_of (obj_get v ''subject''))) (\<lambda>subject_descriptor.
         bindE (guardE (d_media_type config_descriptor = MERIDIAN_OBJECT_CONFIG_MEDIA_TYPE)
                  (exn_of ValueError ''Meridian Object config media type is invalid'')) (\<lambda>_.
         bindE (guardE (d_media_type subject_descriptor = OCI_MANIFEST_MEDIA_TYPE)
                  (exn_of ValueError ''Meridian Object subject must be an OCI manifest'')) (\<lambda>_.
         Inr (config_descriptor, payload_descriptor, subject_descriptor))))))))))"

section \<open>Stored objects\<close>

record stored_object =
  so_metadata :: object_metadata
  so_immutability :: immutability_request
  so_retention :: "retention_request option"

definition stored_fields :: "object_common \<Rightarrow> stored_object \<Rightarrow> fields" where
  "stored_fields oc s =
     [(''formatVersion'', JStr STORED_METADATA_FORMAT),
      (''metadata'', JObj (oc_metadata_to_dict oc (so_metadata s))),
      (''immutability'', JObj (oc_immutability_to_dict oc (so_immutability s))),
      (''retention'', case so_retention s of None \<Rightarrow> JNull | Some r \<Rightarrow> JObj (oc_retention_to_dict oc r))]"

definition stored_to_bytes :: "object_common \<Rightarrow> stored_object \<Rightarrow> string" where
  "stored_to_bytes oc s = canonical_json (stored_fields oc s)"

definition stored_from_bytes :: "object_common \<Rightarrow> string \<Rightarrow> int \<Rightarrow> exn + stored_object" where
  "stored_from_bytes oc b maximum_bytes =
     bindE (guardE (int (length b) \<le> maximum_bytes)
              (exn_of ValueError ''stored Object metadata exceeds the configured size bound'')) (\<lambda>_.
     bindE (parse_json_object b ''stored Object metadata'') (\<lambda>raw.
     bindE (guardE (fst ` set raw = {''formatVersion'', ''metadata'', ''immutability'', ''retention''})
              (exn_of ValueError ''stored Object metadata contains unknown or missing fields'')) (\<lambda>_.
     bindE (guardE (obj_get raw ''formatVersion'' = JStr STORED_METADATA_FORMAT)
              (exn_of ValueError ''stored Object metadata format is unsupported'')) (\<lambda>_.
     bindE (guardE (is_obj (obj_get raw ''metadata'') \<and> is_obj (obj_get raw ''immutability''))
              (exn_of ValueError ''stored Object metadata fields are invalid'')) (\<lambda>_.
     bindE (guardE (obj_get raw ''retention'' = JNull \<or> is_obj (obj_get raw ''retention''))
              (exn_of ValueError ''stored Object retention field is invalid'')) (\<lambda>_.
     bindE (oc_parse_metadata oc (fields_of (obj_get raw ''metadata''))) (\<lambda>metadata.
     bindE (oc_immutability_from oc (obj_get raw ''immutability'')) (\<lambda>immutability.
     bindE (if obj_get raw ''retention'' = JNull then Inr None
            else bindE (oc_retention_from oc (obj_get raw ''retention'')) (\<lambda>r. Inr (Some r))) (\<lambda>retention.
     Inr \<lparr>so_metadata = metadata, so_immutability = immutability, so_retention = retention\<rparr>)))))))))"

section \<open>Transport values\<close>

record upload_location =
  ul_url :: string
  ul_uuid :: "string option"
  ul_minimum_chunk_bytes :: "nat option"
  ul_offset :: nat

record tag_page =
  tp_tags :: "string list"
  tp_has_more :: bool

section \<open>Laws of descriptors and manifests\<close>

definition descriptor_ok :: "oci_descriptor \<Rightarrow> bool" where
  "descriptor_ok d \<longleftrightarrow> CHR ''/'' \<in> set (d_media_type d) \<and> digest_match (d_digest d) \<noteq> None"

lemma checked_descriptor_Inr:
  "checked_descriptor m d n = Inr x \<longleftrightarrow>
     m = JStr (d_media_type x) \<and> d = JStr (d_digest x) \<and> n = JInt (int (d_size x)) \<and> descriptor_ok x"
  by (cases m; cases d; cases n; cases x; auto simp: checked_descriptor_def descriptor_ok_def)

lemma mk_descriptor_Inr:
  "mk_descriptor m d n = Inr x \<longleftrightarrow> m = d_media_type x \<and> d = d_digest x \<and> n = int (d_size x) \<and> descriptor_ok x"
  by (auto simp: mk_descriptor_def checked_descriptor_Inr)

lemma mk_descriptor_sha256 [simp]:
  "CHR ''/'' \<in> set m \<Longrightarrow>
   mk_descriptor m (sha256_digest b) (int n) = Inr \<lparr>d_media_type = m, d_digest = sha256_digest b, d_size = n\<rparr>"
  by (simp add: mk_descriptor_Inr descriptor_ok_def)

lemma media_type_slash [simp]:
  "CHR ''/'' \<in> set OCI_MANIFEST_MEDIA_TYPE" "CHR ''/'' \<in> set OCI_EMPTY_MEDIA_TYPE"
  "CHR ''/'' \<in> set MERIDIAN_OBJECT_CONFIG_MEDIA_TYPE"
  by (simp_all add: media_types)

lemma descriptor_from_mapping_ok: "descriptor_from_mapping v = Inr d \<Longrightarrow> descriptor_ok d"
  by (simp add: descriptor_from_mapping_def checked_descriptor_Inr split: if_splits)

lemma sort_descriptor: "sort_json (JObj (descriptor_to_dict d)) =
    JObj [(''digest'', JStr (d_digest d)), (''mediaType'', JStr (d_media_type d)), (''size'', JInt (int (d_size d)))]"
  by (simp add: descriptor_to_dict_def insort_key.simps)

lemma descriptor_roundtrip:
  assumes "descriptor_ok d"
  shows "descriptor_from_mapping (fields_of (sort_json (JObj (descriptor_to_dict d)))) = Inr d"
  using assms
  unfolding sort_descriptor
  by (simp add: descriptor_from_mapping_def obj_get_def checked_descriptor_Inr)

lemma digest_utf8: "digest_match d \<noteq> None \<Longrightarrow> utf8_ok d"
proof -
  assume "digest_match d \<noteq> None"
  then obtain h where d: "d = ''sha256:'' @ h" and h: "list_all is_hex_lower h"
    by (auto simp: digest_match_Some)
  have "oct c < 128" if "is_hex_lower c" for c
    using that by (auto simp: is_hex_lower_def is_digit_def)
  with h have "list_all (\<lambda>c. oct c < 128) d" by (auto simp: d list_all_iff)
  then show "utf8_ok d" by (rule utf8_ok_ascii)
qed

lemma utf8_ok_media_types [simp]:
  "utf8_ok OCI_MANIFEST_MEDIA_TYPE" "utf8_ok MERIDIAN_OBJECT_ARTIFACT_TYPE" "utf8_ok MERIDIAN_OBJECT_ANCHOR_TYPE"
  "utf8_ok STORED_METADATA_FORMAT" "utf8_ok OCI_EMPTY_MEDIA_TYPE" "utf8_ok MERIDIAN_OBJECT_CONFIG_MEDIA_TYPE"
  by (rule utf8_ok_ascii, simp add: media_types)+

lemma descriptor_wf:
  "descriptor_ok d \<Longrightarrow> utf8_ok (d_media_type d) \<Longrightarrow> json_wf (JObj (descriptor_to_dict d))"
  by (auto simp: descriptor_to_dict_def descriptor_ok_def utf8_ok_ascii intro: digest_utf8)

lemma object_manifest_wf:
  assumes "descriptor_ok anchor" "descriptor_ok config" "descriptor_ok payload"
    and "utf8_ok (d_media_type anchor)" "utf8_ok (d_media_type config)" "utf8_ok (d_media_type payload)"
    and "utf8_ok object_hash" "utf8_ok created_at" "utf8_ok mutability"
  shows "json_wf (JObj (object_manifest_fields anchor config payload object_hash created_at mutability))"
proof -
  have k: "list_all (\<lambda>k. list_all (\<lambda>c. oct c < 128) k)
     [''schemaVersion'', ''mediaType'', ''artifactType'', ''config'', ''layers'', ''subject'', ''annotations'',
      ''org.opencontainers.image.created'', ''org.meridian.adapter.id'', ''oci-distribution'', ''org.meridian.object.digest'',
      ''org.meridian.object.id-sha256'', ''org.meridian.object.mutability'']" by simp
  then have u: "list_all utf8_ok
     [''schemaVersion'', ''mediaType'', ''artifactType'', ''config'', ''layers'', ''subject'', ''annotations'',
      ''org.opencontainers.image.created'', ''org.meridian.adapter.id'', ''oci-distribution'', ''org.meridian.object.digest'',
      ''org.meridian.object.id-sha256'', ''org.meridian.object.mutability'']"
    by (auto simp: list.pred_True intro: utf8_ok_ascii)
  have "utf8_ok (d_digest payload)" using assms(3) by (auto simp: descriptor_ok_def intro: digest_utf8)
  with u assms(4-9) descriptor_wf [OF assms(1) assms(4)] descriptor_wf [OF assms(2) assms(5)]
    descriptor_wf [OF assms(3) assms(6)]
  show ?thesis by (simp add: object_manifest_fields_def)
qed

lemma parse_manifest_canonical:
  assumes "json_wf (JObj ps)" and "int (length (canonical_json ps)) \<le> n"
    and "map_of ps ''schemaVersion'' = Some (JInt 2)" "map_of ps ''mediaType'' = Some (JStr OCI_MANIFEST_MEDIA_TYPE)"
  shows "parse_manifest (canonical_json ps) None n = Inr \<lparr>md_body = canonical_json ps,
     md_digest = sha256_digest (canonical_json ps), md_media_type = OCI_MANIFEST_MEDIA_TYPE, md_value = sort_fields ps\<rparr>"
proof -
  have "distinct (map fst ps)" using assms(1) by simp
  from obj_get_sort_fields [OF this] assms show ?thesis
    by (simp add: parse_manifest_def parse_canonical_json obj_get_def)
qed

lemma parse_manifest_expected:
  "parse_manifest b None n = Inr d \<Longrightarrow> parse_manifest b (Some (sha256_digest b)) n = Inr d"
  by (auto simp: parse_manifest_def)

text \<open>The facts a parsed manifest carries.\<close>

lemma parse_manifest_sound:
  assumes "parse_manifest b e n = Inr d"
  shows "md_body d = b" "md_digest d = sha256_digest b" "int (length b) \<le> n"
    "\<And>x. e = Some x \<Longrightarrow> md_digest d = x" "md_media_type d = OCI_MANIFEST_MEDIA_TYPE"
    "parse_json_object b ''OCI manifest'' = Inr (md_value d)"
  using assms by (auto simp: parse_manifest_def)

lemma object_manifest_parses:
  assumes "descriptor_ok anchor" "descriptor_ok config" "descriptor_ok payload"
    and "d_media_type anchor = OCI_MANIFEST_MEDIA_TYPE" "d_media_type config = MERIDIAN_OBJECT_CONFIG_MEDIA_TYPE"
    and "utf8_ok (d_media_type payload)" "utf8_ok object_hash" "utf8_ok created_at" "utf8_ok mutability"
    and "b = build_object_manifest anchor config payload object_hash created_at mutability" "int (length b) \<le> n"
  shows "\<exists>doc. parse_manifest b None n = Inr doc \<and> manifest_descriptors doc = Inr (config, payload, anchor)"
proof -
  let ?fs = "object_manifest_fields anchor config payload object_hash created_at mutability"
  have wf: "json_wf (JObj ?fs)" using assms(1-9) by (intro object_manifest_wf) simp_all
  let ?doc = "\<lparr>md_body = canonical_json ?fs, md_digest = sha256_digest (canonical_json ?fs),
     md_media_type = OCI_MANIFEST_MEDIA_TYPE, md_value = sort_fields ?fs\<rparr>"
  have p: "parse_manifest (canonical_json ?fs) None n = Inr ?doc"
    using assms(10,11) by (intro parse_manifest_canonical [OF wf])
      (simp_all add: build_object_manifest_def object_manifest_fields_def)
  have g: "obj_get (sort_fields ?fs) k = sort_json (obj_get ?fs k)" for k
    using wf by (intro obj_get_sort_fields) simp
  have "obj_get ?fs ''artifactType'' = JStr MERIDIAN_OBJECT_ARTIFACT_TYPE"
    "obj_get ?fs ''config'' = JObj (descriptor_to_dict config)"
    "obj_get ?fs ''subject'' = JObj (descriptor_to_dict anchor)"
    "obj_get ?fs ''layers'' = JArr [JObj (descriptor_to_dict payload)]"
    by (simp_all add: obj_get_def object_manifest_fields_def)
  then have "manifest_descriptors ?doc = Inr (config, payload, anchor)"
    using descriptor_roundtrip [OF assms(1)] descriptor_roundtrip [OF assms(2)] descriptor_roundtrip [OF assms(3)]
      assms(4,5)
    by (simp add: manifest_descriptors_def g)
  with p show ?thesis by (auto simp: assms(10) build_object_manifest_def)
qed

text \<open>C35. Manifest round trip: the manifest built for an object parses back, for any size bound it
  fits in, under its own SHA-256 digest, and its descriptors are exactly the config, payload and
  anchor descriptors it was built from.\<close>

theorem object_manifest_roundtrip:
  assumes "descriptor_ok anchor" "descriptor_ok config" "descriptor_ok payload"
    and "d_media_type anchor = OCI_MANIFEST_MEDIA_TYPE" "d_media_type config = MERIDIAN_OBJECT_CONFIG_MEDIA_TYPE"
    and "utf8_ok (d_media_type payload)" "utf8_ok object_hash" "utf8_ok created_at" "utf8_ok mutability"
    and "int (length (build_object_manifest anchor config payload object_hash created_at mutability)) \<le> n"
  shows "\<exists>doc. parse_manifest (build_object_manifest anchor config payload object_hash created_at mutability)
             (Some (sha256_digest (build_object_manifest anchor config payload object_hash created_at mutability))) n
             = Inr doc
      \<and> manifest_descriptors doc = Inr (config, payload, anchor)"
  using object_manifest_parses [OF assms(1-9) refl assms(10)] parse_manifest_expected by blast

theorem object_manifest_roundtrip_witness:
  "let a = \<lparr>d_media_type = OCI_MANIFEST_MEDIA_TYPE, d_digest = sha256_digest ''a'', d_size = 1\<rparr>;
       c = \<lparr>d_media_type = MERIDIAN_OBJECT_CONFIG_MEDIA_TYPE, d_digest = sha256_digest ''c'', d_size = 1\<rparr>;
       p = \<lparr>d_media_type = ''text/plain'', d_digest = sha256_digest ''hello'', d_size = 5\<rparr>;
       b = build_object_manifest a c p ''00ff'' ''2024-01-01T00:00:00Z'' ''immutable''
   in \<exists>doc. parse_manifest b (Some (sha256_digest b)) (int (length b)) = Inr doc
        \<and> manifest_descriptors doc = Inr (c, p, a)"
  unfolding Let_def
  by (rule object_manifest_roundtrip) (simp_all add: descriptor_ok_def utf8_ok_ascii)

text \<open>What \<open>StoredObject\<close> relies on in the object-common package: the dictionary forms are
  well-formed JSON objects, and parsing one gives the value back.\<close>

definition stored_codec_ok :: "object_common \<Rightarrow> stored_object \<Rightarrow> bool" where
  "stored_codec_ok oc s \<longleftrightarrow>
     json_wf (JObj (oc_metadata_to_dict oc (so_metadata s)))
     \<and> oc_parse_metadata oc (sort_fields (oc_metadata_to_dict oc (so_metadata s))) = Inr (so_metadata s)
     \<and> json_wf (JObj (oc_immutability_to_dict oc (so_immutability s)))
     \<and> oc_immutability_from oc (JObj (sort_fields (oc_immutability_to_dict oc (so_immutability s)))) = Inr (so_immutability s)
     \<and> (case so_retention s of None \<Rightarrow> True | Some r \<Rightarrow>
          json_wf (JObj (oc_retention_to_dict oc r))
          \<and> oc_retention_from oc (JObj (sort_fields (oc_retention_to_dict oc r))) = Inr r)"

lemma fst_sort_fields: "distinct (map fst ps) \<Longrightarrow> fst ` set (sort_fields ps) = fst ` set ps"
  by (auto simp: sort_fields_def image_image)

lemma sort_json_obj: "sort_json (JObj ps) = JObj (sort_fields ps)"
  by (simp add: sort_fields_def)

lemma stored_bytes_parse:
  assumes "stored_codec_ok oc s" and "int (length (stored_to_bytes oc s)) \<le> n"
  shows "stored_from_bytes oc (stored_to_bytes oc s) n = Inr s"
proof -
  let ?fs = "stored_fields oc s"
  have "list_all (\<lambda>k. list_all (\<lambda>c. oct c < 128) k) [''formatVersion'', ''metadata'', ''immutability'', ''retention'']"
    by simp
  then have "list_all utf8_ok [''formatVersion'', ''metadata'', ''immutability'', ''retention'']"
    by (auto intro: utf8_ok_ascii)
  then have wf: "json_wf (JObj ?fs)"
    using assms(1) by (auto simp: stored_codec_ok_def stored_fields_def split: option.splits)
  have g: "obj_get (sort_fields ?fs) k = sort_json (obj_get ?fs k)" for k
    using wf by (intro obj_get_sort_fields) simp
  have k: "fst ` set (sort_fields ?fs) = {''formatVersion'', ''metadata'', ''immutability'', ''retention''}"
    using wf by (subst fst_sort_fields) (auto simp: stored_fields_def)
  have "obj_get ?fs ''formatVersion'' = JStr STORED_METADATA_FORMAT"
    "obj_get ?fs ''metadata'' = JObj (oc_metadata_to_dict oc (so_metadata s))"
    "obj_get ?fs ''immutability'' = JObj (oc_immutability_to_dict oc (so_immutability s))"
    "obj_get ?fs ''retention'' = (case so_retention s of None \<Rightarrow> JNull | Some r \<Rightarrow> JObj (oc_retention_to_dict oc r))"
    by (simp_all add: obj_get_def stored_fields_def)
  note gets = this
  show ?thesis
    using assms parse_canonical_json [OF wf]
    by (cases "so_retention s") (simp_all add: stored_from_bytes_def stored_to_bytes_def k g gets stored_codec_ok_def
        sort_json_obj del: sort_json.simps(7))
qed

text \<open>C36. Stored-metadata round trip: an envelope within the size bound reads back as the stored
  object that was written.\<close>

theorem stored_object_roundtrip:
  assumes "stored_codec_ok oc s" and "int (length (stored_to_bytes oc s)) \<le> n"
  shows "stored_from_bytes oc (stored_to_bytes oc s) n = Inr s"
  using assms by (rule stored_bytes_parse)

end
