(* ===== verification/Client.thy ===== *)
theory Client
  imports Models
begin

text \<open>
  \<^verbatim>\<open>src/src/meridian_storage/adapters/oci/transport/client.py\<close>: the OCI Distribution HTTP client.

  The network is the parameter record \<open>http_env\<close>: \<open>he_send\<close> is \<open>build_request\<close> followed by
  \<open>send(stream=True, follow_redirects=True)\<close> and answers with a response whose body is a stream of
  chunks, or raises; \<open>he_sleep n\<close> is \<open>sleep(0.05 * 2**n)\<close>; \<open>he_rebuild\<close> is the body an
  \<open>httpx.Response\<close> constructed from headers and content exposes; the last two fields are the query
  operations of \<open>httpx.URL\<close>. Every operation is a function of an arbitrary world \<open>'w\<close>, so what is
  proved of it holds against any server.
\<close>

section \<open>HTTP\<close>

type_synonym headers = "(string \<times> string) list"

record http_request =
  rq_method :: string
  rq_url :: string
  rq_headers :: headers
  rq_content :: "string option"

text \<open>A streamed response: \<open>rs_url\<close> is the URL after redirects, \<open>rs_error\<close> the exception that
  ends the body stream, if any.\<close>

record http_response =
  rs_status :: nat
  rs_headers :: headers
  rs_url :: string
  rs_chunks :: "string list"
  rs_error :: "exn option"

text \<open>A response whose body was read.\<close>

record http_result =
  hr_status :: nat
  hr_headers :: headers
  hr_content :: string

text \<open>The operations of \<open>httpx\<close> that the client calls. One \<open>he_send\<close> is one call of \<open>send\<close> with
  \<open>follow_redirects=True\<close>: the redirects it follows inside are not seen apart, and \<open>rs_url\<close> is the final URL.\<close>

record 'w http_env =
  he_send :: "http_request \<Rightarrow> ('w, http_response) io"
  he_sleep :: "nat \<Rightarrow> ('w, unit) io"
  he_rebuild :: "headers \<Rightarrow> string \<Rightarrow> exn + string"
  he_merge_params :: "string \<Rightarrow> (string \<times> string) list \<Rightarrow> exn + string"
  he_add_param :: "string \<Rightarrow> string \<Rightarrow> string \<Rightarrow> exn + string"

text \<open>\<open>headers.get(name)\<close>: names are case-insensitive, repeated values are joined.\<close>

definition header_values :: "headers \<Rightarrow> string \<Rightarrow> string list" where
  "header_values hs name = map snd (filter (\<lambda>h. map to_lower (fst h) = map to_lower name) hs)"

definition header_get :: "headers \<Rightarrow> string \<Rightarrow> string option" where
  "header_get hs name = (if header_values hs name = [] then None else Some (join '', '' (header_values hs name)))"

definition header_or :: "headers \<Rightarrow> string \<Rightarrow> string \<Rightarrow> string" where
  "header_or hs name d = (case header_get hs name of None \<Rightarrow> d | Some v \<Rightarrow> v)"

record 'w client =
  cl_binding :: "'w binding"
  cl_http :: "'w http_env"
  cl_max_read_attempts :: nat

definition mk_client :: "'w binding \<Rightarrow> 'w http_env \<Rightarrow> int \<Rightarrow> exn + 'w client" where
  "mk_client b env attempts =
     (if attempts < 1 then Inl (exn_of ValueError ''max_read_attempts must be positive'')
      else Inr \<lparr>cl_binding = b, cl_http = env, cl_max_read_attempts = nat attempts\<rparr>)"

definition RETRIABLE_STATUS :: "nat list" where
  "RETRIABLE_STATUS = [408, 425, 500, 502, 503, 504]"

definition DEFAULT_RESPONSE_BYTES :: int where
  "DEFAULT_RESPONSE_BYTES = 64 * 1024"

section \<open>Origins, locations and URLs\<close>

definition origin :: "string \<Rightarrow> exn + string \<times> string \<times> nat" where
  "origin v =
     bindE (urlsplit v) (\<lambda>parsed.
     bindE (sr_port parsed) (\<lambda>po.
     Inr (sr_scheme parsed, (case sr_hostname parsed of None \<Rightarrow> [] | Some h \<Rightarrow> h),
          (case po of
             Some p \<Rightarrow> if p = 0 then (if sr_scheme parsed = ''https'' then 443 else 80) else p
           | None \<Rightarrow> if sr_scheme parsed = ''https'' then 443 else 80))))"

text \<open>\<open>_origin(a) == _origin(b)\<close>; either side may raise.\<close>

definition same_origin :: "string \<Rightarrow> string \<Rightarrow> exn + bool" where
  "same_origin a b = bindE (origin a) (\<lambda>x. bindE (origin b) (\<lambda>y. Inr (x = y)))"

abbreviation unavailable :: "string \<Rightarrow> exn" where
  "unavailable m \<equiv> exn_of ObjectUnavailable m"

definition client_location :: "'w client \<Rightarrow> http_result \<Rightarrow> exn + string" where
  "client_location cl response =
     (case header_get (hr_headers response) ''Location'' of
        None \<Rightarrow> Inl (unavailable ''registry upload response omitted Location'')
      | Some location \<Rightarrow>
          if location = [] then Inl (unavailable ''registry upload response omitted Location'')
          else
            bindE (urljoin (b_endpoint (cl_binding cl) @ ''/'') location) (\<lambda>resolved.
            bindE (urlsplit resolved) (\<lambda>parsed.
            bindE (guardE (sr_scheme parsed \<in> {''http'', ''https''} \<and> sr_hostname parsed \<noteq> None
                     \<and> (case sr_username parsed of None \<Rightarrow> True | Some u \<Rightarrow> u = []))
                     (unavailable ''registry returned an invalid upload Location'')) (\<lambda>_.
            bindE (if sr_scheme parsed = ''http''
                   then (if b_allow_insecure_http (cl_binding cl)
                         then same_origin resolved (b_endpoint (cl_binding cl)) else Inr False)
                   else Inr True) (\<lambda>secure.
            bindE (guardE secure (unavailable ''registry returned an insecure upload Location'')) (\<lambda>_.
            Inr resolved))))))"

definition require_safe_response_url :: "'w client \<Rightarrow> http_response \<Rightarrow> exn + unit" where
  "require_safe_response_url cl response =
     bindE (urlsplit (rs_url response)) (\<lambda>parsed.
     bindE (if b_allow_insecure_http (cl_binding cl)
            then same_origin (rs_url response) (b_endpoint (cl_binding cl)) else Inr False) (\<lambda>allowed_http.
     guardE (\<not> (sr_scheme parsed \<notin> {''http'', ''https''} \<or> sr_hostname parsed = None
               \<or> sr_username parsed \<noteq> None \<or> (sr_scheme parsed = ''http'' \<and> \<not> allowed_http)))
       (unavailable ''registry returned an insecure redirect'')))"

definition client_url :: "'w client \<Rightarrow> string \<Rightarrow> string" where
  "client_url cl path = b_endpoint (cl_binding cl) @ path"

definition client_repository :: "'w client \<Rightarrow> string" where
  "client_repository cl = quote ''/'' (b_repository (cl_binding cl))"

definition blob_url :: "'w client \<Rightarrow> string \<Rightarrow> string" where
  "blob_url cl digest = client_url cl (''/v2/'' @ client_repository cl @ ''/blobs/'' @ quote '':'' digest)"

definition manifest_url :: "'w client \<Rightarrow> string \<Rightarrow> string" where
  "manifest_url cl reference = client_url cl (''/v2/'' @ client_repository cl @ ''/manifests/'' @ quote '':._-'' reference)"

section \<open>Requests\<close>

definition merge_headers :: "string option \<Rightarrow> headers \<Rightarrow> headers" where
  "merge_headers authorization additional =
     (let result = [(''User-Agent'', ''meridian-storage-oci/1.0.0''), (''Accept'', ''application/json'')];
          result' = (case authorization of None \<Rightarrow> result | Some v \<Rightarrow> AList.update ''Authorization'' v result)
      in AList.updates (map fst additional) (map snd additional) result')"

definition client_headers :: "'w client \<Rightarrow> string \<Rightarrow> headers \<Rightarrow> ('w, headers) io" where
  "client_headers cl url additional =
     bnd (lift (same_origin url (b_endpoint (cl_binding cl)))) (\<lambda>same.
     bnd (if same then authorization_header (b_credentials (cl_binding cl)) else ret None) (\<lambda>authorization.
     ret (merge_headers authorization additional)))"

definition provider_code :: "string \<Rightarrow> string" where
  "provider_code content =
     (case json_loads content of
        Inr (JObj ps) \<Rightarrow>
          (case obj_get ps ''errors'' of
             JArr (JObj es # _) \<Rightarrow> (case obj_get es ''code'' of JStr c \<Rightarrow> c | _ \<Rightarrow> ''HTTP_ERROR'')
           | _ \<Rightarrow> ''HTTP_ERROR'')
      | _ \<Rightarrow> ''HTTP_ERROR'')"

text \<open>\<open>_raise_response\<close>: the exception it raises, its decisions in order.\<close>

definition error_kind :: "nat \<Rightarrow> string \<Rightarrow> exn_kind" where
  "error_kind status code =
     (if status = 401 \<or> code = ''UNAUTHORIZED'' then ObjectAuthenticationFailed
      else if status = 403 \<or> code = ''DENIED'' then ObjectAuthorizationFailed
      else if status = 404 \<or> code \<in> {''BLOB_UNKNOWN'', ''MANIFEST_UNKNOWN'', ''NAME_UNKNOWN''} then ObjectNotFound
      else if status = 409 then ConditionalConflict
      else if status = 416 then RangeNotSatisfiable
      else if status = 429 \<or> code = ''TOOMANYREQUESTS'' then ObjectRateLimited
      else if status \<in> {413, 507} then ObjectQuotaExceeded
      else if code = ''DIGEST_INVALID'' then DigestMismatch
      else if code \<in> {''BLOB_UPLOAD_INVALID'', ''BLOB_UPLOAD_UNKNOWN''} then IncompleteUpload
      else if 400 \<le> status \<and> status < 500 then ObjectInvalidRequest
      else ObjectUnavailable)"

definition error_message :: "exn_kind \<Rightarrow> string option" where
  "error_message k =
     (if k = ObjectInvalidRequest then Some ''OCI registry rejected the request''
      else if k = ObjectUnavailable then Some ''OCI registry is unavailable'' else None)"

definition response_error :: "nat \<Rightarrow> string \<Rightarrow> exn" where
  "response_error status content =
     (let code = provider_code content; k = error_kind status code
      in Exn k (error_message k)
           [(''adapterId'', ''oci-distribution''), (''providerCode'', code), (''httpStatus'', str_nat status)])"

text \<open>The reading loop of \<open>_bounded_response\<close>.\<close>

fun read_bounded :: "int \<Rightarrow> string \<Rightarrow> string list \<Rightarrow> exn option \<Rightarrow> exn + string" where
  "read_bounded maximum body [] err = (case err of None \<Rightarrow> Inr body | Some e \<Rightarrow> Inl e)"
| "read_bounded maximum body (c # cs) err =
     (if maximum < int (length (body @ c))
      then Inl (unavailable ''OCI registry response exceeded its configured bound'')
      else read_bounded maximum (body @ c) cs err)"

definition bounded_response :: "'w client \<Rightarrow> http_response \<Rightarrow> int \<Rightarrow> exn + http_result" where
  "bounded_response cl response maximum =
     bindE (read_bounded maximum [] (rs_chunks response) (rs_error response)) (\<lambda>body.
     bindE (he_rebuild (cl_http cl) (rs_headers response) body) (\<lambda>content.
     Inr \<lparr>hr_status = rs_status response, hr_headers = rs_headers response, hr_content = content\<rparr>))"

text \<open>\<open>try: m except httpx.HTTPError\<close>, with \<open>None\<close> for the caught case.\<close>

definition catch_http :: "('w, 'a) io \<Rightarrow> ('w, 'a option) io" where
  "catch_http m = catch (bnd m (\<lambda>a. ret (Some a))) (\<lambda>e. if exn_kind_of e = HTTPError then ret None else raise e)"

text \<open>One round of the retry loop: a response, an exception, or \<open>None\<close> when the loop goes on (or,
  on the last attempt, gives up).\<close>

definition request_once ::
  "'w client \<Rightarrow> string \<Rightarrow> string \<Rightarrow> headers \<Rightarrow> string option \<Rightarrow> nat list \<Rightarrow> int \<Rightarrow> bool \<Rightarrow> ('w, http_result option) io" where
  "request_once cl method url headers content expected maximum last_attempt =
     bnd (catch_http (bnd (client_headers cl url headers) (\<lambda>hs.
            he_send (cl_http cl) \<lparr>rq_method = method, rq_url = url, rq_headers = hs, rq_content = content\<rparr>)))
     (\<lambda>sent. case sent of
        None \<Rightarrow> ret None
      | Some response \<Rightarrow>
          bnd (lift (require_safe_response_url cl response)) (\<lambda>_.
          if rs_status response \<in> set RETRIABLE_STATUS \<and> \<not> last_attempt then ret None
          else (case bounded_response cl response maximum of
             Inr result \<Rightarrow>
               if hr_status result \<in> set expected then ret (Some result)
               else raise (response_error (hr_status result) (hr_content result))
           | Inl e \<Rightarrow>
               if exn_kind_of e = ObjectUnavailable then
                 (if rs_status response \<notin> set expected
                  then bnd (lift (he_rebuild (cl_http cl) (rs_headers response) [])) (\<lambda>empty.
                       raise (response_error (rs_status response) empty))
                  else raise e)
               else if exn_kind_of e = HTTPError then ret None
               else raise e)))"

primrec request_loop ::
  "(bool \<Rightarrow> ('w, 'r option) io) \<Rightarrow> (nat \<Rightarrow> ('w, unit) io) \<Rightarrow> nat \<Rightarrow> nat \<Rightarrow> ('w, 'r) io" where
  "request_loop once sleep 0 attempt = raise (unavailable ''OCI registry request failed'')"
| "request_loop once sleep (Suc k) attempt =
     bnd (once (k = 0)) (\<lambda>r. case r of
        Some x \<Rightarrow> ret x
      | None \<Rightarrow> if k = 0 then raise (unavailable ''OCI registry request failed'')
          else bnd (sleep attempt) (\<lambda>_. request_loop once sleep k (Suc attempt)))"

definition client_request ::
  "'w client \<Rightarrow> string \<Rightarrow> string \<Rightarrow> headers \<Rightarrow> string option \<Rightarrow> nat list \<Rightarrow> bool \<Rightarrow> int \<Rightarrow> ('w, http_result) io" where
  "client_request cl method url headers content expected retry maximum =
     request_loop (request_once cl method url headers content expected maximum) (he_sleep (cl_http cl))
       (if retry then cl_max_read_attempts cl else 1) 0"

section \<open>Blobs\<close>

definition content_length :: "http_result \<Rightarrow> exn + nat" where
  "content_length response =
     (case header_get (hr_headers response) ''Content-Length'' of
        Some v \<Rightarrow> if py_isdigit v then Inr (digits_val v)
          else Inl (unavailable ''registry response omitted a valid Content-Length'')
      | None \<Rightarrow> Inl (unavailable ''registry response omitted a valid Content-Length''))"

definition ping :: "'w client \<Rightarrow> ('w, (string \<times> string) list) io" where
  "ping cl =
     bnd (client_request cl ''GET'' (client_url cl ''/v2/'') [] None [200] True DEFAULT_RESPONSE_BYTES) (\<lambda>response.
     ret [(''apiVersion'', header_or (hr_headers response) ''Docker-Distribution-Api-Version'' ''unknown''),
          (''status'', ''ok'')])"

definition head_blob :: "'w client \<Rightarrow> string \<Rightarrow> ('w, oci_descriptor option) io" where
  "head_blob cl digest =
     bnd (client_request cl ''HEAD'' (blob_url cl digest) [] None [200, 404] True DEFAULT_RESPONSE_BYTES) (\<lambda>response.
     if hr_status response = 404 then ret None
     else
       bnd (lift (content_length response)) (\<lambda>sz.
       if header_or (hr_headers response) ''Docker-Content-Digest'' digest \<noteq> digest
       then raise (exn_of DigestMismatch ''registry blob HEAD returned a different digest'')
       else bnd (lift (mk_descriptor ''application/octet-stream'' digest (int sz))) (\<lambda>d. ret (Some d))))"

definition start_upload :: "'w client \<Rightarrow> ('w, upload_location) io" where
  "start_upload cl =
     bnd (client_request cl ''POST'' (client_url cl (''/v2/'' @ client_repository cl @ ''/blobs/uploads/''))
            [(''Content-Length'', ''0'')] None [202] False DEFAULT_RESPONSE_BYTES) (\<lambda>response.
     bnd (lift (client_location cl response)) (\<lambda>location.
     ret \<lparr>ul_url = location, ul_uuid = header_get (hr_headers response) ''Docker-Upload-UUID'',
          ul_minimum_chunk_bytes =
            (case header_get (hr_headers response) ''OCI-Chunk-Min-Length'' of
               Some m \<Rightarrow> if py_isdigit m then Some (digits_val m) else None
             | None \<Rightarrow> None),
          ul_offset = 0\<rparr>))"

definition uuid_or :: "http_result \<Rightarrow> upload_location \<Rightarrow> string option" where
  "uuid_or response upload =
     (case header_get (hr_headers response) ''Docker-Upload-UUID'' of None \<Rightarrow> ul_uuid upload | Some u \<Rightarrow> Some u)"

definition patch_upload :: "'w client \<Rightarrow> upload_location \<Rightarrow> string \<Rightarrow> ('w, upload_location) io" where
  "patch_upload cl upload chunk =
     (if chunk = [] then raise (exn_of ValueError ''an OCI upload chunk cannot be empty'')
      else
        let start = ul_offset upload; end' = start + length chunk - 1
        in bnd (client_request cl ''PATCH'' (ul_url upload)
             [(''Content-Type'', ''application/octet-stream''), (''Content-Length'', str_nat (length chunk)),
              (''Content-Range'', str_nat start @ ''-'' @ str_nat end')] (Some chunk) [202] False DEFAULT_RESPONSE_BYTES)
           (\<lambda>response.
           if (case header_get (hr_headers response) ''Range'' of None \<Rightarrow> False | Some r \<Rightarrow> r \<noteq> ''0-'' @ str_nat end')
           then raise (exn_of IncompleteUpload ''registry acknowledged an unexpected upload range'')
           else bnd (lift (client_location cl response)) (\<lambda>location.
                ret \<lparr>ul_url = location, ul_uuid = uuid_or response upload,
                     ul_minimum_chunk_bytes = ul_minimum_chunk_bytes upload, ul_offset = end' + 1\<rparr>)))"

definition finish_upload :: "'w client \<Rightarrow> upload_location \<Rightarrow> string \<Rightarrow> ('w, oci_descriptor) io" where
  "finish_upload cl upload digest =
     bnd (lift (he_merge_params (cl_http cl) (ul_url upload) [(''digest'', digest)])) (\<lambda>url.
     bnd (client_request cl ''PUT'' url
            [(''Content-Type'', ''application/octet-stream''), (''Content-Length'', ''0'')] (Some []) [201] False
            DEFAULT_RESPONSE_BYTES) (\<lambda>response.
     if header_or (hr_headers response) ''Docker-Content-Digest'' digest \<noteq> digest
     then raise (exn_of DigestMismatch ''registry finalized the blob under a different digest'')
     else lift (mk_descriptor ''application/octet-stream'' digest (int (ul_offset upload)))))"

definition abort_upload :: "'w client \<Rightarrow> upload_location \<Rightarrow> ('w, unit) io" where
  "abort_upload cl upload =
     bnd (client_request cl ''DELETE'' (ul_url upload) [] None [204, 404] True DEFAULT_RESPONSE_BYTES) (\<lambda>_. ret ())"

definition client_abort_safely :: "'w client \<Rightarrow> upload_location \<Rightarrow> ('w, unit) io" where
  "client_abort_safely cl upload = try_safely (abort_upload cl upload)"

definition upload_status :: "'w client \<Rightarrow> upload_location \<Rightarrow> ('w, upload_location) io" where
  "upload_status cl upload =
     bnd (client_request cl ''GET'' (ul_url upload) [] None [204] True DEFAULT_RESPONSE_BYTES) (\<lambda>response.
     let returned_range = header_or (hr_headers response) ''Range'' [];
         offset = (if startswith returned_range ''0-'' \<and> py_isdigit (drop 2 returned_range)
                   then digits_val (drop 2 returned_range) + 1 else ul_offset upload)
     in bnd (lift (client_location cl response)) (\<lambda>location.
        ret \<lparr>ul_url = location, ul_uuid = uuid_or response upload,
             ul_minimum_chunk_bytes = ul_minimum_chunk_bytes upload, ul_offset = offset\<rparr>))"

text \<open>The \<open>try\<close> block of \<open>upload_blob_bytes\<close>: the monolithic PUT, aborted if anything fails.\<close>

definition put_whole_blob :: "'w client \<Rightarrow> upload_location \<Rightarrow> string \<Rightarrow> ('w, unit) io" where
  "put_whole_blob cl upload v =
     catch
       (bnd (lift (he_merge_params (cl_http cl) (ul_url upload) [(''digest'', sha256_digest v)])) (\<lambda>url.
        bnd (client_request cl ''PUT'' url [(''Content-Type'', ''application/octet-stream'')] (Some v)
               [201] False DEFAULT_RESPONSE_BYTES) (\<lambda>response.
        if header_or (hr_headers response) ''Docker-Content-Digest'' (sha256_digest v) \<noteq> sha256_digest v
        then raise (exn_of DigestMismatch ''registry stored a different blob digest'')
        else ret ())))
       (\<lambda>e. bnd (client_abort_safely cl upload) (\<lambda>_. raise e))"

definition upload_blob_bytes :: "'w client \<Rightarrow> string \<Rightarrow> string \<Rightarrow> ('w, oci_descriptor) io" where
  "upload_blob_bytes cl v media_type =
     bnd (head_blob cl (sha256_digest v)) (\<lambda>existing. case existing of
        Some d \<Rightarrow>
          if d_size d \<noteq> length v
          then raise (exn_of DigestMismatch ''existing registry blob size does not match its digest'')
          else lift (mk_descriptor media_type (sha256_digest v) (int (length v)))
      | None \<Rightarrow>
          bnd (start_upload cl) (\<lambda>upload.
          bnd (put_whole_blob cl upload v) (\<lambda>_.
          lift (mk_descriptor media_type (sha256_digest v) (int (length v))))))"

definition get_blob_bytes :: "'w client \<Rightarrow> oci_descriptor \<Rightarrow> int \<Rightarrow> ('w, string) io" where
  "get_blob_bytes cl descriptor maximum_bytes =
     (if maximum_bytes < int (d_size descriptor)
      then raise (exn_of ObjectInvalidRequest ''registry blob exceeds the configured metadata bound'')
      else
        bnd (client_request cl ''GET'' (blob_url cl (d_digest descriptor)) [] None [200] True maximum_bytes) (\<lambda>response.
        let body = hr_content response
        in if maximum_bytes < int (length body) \<or> length body \<noteq> d_size descriptor
           then raise (exn_of DigestMismatch ''registry blob length does not match its descriptor'')
           else if sha256_digest body \<noteq> d_digest descriptor
           then raise (exn_of DigestMismatch ''registry blob content does not match its descriptor'')
           else ret body))"

definition open_blob :: "'w client \<Rightarrow> string \<Rightarrow> (int \<times> int option) option \<Rightarrow> ('w, chunk_stream) io" where
  "open_blob cl digest rng =
     bnd (case rng of
            None \<Rightarrow> ret [(''Accept-Encoding'', ''identity'')]
          | Some (start, None) \<Rightarrow> raise (exn_of ValueError ''a resolved OCI range requires an end'')
          | Some (start, Some end') \<Rightarrow>
              ret [(''Accept-Encoding'', ''identity''), (''Range'', ''bytes='' @ str_int start @ ''-'' @ str_int end')])
     (\<lambda>headers.
     bnd (client_headers cl (blob_url cl digest) headers) (\<lambda>hs.
     bnd (catch_http (he_send (cl_http cl)
            \<lparr>rq_method = ''GET'', rq_url = blob_url cl digest, rq_headers = hs, rq_content = None\<rparr>)) (\<lambda>sent.
     case sent of
       None \<Rightarrow> raise (unavailable ''OCI registry request failed'')
     | Some response \<Rightarrow>
         bnd (lift (require_safe_response_url cl response)) (\<lambda>_.
         if rs_status response \<noteq> (if rng = None then 200 else 206)
         then (case rs_error response of
                 Some e \<Rightarrow> raise e
               | None \<Rightarrow> raise (response_error (rs_status response) (concat (rs_chunks response))))
         else if (case header_get (rs_headers response) ''Docker-Content-Digest'' of None \<Rightarrow> False | Some d \<Rightarrow> d \<noteq> digest)
         then raise (exn_of DigestMismatch ''registry blob response identified a different digest'')
         else if (case rng of
                    Some (start, Some end') \<Rightarrow>
                      \<not> startswith (header_or (rs_headers response) ''Content-Range'' [])
                          (''bytes '' @ str_int start @ ''-'' @ str_int end' @ ''/'')
                  | _ \<Rightarrow> False)
         then raise (exn_of RangeNotSatisfiable ''registry returned an unexpected byte range'')
         else ret (rs_chunks response, rs_error response)))))"

section \<open>Manifests\<close>

definition get_manifest :: "'w client \<Rightarrow> string \<Rightarrow> ('w, manifest_document) io" where
  "get_manifest cl reference =
     bnd (client_request cl ''GET'' (manifest_url cl reference) [(''Accept'', OCI_MANIFEST_MEDIA_TYPE)] None [200] True
            (b_max_manifest_bytes (cl_binding cl))) (\<lambda>response.
     bnd (lift (catchE (parse_manifest (hr_content response)
                  (if startswith reference ''sha256:'' then Some reference else None) (b_max_manifest_bytes (cl_binding cl)))
                is_type_or_value_error (exn_of DigestMismatch ''registry returned an invalid OCI manifest''))) (\<lambda>document.
     if (case header_get (hr_headers response) ''Docker-Content-Digest'' of None \<Rightarrow> False | Some d \<Rightarrow> d \<noteq> md_digest document)
     then raise (exn_of DigestMismatch ''registry manifest response digest is invalid'')
     else
       let content_type = before (CHR '';'') (header_or (hr_headers response) ''Content-Type'' [])
       in if content_type \<noteq> [] \<and> content_type \<noteq> md_media_type document
          then raise (exn_of DigestMismatch ''registry manifest Content-Type does not match its body'')
          else ret document))"

definition manifest_exists :: "'w client \<Rightarrow> string \<Rightarrow> ('w, bool) io" where
  "manifest_exists cl reference =
     bnd (client_request cl ''HEAD'' (manifest_url cl reference) [(''Accept'', OCI_MANIFEST_MEDIA_TYPE)] None [200, 404] True
            DEFAULT_RESPONSE_BYTES) (\<lambda>response. ret (hr_status response = 200))"

definition put_manifest :: "'w client \<Rightarrow> string \<Rightarrow> string \<Rightarrow> ('w, oci_descriptor) io" where
  "put_manifest cl reference body =
     bnd (lift (parse_manifest body None (b_max_manifest_bytes (cl_binding cl)))) (\<lambda>document.
     bnd (client_request cl ''PUT'' (manifest_url cl reference) [(''Content-Type'', OCI_MANIFEST_MEDIA_TYPE)] (Some body) [201]
            False DEFAULT_RESPONSE_BYTES) (\<lambda>response.
     if header_or (hr_headers response) ''Docker-Content-Digest'' (md_digest document) \<noteq> md_digest document
     then raise (exn_of DigestMismatch ''registry stored a different manifest digest'')
     else lift (mk_descriptor OCI_MANIFEST_MEDIA_TYPE (md_digest document) (int (length body)))))"

definition delete_manifest :: "'w client \<Rightarrow> string \<Rightarrow> ('w, bool) io" where
  "delete_manifest cl digest =
     bnd (client_request cl ''DELETE'' (manifest_url cl digest) [] None [202, 404] True DEFAULT_RESPONSE_BYTES) (\<lambda>response.
     ret (hr_status response \<noteq> 404))"

section \<open>Listings\<close>

abbreviation is_json_error :: "exn \<Rightarrow> bool" where
  "is_json_error e \<equiv> exn_kind_of e \<in> {JSONDecodeError, UnicodeDecodeError}"

definition tag_values :: "json \<Rightarrow> exn + string list" where
  "tag_values v =
     (case obj_get (fields_of v) ''tags'' of
        JNull \<Rightarrow> Inr []
      | JArr xs \<Rightarrow> if list_all is_str xs then Inr (map (\<lambda>x. case x of JStr s \<Rightarrow> s | _ \<Rightarrow> []) xs)
          else Inl (unavailable ''registry tag response is invalid'')
      | _ \<Rightarrow> Inl (unavailable ''registry tag response is invalid''))"

definition list_tags :: "'w client \<Rightarrow> int \<Rightarrow> string option \<Rightarrow> ('w, tag_page) io" where
  "list_tags cl limit last_tag =
     bnd (lift (he_merge_params (cl_http cl) (client_url cl (''/v2/'' @ client_repository cl @ ''/tags/list''))
            ((''n'', str_int limit) # (case last_tag of None \<Rightarrow> [] | Some l \<Rightarrow> [(''last'', l)])))) (\<lambda>url.
     bnd (client_request cl ''GET'' url [] None [200, 404] True (max DEFAULT_RESPONSE_BYTES (limit * 192 + 1024))) (\<lambda>response.
     if hr_status response = 404 then ret \<lparr>tp_tags = [], tp_has_more = False\<rparr>
     else
       bnd (lift (catchE (json_loads (hr_content response)) is_json_error
              (unavailable ''registry tag response is not valid JSON''))) (\<lambda>v.
       bnd (lift (tag_values v)) (\<lambda>tags.
       ret \<lparr>tp_tags = tags,
            tp_has_more = contains (header_or (hr_headers response) ''Link'' []) ''rel=\"next\"'' \<or> limit \<le> int (length tags)\<rparr>))))"

fun referrer_descriptors :: "json list \<Rightarrow> exn + oci_descriptor list" where
  "referrer_descriptors [] = Inr []"
| "referrer_descriptors (item # rest) =
     (case item of
        JObj ps \<Rightarrow>
          bindE (catchE (descriptor_from_mapping ps) is_type_or_value_error
                   (unavailable ''registry referrers descriptor is invalid'')) (\<lambda>d.
          bindE (referrer_descriptors rest) (\<lambda>ds. Inr (d # ds)))
      | _ \<Rightarrow> Inl (unavailable ''registry referrers descriptor is invalid''))"

definition get_referrers :: "'w client \<Rightarrow> string \<Rightarrow> string \<Rightarrow> ('w, oci_descriptor list) io" where
  "get_referrers cl subject_digest artifact_type =
     bnd (lift (he_add_param (cl_http cl)
            (client_url cl (''/v2/'' @ client_repository cl @ ''/referrers/'' @ quote '':'' subject_digest))
            ''artifactType'' artifact_type)) (\<lambda>url.
     bnd (client_request cl ''GET'' url [(''Accept'', ''application/vnd.oci.image.index.v1+json'')] None [200, 404] True
            (b_max_manifest_bytes (cl_binding cl))) (\<lambda>response.
     if hr_status response = 404 then ret []
     else
       bnd (lift (catchE (json_loads (hr_content response)) is_json_error
              (unavailable ''registry referrers response is not valid JSON''))) (\<lambda>v.
       case map_of (fields_of v) ''manifests'' of
         None \<Rightarrow> ret []
       | Some (JArr items) \<Rightarrow> lift (referrer_descriptors items)
       | Some _ \<Rightarrow> raise (unavailable ''registry referrers response is invalid''))))"

end
