(* ===== verification/Retention.thy ===== *)
theory Retention
  imports Object_Common
begin

text \<open>
  \<^verbatim>\<open>src/src/meridian_storage/adapters/oci/retention/__init__.py\<close>: the retention gate of deletion.
  Without an explicit time the source reads the wall clock in UTC, which is the argument
  \<open>current\<close> here.
\<close>

definition require_delete_permitted ::
  "object_common \<Rightarrow> int \<Rightarrow> retention_request option \<Rightarrow> datetime option \<Rightarrow> exn + unit" where
  "require_delete_permitted oc current retention now =
     (case retention of
        None \<Rightarrow> Inr ()
      | Some r \<Rightarrow>
          (case (case now of None \<Rightarrow> AwareTime current | Some t \<Rightarrow> t) of
             NaiveTime _ \<Rightarrow> Inl (exn_of ValueError ''retention evaluation time must be timezone-aware'')
           | AwareTime t \<Rightarrow>
               (case rt_retain_until r of
                  None \<Rightarrow> Inl (exn_of RetentionDenied ''logical retention policy requires an external release decision'')
                | Some _ \<Rightarrow> oc_require_delete_allowed oc r t)))"

lemma require_delete_permitted_Inr:
  "require_delete_permitted oc current retention (Some now) = Inr () \<longleftrightarrow>
     (case retention of None \<Rightarrow> True | Some r \<Rightarrow>
        rt_retain_until r \<noteq> None \<and> (\<exists>t. now = AwareTime t \<and> oc_require_delete_allowed oc r t = Inr ()))"
  by (auto simp: require_delete_permitted_def split: option.splits datetime.splits)

end
