(* ===== verification/Adapter.thy ===== *)
theory Adapter
  imports Client Retention
begin

text \<open>
  \<^verbatim>\<open>src/src/meridian_storage/adapters/oci/adapter.py\<close>: the data-plane adapter.

  The adapter talks to the registry through the transport object it is given; \<open>transport\<close> is the
  record of that object's operations and \<open>http_transport\<close> is the HTTP client of \<open>Client\<close> as such an
  object. Every handler is a whole method of the source: reads, guards, uploads, publication and
  clean-up in its order. The write lock makes a handler one critical section, which the model's
  sequential execution is. An operation's input is a record of the members the handlers read; the
  core package validates the envelope before the adapter sees it.
\<close>

section \<open>The transport object\<close>

record 'w transport =
  tr_ping :: "('w, (string \<times> string) list) io"
  tr_head_blob :: "string \<Rightarrow> ('w, oci_descriptor option) io"
  tr_start_upload :: "('w, upload_location) io"
  tr_patch_upload :: "upload_location \<Rightarrow> string \<Rightarrow> ('w, upload_location) io"
  tr_finish_upload :: "upload_location \<Rightarrow> string \<Rightarrow> ('w, oci_descriptor) io"
  tr_abort_upload :: "upload_location \<Rightarrow> ('w, unit) io"
  tr_upload_status :: "upload_location \<Rightarrow> ('w, upload_location) io"
  tr_upload_blob_bytes :: "string \<Rightarrow> string \<Rightarrow> ('w, oci_descriptor) io"
  tr_get_blob_bytes :: "oci_descriptor \<Rightarrow> int \<Rightarrow> ('w, string) io"
  tr_open_blob :: "string \<Rightarrow> (int \<times> int option) option \<Rightarrow> ('w, chunk_stream) io"
  tr_get_manifest :: "string \<Rightarrow> ('w, manifest_document) io"
  tr_manifest_exists :: "string \<Rightarrow> ('w, bool) io"
  tr_put_manifest :: "string \<Rightarrow> string \<Rightarrow> ('w, oci_descriptor) io"
  tr_delete_manifest :: "string \<Rightarrow> ('w, bool) io"
  tr_list_tags :: "int \<Rightarrow> string option \<Rightarrow> ('w, tag_page) io"
  tr_get_referrers :: "string \<Rightarrow> string \<Rightarrow> ('w, oci_descriptor list) io"

definition http_transport :: "'w client \<Rightarrow> 'w transport" where
  "http_transport cl =
     \<lparr>tr_ping = ping cl, tr_head_blob = head_blob cl, tr_start_upload = start_upload cl,
      tr_patch_upload = patch_upload cl, tr_finish_upload = finish_upload cl, tr_abort_upload = abort_upload cl,
      tr_upload_status = upload_status cl, tr_upload_blob_bytes = upload_blob_bytes cl,
      tr_get_blob_bytes = get_blob_bytes cl, tr_open_blob = open_blob cl, tr_get_manifest = get_manifest cl,
      tr_manifest_exists = manifest_exists cl, tr_put_manifest = put_manifest cl,
      tr_delete_manifest = delete_manifest cl, tr_list_tags = list_tags cl, tr_get_referrers = get_referrers cl\<rparr>"

section \<open>State and operations\<close>

record 'w adapter =
  ap_binding :: "'w binding"
  ap_transport :: "'w transport"
  ap_clock :: "('w, datetime) io"
  ap_common :: object_common
  ap_manifest :: capability_manifest
  ap_cursor :: cursor_codec

definition mk_adapter :: "object_common \<Rightarrow> 'w binding \<Rightarrow> 'w transport \<Rightarrow> ('w, datetime) io \<Rightarrow> exn + 'w adapter" where
  "mk_adapter oc b tr clock =
     bindE (mk_cursor_codec (b_cursor_signing_key b)) (\<lambda>cursor.
     Inr \<lparr>ap_binding = b, ap_transport = tr, ap_clock = clock, ap_common = oc,
          ap_manifest = configured_capability_manifest b, ap_cursor = cursor\<rparr>)"

definition target_id :: "'w adapter \<Rightarrow> string" where
  "target_id A = ADAPTER_ID @ '':'' @ public_fingerprint (ap_binding A)"

record operation_input =
  in_object_id :: string
  in_payload :: json
  in_create_only :: bool
  in_immutability :: json
  in_retention :: json
  in_provenance :: json
  in_media_type :: json
  in_creation_context :: json
  in_user_metadata :: json
  in_expected_digest :: "string option"
  in_expected_length :: "int option"
  in_reference :: json
  in_range :: json
  in_prefix :: string
  in_limit :: int
  in_cursor :: "string option"

record operation =
  op_catalog :: string
  op_contract :: string
  op_version :: string
  op_resources :: "resource_ref list"
  op_requirements :: json
  op_input :: operation_input

definition validate_operation :: "'w adapter \<Rightarrow> operation \<Rightarrow> exn + string" where
  "validate_operation A operation =
     (if op_catalog operation \<noteq> ''object'' \<or> \<not> startswith (op_contract operation) ''meridian.object.''
      then Inl (exn_of ObjectInvalidRequest ''Operation is not an Object Catalog Operation'')
      else if op_version operation \<noteq> ''1.0.0''
      then Inl (exn_of ObjectCapabilityMismatch ''OCI Distribution Adapter supports Object Operation version 1.0.0 only'')
      else if op_resources operation \<noteq> [b_resource (ap_binding A)]
      then Inl (exn_of ObjectInvalidRequest ''Operation Resource does not match the private binding'')
      else if op_contract operation \<notin> set (cm_available (ap_manifest A))
      then Inl (Exn ObjectCapabilityMismatch (Some ''Object Operation is unavailable in the configured OCI binding'')
                  [(''operation_contract'', op_contract operation)])
      else Inr (rsplit_last (CHR ''.'') (op_contract operation)))"

definition semantic_resource_of :: "'w adapter \<Rightarrow> semantic_resource" where
  "semantic_resource_of A =
     \<lparr>sem_catalog = CATALOG_OBJECT, sem_namespace = rr_namespace (b_resource (ap_binding A)), sem_name = rr_name (b_resource (ap_binding A))\<rparr>"

definition adapter_now :: "'w adapter \<Rightarrow> ('w, int) io" where
  "adapter_now A =
     bnd (ap_clock A) (\<lambda>v. case v of
        NaiveTime _ \<Rightarrow> raise (exn_of ValueError ''adapter clock must return a timezone-aware datetime'')
      | AwareTime t \<Rightarrow> ret t)"

definition adapter_abort_safely :: "'w adapter \<Rightarrow> upload_location \<Rightarrow> ('w, unit) io" where
  "adapter_abort_safely A upload = try_safely (tr_abort_upload (ap_transport A) upload)"

definition adapter_reference :: "'w adapter \<Rightarrow> operation_input \<Rightarrow> bool \<Rightarrow> exn + object_reference" where
  "adapter_reference A v require_digest =
     (case in_reference v of
        JObj raw \<Rightarrow>
          bindE (case oc_parse_reference (ap_common A) raw require_digest of
                   Inr r \<Rightarrow> Inr r
                 | Inl e \<Rightarrow>
                     if is_type_or_value_error e
                     then Inl (exn_of ObjectInvalidRequest
                            (''invalid Object reference: '' @ (case exn_msg e of None \<Rightarrow> [] | Some msg \<Rightarrow> msg)))
                     else Inl e) (\<lambda>reference.
          bindE (guardE (or_resource reference = semantic_resource_of A)
                   (exn_of ObjectInvalidRequest ''Object reference does not match the private binding'')) (\<lambda>_.
          Inr reference))
      | _ \<Rightarrow> Inl (exn_of ObjectInvalidRequest ''Object reference must be a mapping''))"

definition object_reference_for_operation :: "'w adapter \<Rightarrow> operation \<Rightarrow> exn + object_reference" where
  "object_reference_for_operation A operation =
     oc_mk_reference (ap_common A) (semantic_resource_of A) (in_object_id (op_input operation))
       (in_expected_digest (op_input operation))"

section \<open>Reading stored objects\<close>

record resolved_object =
  ro_stored :: stored_object
  ro_manifest :: manifest_document
  ro_payload :: oci_descriptor

definition stored_from_manifest :: "'w adapter \<Rightarrow> manifest_document \<Rightarrow> ('w, resolved_object) io" where
  "stored_from_manifest A document =
     bnd (lift (catchE (manifest_descriptors document) is_type_or_value_error
            (exn_of DigestMismatch ''registry returned an invalid Meridian Object manifest''))) (\<lambda>(config, payload, _).
     bnd (tr_get_blob_bytes (ap_transport A) config (b_max_metadata_bytes (ap_binding A))) (\<lambda>config_bytes.
     bnd (lift (catchE (stored_from_bytes (ap_common A) config_bytes (b_max_metadata_bytes (ap_binding A)))
            is_type_or_value_error
            (exn_of DigestMismatch ''registry returned invalid Meridian Object metadata''))) (\<lambda>stored.
     let metadata = so_metadata stored
     in if om_digest metadata \<noteq> d_digest payload \<or> om_byte_length metadata \<noteq> int (d_size payload)
           \<or> om_media_type metadata \<noteq> d_media_type payload
        then raise (exn_of DigestMismatch ''OCI manifest payload descriptor does not match Object metadata'')
        else ret \<lparr>ro_stored = stored, ro_manifest = document, ro_payload = payload\<rparr>)))"

definition reference_tag :: "object_reference \<Rightarrow> exn + string" where
  "reference_tag reference =
     (case or_digest reference of
        None \<Rightarrow> latest_tag (or_object_id reference)
      | Some d \<Rightarrow> version_tag (or_object_id reference) d)"

definition stored_for_reference :: "'w adapter \<Rightarrow> object_reference \<Rightarrow> ('w, resolved_object) io" where
  "stored_for_reference A reference =
     bnd (lift (reference_tag reference)) (\<lambda>tag.
     bnd (tr_get_manifest (ap_transport A) tag) (\<lambda>document.
     bnd (stored_from_manifest A document) (\<lambda>resolved.
     let metadata = so_metadata (ro_stored resolved)
     in if or_resource (om_ref metadata) \<noteq> semantic_resource_of A then raise (bare_exn ObjectNotFound)
        else if or_object_id (om_ref metadata) \<noteq> or_object_id reference then raise (bare_exn ObjectNotFound)
        else if or_digest reference \<noteq> None \<and> Some (om_digest metadata) \<noteq> or_digest reference
        then raise (bare_exn ObjectNotFound)
        else
          bnd (lift (anchor_tag (or_object_id reference))) (\<lambda>atag.
          bnd (tr_get_manifest (ap_transport A) atag) (\<lambda>anchor.
          bnd (lift (manifest_descriptors (ro_manifest resolved))) (\<lambda>(_, _, subject).
          if d_digest subject \<noteq> md_digest anchor
          then raise (exn_of DigestMismatch ''Object manifest subject does not match its logical anchor'')
          else ret resolved))))))"

section \<open>Publishing objects\<close>

definition published_error :: "immutability_request \<Rightarrow> string \<Rightarrow> exn" where
  "published_error i msg = exn_of (if im_publish_once i then ImmutableObjectConflict else ConditionalConflict) msg"

definition require_create_available :: "'w adapter \<Rightarrow> string \<Rightarrow> immutability_request \<Rightarrow> bool \<Rightarrow> ('w, unit) io" where
  "require_create_available A object_id immutability create_only =
     (if \<not> create_only then ret ()
      else
        bnd (lift (if im_publish_once immutability then anchor_tag object_id else latest_tag object_id)) (\<lambda>reference.
        bnd (tr_manifest_exists (ap_transport A) reference) (\<lambda>exists.
        if exists then raise (published_error immutability ''logical Object id was already published'')
        else ret ())))"

definition verify_identity :: "payload_reference \<Rightarrow> content_identity \<Rightarrow> exn + unit" where
  "verify_identity payload identity =
     (if pl_expected_length payload \<noteq> None \<and> Some (ci_byte_length identity) \<noteq> pl_expected_length payload
      then Inl (bare_exn IncompleteUpload)
      else if pl_expected_digest payload \<noteq> None \<and> Some (ci_digest identity) \<noteq> pl_expected_digest payload
      then Inl (bare_exn DigestMismatch)
      else Inr ())"

text \<open>The chunk loop: the length so far, the bytes hashed so far and the open upload. It hands back the
  latest upload location with the outcome, because the handlers of \<open>_upload_payload\<close> abort it. The payload
  stream is taken as read when it is opened: its chunks, and the error it may end in (\<open>err\<close>, raised after the
  chunks before it were sent), do not depend on the requests sent in between.\<close>

fun upload_chunks ::
  "'w adapter \<Rightarrow> payload_reference \<Rightarrow> upload_location option \<Rightarrow> string \<Rightarrow> string list \<Rightarrow> exn option
    \<Rightarrow> ('w, upload_location option \<times> (exn + string)) io" where
  "upload_chunks A payload upload hashed [] err =
     ret (upload, case err of None \<Rightarrow> Inr hashed | Some e \<Rightarrow> Inl e)"
| "upload_chunks A payload upload hashed (chunk # chunks) err =
     (if b_max_object_bytes (ap_binding A) < int (length (hashed @ chunk))
      then ret (upload, Inl (exn_of ObjectInvalidRequest ''Object exceeds the configured size limit''))
      else if (case pl_expected_length payload of None \<Rightarrow> False | Some n \<Rightarrow> n < int (length (hashed @ chunk)))
      then ret (upload, Inl (exn_of IncompleteUpload ''payload exceeded its declared length''))
      else (case upload of
              None \<Rightarrow> upload_chunks A payload None (hashed @ chunk) chunks err
            | Some u \<Rightarrow>
                bnd (outcome (tr_patch_upload (ap_transport A) u chunk)) (\<lambda>r. case r of
                   Inl e \<Rightarrow> ret (upload, Inl e)
                 | Inr u' \<Rightarrow> upload_chunks A payload (Some u') (hashed @ chunk) chunks err)))"

text \<open>The end of the \<open>try\<close> block: identity, verification, and finalisation of a new blob.\<close>

definition finish_payload ::
  "'w adapter \<Rightarrow> payload_reference \<Rightarrow> oci_descriptor option \<Rightarrow> upload_location option \<Rightarrow> string \<Rightarrow> ('w, content_identity) io" where
  "finish_payload A payload existing upload hashed =
     bnd (lift (oc_mk_identity (ap_common A) (''sha256:'' @ hexdigest hashed) (int (length hashed)))) (\<lambda>identity.
     bnd (lift (verify_identity payload identity)) (\<lambda>_.
     case existing of
       Some d \<Rightarrow>
         if int (d_size d) \<noteq> ci_byte_length identity
         then raise (exn_of DigestMismatch ''existing registry blob length does not match payload'')
         else ret identity
     | None \<Rightarrow>
         (case upload of
            None \<Rightarrow> raise (bare_exn AssertionError)
          | Some u \<Rightarrow> bnd (tr_finish_upload (ap_transport A) u (ci_digest identity)) (\<lambda>_. ret identity))))"

text \<open>The whole \<open>try\<close> block of one attempt, with the upload its handlers see.\<close>

definition upload_try ::
  "'w adapter \<Rightarrow> 'w payload_registry \<Rightarrow> payload_reference \<Rightarrow> oci_descriptor option
    \<Rightarrow> ('w, upload_location option \<times> (exn + content_identity)) io" where
  "upload_try A payloads payload existing =
     bnd (outcome (if existing = None
            then bnd (tr_start_upload (ap_transport A)) (\<lambda>u. ret (Some u)) else ret None)) (\<lambda>started.
     case started of
       Inl e \<Rightarrow> ret (None, Inl e)
     | Inr upload \<Rightarrow>
         bnd (outcome (pr_open payloads payload (b_chunk_size (ap_binding A)))) (\<lambda>opened.
         case opened of
           Inl e \<Rightarrow> ret (upload, Inl e)
         | Inr (chunks, err) \<Rightarrow>
             bnd (upload_chunks A payload upload [] chunks err) (\<lambda>(upload', r).
             case r of
               Inl e \<Rightarrow> ret (upload', Inl e)
             | Inr hashed \<Rightarrow>
                 bnd (outcome (finish_payload A payload existing upload' hashed)) (\<lambda>res. ret (upload', res)))))"

primrec upload_attempts ::
  "'w adapter \<Rightarrow> 'w payload_registry \<Rightarrow> payload_reference \<Rightarrow> nat \<Rightarrow> ('w, content_identity) io" where
  "upload_attempts A payloads payload 0 = raise (exn_of AssertionError ''unreachable upload retry state'')"
| "upload_attempts A payloads payload (Suc k) =
     bnd (case pl_expected_digest payload of None \<Rightarrow> ret None | Some d \<Rightarrow> tr_head_blob (ap_transport A) d) (\<lambda>existing.
     bnd (upload_try A payloads payload existing) (\<lambda>(upload, r).
     case r of
       Inr identity \<Rightarrow> ret identity
     | Inl e \<Rightarrow>
         bnd (case upload of None \<Rightarrow> ret () | Some u \<Rightarrow> adapter_abort_safely A u) (\<lambda>_.
         if exn_kind_of e \<in> {ObjectUnavailable, ObjectRateLimited} \<and> k \<noteq> 0
         then upload_attempts A payloads payload k
         else raise e)))"

definition upload_payload :: "'w adapter \<Rightarrow> payload_reference \<Rightarrow> 'w payload_registry \<Rightarrow> ('w, content_identity) io" where
  "upload_payload A payload payloads = upload_attempts A payloads payload (if pl_replayable payload then 2 else 1)"

definition ensure_anchor :: "'w adapter \<Rightarrow> string \<Rightarrow> ('w, oci_descriptor) io" where
  "ensure_anchor A object_id =
     bnd (lift (anchor_tag object_id)) (\<lambda>tag.
     bnd (tr_manifest_exists (ap_transport A) tag) (\<lambda>exists.
     if exists then
       bnd (tr_get_manifest (ap_transport A) tag) (\<lambda>document.
       let annotations = obj_get (md_value document) ''annotations''
       in if obj_get (md_value document) ''artifactType'' \<noteq> JStr MERIDIAN_OBJECT_ANCHOR_TYPE \<or> \<not> is_obj annotations
             \<or> obj_get (fields_of annotations) ''org.meridian.object.anchor'' \<noteq> JStr (object_id_hash object_id)
          then raise (exn_of ConditionalConflict ''logical Object anchor is incompatible'')
          else lift (mk_descriptor OCI_MANIFEST_MEDIA_TYPE (md_digest document) (int (length (md_body document)))))
     else
       bnd (tr_upload_blob_bytes (ap_transport A) EMPTY_JSON ''application/vnd.oci.empty.v1+json'') (\<lambda>_.
       tr_put_manifest (ap_transport A) tag (build_anchor_manifest (object_id_hash object_id)))))"

definition adapter_provenance :: "'w adapter \<Rightarrow> fields" where
  "adapter_provenance A =
     [(''adapterId'', JStr ADAPTER_ID),
      (''capabilityFingerprint'', JStr (oc_manifest_fingerprint (ap_common A) (ap_manifest A))),
      (''engineProfile'', JStr ''oci-distribution''), (''engineVersion'', JStr ''1.1.1''),
      (''distributionSpec'', JStr ''1.1.1''), (''registryReleaseObservation'', JStr ''unavailable'')]
     @ (case b_registry_release (ap_binding A) of None \<Rightarrow> [] | Some r \<Rightarrow> [(''selectedRegistryRelease'', JStr r)])
     @ (case b_registry_image (ap_binding A) of None \<Rightarrow> [] | Some i \<Rightarrow> [(''selectedRegistryImage'', JStr i)])"

text \<open>The branch of \<open>_commit_object\<close> for a version that already exists.\<close>

definition republish_version ::
  "'w adapter \<Rightarrow> string \<Rightarrow> content_identity \<Rightarrow> immutability_request \<Rightarrow> bool \<Rightarrow> ('w, object_metadata) io" where
  "republish_version A object_id identity immutability create_only =
     (if create_only then raise (published_error immutability ''exact Object version was already published'')
      else
        bnd (lift (oc_mk_reference (ap_common A) (semantic_resource_of A) object_id (Some (ci_digest identity)))) (\<lambda>reference.
        bnd (stored_for_reference A reference) (\<lambda>existing.
        bnd (lift (latest_tag object_id)) (\<lambda>ltag.
        bnd (tr_put_manifest (ap_transport A) ltag (md_body (ro_manifest existing))) (\<lambda>_.
        ret (so_metadata (ro_stored existing)))))))"

text \<open>The branch for a new version: anchor, metadata blob, then the manifest under both tags.\<close>

definition publish_version ::
  "'w adapter \<Rightarrow> operation_input \<Rightarrow> content_identity \<Rightarrow> immutability_request \<Rightarrow> retention_request option \<Rightarrow> string
    \<Rightarrow> ('w, object_metadata) io" where
  "publish_version A v identity immutability retention exact_tag =
     bnd (ensure_anchor A (in_object_id v)) (\<lambda>anchor.
     bnd (lift (case in_provenance v of
            JObj ps \<Rightarrow> Inr ps | _ \<Rightarrow> Inl (exn_of ObjectInvalidRequest ''Object provenance must be a mapping''))) (\<lambda>provenance.
     if ''meridianAdapter'' \<in> fst ` set provenance
     then raise (exn_of ObjectInvalidRequest ''meridianAdapter is a reserved provenance field'')
     else
       bnd (lift (oc_mk_reference (ap_common A) (semantic_resource_of A) (in_object_id v) (Some (ci_digest identity)))) (\<lambda>reference.
       bnd (adapter_now A) (\<lambda>now.
       bnd (lift (oc_mk_metadata (ap_common A)
              \<lparr>ma_ref = reference, ma_digest = ci_digest identity, ma_byte_length = ci_byte_length identity,
               ma_media_type = in_media_type v, ma_created_at = now, ma_creation_context = in_creation_context v,
               ma_user_metadata = in_user_metadata v, ma_mutability = im_mutability immutability,
               ma_provenance = provenance @ [(''meridianAdapter'', JObj (adapter_provenance A))]\<rparr>)) (\<lambda>metadata.
       let stored = \<lparr>so_metadata = metadata, so_immutability = immutability, so_retention = retention\<rparr>;
           config_bytes = stored_to_bytes (ap_common A) stored
       in if b_max_metadata_bytes (ap_binding A) < int (length config_bytes)
          then raise (exn_of ObjectInvalidRequest ''serialized Object metadata exceeds the configured limit'')
          else
            bnd (tr_upload_blob_bytes (ap_transport A) config_bytes MERIDIAN_OBJECT_CONFIG_MEDIA_TYPE) (\<lambda>config.
            bnd (lift (mk_descriptor (om_media_type metadata) (ci_digest identity) (ci_byte_length identity))) (\<lambda>payload.
            let manifest = build_object_manifest anchor config payload (object_id_hash (in_object_id v))
                             (om_created_at metadata) (om_mutability metadata)
            in bnd (tr_put_manifest (ap_transport A) exact_tag manifest) (\<lambda>_.
               bnd (lift (latest_tag (in_object_id v))) (\<lambda>ltag.
               bnd (tr_put_manifest (ap_transport A) ltag manifest) (\<lambda>_.
               ret metadata))))))))))"

definition commit_object ::
  "'w adapter \<Rightarrow> operation_input \<Rightarrow> content_identity \<Rightarrow> immutability_request \<Rightarrow> retention_request option \<Rightarrow> bool
    \<Rightarrow> ('w, object_metadata) io" where
  "commit_object A v identity immutability retention create_only =
     bnd (require_create_available A (in_object_id v) immutability create_only) (\<lambda>_.
     bnd (lift (version_tag (in_object_id v) (ci_digest identity))) (\<lambda>exact_tag.
     bnd (tr_manifest_exists (ap_transport A) exact_tag) (\<lambda>exists.
     if exists then republish_version A (in_object_id v) identity immutability create_only
     else publish_version A v identity immutability retention exact_tag)))"

section \<open>Handlers\<close>

text \<open>The \<open>except\<close> clause of \<open>_put\<close>: the put state machine is told, then the exception goes on.\<close>

definition put_guarded :: "object_common \<Rightarrow> put_state \<Rightarrow> bool \<Rightarrow> ('w, 'a) io \<Rightarrow> ('w, 'a) io" where
  "put_guarded oc state physical_commit m =
     catch m (\<lambda>e. bnd (lift (if state \<in> {PUT_UPLOADING, PUT_VERIFYING} then oc_put_fail oc state physical_commit else Inr state))
       (\<lambda>_. raise e))"

definition put_immutability :: "object_common \<Rightarrow> json \<Rightarrow> exn + immutability_request" where
  "put_immutability oc v = (if v = JNull then oc_mk_immutability oc ''immutable'' False else oc_immutability_from oc v)"

definition put_retention :: "object_common \<Rightarrow> json \<Rightarrow> exn + retention_request option" where
  "put_retention oc v = (if v = JNull then Inr None else bindE (oc_retention_from oc v) (\<lambda>r. Inr (Some r)))"

definition adapter_put :: "'w adapter \<Rightarrow> operation \<Rightarrow> 'w payload_registry \<Rightarrow> ('w, fields) io" where
  "adapter_put A operation payloads =
     (let v = op_input operation; oc = ap_common A
      in bnd (lift (case in_payload v of
                JObj ps \<Rightarrow> oc_payload_from oc ps
              | _ \<Rightarrow> Inl (exn_of ObjectInvalidRequest ''put payload must be a serialized PayloadReference''))) (\<lambda>payload.
         bnd (lift (put_immutability oc (in_immutability v))) (\<lambda>immutability.
         bnd (lift (put_retention oc (in_retention v))) (\<lambda>retention.
         let create_only = in_create_only v \<or> im_publish_once immutability
         in bnd (require_create_available A (in_object_id v) immutability create_only) (\<lambda>_.
            bnd (put_guarded oc (oc_put_initial oc) False (lift (oc_put_transition oc (oc_put_initial oc) PUT_UPLOADING))) (\<lambda>s1.
            bnd (put_guarded oc s1 False (upload_payload A payload payloads)) (\<lambda>identity.
            bnd (put_guarded oc s1 True (lift (oc_put_transition oc s1 PUT_VERIFYING))) (\<lambda>s2.
            bnd (put_guarded oc s2 True (commit_object A v identity immutability retention create_only)) (\<lambda>result.
            bnd (put_guarded oc s2 True (lift (oc_put_transition oc s2 PUT_COMMITTED))) (\<lambda>_.
            ret [(''metadata'', JObj (oc_metadata_to_dict oc result))]))))))))))"

definition adapter_get :: "'w adapter \<Rightarrow> operation \<Rightarrow> 'w payload_registry \<Rightarrow> ('w, fields) io" where
  "adapter_get A operation payloads =
     bnd (lift (adapter_reference A (op_input operation) False)) (\<lambda>reference.
     bnd (stored_for_reference A reference) (\<lambda>resolved.
     bnd (pr_register payloads (tr_open_blob (ap_transport A) (d_digest (ro_payload resolved)) None)
            (int (d_size (ro_payload resolved))) (Some (d_digest (ro_payload resolved)))) (\<lambda>payload.
     ret [(''metadata'', JObj (oc_metadata_to_dict (ap_common A) (so_metadata (ro_stored resolved)))),
          (''payload'', JObj (oc_payload_to_dict (ap_common A) payload))])))"

definition adapter_stat :: "'w adapter \<Rightarrow> operation \<Rightarrow> ('w, fields) io" where
  "adapter_stat A operation =
     bnd (lift (adapter_reference A (op_input operation) False)) (\<lambda>reference.
     bnd (stored_for_reference A reference) (\<lambda>resolved.
     ret [(''metadata'', JObj (oc_metadata_to_dict (ap_common A) (so_metadata (ro_stored resolved))))]))"

definition adapter_read_range :: "'w adapter \<Rightarrow> operation \<Rightarrow> 'w payload_registry \<Rightarrow> ('w, fields) io" where
  "adapter_read_range A operation payloads =
     bnd (lift (adapter_reference A (op_input operation) False)) (\<lambda>reference.
     bnd (lift (case in_range (op_input operation) of
            JObj ps \<Rightarrow> oc_byte_range_from (ap_common A) ps
          | _ \<Rightarrow> Inl (exn_of ObjectInvalidRequest ''read_range requires a serialized ByteRange''))) (\<lambda>byte_range.
     bnd (stored_for_reference A reference) (\<lambda>resolved.
     bnd (lift (oc_byte_range_resolve (ap_common A) byte_range (int (d_size (ro_payload resolved))))) (\<lambda>selected.
     if b_max_range_bytes (ap_binding A) < sel_length selected
     then raise (exn_of ObjectCapabilityMismatch ''requested range exceeds the OCI binding limit'')
     else
       bnd (pr_register payloads (tr_open_blob (ap_transport A) (d_digest (ro_payload resolved))
              (Some (sel_start selected, Some (sel_end selected)))) (sel_length selected) None) (\<lambda>payload.
       ret [(''metadata'', JObj (oc_metadata_to_dict (ap_common A) (so_metadata (ro_stored resolved)))),
            (''payload'', JObj (oc_payload_to_dict (ap_common A) payload)),
            (''range'', JObj (oc_selected_to_dict (ap_common A) selected))])))))"

text \<open>The scan of a tag page: the items so far, the last scanned tag and whether it stopped early.\<close>

fun list_scan ::
  "'w adapter \<Rightarrow> string \<Rightarrow> int \<Rightarrow> fields list \<Rightarrow> string option \<Rightarrow> string list
    \<Rightarrow> ('w, fields list \<times> string option \<times> bool) io" where
  "list_scan A pfx limit items scanned [] = ret (items, scanned, False)"
| "list_scan A pfx limit items scanned (tag # tags) =
     (if \<not> startswith tag (version_tag_prefix None) then list_scan A pfx limit items (Some tag) tags
      else
        bnd (tr_get_manifest (ap_transport A) tag) (\<lambda>document.
        bnd (stored_from_manifest A document) (\<lambda>resolved.
        let metadata = so_metadata (ro_stored resolved);
            items' = (if startswith (or_object_id (om_ref metadata)) pfx
                      then items @ [oc_metadata_to_dict (ap_common A) metadata] else items)
        in if int (length items') = limit then ret (items', Some tag, True)
           else list_scan A pfx limit items' (Some tag) tags)))"

definition adapter_list :: "'w adapter \<Rightarrow> operation \<Rightarrow> ('w, fields) io" where
  "adapter_list A operation =
     (let v = op_input operation
      in bnd (lift (case in_cursor v of
                None \<Rightarrow> Inr None | Some c \<Rightarrow> bindE (cursor_decode (ap_cursor A) c) (\<lambda>t. Inr (Some t)))) (\<lambda>last_tag.
         bnd (tr_list_tags (ap_transport A) (b_max_scan_tags (ap_binding A)) last_tag) (\<lambda>page.
         bnd (list_scan A (in_prefix v) (in_limit v) [] None (tp_tags page)) (\<lambda>(items, scanned, stopped_early).
         ret [(''items'', JArr (map JObj items)),
              (''cursor'', case scanned of
                 Some t \<Rightarrow> if stopped_early \<or> tp_has_more page then JStr (cursor_encode (ap_cursor A) t) else JNull
               | None \<Rightarrow> JNull)]))))"

definition adapter_delete :: "'w adapter \<Rightarrow> operation \<Rightarrow> ('w, fields) io" where
  "adapter_delete A operation =
     bnd (lift (adapter_reference A (op_input operation) True)) (\<lambda>reference.
     bnd (stored_for_reference A reference) (\<lambda>resolved.
     bnd (adapter_now A) (\<lambda>now.
     bnd (lift (require_delete_permitted (ap_common A) now (so_retention (ro_stored resolved)) (Some (AwareTime now)))) (\<lambda>_.
     bnd (tr_delete_manifest (ap_transport A) (md_digest (ro_manifest resolved))) (\<lambda>deleted.
     if \<not> deleted then raise (bare_exn ObjectNotFound) else ret [(''deleted'', JBool True)])))))"

definition execute :: "'w adapter \<Rightarrow> operation \<Rightarrow> 'w payload_registry \<Rightarrow> ('w, fields) io" where
  "execute A operation payloads =
     bnd (lift (validate_operation A operation)) (\<lambda>method.
     bnd (lift (oc_require_capabilities (ap_common A) (ap_manifest A) (op_requirements operation))) (\<lambda>_.
     if method = ''put'' then adapter_put A operation payloads
     else if method = ''get'' then adapter_get A operation payloads
     else if method = ''stat'' then adapter_stat A operation
     else if method = ''read_range'' then adapter_read_range A operation payloads
     else if method = ''list'' then adapter_list A operation
     else if method = ''delete'' then adapter_delete A operation
     else raise (Exn ObjectInvalidRequest
            (Some ''OCI Distribution Adapter accepts only Object data-plane Operations'')
            [(''operation_contract'', op_contract operation)])))"

end
