(* ===== verification/Client_Laws.thy ===== *)
theory Client_Laws
  imports Client
begin

text \<open>
  What the HTTP client guarantees against every server: bounded and non-repeated requests, responses
  only with expected statuses and from safe URLs, credentials only to the configured origin, and
  content only under its digest. The request budget is proved once, for all operations, in the
  locale \<open>metered_http\<close>, over a world with a request counter.
\<close>

section \<open>Cost of a computation\<close>

definition costs :: "('w \<Rightarrow> nat) \<Rightarrow> ('w, 'a) io \<Rightarrow> nat \<Rightarrow> bool" where
  "costs meter m k \<longleftrightarrow> (\<forall>w. meter (snd (m w)) \<le> meter w + k)"

named_theorems cost_rules \<open>composition of request budgets\<close>

lemma costs_pure [cost_rules]: "costs c (ret a) 0" "costs c (raise e) 0" "costs c (lift r) 0"
  by (simp_all add: costs_def ret_def raise_def lift_def)

lemma costs_mono: "costs c m i \<Longrightarrow> i \<le> j \<Longrightarrow> costs c m j"
  by (auto simp: costs_def intro: order_trans)

lemma costs_bnd:
  assumes "costs c m i" and "\<And>a. costs c (f a) j"
  shows "costs c (bnd m f) (i + j)"
  unfolding costs_def
proof
  fix w
  obtain r w1 where m: "m w = (r, w1)" by fastforce
  have 1: "c w1 \<le> c w + i" using assms(1) m by (auto simp: costs_def dest: spec [of _ w])
  show "c (snd (bnd m f w)) \<le> c w + (i + j)"
  proof (cases r)
    case (Inr a)
    have "c (snd (f a w1)) \<le> c w1 + j" using assms(2) [of a] by (simp add: costs_def)
    with 1 m Inr show ?thesis by (simp add: bnd_def)
  qed (use 1 m in \<open>simp add: bnd_def\<close>)
qed

lemma costs_catch:
  assumes "costs c m i" and "\<And>e. costs c (h e) j"
  shows "costs c (catch m h) (i + j)"
  unfolding costs_def
proof
  fix w
  obtain r w1 where m: "m w = (r, w1)" by fastforce
  have 1: "c w1 \<le> c w + i" using assms(1) m by (auto simp: costs_def dest: spec [of _ w])
  show "c (snd (catch m h w)) \<le> c w + (i + j)"
  proof (cases r)
    case (Inl e)
    have "c (snd (h e w1)) \<le> c w1 + j" using assms(2) [of e] by (simp add: costs_def)
    with 1 m Inl show ?thesis by (simp add: catch_def)
  qed (use 1 m in \<open>simp add: catch_def\<close>)
qed

lemma costs_try_safely: "costs c m k \<Longrightarrow> costs c (try_safely m) k"
  by (simp add: costs_def try_safely_def)

lemma costs_if: "(b \<Longrightarrow> costs c m k) \<Longrightarrow> (\<not> b \<Longrightarrow> costs c n k) \<Longrightarrow> costs c (if b then m else n) k"
  by simp

lemma costs_bnd_0: "costs c m i \<Longrightarrow> (\<And>a. costs c (f a) 0) \<Longrightarrow> costs c (bnd m f) i"
  using costs_bnd [of c m i f 0] by simp

lemma costs_0_bnd: "costs c m 0 \<Longrightarrow> (\<And>a. costs c (f a) j) \<Longrightarrow> costs c (bnd m f) j"
  using costs_bnd [of c m 0 f j] by simp

lemma costs_catch_http: "costs c m k \<Longrightarrow> costs c (catch_http m) k"
  unfolding catch_http_def
  by (rule costs_catch [of c _ k _ 0, simplified])
    (auto intro!: costs_bnd_0 costs_if costs_pure)

lemma costs_request_loop:
  assumes "\<And>b. costs c (once b) 1" and "\<And>n. costs c (sleep n) 0"
  shows "costs c (request_loop once sleep k attempt) k"
proof (induction k arbitrary: attempt)
  case (Suc k)
  have "costs c (case r of Some x \<Rightarrow> ret x | None \<Rightarrow> if k = 0 then raise (unavailable ''OCI registry request failed'')
          else bnd (sleep attempt) (\<lambda>_. request_loop once sleep k (Suc attempt))) k" for r
    using Suc.IH assms(2)
    by (auto split: option.split intro!: costs_0_bnd costs_mono [OF costs_pure(1)] costs_mono [OF costs_pure(2)])
  with costs_bnd [OF assms(1)] show ?case by fastforce
qed (simp add: costs_pure)

section \<open>The request budget of every operation\<close>

text \<open>A network whose world counts the requests sent: sending adds at most one, nothing else adds
  any.\<close>

locale metered_http =
  fixes cl :: "'w client" and meter :: "'w \<Rightarrow> nat"
  assumes send_cost: "costs meter (he_send (cl_http cl) rq) 1"
    and sleep_cost: "costs meter (he_sleep (cl_http cl) n) 0"
    and authorization_cost: "costs meter (authorization_header (b_credentials (cl_binding cl))) 0"
begin

lemma headers_cost: "costs meter (client_headers cl url hs) 0"
  unfolding client_headers_def
  by (intro costs_0_bnd costs_pure costs_if authorization_cost)

lemma request_once_cost: "costs meter (request_once cl m url hs c ex mx lst) 1"
  unfolding request_once_def
  by (intro costs_bnd_0 costs_catch_http costs_0_bnd [OF headers_cost] send_cost)
    (auto split: option.split sum.split intro!: costs_pure costs_0_bnd)

lemma request_cost: "costs meter (client_request cl m url hs c ex retry mx) (if retry then cl_max_read_attempts cl else 1)"
  unfolding client_request_def by (rule costs_request_loop [OF request_once_cost sleep_cost])

lemma write_cost: "costs meter (client_request cl m url hs c ex False mx) 1"
  using request_cost [of m url hs c ex False mx] by simp

lemma read_cost: "costs meter (client_request cl m url hs c ex True mx) (cl_max_read_attempts cl)"
  using request_cost [of m url hs c ex True mx] by simp

lemma put_manifest_cost: "costs meter (put_manifest cl ref body) 1"
  unfolding put_manifest_def by (intro costs_0_bnd costs_bnd_0 costs_pure write_cost costs_if)

lemma start_upload_cost: "costs meter (start_upload cl) 1"
  unfolding start_upload_def by (intro costs_bnd_0 costs_pure write_cost)

lemma patch_upload_cost: "costs meter (patch_upload cl u chunk) 1"
  unfolding patch_upload_def Let_def
  by (intro costs_if costs_mono [OF costs_pure(2)] costs_bnd_0 write_cost costs_pure) simp_all

lemma finish_upload_cost: "costs meter (finish_upload cl u d) 1"
  unfolding finish_upload_def by (intro costs_0_bnd costs_bnd_0 costs_pure write_cost costs_if)

lemma head_blob_cost: "costs meter (head_blob cl d) (cl_max_read_attempts cl)"
  unfolding head_blob_def by (intro costs_bnd_0 costs_if costs_pure read_cost)

lemma get_manifest_cost: "costs meter (get_manifest cl ref) (cl_max_read_attempts cl)"
  unfolding get_manifest_def Let_def by (intro costs_bnd_0 costs_if costs_pure read_cost)

lemma get_blob_bytes_cost: "costs meter (get_blob_bytes cl d mx) (cl_max_read_attempts cl)"
  unfolding get_blob_bytes_def Let_def
  by (intro costs_if costs_mono [OF costs_pure(2)] costs_bnd_0 costs_pure read_cost) simp

lemma abort_upload_cost: "costs meter (abort_upload cl u) (cl_max_read_attempts cl)"
  unfolding abort_upload_def by (intro costs_bnd_0 costs_pure read_cost)

lemma delete_manifest_cost: "costs meter (delete_manifest cl d) (cl_max_read_attempts cl)"
  unfolding delete_manifest_def by (intro costs_bnd_0 costs_pure read_cost)

lemma manifest_exists_cost: "costs meter (manifest_exists cl d) (cl_max_read_attempts cl)"
  unfolding manifest_exists_def by (intro costs_bnd_0 costs_pure read_cost)

lemma list_tags_cost: "costs meter (list_tags cl n l) (cl_max_read_attempts cl)"
  unfolding list_tags_def by (intro costs_0_bnd costs_bnd_0 costs_if costs_pure read_cost)

text \<open>Storing a small blob: a HEAD, a POST and a PUT, and an abort when the PUT fails.\<close>

lemma put_whole_blob_cost: "costs meter (put_whole_blob cl u v) (1 + cl_max_read_attempts cl)"
  unfolding put_whole_blob_def client_abort_safely_def
  by (intro costs_catch costs_bnd_0 costs_0_bnd costs_pure write_cost costs_if costs_try_safely abort_upload_cost)

lemma upload_blob_bytes_cost: "costs meter (upload_blob_bytes cl v mt) (cl_max_read_attempts cl + (1 + (1 + cl_max_read_attempts cl)))"
  unfolding upload_blob_bytes_def
  by (rule costs_bnd [OF head_blob_cost])
    (auto split: option.split intro!: costs_mono [OF costs_pure(2)] costs_mono [OF costs_pure(3)]
      costs_bnd [OF start_upload_cost, simplified] costs_bnd_0 costs_pure put_whole_blob_cost [simplified])

end

text \<open>C26. Requests are bounded and writes are never repeated: over any network, opening an upload,
  appending a chunk, finalising a blob and publishing a manifest send at most one request each; reads,
  aborts and deletes send at most \<open>max_read_attempts\<close>; and storing a small blob, with its
  existence check and its clean-up, sends at most \<open>2 * max_read_attempts + 2\<close>.\<close>

theorem request_budget:
  assumes "metered_http cl meter"
  shows "costs meter (start_upload cl) 1 \<and> costs meter (patch_upload cl u chunk) 1
    \<and> costs meter (finish_upload cl u d) 1 \<and> costs meter (put_manifest cl ref body) 1
    \<and> costs meter (get_manifest cl ref) (cl_max_read_attempts cl)
    \<and> costs meter (get_blob_bytes cl desc mx) (cl_max_read_attempts cl)
    \<and> costs meter (list_tags cl n l) (cl_max_read_attempts cl)
    \<and> costs meter (abort_upload cl u) (cl_max_read_attempts cl)
    \<and> costs meter (delete_manifest cl d) (cl_max_read_attempts cl)
    \<and> costs meter (upload_blob_bytes cl v mt) (2 * cl_max_read_attempts cl + 2)"
proof -
  have "costs meter (upload_blob_bytes cl v mt) (2 * cl_max_read_attempts cl + 2)"
    by (rule costs_mono [OF metered_http.upload_blob_bytes_cost [OF assms]]) simp
  then show ?thesis
    using metered_http.start_upload_cost [OF assms] metered_http.patch_upload_cost [OF assms]
      metered_http.finish_upload_cost [OF assms] metered_http.put_manifest_cost [OF assms]
      metered_http.get_manifest_cost [OF assms] metered_http.get_blob_bytes_cost [OF assms]
      metered_http.list_tags_cost [OF assms] metered_http.abort_upload_cost [OF assms]
      metered_http.delete_manifest_cost [OF assms] by blast
qed

text \<open>A network that counts requests and answers none of them.\<close>

definition silent_client :: "nat client" where
  "silent_client = \<lparr>cl_binding = example_binding,
     cl_http = \<lparr>he_send = (\<lambda>rq n. (Inl (bare_exn HTTPError), Suc n)), he_sleep = (\<lambda>k. ret ()),
       he_rebuild = (\<lambda>hs b. Inr b), he_merge_params = (\<lambda>u ps. Inr u), he_add_param = (\<lambda>u k v. Inr u)\<rparr>,
     cl_max_read_attempts = 3\<rparr>"

lemma silent_metered: "metered_http silent_client id"
  by unfold_locales (simp_all add: silent_client_def example_binding_def costs_def ret_def)

theorem request_budget_witness:
  "metered_http silent_client id \<and> costs id (put_manifest silent_client ''t'' ''{}'') 1
   \<and> costs id (upload_blob_bytes silent_client ''{}'' ''a/b'') 8"
  using silent_metered request_budget [OF silent_metered, of undefined undefined undefined "''t''" "''{}''"
      undefined undefined undefined undefined "''{}''" "''a/b''"]
  by (simp add: silent_client_def)

section \<open>What a successful request establishes\<close>

lemma request_loop_Inr:
  assumes "request_loop once sleep k attempt w = (Inr x, w')"
  shows "\<exists>b w1. once b w1 = (Inr (Some x), w')"
  using assms
proof (induction k arbitrary: attempt w)
  case (Suc k)
  then obtain r w1 where "once (k = 0) w = (Inr r, w1)"
    and "(case r of Some x \<Rightarrow> ret x | None \<Rightarrow> if k = 0 then raise (unavailable ''OCI registry request failed'')
          else bnd (sleep attempt) (\<lambda>_. request_loop once sleep k (Suc attempt))) w1 = (Inr x, w')"
    by auto
  with Suc.IH show ?case by (cases r) (auto split: if_splits)
qed simp

lemma read_bounded_Inr:
  assumes "read_bounded m b cs err = Inr x"
  shows "err = None" "x = b @ concat cs" "cs \<noteq> [] \<Longrightarrow> int (length x) \<le> m"
proof -
  have "err = None \<and> x = b @ concat cs \<and> (int (length b) \<le> m \<or> cs \<noteq> [] \<longrightarrow> int (length x) \<le> m)"
    using assms by (induction m b cs err rule: read_bounded.induct) (auto split: if_splits option.splits)
  then show "err = None" "x = b @ concat cs" "cs \<noteq> [] \<Longrightarrow> int (length x) \<le> m" by auto
qed

lemma catch_http_Some:
  "catch_http m w = (Inr (Some a), w') \<longleftrightarrow> m w = (Inr a, w')"
  by (auto simp: catch_http_def catch_def bnd_def ret_def raise_def split: prod.splits sum.splits if_splits)

lemma request_once_Some:
  assumes "request_once cl method url headers content expected maximum lst w = (Inr (Some x), w')"
  shows "\<exists>hs w1 rs. client_headers cl url headers w = (Inr hs, w1)
    \<and> he_send (cl_http cl) \<lparr>rq_method = method, rq_url = url, rq_headers = hs, rq_content = content\<rparr> w1 = (Inr rs, w')
    \<and> require_safe_response_url cl rs = Inr () \<and> bounded_response cl rs maximum = Inr x \<and> hr_status x \<in> set expected"
  using assms unfolding request_once_def
  by (auto simp: catch_http_Some split: option.splits if_splits sum.splits elim!: bnd_SuccE)

lemma bounded_response_Inr:
  assumes "bounded_response cl rs maximum = Inr x"
  shows "hr_status x = rs_status rs" "hr_headers x = rs_headers rs" "rs_error rs = None"
    "he_rebuild (cl_http cl) (rs_headers rs) (concat (rs_chunks rs)) = Inr (hr_content x)"
    "rs_chunks rs \<noteq> [] \<Longrightarrow> int (length (concat (rs_chunks rs))) \<le> maximum"
proof -
  obtain body where b: "read_bounded maximum [] (rs_chunks rs) (rs_error rs) = Inr body"
    and "he_rebuild (cl_http cl) (rs_headers rs) body = Inr (hr_content x)"
    and "hr_status x = rs_status rs" "hr_headers x = rs_headers rs"
    using assms unfolding bounded_response_def by auto
  with read_bounded_Inr [OF b] show "hr_status x = rs_status rs" "hr_headers x = rs_headers rs" "rs_error rs = None"
    "he_rebuild (cl_http cl) (rs_headers rs) (concat (rs_chunks rs)) = Inr (hr_content x)"
    "rs_chunks rs \<noteq> [] \<Longrightarrow> int (length (concat (rs_chunks rs))) \<le> maximum"
    by simp_all
qed

lemma client_request_answer:
  assumes "client_request cl method url headers content expected retry maximum w = (Inr x, w')"
  shows "\<exists>hs w1 rs. he_send (cl_http cl) \<lparr>rq_method = method, rq_url = url, rq_headers = hs, rq_content = content\<rparr> w1
        = (Inr rs, w')
    \<and> require_safe_response_url cl rs = Inr () \<and> rs_status rs \<in> set expected \<and> hr_status x = rs_status rs
    \<and> hr_headers x = rs_headers rs \<and> rs_error rs = None
    \<and> he_rebuild (cl_http cl) (rs_headers rs) (concat (rs_chunks rs)) = Inr (hr_content x)
    \<and> (rs_chunks rs = [] \<or> int (length (concat (rs_chunks rs))) \<le> maximum)"
proof -
  from request_loop_Inr [OF assms [unfolded client_request_def]] obtain b w0
    where "request_once cl method url headers content expected maximum b w0 = (Inr (Some x), w')" by blast
  from request_once_Some [OF this] obtain hs w1 rs where
    "he_send (cl_http cl) \<lparr>rq_method = method, rq_url = url, rq_headers = hs, rq_content = content\<rparr> w1 = (Inr rs, w')"
    "require_safe_response_url cl rs = Inr ()" and b: "bounded_response cl rs maximum = Inr x"
    and "hr_status x \<in> set expected" by blast
  with bounded_response_Inr [OF b] show ?thesis by (intro exI [of _ hs] exI [of _ w1] exI [of _ rs]) auto
qed

text \<open>C25. A request succeeds only on a complete, bounded, expected answer from a safe URL: there is
  a response the network returned for this very method, URL and content, whose status is among the
  expected ones, whose final URL passed the redirect check, whose body stream ended without an error
  and within the bound, and the result's headers and content are that response's.\<close>

theorem client_request_sound:
  assumes "client_request cl method url headers content expected retry maximum w = (Inr x, w')"
  shows "\<exists>hs w1 rs. he_send (cl_http cl) \<lparr>rq_method = method, rq_url = url, rq_headers = hs, rq_content = content\<rparr> w1
        = (Inr rs, w')
    \<and> require_safe_response_url cl rs = Inr () \<and> rs_status rs \<in> set expected \<and> hr_status x = rs_status rs
    \<and> hr_headers x = rs_headers rs \<and> rs_error rs = None
    \<and> he_rebuild (cl_http cl) (rs_headers rs) (concat (rs_chunks rs)) = Inr (hr_content x)
    \<and> (rs_chunks rs = [] \<or> int (length (concat (rs_chunks rs))) \<le> maximum)"
  using client_request_answer [OF assms] .

text \<open>\<open>answered cl method url body w\<close>: the network has just answered such a request, completely, with this body and an
  expected status, and left the world \<open>w\<close>.\<close>

definition answered :: "'w client \<Rightarrow> string \<Rightarrow> string \<Rightarrow> nat \<Rightarrow> string \<Rightarrow> 'w \<Rightarrow> bool" where
  "answered cl method url status body w \<longleftrightarrow>
     (\<exists>hs v rs. he_send (cl_http cl) \<lparr>rq_method = method, rq_url = url, rq_headers = hs, rq_content = None\<rparr> v = (Inr rs, w)
        \<and> require_safe_response_url cl rs = Inr () \<and> rs_status rs = status \<and> rs_error rs = None
        \<and> he_rebuild (cl_http cl) (rs_headers rs) (concat (rs_chunks rs)) = Inr body)"

lemma client_request_answered_by:
  assumes "client_request cl method url headers None expected retry maximum w = (Inr x, w')"
  shows "answered cl method url (hr_status x) (hr_content x) w'"
  using client_request_answer [OF assms] unfolding answered_def by metis

lemma client_request_status:
  "client_request cl method url headers content expected retry maximum w = (Inr x, w') \<Longrightarrow> hr_status x \<in> set expected"
  unfolding client_request_def by (drule request_loop_Inr, elim exE, drule request_once_Some) blast

text \<open>A network that answers every request with the same response.\<close>

definition replying_client :: "http_response \<Rightarrow> unit client" where
  "replying_client rs = \<lparr>cl_binding = example_binding,
     cl_http = \<lparr>he_send = (\<lambda>rq. ret rs), he_sleep = (\<lambda>k. ret ()), he_rebuild = (\<lambda>hs b. Inr b),
       he_merge_params = (\<lambda>u ps. Inr u), he_add_param = (\<lambda>u k v. Inr u)\<rparr>,
     cl_max_read_attempts = 3\<rparr>"

definition example_response :: "nat \<Rightarrow> headers \<Rightarrow> string \<Rightarrow> http_response" where
  "example_response status hs body = \<lparr>rs_status = status, rs_headers = hs, rs_url = ''https://registry.example:5000/v2/'',
     rs_chunks = [body], rs_error = None\<rparr>"

lemma example_endpoint_shape: "endpoint_shape False ''https://registry.example:5000''"
  using endpoint_checked_shape(1) [OF example_endpoint] .

section \<open>Origins\<close>

lemma origin_authority:
  assumes "s = ''https'' \<or> s = ''http''" and "plain_authority n" and "p = [] \<or> netloc_delim (hd p)"
  shows "origin (s @ ''://'' @ n @ p) = origin (s @ ''://'' @ n)"
  using urlsplit_authority [OF assms] urlsplit_authority [OF assms(1,2), of "[]"]
  by (simp add: origin_def sr_port_def sr_hostname_def host_port_def)

text \<open>Every URL the client builds from a path lies in the endpoint's origin.\<close>

lemma origin_endpoint_path:
  assumes "endpoint_shape h e" and "p = [] \<or> hd p = CHR ''/''"
  shows "origin (e @ p) = origin e"
proof -
  from assms(1) obtain s n where e: "e = s @ ''://'' @ n" and s: "s = ''https'' \<or> s = ''http''" and n: "plain_authority n"
    unfolding endpoint_shape_def by blast
  have "p = [] \<or> netloc_delim (hd p)" using assms(2) by (auto simp: netloc_delim_def)
  from origin_authority [OF s n this] show ?thesis by (simp add: e)
qed

lemma origin_endpoint_ok:
  assumes "endpoint_checked (PyStr e) h = Inr e"
  shows "\<exists>ho po. origin e = Inr ((if startswith e ''https:'' then ''https'' else ''http''), ho, po)"
proof -
  obtain r q where r: "urlsplit e = Inr r" and q: "sr_port r = Inr q"
    using assms by (auto simp: endpoint_checked_def)
  from endpoint_checked_shape(1) [OF assms] obtain s n where e: "e = s @ ''://'' @ n"
    and s: "s = ''https'' \<or> s = ''http''" and n: "plain_authority n"
    unfolding endpoint_shape_def by blast
  have "sr_scheme r = s" using urlsplit_authority [OF s n, of "[]"] r by (auto simp: e)
  moreover have "startswith e ''https:'' = (s = ''https'')" using s by (auto simp: e)
  ultimately show ?thesis using r q s by (auto simp: origin_def)
qed

lemma map_of_merge_headers:
  assumes "''Authorization'' \<notin> fst ` set additional"
  shows "map_of (merge_headers a additional) ''Authorization'' = a"
  using assms by (simp add: merge_headers_def Let_def updates_conv' update_conv' split: option.split)

text \<open>C27. Credentials stay with the registry: the headers of a request carry an Authorization value
  exactly when the URL has the endpoint's origin and the credentials produce one; for any other
  origin, such as an upload Location on another host, the credentials are not even consulted.\<close>

theorem authorization_confined:
  assumes "''Authorization'' \<notin> fst ` set additional"
    and "client_headers cl url additional w = (Inr hs, w')"
  shows "(same_origin url (b_endpoint (cl_binding cl)) = Inr True
        \<and> authorization_header (b_credentials (cl_binding cl)) w = (Inr (map_of hs ''Authorization''), w'))
    \<or> (same_origin url (b_endpoint (cl_binding cl)) = Inr False \<and> map_of hs ''Authorization'' = None \<and> w' = w)"
proof -
  from assms(2) obtain same a where "same_origin url (b_endpoint (cl_binding cl)) = Inr same"
    and "(if same then authorization_header (b_credentials (cl_binding cl)) else ret None) w = (Inr a, w')"
    and "hs = merge_headers a additional"
    unfolding client_headers_def by auto
  with map_of_merge_headers [OF assms(1)] show ?thesis by (cases same) auto
qed

theorem authorization_confined_witness:
  "\<exists>hs w'. client_headers (replying_client (example_response 200 [] [])) ''https://other.example/u'' [] () = (Inr hs, w')
     \<and> map_of hs ''Authorization'' = None"
proof -
  let ?cl = "replying_client (example_response 200 [] [])"
  have f: "same_origin ''https://other.example/u'' (b_endpoint (cl_binding ?cl)) = Inr False"
    by (simp add: replying_client_def example_binding_def same_origin_def origin_def url_eval)
  then obtain hs where hs: "client_headers ?cl ''https://other.example/u'' [] () = (Inr hs, ())"
    by (simp add: client_headers_def)
  from authorization_confined [OF _ hs] f hs show ?thesis by auto
qed

text \<open>C28. An upload Location is followed only where it is safe to send content: it has a host, no
  user name, and the scheme is HTTPS, or plain HTTP to the endpoint's own origin when the binding
  allows it.\<close>

theorem client_location_safe:
  assumes "client_location cl response = Inr url"
  shows "\<exists>parsed. urlsplit url = Inr parsed \<and> sr_hostname parsed \<noteq> None
     \<and> (sr_username parsed = None \<or> sr_username parsed = Some [])
     \<and> (sr_scheme parsed = ''https''
         \<or> sr_scheme parsed = ''http'' \<and> b_allow_insecure_http (cl_binding cl)
           \<and> same_origin url (b_endpoint (cl_binding cl)) = Inr True)"
  using assms unfolding client_location_def
  by (auto split: option.splits if_splits)

theorem client_location_safe_witness:
  "\<exists>parsed. urlsplit ''https://registry.example:5000/u/1'' = Inr parsed \<and> sr_hostname parsed \<noteq> None
     \<and> (sr_username parsed = None \<or> sr_username parsed = Some []) \<and> sr_scheme parsed = ''https''"
proof -
  let ?cl = "replying_client (example_response 200 [] [])"
  have "client_location ?cl \<lparr>hr_status = 202, hr_headers = [(''location'', ''/u/1'')], hr_content = []\<rparr>
      = Inr ''https://registry.example:5000/u/1''"
    by code_simp
  from client_location_safe [OF this] show ?thesis
    by (auto simp: replying_client_def example_binding_def)
qed

section \<open>Requests that succeed\<close>

lemma read_bounded_ok: "int (length (b @ concat cs)) \<le> m \<Longrightarrow> read_bounded m b cs None = Inr (b @ concat cs)"
  by (induction cs arbitrary: b) simp_all

lemma bounded_response_ok:
  assumes "rs_error rs = None" "int (length (concat (rs_chunks rs))) \<le> maximum"
    and "he_rebuild (cl_http cl) (rs_headers rs) (concat (rs_chunks rs)) = Inr c"
  shows "bounded_response cl rs maximum = Inr \<lparr>hr_status = rs_status rs, hr_headers = rs_headers rs, hr_content = c\<rparr>"
  using assms read_bounded_ok [of "[]" "rs_chunks rs" maximum] by (simp add: bounded_response_def)

text \<open>A request the network answers at once, completely and from a safe URL: the result, or the
  exception the status stands for.\<close>

lemma request_loop_first:
  assumes "0 < k" "once (k = 1) w = (Inr (Some x), w')"
  shows "request_loop once sleep k 0 w = (Inr x, w')"
  using assms by (cases k) (simp_all add: bnd_def ret_def)

lemma request_loop_raise:
  assumes "0 < k" "once (k = 1) w = (Inl e, w')"
  shows "request_loop once sleep k 0 w = (Inl e, w')"
  using assms by (cases k) (simp_all add: bnd_def)

lemma request_once_answered:
  assumes "client_headers cl url headers w = (Inr hs, w1)"
    and "he_send (cl_http cl) \<lparr>rq_method = method, rq_url = url, rq_headers = hs, rq_content = content\<rparr> w1 = (Inr rs, w2)"
    and "require_safe_response_url cl rs = Inr ()" "rs_status rs \<notin> set RETRIABLE_STATUS"
    and "bounded_response cl rs maximum = Inr x"
  shows "request_once cl method url headers content expected maximum lst w =
    (if hr_status x \<in> set expected then (Inr (Some x), w2) else (Inl (response_error (hr_status x) (hr_content x)), w2))"
proof -
  have "catch_http (bnd (client_headers cl url headers) (\<lambda>hs.
      he_send (cl_http cl) \<lparr>rq_method = method, rq_url = url, rq_headers = hs, rq_content = content\<rparr>)) w
    = (Inr (Some rs), w2)"
    using assms(1,2) by (simp add: catch_http_Some bnd_def)
  then show ?thesis
    using assms(3-5) by (simp add: request_once_def bnd_def [of "catch_http m" for m] ret_def raise_def)
qed

lemma client_request_answered:
  assumes "client_headers cl url headers w = (Inr hs, w1)"
    and "he_send (cl_http cl) \<lparr>rq_method = method, rq_url = url, rq_headers = hs, rq_content = content\<rparr> w1 = (Inr rs, w2)"
    and "require_safe_response_url cl rs = Inr ()" "rs_status rs \<notin> set RETRIABLE_STATUS"
    and "bounded_response cl rs maximum = Inr x" "0 < cl_max_read_attempts cl"
  shows "client_request cl method url headers content expected retry maximum w =
    (if hr_status x \<in> set expected then (Inr x, w2) else (Inl (response_error (hr_status x) (hr_content x)), w2))"
  unfolding client_request_def
  using request_once_answered [OF assms(1-5)] assms(6)
  by (cases "hr_status x \<in> set expected")
    (simp_all add: request_loop_first request_loop_raise)

text \<open>The URLs the client builds are in the endpoint's origin.\<close>

lemma client_url_same_origin:
  assumes "binding_wf (cl_binding cl)" and "hd p = CHR ''/''"
  shows "same_origin (client_url cl p) (b_endpoint (cl_binding cl)) = Inr True"
proof -
  have "endpoint_shape (b_allow_insecure_http (cl_binding cl)) (b_endpoint (cl_binding cl))"
    and c: "endpoint_checked (PyStr (b_endpoint (cl_binding cl))) (b_allow_insecure_http (cl_binding cl)) = Inr (b_endpoint (cl_binding cl))"
    using assms(1) by (simp_all add: binding_wf_def)
  from origin_endpoint_path [OF this(1), of p] origin_endpoint_ok [OF c] assms(2) show ?thesis
    by (auto simp: same_origin_def client_url_def)
qed

lemma built_urls_same_origin:
  assumes "binding_wf (cl_binding cl)"
  shows "same_origin (blob_url cl d) (b_endpoint (cl_binding cl)) = Inr True"
    "same_origin (manifest_url cl r) (b_endpoint (cl_binding cl)) = Inr True"
  using client_url_same_origin [OF assms] by (simp_all add: blob_url_def manifest_url_def)

lemma replying_headers:
  assumes "same_origin url (b_endpoint (cl_binding (replying_client rs))) = Inr True"
  shows "\<exists>hs. client_headers (replying_client rs) url additional w = (Inr hs, ())"
  using assms
  by (simp add: client_headers_def replying_client_def example_binding_def)

lemma example_response_safe: "require_safe_response_url (replying_client rs) (example_response n hs b) = Inr ()"
  by (simp add: require_safe_response_url_def replying_client_def example_binding_def example_response_def url_eval)

lemma example_wf: "binding_wf (cl_binding (replying_client rs))"
  using constructed_binding_wf [OF example_mk_binding] by (simp add: replying_client_def)

lemma replying_request:
  assumes "same_origin url (b_endpoint (cl_binding (replying_client (example_response n hs b)))) = Inr True"
    and "n \<notin> set RETRIABLE_STATUS" "n \<in> set expected" "int (length b) \<le> mx"
  shows "client_request (replying_client (example_response n hs b)) m url add c expected retry mx () =
    (Inr \<lparr>hr_status = n, hr_headers = hs, hr_content = b\<rparr>, ())"
proof -
  let ?cl = "replying_client (example_response n hs b)"
  obtain h where h: "client_headers ?cl url add () = (Inr h, ())"
    using replying_headers [OF assms(1)] by blast
  have b: "bounded_response ?cl (example_response n hs b) mx = Inr \<lparr>hr_status = n, hr_headers = hs, hr_content = b\<rparr>"
    using bounded_response_ok [of "example_response n hs b" mx ?cl b] assms(4)
    by (simp add: example_response_def replying_client_def)
  have s: "he_send (cl_http ?cl) \<lparr>rq_method = m, rq_url = url, rq_headers = h, rq_content = c\<rparr> ()
      = (Inr (example_response n hs b), ())"
    by (simp add: replying_client_def)
  have n: "rs_status (example_response n hs b) \<notin> set RETRIABLE_STATUS" "0 < cl_max_read_attempts ?cl"
    using assms(2) by (simp_all add: example_response_def replying_client_def)
  from client_request_answered [OF h s example_response_safe n(1) b n(2)] assms(3) show ?thesis by simp
qed

theorem client_request_sound_witness:
  "\<exists>hs w1 rs. he_send (cl_http (replying_client (example_response 200 [] ''x'')))
        \<lparr>rq_method = ''GET'', rq_url = blob_url (replying_client (example_response 200 [] ''x'')) ''d'', rq_headers = hs, rq_content = None\<rparr> w1
        = (Inr rs, ()) \<and> rs_status rs \<in> {200, 404} \<and> concat (rs_chunks rs) = ''x''"
proof -
  let ?cl = "replying_client (example_response 200 [] ''x'')"
  have "client_request ?cl ''GET'' (blob_url ?cl ''d'') [] None [200, 404] True 10 ()
      = (Inr \<lparr>hr_status = 200, hr_headers = [], hr_content = ''x''\<rparr>, ())"
    by (rule replying_request [OF built_urls_same_origin(1) [OF example_wf]]) (simp_all add: RETRIABLE_STATUS_def)
  from client_request_sound [OF this] show ?thesis by (auto simp: replying_client_def)
qed

section \<open>Content integrity\<close>

text \<open>C23. Blob integrity against any server: \<open>get_blob_bytes\<close> returns only bytes whose SHA-256
  digest and length are the descriptor's and which fit the caller's bound; everything else the server
  may answer ends in an exception.\<close>

theorem get_blob_bytes_sound:
  assumes "get_blob_bytes cl d maximum w = (Inr body, w')"
  shows "sha256_digest body = d_digest d \<and> length body = d_size d \<and> int (length body) \<le> maximum"
  using assms unfolding get_blob_bytes_def by (auto simp: Let_def split: if_splits)

theorem get_blob_bytes_sound_witness:
  "sha256_digest ''hello'' = d_digest \<lparr>d_media_type = ''a/b'', d_digest = sha256_digest ''hello'', d_size = 5\<rparr>
   \<and> length ''hello'' = d_size \<lparr>d_media_type = ''a/b'', d_digest = sha256_digest ''hello'', d_size = 5\<rparr> \<and> int (length ''hello'') \<le> 9"
proof (rule get_blob_bytes_sound)
  let ?cl = "replying_client (example_response 200 [] ''hello'')"
  have "client_request ?cl ''GET'' (blob_url ?cl (sha256_digest ''hello'')) [] None [200] True 9 ()
      = (Inr \<lparr>hr_status = 200, hr_headers = [], hr_content = ''hello''\<rparr>, ())"
    by (rule replying_request [OF built_urls_same_origin(1) [OF example_wf]]) (simp_all add: RETRIABLE_STATUS_def)
  then show "get_blob_bytes ?cl \<lparr>d_media_type = ''a/b'', d_digest = sha256_digest ''hello'', d_size = 5\<rparr> 9 () = (Inr ''hello'', ())"
    by (simp add: get_blob_bytes_def bnd_def ret_def)
qed

text \<open>C24. Manifest integrity against any server: a fetched manifest is within the binding's bound, its
  digest is the SHA-256 digest of its body, it is the parse of that body, and when it was asked for by
  digest it has that digest.\<close>

theorem get_manifest_sound:
  assumes "get_manifest cl reference w = (Inr doc, w')"
  shows "md_digest doc = sha256_digest (md_body doc) \<and> int (length (md_body doc)) \<le> b_max_manifest_bytes (cl_binding cl)
    \<and> parse_json_object (md_body doc) ''OCI manifest'' = Inr (md_value doc)
    \<and> md_media_type doc = OCI_MANIFEST_MEDIA_TYPE
    \<and> (startswith reference ''sha256:'' \<longrightarrow> md_digest doc = reference)"
proof -
  obtain body where "parse_manifest body (if startswith reference ''sha256:'' then Some reference else None)
      (b_max_manifest_bytes (cl_binding cl)) = Inr doc"
    using assms unfolding get_manifest_def by (auto simp: Let_def split: if_splits)
  from parse_manifest_sound [OF this] show ?thesis by auto
qed

text \<open>The smallest manifest the parser accepts.\<close>

definition tiny_manifest :: string where
  "tiny_manifest = canonical_json [(''mediaType'', JStr OCI_MANIFEST_MEDIA_TYPE), (''schemaVersion'', JInt 2)]"

lemma tiny_manifest_length: "length tiny_manifest < 100"
  by code_simp

lemma parse_tiny_manifest:
  assumes "100 \<le> n"
  shows "\<exists>doc. parse_manifest tiny_manifest None n = Inr doc \<and> md_body doc = tiny_manifest"
proof -
  have "json_wf (JObj [(''mediaType'', JStr OCI_MANIFEST_MEDIA_TYPE), (''schemaVersion'', JInt 2)])"
    by (simp add: utf8_ok_ascii)
  from parse_manifest_canonical [OF this, of n] tiny_manifest_length assms show ?thesis
    by (simp add: tiny_manifest_def)
qed

theorem get_manifest_sound_witness:
  "\<exists>doc :: manifest_document. md_body doc = tiny_manifest \<and> md_digest doc = sha256_digest (md_body doc)
     \<and> parse_json_object (md_body doc) ''OCI manifest'' = Inr (md_value doc)"
proof -
  let ?cl = "replying_client (example_response 200 [] tiny_manifest)"
  have mx: "b_max_manifest_bytes (cl_binding ?cl) = 4194304"
    by (simp add: replying_client_def example_binding_def)
  obtain doc where d: "parse_manifest tiny_manifest None 4194304 = Inr doc" "md_body doc = tiny_manifest"
    using parse_tiny_manifest [of 4194304] by auto
  have "client_request ?cl ''GET'' (manifest_url ?cl ''t'') [(''Accept'', OCI_MANIFEST_MEDIA_TYPE)] None [200] True 4194304 ()
      = (Inr \<lparr>hr_status = 200, hr_headers = [], hr_content = tiny_manifest\<rparr>, ())"
    using tiny_manifest_length
    by (intro replying_request [OF built_urls_same_origin(2) [OF example_wf]]) (simp_all add: RETRIABLE_STATUS_def)
  then have "get_manifest ?cl ''t'' () = (Inr doc, ())"
    using d by (simp add: get_manifest_def mx io_simps Let_def header_get_def header_or_def header_values_def before_def)
  from get_manifest_sound [OF this] d(2) show ?thesis by (intro exI [of _ doc]) simp
qed

end
