(* ===== verification/Example_Common.thy ===== *)
theory Example_Common
  imports Models
begin

text \<open>
  One concrete instance of the object-common parameters, so that the hypotheses the properties state
  about that package are seen to hold together: a metadata codec with the field names of the wire
  format, requests and references as plain dictionaries, and constructors that accept their
  arguments.
\<close>

definition str_of :: "json \<Rightarrow> string" where
  "str_of v = (case v of JStr s \<Rightarrow> s | _ \<Rightarrow> [])"

definition int_of :: "json \<Rightarrow> int" where
  "int_of v = (case v of JInt i \<Rightarrow> i | _ \<Rightarrow> 0)"

definition opt_str :: "json \<Rightarrow> string option" where
  "opt_str v = (case v of JStr s \<Rightarrow> Some s | _ \<Rightarrow> None)"

definition opt_int :: "json \<Rightarrow> int option" where
  "opt_int v = (case v of JInt i \<Rightarrow> Some i | _ \<Rightarrow> None)"

definition json_opt :: "string option \<Rightarrow> json" where
  "json_opt v = (case v of None \<Rightarrow> JNull | Some s \<Rightarrow> JStr s)"

definition json_opt_int :: "int option \<Rightarrow> json" where
  "json_opt_int v = (case v of None \<Rightarrow> JNull | Some i \<Rightarrow> JInt i)"

definition reference_fields :: "object_reference \<Rightarrow> fields" where
  "reference_fields r =
     [(''digest'', json_opt (or_digest r)), (''name'', JStr (sem_name (or_resource r))),
      (''namespace'', JStr (sem_namespace (or_resource r))), (''objectId'', JStr (or_object_id r))]"

definition fields_reference :: "fields \<Rightarrow> object_reference" where
  "fields_reference v =
     \<lparr>or_resource = \<lparr>sem_catalog = CATALOG_OBJECT, sem_namespace = str_of (obj_get v ''namespace''), sem_name = str_of (obj_get v ''name'')\<rparr>,
      or_object_id = str_of (obj_get v ''objectId''), or_digest = opt_str (obj_get v ''digest'')\<rparr>"

definition metadata_fields :: "object_metadata \<Rightarrow> fields" where
  "metadata_fields m =
     [(''byteLength'', JInt (om_byte_length m)), (''createdAt'', JStr (om_created_at m)),
      (''creationContext'', om_creation_context m), (''digest'', JStr (om_digest m)),
      (''mediaType'', JStr (om_media_type m)), (''mutability'', JStr (om_mutability m)),
      (''provenance'', JObj (om_provenance m)), (''reference'', JObj (reference_fields (om_ref m))),
      (''userMetadata'', om_user_metadata m)]"

definition fields_metadata :: "fields \<Rightarrow> exn + object_metadata" where
  "fields_metadata v =
     (if is_str (obj_get v ''digest'') \<and> is_obj (obj_get v ''reference'')
      then Inr \<lparr>om_ref = fields_reference (fields_of (obj_get v ''reference'')),
        om_digest = str_of (obj_get v ''digest''), om_byte_length = int_of (obj_get v ''byteLength''),
        om_media_type = str_of (obj_get v ''mediaType''), om_created_at = str_of (obj_get v ''createdAt''),
        om_creation_context = obj_get v ''creationContext'', om_user_metadata = obj_get v ''userMetadata'',
        om_mutability = str_of (obj_get v ''mutability''), om_provenance = fields_of (obj_get v ''provenance'')\<rparr>
      else Inl (exn_of ValueError ''invalid metadata''))"

definition construct_metadata :: "metadata_args \<Rightarrow> exn + object_metadata" where
  "construct_metadata a =
     (case ma_media_type a of
        JStr t \<Rightarrow> Inr \<lparr>om_ref = ma_ref a, om_digest = ma_digest a, om_byte_length = ma_byte_length a,
          om_media_type = t, om_created_at = ''T'' @ str_int (ma_created_at a),
          om_creation_context = ma_creation_context a, om_user_metadata = ma_user_metadata a,
          om_mutability = ma_mutability a, om_provenance = sort_fields (ma_provenance a)\<rparr>
      | _ \<Rightarrow> Inl (exn_of ValueError ''invalid media type''))"

definition resolve_range :: "byte_range \<Rightarrow> int \<Rightarrow> exn + selected_range" where
  "resolve_range r n =
     (let s = (case brg_start r of None \<Rightarrow> 0 | Some i \<Rightarrow> i); e = (case brg_end r of None \<Rightarrow> n - 1 | Some i \<Rightarrow> min i (n - 1))
      in if 0 \<le> s \<and> s \<le> e then Inr \<lparr>sel_start = s, sel_end = e, sel_length = e - s + 1\<rparr>
         else Inl (bare_exn RangeNotSatisfiable))"

definition example_common :: object_common where
  "example_common =
     \<lparr>oc_put_initial = PutStateOther ''new'', oc_put_transition = (\<lambda>s t. Inr t),
      oc_put_fail = (\<lambda>s phys. Inr (PutStateOther ''failed'')),
      oc_parse_metadata = fields_metadata, oc_metadata_to_dict = metadata_fields, oc_mk_metadata = construct_metadata,
      oc_mk_immutability = (\<lambda>m p. Inr \<lparr>im_mutability = m, im_publish_once = p\<rparr>),
      oc_immutability_from = (\<lambda>v. Inr \<lparr>im_mutability = str_of (obj_get (fields_of v) ''mutability''),
         im_publish_once = (obj_get (fields_of v) ''publishOnce'' = JBool True)\<rparr>),
      oc_immutability_to_dict = (\<lambda>i. [(''mutability'', JStr (im_mutability i)), (''publishOnce'', JBool (im_publish_once i))]),
      oc_retention_from = (\<lambda>v. Inr \<lparr>rt_retain_until = opt_int (obj_get (fields_of v) ''retainUntil''), rt_terms = []\<rparr>),
      oc_retention_to_dict = (\<lambda>r. [(''retainUntil'', json_opt_int (rt_retain_until r))]),
      oc_require_delete_allowed = (\<lambda>r now. case rt_retain_until r of
         None \<Rightarrow> Inl (bare_exn RetentionDenied)
       | Some t \<Rightarrow> if now < t then Inl (bare_exn RetentionDenied) else Inr ()),
      oc_mk_reference = (\<lambda>r i d. Inr \<lparr>or_resource = r, or_object_id = i, or_digest = d\<rparr>),
      oc_parse_reference = (\<lambda>v req. if req \<and> opt_str (obj_get v ''digest'') = None
         then Inl (exn_of ValueError ''digest required'') else Inr (fields_reference v)),
      oc_mk_identity = (\<lambda>d n. Inr \<lparr>ci_digest = d, ci_byte_length = n\<rparr>),
      oc_payload_from = (\<lambda>v. Inr \<lparr>pl_handle = str_of (obj_get v ''handle''),
         pl_replayable = (obj_get v ''replayable'' = JBool True),
         pl_expected_digest = opt_str (obj_get v ''expectedDigest''), pl_expected_length = opt_int (obj_get v ''expectedLength'')\<rparr>),
      oc_payload_to_dict = (\<lambda>p. [(''expectedDigest'', json_opt (pl_expected_digest p)),
         (''expectedLength'', json_opt_int (pl_expected_length p)), (''handle'', JStr (pl_handle p)),
         (''replayable'', JBool (pl_replayable p))]),
      oc_byte_range_from = (\<lambda>v. Inr \<lparr>brg_start = opt_int (obj_get v ''start''), brg_end = opt_int (obj_get v ''end'')\<rparr>),
      oc_byte_range_resolve = resolve_range,
      oc_selected_to_dict = (\<lambda>s. [(''end'', JInt (sel_end s)), (''start'', JInt (sel_start s))]),
      oc_require_capabilities = (\<lambda>m r. Inr ()),
      oc_manifest_fingerprint = (\<lambda>m. ''fp'')\<rparr>"

definition example_stored :: stored_object where
  "example_stored =
     \<lparr>so_metadata = \<lparr>om_ref = \<lparr>or_resource = \<lparr>sem_catalog = CATALOG_OBJECT, sem_namespace = ''ns'', sem_name = ''media''\<rparr>, or_object_id = ''o'', or_digest = None\<rparr>,
        om_digest = ''d'', om_byte_length = 5, om_media_type = ''text/plain'', om_created_at = ''T'',
        om_creation_context = JNull, om_user_metadata = JNull, om_mutability = ''immutable'', om_provenance = []\<rparr>,
      so_immutability = \<lparr>im_mutability = ''immutable'', im_publish_once = True\<rparr>,
      so_retention = Some \<lparr>rt_retain_until = Some 7, rt_terms = []\<rparr>\<rparr>"

lemmas example_readers = str_of_def int_of_def opt_str_def opt_int_def json_opt_def json_opt_int_def

lemma example_stored_ok: "stored_codec_ok example_common example_stored"
  by (simp add: stored_codec_ok_def example_common_def example_stored_def metadata_fields_def
      fields_metadata_def reference_fields_def fields_reference_def example_readers obj_get_def
      sort_fields_def insort_key.simps utf8_ok_ascii)

theorem stored_object_roundtrip_witness:
  "stored_codec_ok example_common example_stored
   \<and> stored_from_bytes example_common (stored_to_bytes example_common example_stored)
       (int (length (stored_to_bytes example_common example_stored))) = Inr example_stored"
  using example_stored_ok stored_object_roundtrip [OF example_stored_ok order_refl] by blast

end
