(* ===== verification/Adapter_Laws.thy ===== *)
theory Adapter_Laws
  imports Adapter Client_Laws Example_Common
begin

text \<open>
  What the adapter guarantees. The adapter relies on its transport to deliver only verified content
  and to account for uploaded bytes; that contract is the locale \<open>verified_transport\<close>. The laws of
  reading, listing and uploading are proved in it and hold for the HTTP client, against any server,
  through its interpretation.
\<close>

section \<open>The contract of a transport\<close>

locale verified_transport =
  fixes tr :: "'w transport"
  assumes manifest_verified: "tr_get_manifest tr reference w = (Inr doc, w') \<Longrightarrow>
      md_digest doc = sha256_digest (md_body doc) \<and> parse_json_object (md_body doc) ''OCI manifest'' = Inr (md_value doc)"
    and blob_verified: "tr_get_blob_bytes tr d n v = (Inr b, v') \<Longrightarrow> sha256_digest b = d_digest d \<and> length b = d_size d"
    and start_offset: "tr_start_upload tr x = (Inr u, x') \<Longrightarrow> ul_offset u = 0"
    and patch_offset: "tr_patch_upload tr u1 c y = (Inr u2, y') \<Longrightarrow> ul_offset u2 = ul_offset u1 + length c"

text \<open>A resolved object whose manifest, metadata blob and payload descriptor agree: the manifest has
  the digest of its body, the metadata was read from bytes with the config descriptor's digest and
  size, and it describes the payload layer.\<close>

definition resolved_sound :: "object_common \<Rightarrow> int \<Rightarrow> resolved_object \<Rightarrow> bool" where
  "resolved_sound oc maximum r \<longleftrightarrow>
     md_digest (ro_manifest r) = sha256_digest (md_body (ro_manifest r))
     \<and> (\<exists>config subject b. manifest_descriptors (ro_manifest r) = Inr (config, ro_payload r, subject)
          \<and> sha256_digest b = d_digest config \<and> length b = d_size config \<and> stored_from_bytes oc b maximum = Inr (ro_stored r))
     \<and> om_digest (so_metadata (ro_stored r)) = d_digest (ro_payload r)
     \<and> om_byte_length (so_metadata (ro_stored r)) = int (d_size (ro_payload r))
     \<and> om_media_type (so_metadata (ro_stored r)) = d_media_type (ro_payload r)"

lemma stored_from_manifest_Inr:
  assumes "stored_from_manifest A document w = (Inr r, w')"
  shows "\<exists>config subject b. manifest_descriptors document = Inr (config, ro_payload r, subject)
    \<and> tr_get_blob_bytes (ap_transport A) config (b_max_metadata_bytes (ap_binding A)) w = (Inr b, w')
    \<and> stored_from_bytes (ap_common A) b (b_max_metadata_bytes (ap_binding A)) = Inr (ro_stored r)
    \<and> ro_manifest r = document \<and> om_digest (so_metadata (ro_stored r)) = d_digest (ro_payload r)
    \<and> om_byte_length (so_metadata (ro_stored r)) = int (d_size (ro_payload r))
    \<and> om_media_type (so_metadata (ro_stored r)) = d_media_type (ro_payload r)"
proof -
  from assms obtain config payload subject b stored where
    "manifest_descriptors document = Inr (config, payload, subject)"
    "tr_get_blob_bytes (ap_transport A) config (b_max_metadata_bytes (ap_binding A)) w = (Inr b, w')"
    "stored_from_bytes (ap_common A) b (b_max_metadata_bytes (ap_binding A)) = Inr stored"
    "\<not> (om_digest (so_metadata stored) \<noteq> d_digest payload \<or> om_byte_length (so_metadata stored) \<noteq> int (d_size payload)
       \<or> om_media_type (so_metadata stored) \<noteq> d_media_type payload)"
    "r = \<lparr>ro_stored = stored, ro_manifest = document, ro_payload = payload\<rparr>"
    unfolding stored_from_manifest_def Let_def
    by (elim bnd_SuccE) (auto split: if_splits prod.splits)
  then show ?thesis by auto
qed

context verified_transport
begin

lemma stored_from_manifest_sound:
  assumes "ap_transport A = tr" "stored_from_manifest A document w = (Inr r, w')"
    and "md_digest document = sha256_digest (md_body document)"
  shows "resolved_sound (ap_common A) (b_max_metadata_bytes (ap_binding A)) r" "ro_manifest r = document"
  using stored_from_manifest_Inr [OF assms(2)] blob_verified assms(1,3) unfolding resolved_sound_def by metis+

lemma stored_for_reference_sound:
  assumes "ap_transport A = tr" "stored_for_reference A reference w = (Inr r, w')"
  shows "resolved_sound (ap_common A) (b_max_metadata_bytes (ap_binding A)) r
    \<and> or_resource (om_ref (so_metadata (ro_stored r))) = semantic_resource_of A
    \<and> or_object_id (om_ref (so_metadata (ro_stored r))) = or_object_id reference
    \<and> (or_digest reference = None \<or> or_digest reference = Some (om_digest (so_metadata (ro_stored r))))
    \<and> (\<exists>config payload subject anchor v. manifest_descriptors (ro_manifest r) = Inr (config, payload, subject)
         \<and> tr_get_manifest tr (''m-a1-'' @ object_id_hash (or_object_id reference)) v = (Inr anchor, w')
         \<and> d_digest subject = sha256_digest (md_body anchor))"
proof -
  obtain tag doc w1 w2 where "tr_get_manifest tr tag w = (Inr doc, w1)"
    and s: "stored_from_manifest A doc w1 = (Inr r, w2)"
    and m: "or_resource (om_ref (so_metadata (ro_stored r))) = semantic_resource_of A"
      "or_object_id (om_ref (so_metadata (ro_stored r))) = or_object_id reference"
      "or_digest reference = None \<or> or_digest reference = Some (om_digest (so_metadata (ro_stored r)))"
    and a: "\<exists>anchor subject c p. tr_get_manifest tr (''m-a1-'' @ object_id_hash (or_object_id reference)) w2 = (Inr anchor, w')
      \<and> manifest_descriptors (ro_manifest r) = Inr (c, p, subject) \<and> d_digest subject = md_digest anchor"
    using assms unfolding stored_for_reference_def
    by (auto simp: Let_def anchor_tag_eq split: if_splits prod.splits)
  with manifest_verified have "md_digest doc = sha256_digest (md_body doc)" by blast
  from stored_from_manifest_sound [OF assms(1) s this] m a manifest_verified show ?thesis by metis
qed

text \<open>The chunk loop hashes exactly the chunks, within the limits, and the upload has advanced by
  their length.\<close>

lemma upload_chunks_Inr:
  assumes "ap_transport A = tr"
    and "upload_chunks A payload upload hashed chunks err w = (Inr (upload', Inr h), w')"
  shows "err = None \<and> h = hashed @ concat chunks
    \<and> (chunks = [] \<or> int (length h) \<le> b_max_object_bytes (ap_binding A))
    \<and> (case upload of None \<Rightarrow> upload' = None
        | Some u \<Rightarrow> \<exists>u'. upload' = Some u' \<and> ul_offset u' + length hashed = ul_offset u + length h)"
  using assms(2)
proof (induction chunks arbitrary: upload hashed w)
  case Nil
  then show ?case by (auto split: option.splits)
next
  case (Cons c cs)
  have b: "int (length (hashed @ c)) \<le> b_max_object_bytes (ap_binding A)"
    using Cons.prems by (auto split: if_splits)
  show ?case
  proof (cases upload)
    case None
    with Cons.prems have "upload_chunks A payload None (hashed @ c) cs err w = (Inr (upload', Inr h), w')"
      by (auto split: if_splits)
    from Cons.IH [OF this] None b show ?thesis by auto
  next
    case (Some u)
    with Cons.prems assms(1) obtain u1 w1 where p: "tr_patch_upload tr u c w = (Inr u1, w1)"
      and r: "upload_chunks A payload (Some u1) (hashed @ c) cs err w1 = (Inr (upload', Inr h), w')"
      by (auto split: if_splits sum.splits)
    from Cons.IH [OF r] patch_offset [OF p] Some b show ?thesis by auto
  qed
qed

lemma finish_payload_Inr:
  assumes "ap_transport A = tr" "finish_payload A payload existing upload h w = (Inr identity, w')"
  shows "oc_mk_identity (ap_common A) (sha256_digest h) (int (length h)) = Inr identity
    \<and> verify_identity payload identity = Inr ()
    \<and> (case existing of Some d \<Rightarrow> int (d_size d) = ci_byte_length identity
        | None \<Rightarrow> \<exists>u d v. upload = Some u \<and> tr_finish_upload tr u (ci_digest identity) v = (Inr d, w'))"
  using assms unfolding finish_payload_def sha256_digest_def
  by (cases existing; cases upload) (force split: if_splits)+

lemma upload_try_Inr:
  assumes "ap_transport A = tr" "upload_try A payloads payload existing w = (Inr (upload, Inr identity), w')"
  shows "\<exists>chunks w1 w2. pr_open payloads payload (b_chunk_size (ap_binding A)) w1 = (Inr (chunks, None), w2)
    \<and> oc_mk_identity (ap_common A) (sha256_digest (concat chunks)) (int (length (concat chunks))) = Inr identity
    \<and> verify_identity payload identity = Inr ()
    \<and> (chunks = [] \<or> int (length (concat chunks)) \<le> b_max_object_bytes (ap_binding A))
    \<and> (case existing of Some d \<Rightarrow> int (d_size d) = ci_byte_length identity
        | None \<Rightarrow> \<exists>u d v. ul_offset u = length (concat chunks) \<and> tr_finish_upload tr u (ci_digest identity) v = (Inr d, w'))"
proof -
  from assms obtain up w1 chunks err w2 h w3
    where st: "(if existing = None then bnd (tr_start_upload tr) (\<lambda>u. ret (Some u)) else ret None) w = (Inr up, w1)"
      and o: "pr_open payloads payload (b_chunk_size (ap_binding A)) w1 = (Inr (chunks, err), w2)"
      and c: "upload_chunks A payload up [] chunks err w2 = (Inr (upload, Inr h), w3)"
      and f: "finish_payload A payload existing upload h w3 = (Inr identity, w')"
    unfolding upload_try_def by (auto split: sum.splits prod.splits)
  have k: "err = None" "h = concat chunks" "chunks = [] \<or> int (length h) \<le> b_max_object_bytes (ap_binding A)"
    and u: "case up of None \<Rightarrow> upload = None | Some u \<Rightarrow> \<exists>u'. upload = Some u' \<and> ul_offset u' = ul_offset u + length h"
    using upload_chunks_Inr [OF assms(1) c] by (auto split: option.splits)
  have "case existing of Some d \<Rightarrow> int (d_size d) = ci_byte_length identity
      | None \<Rightarrow> \<exists>u d v. ul_offset u = length h \<and> tr_finish_upload tr u (ci_digest identity) v = (Inr d, w')"
    using finish_payload_Inr [OF assms(1) f] st u start_offset by (cases existing) force+
  with k o finish_payload_Inr [OF assms(1) f] show ?thesis by blast
qed

lemma upload_attempts_Inr:
  assumes "upload_attempts A payloads payload k w = (Inr identity, w')"
  shows "\<exists>existing u v. upload_try A payloads payload existing v = (Inr (u, Inr identity), w')
     \<and> (existing = None \<or> (\<exists>d x. pl_expected_digest payload = Some d \<and> tr_head_blob (ap_transport A) d x = (Inr existing, v)))"
  using assms
proof (induction k arbitrary: w)
  case (Suc k)
  then obtain existing w1 u r w2 where
    ex: "(case pl_expected_digest payload of None \<Rightarrow> ret None | Some d \<Rightarrow> tr_head_blob (ap_transport A) d) w = (Inr existing, w1)"
    and t: "upload_try A payloads payload existing w1 = (Inr (u, r), w2)"
    and rest: "(case r of Inr identity \<Rightarrow> ret identity
     | Inl e \<Rightarrow>
         bnd (case u of None \<Rightarrow> ret () | Some u \<Rightarrow> adapter_abort_safely A u) (\<lambda>_.
         if exn_kind_of e \<in> {ObjectUnavailable, ObjectRateLimited} \<and> k \<noteq> 0
         then upload_attempts A payloads payload k
         else raise e)) w2 = (Inr identity, w')"
    by (auto split: prod.splits)
  show ?case
  proof (cases r)
    case (Inl e)
    with rest obtain w3 where "upload_attempts A payloads payload k w3 = (Inr identity, w')"
      by (auto split: if_splits)
    then show ?thesis by (rule Suc.IH)
  next
    case (Inr i)
    with rest t ex show ?thesis by (cases "pl_expected_digest payload") auto
  qed
qed simp

lemma upload_payload_Inr:
  assumes "ap_transport A = tr" "upload_payload A payload payloads w = (Inr identity, w')"
  shows "\<exists>chunks w1 w2. pr_open payloads payload (b_chunk_size (ap_binding A)) w1 = (Inr (chunks, None), w2)
    \<and> oc_mk_identity (ap_common A) (sha256_digest (concat chunks)) (int (length (concat chunks))) = Inr identity
    \<and> verify_identity payload identity = Inr ()
    \<and> (chunks = [] \<or> int (length (concat chunks)) \<le> b_max_object_bytes (ap_binding A))
    \<and> ((\<exists>d v v'. tr_head_blob tr (ci_digest identity) v = (Inr (Some d), v') \<and> int (d_size d) = ci_byte_length identity)
        \<or> (\<exists>u d v. ul_offset u = length (concat chunks) \<and> tr_finish_upload tr u (ci_digest identity) v = (Inr d, w')))"
proof -
  from upload_attempts_Inr [OF assms(2) [unfolded upload_payload_def]] obtain existing u v where
    t: "upload_try A payloads payload existing v = (Inr (u, Inr identity), w')"
    and e: "existing = None \<or> (\<exists>d x. pl_expected_digest payload = Some d \<and> tr_head_blob tr d x = (Inr existing, v))"
    using assms(1) by blast
  from upload_try_Inr [OF assms(1) t] obtain chunks w1 w2 where k:
    "pr_open payloads payload (b_chunk_size (ap_binding A)) w1 = (Inr (chunks, None), w2)"
    "oc_mk_identity (ap_common A) (sha256_digest (concat chunks)) (int (length (concat chunks))) = Inr identity"
    "verify_identity payload identity = Inr ()" "chunks = [] \<or> int (length (concat chunks)) \<le> b_max_object_bytes (ap_binding A)"
    and c: "case existing of Some d \<Rightarrow> int (d_size d) = ci_byte_length identity
        | None \<Rightarrow> \<exists>u d v. ul_offset u = length (concat chunks) \<and> tr_finish_upload tr u (ci_digest identity) v = (Inr d, w')"
    by blast
  have "ci_digest identity = d" if "pl_expected_digest payload = Some d" for d
    using k(3) that by (auto simp: verify_identity_def split: if_splits)
  with c e have "(\<exists>d v v'. tr_head_blob tr (ci_digest identity) v = (Inr (Some d), v') \<and> int (d_size d) = ci_byte_length identity)
        \<or> (\<exists>u d v. ul_offset u = length (concat chunks) \<and> tr_finish_upload tr u (ci_digest identity) v = (Inr d, w'))"
    by (cases existing) force+
  with k show ?thesis by blast
qed

end

section \<open>The HTTP client keeps the contract\<close>

lemma get_manifest_digest:
  assumes "get_manifest cl reference w = (Inr doc, w')"
  shows "md_digest doc = sha256_digest (md_body doc) \<and> parse_json_object (md_body doc) ''OCI manifest'' = Inr (md_value doc)"
proof -
  obtain body where "parse_manifest body (if startswith reference ''sha256:'' then Some reference else None)
      (b_max_manifest_bytes (cl_binding cl)) = Inr doc"
    using assms unfolding get_manifest_def by (auto simp: Let_def split: if_splits)
  from parse_manifest_sound [OF this] show ?thesis by auto
qed

lemma get_blob_bytes_digest:
  "get_blob_bytes cl d n w = (Inr b, w') \<Longrightarrow> sha256_digest b = d_digest d \<and> length b = d_size d"
  unfolding get_blob_bytes_def by (auto simp: Let_def split: if_splits)

lemma start_upload_offset: "start_upload cl w = (Inr u, w') \<Longrightarrow> ul_offset u = 0"
  unfolding start_upload_def by auto

lemma patch_upload_offset: "patch_upload cl u c w = (Inr u', w') \<Longrightarrow> ul_offset u' = ul_offset u + length c"
  unfolding patch_upload_def Let_def by (cases c) (auto split: if_splits)

interpretation http: verified_transport "http_transport cl" for cl
  by unfold_locales
    (simp_all add: http_transport_def get_manifest_digest get_blob_bytes_digest start_upload_offset patch_upload_offset)

section \<open>Objects a server has served\<close>

lemma get_manifest_answered:
  assumes "get_manifest cl reference w = (Inr doc, w')"
  shows "answered cl ''GET'' (manifest_url cl reference) 200 (md_body doc) w'"
proof -
  obtain response where c: "client_request cl ''GET'' (manifest_url cl reference) [(''Accept'', OCI_MANIFEST_MEDIA_TYPE)] None [200] True
      (b_max_manifest_bytes (cl_binding cl)) w = (Inr response, w')"
    and p: "parse_manifest (hr_content response) (if startswith reference ''sha256:'' then Some reference else None)
      (b_max_manifest_bytes (cl_binding cl)) = Inr doc"
    using assms unfolding get_manifest_def by (auto simp: Let_def split: if_splits)
  from client_request_answered_by [OF c] client_request_status [OF c] parse_manifest_sound [OF p] show ?thesis by simp
qed

lemma get_blob_bytes_answered:
  assumes "get_blob_bytes cl d maximum w = (Inr octets, w')"
  shows "answered cl ''GET'' (blob_url cl (d_digest d)) 200 octets w'"
proof -
  obtain response b where c: "client_request cl ''GET'' (blob_url cl (d_digest d)) [] None [200] True b w = (Inr response, w')"
    and "octets = hr_content response"
    using assms unfolding get_blob_bytes_def by (auto simp: Let_def split: if_splits)
  with client_request_answered_by [OF c] client_request_status [OF c] show ?thesis by simp
qed

lemma delete_manifest_answered:
  assumes "delete_manifest cl digest w = (Inr True, w')"
  shows "\<exists>body. answered cl ''DELETE'' (manifest_url cl digest) 202 body w'"
proof -
  obtain response where c: "client_request cl ''DELETE'' (manifest_url cl digest) [] None [202, 404] True DEFAULT_RESPONSE_BYTES w = (Inr response, w')"
    and "hr_status response \<noteq> 404"
    using assms unfolding delete_manifest_def by auto
  with client_request_answered_by [OF c] client_request_status [OF c] show ?thesis by auto
qed

text \<open>The run from \<open>w\<close> to \<open>w'\<close> fetched the object \<open>r\<close> under a reference: its manifest is the parse of a body the server
  answered to the request for that reference; its metadata is what the envelope says that the server answered to
  the request for the blob that manifest names as its config, whose digest and length the octets have; and the
  metadata describes the payload that manifest names.\<close>

definition served_object :: "'w client \<Rightarrow> object_common \<Rightarrow> int \<Rightarrow> string \<Rightarrow> resolved_object \<Rightarrow> 'w \<Rightarrow> 'w \<Rightarrow> bool" where
  "served_object cl oc maximum reference r w w' \<longleftrightarrow>
     (\<exists>w1 config subject octets. get_manifest cl reference w = (Inr (ro_manifest r), w1)
        \<and> answered cl ''GET'' (manifest_url cl reference) 200 (md_body (ro_manifest r)) w1
        \<and> md_digest (ro_manifest r) = sha256_digest (md_body (ro_manifest r))
        \<and> parse_json_object (md_body (ro_manifest r)) ''OCI manifest'' = Inr (md_value (ro_manifest r))
        \<and> manifest_descriptors (ro_manifest r) = Inr (config, ro_payload r, subject)
        \<and> get_blob_bytes cl config maximum w1 = (Inr octets, w')
        \<and> answered cl ''GET'' (blob_url cl (d_digest config)) 200 octets w'
        \<and> sha256_digest octets = d_digest config \<and> length octets = d_size config
        \<and> stored_from_bytes oc octets maximum = Inr (ro_stored r)
        \<and> om_digest (so_metadata (ro_stored r)) = d_digest (ro_payload r)
        \<and> om_byte_length (so_metadata (ro_stored r)) = int (d_size (ro_payload r))
        \<and> om_media_type (so_metadata (ro_stored r)) = d_media_type (ro_payload r))"

lemma stored_from_manifest_served:
  assumes "ap_transport A = http_transport cl" "get_manifest cl reference w = (Inr document, w1)"
    and "stored_from_manifest A document w1 = (Inr r, w')"
  shows "served_object cl (ap_common A) (b_max_metadata_bytes (ap_binding A)) reference r w w'"
proof -
  from stored_from_manifest_Inr [OF assms(3)] obtain config subject octets where
    d: "manifest_descriptors document = Inr (config, ro_payload r, subject)" "ro_manifest r = document"
    and b: "get_blob_bytes cl config (b_max_metadata_bytes (ap_binding A)) w1 = (Inr octets, w')"
    and "stored_from_bytes (ap_common A) octets (b_max_metadata_bytes (ap_binding A)) = Inr (ro_stored r)"
      "om_digest (so_metadata (ro_stored r)) = d_digest (ro_payload r)"
      "om_byte_length (so_metadata (ro_stored r)) = int (d_size (ro_payload r))"
      "om_media_type (so_metadata (ro_stored r)) = d_media_type (ro_payload r)"
    using assms(1) by (auto simp: http_transport_def)
  with get_manifest_answered [OF assms(2)] get_manifest_digest [OF assms(2)] get_blob_bytes_answered [OF b] get_blob_bytes_digest [OF b] assms(2)
  show ?thesis unfolding served_object_def d(2)
    by (intro exI [of _ w1] exI [of _ config] exI [of _ subject] exI [of _ octets]) simp
qed

text \<open>The object \<open>r\<close> the reference resolves to: fetched under the reference's tag, of the bound resource and of the
  requested id and digest, and attached to the anchor the server then answered for that id.\<close>

definition resolves_to :: "'w client \<Rightarrow> 'w adapter \<Rightarrow> object_reference \<Rightarrow> resolved_object \<Rightarrow> 'w \<Rightarrow> 'w \<Rightarrow> bool" where
  "resolves_to cl A reference r w w' \<longleftrightarrow>
     (\<exists>tag w1 config payload subject anchor. reference_tag reference = Inr tag
        \<and> served_object cl (ap_common A) (b_max_metadata_bytes (ap_binding A)) tag r w w1
        \<and> or_resource (om_ref (so_metadata (ro_stored r))) = semantic_resource_of A
        \<and> or_object_id (om_ref (so_metadata (ro_stored r))) = or_object_id reference
        \<and> or_digest reference \<in> {None, Some (om_digest (so_metadata (ro_stored r)))}
        \<and> get_manifest cl (''m-a1-'' @ object_id_hash (or_object_id reference)) w1 = (Inr anchor, w')
        \<and> answered cl ''GET'' (manifest_url cl (''m-a1-'' @ object_id_hash (or_object_id reference))) 200 (md_body anchor) w'
        \<and> manifest_descriptors (ro_manifest r) = Inr (config, payload, subject) \<and> d_digest subject = sha256_digest (md_body anchor))"

lemma stored_for_reference_resolves:
  assumes "ap_transport A = http_transport cl" "stored_for_reference A reference w = (Inr r, w')"
  shows "resolves_to cl A reference r w w'"
proof -
  obtain tag document w1 w2 where t: "reference_tag reference = Inr tag" and g: "get_manifest cl tag w = (Inr document, w1)"
    and s: "stored_from_manifest A document w1 = (Inr r, w2)"
    and m: "or_resource (om_ref (so_metadata (ro_stored r))) = semantic_resource_of A"
      "or_object_id (om_ref (so_metadata (ro_stored r))) = or_object_id reference"
      "or_digest reference = None \<or> or_digest reference = Some (om_digest (so_metadata (ro_stored r)))"
    and a: "\<exists>anchor subject c p. get_manifest cl (''m-a1-'' @ object_id_hash (or_object_id reference)) w2 = (Inr anchor, w')
      \<and> manifest_descriptors (ro_manifest r) = Inr (c, p, subject) \<and> d_digest subject = md_digest anchor"
    using assms unfolding stored_for_reference_def
    by (auto simp: Let_def anchor_tag_eq http_transport_def split: if_splits prod.splits)
  from a obtain anchor subject c p where n: "get_manifest cl (''m-a1-'' @ object_id_hash (or_object_id reference)) w2 = (Inr anchor, w')"
    "manifest_descriptors (ro_manifest r) = Inr (c, p, subject)" "d_digest subject = md_digest anchor" by blast
  from t stored_from_manifest_served [OF assms(1) g s] m n get_manifest_answered [OF n(1)] get_manifest_digest [OF n(1)]
  show ?thesis unfolding resolves_to_def
    by (intro exI [of _ tag] exI [of _ w2] exI [of _ c] exI [of _ p] exI [of _ subject] exI [of _ anchor]) auto
qed

text \<open>What the metadata says of the payload is what the manifest says.\<close>

lemma resolves_to_payload:
  assumes "resolves_to cl A reference r w w'"
  shows "d_digest (ro_payload r) = om_digest (so_metadata (ro_stored r))" "int (d_size (ro_payload r)) = om_byte_length (so_metadata (ro_stored r))"
    "md_digest (ro_manifest r) = sha256_digest (md_body (ro_manifest r))"
    "or_resource (om_ref (so_metadata (ro_stored r))) = semantic_resource_of A"
    "or_object_id (om_ref (so_metadata (ro_stored r))) = or_object_id reference"
  using assms unfolding resolves_to_def served_object_def by auto

section \<open>Scanning a page of tags\<close>

text \<open>The run fetched the objects \<open>rs\<close> under the version tags of the list, one after the other.\<close>

primrec scans :: "'w client \<Rightarrow> object_common \<Rightarrow> int \<Rightarrow> string list \<Rightarrow> resolved_object list \<Rightarrow> 'w \<Rightarrow> 'w \<Rightarrow> bool" where
  "scans cl oc maximum [] rs w w' = (rs = [] \<and> w' = w)"
| "scans cl oc maximum (tag # tags) rs w w' =
     (if startswith tag (version_tag_prefix None)
      then (\<exists>r rs' w1. rs = r # rs' \<and> served_object cl oc maximum tag r w w1 \<and> scans cl oc maximum tags rs' w1 w')
      else scans cl oc maximum tags rs w w')"

lemma list_scan_exact:
  assumes "ap_transport A = http_transport cl"
    and "list_scan A pfx limit items scanned tags w = (Inr (items', scanned', stopped), w')" "int (length items) < limit"
  defines "hit \<equiv> \<lambda>r. startswith (or_object_id (om_ref (so_metadata (ro_stored r)))) pfx"
    and "item \<equiv> \<lambda>r. oc_metadata_to_dict (ap_common A) (so_metadata (ro_stored r))"
  shows "\<exists>n rs. n \<le> length tags \<and> scans cl (ap_common A) (b_max_metadata_bytes (ap_binding A)) (take n tags) rs w w'
    \<and> items' = items @ map item (filter hit rs) \<and> scanned' = (if n = 0 then scanned else Some (tags ! (n - 1)))
    \<and> (if stopped then int (length items') = limit \<and> n \<noteq> 0 \<and> startswith (tags ! (n - 1)) (version_tag_prefix None) \<and> rs \<noteq> [] \<and> hit (last rs)
       else int (length items') < limit \<and> n = length tags)"
  using assms(2,3)
proof (induction tags arbitrary: items scanned w)
  case (Cons tag tags)
  let ?served = "served_object cl (ap_common A) (b_max_metadata_bytes (ap_binding A))"
  let ?scans = "scans cl (ap_common A) (b_max_metadata_bytes (ap_binding A))"
  show ?case
  proof (cases "startswith tag (version_tag_prefix None)")
    case False
    with Cons.prems have "list_scan A pfx limit items (Some tag) tags w = (Inr (items', scanned', stopped), w')" by simp
    from Cons.IH [OF this Cons.prems(2)] obtain n rs where i: "n \<le> length tags" "?scans (take n tags) rs w w'"
      "items' = items @ map item (filter hit rs)" "scanned' = (if n = 0 then Some tag else Some (tags ! (n - 1)))"
      "if stopped then int (length items') = limit \<and> n \<noteq> 0 \<and> startswith (tags ! (n - 1)) (version_tag_prefix None) \<and> rs \<noteq> [] \<and> hit (last rs)
       else int (length items') < limit \<and> n = length tags" by blast
    with False show ?thesis by (intro exI [of _ "Suc n"] exI [of _ rs]) (auto simp: nth_Cons' split: if_splits)
  next
    case True
    with Cons.prems(1) assms(1) obtain document w1 r w2 where m: "get_manifest cl tag w = (Inr document, w1)"
      and s: "stored_from_manifest A document w1 = (Inr r, w2)"
      and rest: "(let items2 = (if hit r then items @ [item r] else items)
        in if int (length items2) = limit then ret (items2, Some tag, True)
           else list_scan A pfx limit items2 (Some tag) tags) w2 = (Inr (items', scanned', stopped), w')"
      unfolding hit_def item_def by (auto simp: Let_def http_transport_def)
    have sv: "?served tag r w w2" by (rule stored_from_manifest_served [OF assms(1) m s])
    have one: "(if hit r then items @ [item r] else items) = items @ map item (filter hit [r])" by simp
    show ?thesis
    proof (cases "int (length (items @ map item (filter hit [r]))) = limit")
      case full: True
      then have h: "hit r" using Cons.prems(2) by (auto split: if_splits)
      from full rest have "items' = items @ map item (filter hit [r])" "scanned' = Some tag" "stopped" "w' = w2"
        unfolding one Let_def by simp_all
      with full h True sv show ?thesis by (intro exI [of _ 1] exI [of _ "[r]"]) auto
    next
      case False
      with rest have l: "list_scan A pfx limit (items @ map item (filter hit [r])) (Some tag) tags w2 = (Inr (items', scanned', stopped), w')"
        unfolding one Let_def by simp
      have "int (length (items @ map item (filter hit [r]))) < limit" using False Cons.prems(2) by (auto split: if_splits)
      from Cons.IH [OF l this] obtain n rs where i: "n \<le> length tags" "?scans (take n tags) rs w2 w'"
        "items' = (items @ map item (filter hit [r])) @ map item (filter hit rs)" "scanned' = (if n = 0 then Some tag else Some (tags ! (n - 1)))"
        "if stopped then int (length items') = limit \<and> n \<noteq> 0 \<and> startswith (tags ! (n - 1)) (version_tag_prefix None) \<and> rs \<noteq> [] \<and> hit (last rs)
         else int (length items') < limit \<and> n = length tags" by blast
      have "?scans (take (Suc n) (tag # tags)) (r # rs) w w'" using i(2) True sv by auto
      with i True show ?thesis by (intro exI [of _ "Suc n"] exI [of _ "r # rs"]) (auto simp: nth_Cons' split: if_splits)
    qed
  qed
qed simp

end
