(* ===== verification/Store.thy ===== *)
theory Store
  imports Adapter_Laws
begin

text \<open>
  The abstract specification of the registry as the adapter uses it: content-addressed blobs, tags
  that name manifests, and open upload sessions. The locale \<open>registry_store\<close> is the promise of a
  transport to implement that store: every operation has the specified result and effect under an
  abstraction of the world. The adapter's functional behaviour on a working registry is proved in the
  locale.
\<close>

section \<open>The abstract store\<close>

record store =
  st_blobs :: "string \<rightharpoonup> string"
  st_tags :: "string \<rightharpoonup> string"
  st_uploads :: "string \<rightharpoonup> string"

definition store_put_tag :: "string \<Rightarrow> string \<Rightarrow> store \<Rightarrow> store" where
  "store_put_tag t b s = s\<lparr>st_tags := (st_tags s)(t \<mapsto> b)\<rparr>"

definition store_put_blob :: "string \<Rightarrow> store \<Rightarrow> store" where
  "store_put_blob v s = s\<lparr>st_blobs := (st_blobs s)(sha256_digest v \<mapsto> v)\<rparr>"

definition store_delete :: "string \<Rightarrow> store \<Rightarrow> store" where
  "store_delete d s = s\<lparr>st_tags := (\<lambda>t. case st_tags s t of None \<Rightarrow> None
     | Some b \<Rightarrow> if sha256_digest b = d then None else Some b)\<rparr>"

definition store_session :: "string \<Rightarrow> string option \<Rightarrow> store \<Rightarrow> store" where
  "store_session url c s = s\<lparr>st_uploads := (st_uploads s)(url := c)\<rparr>"

text \<open>No other content is stored under the digest of \<open>v\<close>.\<close>

definition no_collision :: "store \<Rightarrow> string \<Rightarrow> bool" where
  "no_collision s v \<longleftrightarrow> st_blobs s (sha256_digest v) = None \<or> st_blobs s (sha256_digest v) = Some v"

lemma store_simps [simp]:
  "st_tags (store_put_tag t b s) = (st_tags s)(t \<mapsto> b)" "st_blobs (store_put_tag t b s) = st_blobs s"
  "st_uploads (store_put_tag t b s) = st_uploads s"
  "st_tags (store_put_blob v s) = st_tags s" "st_blobs (store_put_blob v s) = (st_blobs s)(sha256_digest v \<mapsto> v)"
  "st_uploads (store_put_blob v s) = st_uploads s"
  "st_blobs (store_delete d s) = st_blobs s" "st_uploads (store_delete d s) = st_uploads s"
  "st_tags (store_session u c s) = st_tags s" "st_blobs (store_session u c s) = st_blobs s"
  "st_uploads (store_session u c s) = (st_uploads s)(u := c)"
  by (simp_all add: store_put_tag_def store_put_blob_def store_delete_def store_session_def)

section \<open>The manifests the adapter publishes\<close>

lemma hexdigest_utf8 [simp]: "utf8_ok (hexdigest m)"
proof -
  have "oct c < 128" if "is_hex_lower c" for c using that by (auto simp: is_hex_lower_def is_digit_def)
  then show ?thesis using hexdigest_lower [of m] by (intro utf8_ok_ascii) (auto simp: list_all_iff)
qed

lemma descriptor_ok_sha256 [simp]:
  "CHR ''/'' \<in> set m \<Longrightarrow> descriptor_ok \<lparr>d_media_type = m, d_digest = sha256_digest b, d_size = n\<rparr>"
  by (simp add: descriptor_ok_def)

lemma anchor_fields_wf: "utf8_ok h \<Longrightarrow> json_wf (JObj (anchor_manifest_fields h))"
proof -
  assume h: "utf8_ok h"
  have "json_wf (JObj (descriptor_to_dict EMPTY_DESCRIPTOR))"
    by (intro descriptor_wf) (simp_all add: EMPTY_DESCRIPTOR_def)
  moreover have "list_all utf8_ok [''schemaVersion'', ''mediaType'', ''artifactType'', ''config'', ''layers'', ''annotations'',
      ''org.meridian.adapter.id'', ''oci-distribution'', ''org.meridian.object.anchor'', ''org.meridian.object.format'']"
    by (auto intro: utf8_ok_ascii)
  ultimately show ?thesis using h by (simp add: anchor_manifest_fields_def)
qed

text \<open>The anchor manifest is accepted by the parser and by the adapter's compatibility check.\<close>

lemma anchor_manifest_parses:
  assumes "utf8_ok h" "int (length (build_anchor_manifest h)) \<le> n"
  shows "\<exists>doc. parse_manifest (build_anchor_manifest h) None n = Inr doc
    \<and> obj_get (md_value doc) ''artifactType'' = JStr MERIDIAN_OBJECT_ANCHOR_TYPE
    \<and> is_obj (obj_get (md_value doc) ''annotations'')
    \<and> obj_get (fields_of (obj_get (md_value doc) ''annotations'')) ''org.meridian.object.anchor'' = JStr h"
proof -
  let ?fs = "anchor_manifest_fields h"
  have wf: "json_wf (JObj ?fs)" by (rule anchor_fields_wf [OF assms(1)])
  have g: "obj_get (sort_fields ?fs) k = sort_json (obj_get ?fs k)" for k
    using wf by (intro obj_get_sort_fields) simp
  let ?ann = "[(''org.meridian.adapter.id'', JStr ''oci-distribution''),
         (''org.meridian.object.anchor'', JStr h), (''org.meridian.object.format'', JStr STORED_METADATA_FORMAT)]"
  have "obj_get ?fs ''artifactType'' = JStr MERIDIAN_OBJECT_ANCHOR_TYPE" "obj_get ?fs ''annotations'' = JObj ?ann"
    by (simp_all add: anchor_manifest_fields_def obj_get_def)
  then have "obj_get (sort_fields ?fs) ''artifactType'' = JStr MERIDIAN_OBJECT_ANCHOR_TYPE"
    "obj_get (sort_fields ?fs) ''annotations'' = JObj (sort_fields ?ann)"
    by (simp_all only: g sort_json_obj sort_json.simps)
  moreover have "obj_get (sort_fields ?ann) ''org.meridian.object.anchor'' = JStr h"
    by (subst obj_get_sort_fields) (simp_all add: obj_get_def)
  moreover have "parse_manifest (build_anchor_manifest h) None n = Inr \<lparr>md_body = canonical_json ?fs,
     md_digest = sha256_digest (canonical_json ?fs), md_media_type = OCI_MANIFEST_MEDIA_TYPE, md_value = sort_fields ?fs\<rparr>"
    using parse_manifest_canonical [OF wf, of n] assms(2)
    by (simp add: build_anchor_manifest_def anchor_manifest_fields_def)
  ultimately show ?thesis by simp
qed

text \<open>The anchor and version manifests of an object, from its stored envelope.\<close>

definition anchor_body :: "string \<Rightarrow> string" where
  "anchor_body oid = build_anchor_manifest (object_id_hash oid)"

definition manifest_descriptor :: "string \<Rightarrow> oci_descriptor" where
  "manifest_descriptor b = \<lparr>d_media_type = OCI_MANIFEST_MEDIA_TYPE, d_digest = sha256_digest b, d_size = length b\<rparr>"

definition config_descriptor :: "object_common \<Rightarrow> stored_object \<Rightarrow> oci_descriptor" where
  "config_descriptor oc s = \<lparr>d_media_type = MERIDIAN_OBJECT_CONFIG_MEDIA_TYPE,
     d_digest = sha256_digest (stored_to_bytes oc s), d_size = length (stored_to_bytes oc s)\<rparr>"

definition payload_descriptor :: "stored_object \<Rightarrow> oci_descriptor" where
  "payload_descriptor s = \<lparr>d_media_type = om_media_type (so_metadata s), d_digest = om_digest (so_metadata s),
     d_size = nat (om_byte_length (so_metadata s))\<rparr>"

definition version_body :: "object_common \<Rightarrow> string \<Rightarrow> stored_object \<Rightarrow> string" where
  "version_body oc oid s = build_object_manifest (manifest_descriptor (anchor_body oid)) (config_descriptor oc s)
     (payload_descriptor s) (object_id_hash oid) (om_created_at (so_metadata s)) (om_mutability (so_metadata s))"

text \<open>An envelope that describes the content \<open>v\<close> of object \<open>oid\<close> and fits the limits.\<close>

definition storable :: "object_common \<Rightarrow> int \<Rightarrow> int \<Rightarrow> semantic_resource \<Rightarrow> string \<Rightarrow> string \<Rightarrow> stored_object \<Rightarrow> bool" where
  "storable oc max_manifest max_metadata sem oid v s \<longleftrightarrow> (let m = so_metadata s in
     om_digest m = sha256_digest v \<and> om_byte_length m = int (length v)
     \<and> or_resource (om_ref m) = sem \<and> or_object_id (om_ref m) = oid
     \<and> CHR ''/'' \<in> set (om_media_type m) \<and> utf8_ok (om_media_type m) \<and> utf8_ok (om_created_at m) \<and> utf8_ok (om_mutability m)
     \<and> stored_codec_ok oc s \<and> int (length (stored_to_bytes oc s)) \<le> max_metadata
     \<and> int (length (version_body oc oid s)) \<le> max_manifest \<and> int (length (anchor_body oid)) \<le> max_manifest)"

lemma version_body_parses:
  assumes "storable oc max_manifest max_metadata sem oid v s"
  shows "\<exists>doc. parse_manifest (version_body oc oid s) None max_manifest = Inr doc
    \<and> manifest_descriptors doc = Inr (config_descriptor oc s, payload_descriptor s, manifest_descriptor (anchor_body oid))"
  using assms
  by (intro object_manifest_parses [OF _ _ _ _ _ _ _ _ _ version_body_def])
    (simp_all add: storable_def Let_def manifest_descriptor_def config_descriptor_def payload_descriptor_def
      object_id_hash_def)

text \<open>Contents that can be stored side by side: no two of them, and none of them and stored content, share
  a digest without being equal.\<close>

definition collision_free :: "store \<Rightarrow> string list \<Rightarrow> bool" where
  "collision_free s vs \<longleftrightarrow> list_all (no_collision s) vs \<and> inj_on sha256_digest (set vs)"

lemma collision_free_update:
  assumes "collision_free s vs" "u \<in> set vs" "st_blobs s' = (st_blobs s)(sha256_digest u \<mapsto> u)"
  shows "collision_free s' vs"
  using assms by (auto simp: collision_free_def no_collision_def list_all_iff inj_on_def)

lemma collision_free_same: "collision_free s vs \<Longrightarrow> st_blobs s' = st_blobs s \<Longrightarrow> collision_free s' vs"
  by (simp add: collision_free_def no_collision_def list_all_iff)

text \<open>No other manifest is tagged under the digest of \<open>b\<close>; and for several manifests to be published.\<close>

definition no_clash :: "store \<Rightarrow> string \<Rightarrow> bool" where
  "no_clash s b \<longleftrightarrow> (\<forall>t b'. st_tags s t = Some b' \<longrightarrow> sha256_digest b' = sha256_digest b \<longrightarrow> b' = b)"

definition manifests_free :: "store \<Rightarrow> string list \<Rightarrow> bool" where
  "manifests_free s bs \<longleftrightarrow> list_all (no_clash s) bs \<and> inj_on sha256_digest (set bs)"

lemma manifests_free_update:
  assumes "manifests_free s bs" "st_tags s' = (st_tags s)(t \<mapsto> u)" "u \<in> set bs"
  shows "manifests_free s' bs"
  using assms by (auto simp: manifests_free_def no_clash_def list_all_iff inj_on_def split: if_splits)

lemma manifests_free_same: "manifests_free s bs \<Longrightarrow> st_tags s' = st_tags s \<Longrightarrow> manifests_free s' bs"
  by (simp add: manifests_free_def no_clash_def list_all_iff)

text \<open>A SHA-256 collision: a content to be written and another one, to be written or stored, with the same
  digest.\<close>

definition collides :: "store \<Rightarrow> string list \<Rightarrow> bool" where
  "collides s vs \<longleftrightarrow> (\<exists>x \<in> set vs. \<exists>y \<in> set vs \<union> ran (st_blobs s) \<union> ran (st_tags s). x \<noteq> y \<and> sha256_digest x = sha256_digest y)"

lemma no_collision_facts:
  assumes "\<not> collides s vs" and "set us \<subseteq> set vs" and "\<And>d v. st_blobs s d = Some v \<Longrightarrow> d = sha256_digest v"
  shows "collision_free s us" "manifests_free s us"
proof -
  have i: "inj_on sha256_digest (set us)" using assms(1,2) by (auto simp: inj_on_def collides_def)
  have "y = u" if "u \<in> set us" "st_blobs s (sha256_digest u) = Some y" for u y
    using that assms(1,2) assms(3) [OF that(2)] by (force simp: collides_def ran_def)
  then have "st_blobs s (sha256_digest u) = None \<or> st_blobs s (sha256_digest u) = Some u" if "u \<in> set us" for u
    using that by (cases "st_blobs s (sha256_digest u)") auto
  with i show "collision_free s us" by (simp add: collision_free_def no_collision_def list_all_iff)
  have "no_clash s u" if "u \<in> set us" for u
    using that assms(1,2) by (fastforce simp: no_clash_def collides_def ran_def)
  with i show "manifests_free s us" by (simp add: manifests_free_def list_all_iff)
qed

text \<open>What a put asks of the object-common package: it accepts the reference and the metadata, which
  become the envelope \<open>s\<close>.\<close>

definition accepts :: "'w adapter \<Rightarrow> operation_input \<Rightarrow> string \<Rightarrow> int \<Rightarrow> stored_object \<Rightarrow> bool" where
  "accepts A v content t s \<longleftrightarrow>
     (\<exists>ps reference. in_provenance v = JObj ps \<and> ''meridianAdapter'' \<notin> fst ` set ps
       \<and> oc_mk_reference (ap_common A) (semantic_resource_of A) (in_object_id v) (Some (sha256_digest content)) = Inr reference
       \<and> oc_mk_metadata (ap_common A)
            \<lparr>ma_ref = reference, ma_digest = sha256_digest content, ma_byte_length = int (length content),
             ma_media_type = in_media_type v, ma_created_at = t, ma_creation_context = in_creation_context v,
             ma_user_metadata = in_user_metadata v, ma_mutability = im_mutability (so_immutability s),
             ma_provenance = ps @ [(''meridianAdapter'', JObj (adapter_provenance A))]\<rparr> = Inr (so_metadata s))"

lemma tags_match:
  "tag_match (''m-a1-'' @ object_id_hash oid)" "tag_match (''m-l1-'' @ object_id_hash oid)"
  "tag_match (''m-v1-'' @ take 32 (object_id_hash oid) @ ''-'' @ hexdigest c)"
  using sha.tag_match_hx [of oid] sha.tag_match_version [OF hexdigest_length hexdigest_lower, of oid c]
  by (simp_all add: object_id_hash_def)

section \<open>Preconditions and outcomes of a put\<close>

text \<open>In the following, \<open>ok\<close> and \<open>view\<close> are the invariant and the abstraction of the world.\<close>

text \<open>A payload that opens to the same chunks whenever it is opened, without touching the store.\<close>

definition opens_to :: "('w \<Rightarrow> bool) \<Rightarrow> ('w \<Rightarrow> store) \<Rightarrow> 'w payload_registry \<Rightarrow> payload_reference \<Rightarrow> int \<Rightarrow> string list \<Rightarrow> bool" where
  "opens_to ok view payloads payload n chunks \<longleftrightarrow> list_all (\<lambda>x. x \<noteq> []) chunks
     \<and> (\<forall>w. ok w \<longrightarrow> (\<exists>w'. pr_open payloads payload n w = (Inr (chunks, None), w') \<and> view w' = view w \<and> ok w'))"

text \<open>A payload the adapter accepts: within the size limit, with correct expectations if it has any, and
  an identity the object-common package accepts.\<close>

definition uploadable :: "'w transport \<Rightarrow> ('w \<Rightarrow> bool) \<Rightarrow> ('w \<Rightarrow> store) \<Rightarrow> 'w adapter \<Rightarrow> 'w payload_registry \<Rightarrow> payload_reference \<Rightarrow> string list \<Rightarrow> bool" where
  "uploadable tr ok view A payloads payload chunks \<longleftrightarrow> (let v = concat chunks in
     ap_transport A = tr \<and> opens_to ok view payloads payload (b_chunk_size (ap_binding A)) chunks
     \<and> int (length v) \<le> b_max_object_bytes (ap_binding A)
     \<and> (pl_expected_digest payload = None \<or> pl_expected_digest payload = Some (sha256_digest v))
     \<and> (pl_expected_length payload = None \<or> pl_expected_length payload = Some (int (length v)))
     \<and> oc_mk_identity (ap_common A) (sha256_digest v) (int (length v))
        = Inr \<lparr>ci_digest = sha256_digest v, ci_byte_length = int (length v)\<rparr>)"

definition clock_reads :: "('w \<Rightarrow> bool) \<Rightarrow> ('w \<Rightarrow> store) \<Rightarrow> 'w adapter \<Rightarrow> int \<Rightarrow> bool" where
  "clock_reads ok view A t \<longleftrightarrow> (\<forall>w. ok w \<longrightarrow> (\<exists>w'. ap_clock A w = (Inr (AwareTime t), w') \<and> view w' = view w \<and> ok w'))"

text \<open>Everything a successful put of new content needs: the request is understood, the payload can be
  uploaded, nothing forbids creation, the version is new and the anchor is absent or intact.\<close>

definition put_ready ::
  "'w transport \<Rightarrow> ('w \<Rightarrow> bool) \<Rightarrow> ('w \<Rightarrow> store) \<Rightarrow> int \<Rightarrow> 'w adapter \<Rightarrow> operation_input \<Rightarrow> 'w payload_registry \<Rightarrow> string list \<Rightarrow> int \<Rightarrow> stored_object \<Rightarrow> 'w \<Rightarrow> bool" where
  "put_ready tr ok view max_manifest A v payloads chunks t s w \<longleftrightarrow>
     (\<exists>ps payload s1 s2 s3. in_payload v = JObj ps \<and> oc_payload_from (ap_common A) ps = Inr payload
        \<and> uploadable tr ok view A payloads payload chunks
        \<and> oc_put_transition (ap_common A) (oc_put_initial (ap_common A)) PUT_UPLOADING = Inr s1
        \<and> oc_put_transition (ap_common A) s1 PUT_VERIFYING = Inr s2
        \<and> oc_put_transition (ap_common A) s2 PUT_COMMITTED = Inr s3)
     \<and> put_immutability (ap_common A) (in_immutability v) = Inr (so_immutability s)
     \<and> put_retention (ap_common A) (in_retention v) = Inr (so_retention s)
     \<and> accepts A v (concat chunks) t s \<and> clock_reads ok view A t
     \<and> storable (ap_common A) max_manifest (b_max_metadata_bytes (ap_binding A)) (semantic_resource_of A) (in_object_id v)
          (concat chunks) s
     \<and> st_tags (view w) (''m-v1-'' @ take 32 (object_id_hash (in_object_id v)) @ ''-'' @ hexdigest (concat chunks)) = None
     \<and> st_tags (view w) (''m-a1-'' @ object_id_hash (in_object_id v)) \<in> {None, Some (anchor_body (in_object_id v))}
     \<and> (in_create_only v \<or> im_publish_once (so_immutability s) \<longrightarrow>
          st_tags (view w) ((if im_publish_once (so_immutability s) then ''m-a1-'' else ''m-l1-'') @ object_id_hash (in_object_id v)) = None)"

text \<open>What a put writes: the empty configuration, the payload, the metadata envelope and the two manifests.\<close>

definition put_contents :: "object_common \<Rightarrow> string \<Rightarrow> string \<Rightarrow> stored_object \<Rightarrow> string list" where
  "put_contents oc oid content s = [EMPTY_JSON, content, stored_to_bytes oc s, anchor_body oid, version_body oc oid s]"

text \<open>The stored state of one version of an object, as put leaves it.\<close>

definition holds_version :: "'w transport \<Rightarrow> ('w \<Rightarrow> bool) \<Rightarrow> ('w \<Rightarrow> store) \<Rightarrow> int \<Rightarrow> 'w adapter \<Rightarrow> string \<Rightarrow> string \<Rightarrow> stored_object \<Rightarrow> 'w \<Rightarrow> bool" where
  "holds_version tr ok view max_manifest A oid content s w \<longleftrightarrow> ok w \<and> ap_transport A = tr
     \<and> storable (ap_common A) max_manifest (b_max_metadata_bytes (ap_binding A)) (semantic_resource_of A) oid content s
     \<and> st_tags (view w) (''m-a1-'' @ object_id_hash oid) = Some (anchor_body oid)
     \<and> st_tags (view w) (''m-v1-'' @ take 32 (object_id_hash oid) @ ''-'' @ hexdigest content) = Some (version_body (ap_common A) oid s)
     \<and> st_tags (view w) (''m-l1-'' @ object_id_hash oid) = Some (version_body (ap_common A) oid s)
     \<and> st_blobs (view w) (sha256_digest (stored_to_bytes (ap_common A) s)) = Some (stored_to_bytes (ap_common A) s)
     \<and> st_blobs (view w) (sha256_digest content) = Some content"

section \<open>The promise of a working registry\<close>

locale registry_store = verified_transport tr for tr :: "'w transport" +
  fixes inv :: "'w \<Rightarrow> bool" and abs :: "'w \<Rightarrow> store" and max_manifest :: int
  assumes exists_ok: "inv w \<Longrightarrow> tag_match t \<Longrightarrow>
      \<exists>w'. tr_manifest_exists tr t w = (Inr (st_tags (abs w) t \<noteq> None), w') \<and> abs w' = abs w \<and> inv w'"
    and get_ok: "inv w \<Longrightarrow> tag_match t \<Longrightarrow> st_tags (abs w) t = Some b \<Longrightarrow> parse_manifest b None max_manifest = Inr doc \<Longrightarrow>
      \<exists>w'. tr_get_manifest tr t w = (Inr doc, w') \<and> abs w' = abs w \<and> inv w'"
    and get_missing: "inv w \<Longrightarrow> tag_match t \<Longrightarrow> st_tags (abs w) t = None \<Longrightarrow>
      \<exists>e w'. tr_get_manifest tr t w = (Inl e, w') \<and> exn_kind_of e = ObjectNotFound \<and> abs w' = abs w \<and> inv w'"
    and put_ok: "inv w \<Longrightarrow> tag_match t \<Longrightarrow> parse_manifest b None max_manifest = Inr doc \<Longrightarrow> no_clash (abs w) b \<Longrightarrow>
      \<exists>w'. tr_put_manifest tr t b w =
          (Inr \<lparr>d_media_type = OCI_MANIFEST_MEDIA_TYPE, d_digest = sha256_digest b, d_size = length b\<rparr>, w')
        \<and> abs w' = store_put_tag t b (abs w) \<and> inv w'"
    and delete_ok: "inv w \<Longrightarrow> st_tags (abs w) t = Some b \<Longrightarrow>
      \<exists>w'. tr_delete_manifest tr (sha256_digest b) w = (Inr True, w')
        \<and> abs w' = store_delete (sha256_digest b) (abs w) \<and> inv w'"
    and store_blob_ok: "inv w \<Longrightarrow> no_collision (abs w) v \<Longrightarrow> CHR ''/'' \<in> set mt \<Longrightarrow>
      \<exists>w'. tr_upload_blob_bytes tr v mt w =
          (Inr \<lparr>d_media_type = mt, d_digest = sha256_digest v, d_size = length v\<rparr>, w')
        \<and> st_blobs (abs w') = (st_blobs (abs w))(sha256_digest v \<mapsto> v) \<and> st_tags (abs w') = st_tags (abs w) \<and> inv w'"
    and fetch_blob_ok: "inv w \<Longrightarrow> st_blobs (abs w) (sha256_digest v) = Some v \<Longrightarrow> int (length v) \<le> n \<Longrightarrow>
      \<exists>w'. tr_get_blob_bytes tr \<lparr>d_media_type = mt, d_digest = sha256_digest v, d_size = length v\<rparr> n w = (Inr v, w')
        \<and> abs w' = abs w \<and> inv w'"
    and head_ok: "inv w \<Longrightarrow>
      \<exists>w'. tr_head_blob tr (sha256_digest v) w =
          (Inr (map_option (\<lambda>b. \<lparr>d_media_type = ''application/octet-stream'', d_digest = sha256_digest v, d_size = length b\<rparr>)
                  (st_blobs (abs w) (sha256_digest v))), w') \<and> abs w' = abs w \<and> inv w'"
    and open_ok: "inv w \<Longrightarrow> st_blobs (abs w) (sha256_digest v) = Some v \<Longrightarrow>
      \<exists>cs w'. tr_open_blob tr (sha256_digest v) None w = (Inr (cs, None), w') \<and> concat cs = v \<and> abs w' = abs w \<and> inv w'"
    and open_range_ok: "inv w \<Longrightarrow> st_blobs (abs w) (sha256_digest v) = Some v \<Longrightarrow> i \<le> j \<Longrightarrow> j < length v \<Longrightarrow>
      \<exists>cs w'. tr_open_blob tr (sha256_digest v) (Some (int i, Some (int j))) w = (Inr (cs, None), w')
        \<and> concat cs = take (Suc j - i) (drop i v) \<and> abs w' = abs w \<and> inv w'"
    and start_ok: "inv w \<Longrightarrow>
      \<exists>u w'. tr_start_upload tr w = (Inr u, w') \<and> st_uploads (abs w) (ul_url u) = None
        \<and> abs w' = store_session (ul_url u) (Some []) (abs w) \<and> inv w'"
    and patch_ok: "inv w \<Longrightarrow> st_uploads (abs w) (ul_url u) = Some c \<Longrightarrow> ul_offset u = length c \<Longrightarrow> chunk \<noteq> [] \<Longrightarrow>
      \<exists>u' w'. tr_patch_upload tr u chunk w = (Inr u', w') \<and> ul_url u' = ul_url u
        \<and> abs w' = store_session (ul_url u) (Some (c @ chunk)) (abs w) \<and> inv w'"
    and finish_ok: "inv w \<Longrightarrow> st_uploads (abs w) (ul_url u) = Some c \<Longrightarrow>
      \<exists>d w'. tr_finish_upload tr u (sha256_digest c) w = (Inr d, w')
        \<and> abs w' = store_session (ul_url u) None (store_put_blob c (abs w)) \<and> inv w'"
    and blob_keyed: "inv w \<Longrightarrow> st_blobs (abs w) d = Some v \<Longrightarrow> d = sha256_digest v"
begin

text \<open>Uploading the chunks of a payload into an open session.\<close>

lemma upload_chunks_ok:
  assumes "ap_transport A = tr" "inv w" "st_uploads (abs w) (ul_url u) = Some c" "ul_offset u = length c"
    and "list_all (\<lambda>x. x \<noteq> []) chunks"
    and "int (length (c @ concat chunks)) \<le> b_max_object_bytes (ap_binding A)"
    and "case pl_expected_length payload of None \<Rightarrow> True | Some n \<Rightarrow> int (length (c @ concat chunks)) \<le> n"
  shows "\<exists>u' w'. upload_chunks A payload (Some u) c chunks None w = (Inr (Some u', Inr (c @ concat chunks)), w')
    \<and> ul_url u' = ul_url u \<and> abs w' = store_session (ul_url u) (Some (c @ concat chunks)) (abs w) \<and> inv w'"
  using assms(2-)
proof (induction chunks arbitrary: u c w)
  case Nil
  then have "store_session (ul_url u) (Some c) (abs w) = abs w"
    by (simp add: store_session_def fun_upd_idem)
  with Nil show ?case by (auto simp: ret_def)
next
  case (Cons x xs)
  have "x \<noteq> []" using Cons.prems(4) by simp
  from patch_ok [OF Cons.prems(1-3) this] obtain u1 w1 where p: "tr_patch_upload tr u x w = (Inr u1, w1)" and u1: "ul_url u1 = ul_url u"
    and a1: "abs w1 = store_session (ul_url u) (Some (c @ x)) (abs w)" and i1: "inv w1"
    by blast
  have "\<exists>u' w'. upload_chunks A payload (Some u1) (c @ x) xs None w1 = (Inr (Some u', Inr ((c @ x) @ concat xs)), w')
    \<and> ul_url u' = ul_url u1 \<and> abs w' = store_session (ul_url u1) (Some ((c @ x) @ concat xs)) (abs w1) \<and> inv w'"
    using Cons.prems patch_offset [OF p] by (intro Cons.IH i1) (simp_all add: a1 u1 split: option.splits)
  then obtain u' w' where r: "upload_chunks A payload (Some u1) (c @ x) xs None w1 = (Inr (Some u', Inr (c @ concat (x # xs))), w')"
    "ul_url u' = ul_url u" "abs w' = store_session (ul_url u) (Some (c @ concat (x # xs))) (abs w1)" "inv w'"
    by (auto simp: u1)
  have "upload_chunks A payload (Some u) c (x # xs) None w = upload_chunks A payload (Some u1) (c @ x) xs None w1"
    using p assms(1) Cons.prems(5,6) by (auto simp: bnd_def outcome_def split: option.splits)
  with r show ?case by (auto simp: a1 store_session_def)
qed

lemma upload_chunks_hash_only:
  assumes "int (length (c @ concat chunks)) \<le> b_max_object_bytes (ap_binding A)"
    and "case pl_expected_length payload of None \<Rightarrow> True | Some n \<Rightarrow> int (length (c @ concat chunks)) \<le> n"
  shows "upload_chunks A payload None c chunks None w = (Inr (None, Inr (c @ concat chunks)), w)"
  using assms by (induction chunks arbitrary: c) (auto simp: ret_def split: option.splits)

lemma uploadable_facts:
  assumes "uploadable tr inv abs A payloads payload chunks"
  shows "ap_transport A = tr" "int (length ([] @ concat chunks)) \<le> b_max_object_bytes (ap_binding A)"
    "case pl_expected_length payload of None \<Rightarrow> True | Some n \<Rightarrow> int (length ([] @ concat chunks)) \<le> n"
    "verify_identity payload \<lparr>ci_digest = sha256_digest (concat chunks), ci_byte_length = int (length (concat chunks))\<rparr> = Inr ()"
    "oc_mk_identity (ap_common A) (''sha256:'' @ hexdigest (concat chunks)) (int (length (concat chunks)))
       = Inr \<lparr>ci_digest = sha256_digest (concat chunks), ci_byte_length = int (length (concat chunks))\<rparr>"
    "list_all (\<lambda>x. x \<noteq> []) chunks"
    "inv w \<Longrightarrow> \<exists>w'. pr_open payloads payload (b_chunk_size (ap_binding A)) w = (Inr (chunks, None), w') \<and> abs w' = abs w \<and> inv w'"
  using assms by (auto simp: uploadable_def opens_to_def Let_def verify_identity_def sha256_digest_def)

lemma upload_try_new:
  assumes U: "uploadable tr inv abs A payloads payload chunks" and v: "v = concat chunks" and i: "inv w"
  shows "\<exists>u w'. upload_try A payloads payload None w = (Inr (u, Inr \<lparr>ci_digest = sha256_digest v, ci_byte_length = int (length v)\<rparr>), w')
    \<and> st_tags (abs w') = st_tags (abs w) \<and> st_blobs (abs w') = (st_blobs (abs w))(sha256_digest v \<mapsto> v) \<and> inv w'"
proof -
  note f = uploadable_facts [OF U]
  obtain u w2 where st: "tr_start_upload tr w = (Inr u, w2)" and a2: "abs w2 = store_session (ul_url u) (Some []) (abs w)"
    and i2: "inv w2" using start_ok [OF i] by auto
  obtain w3 where op: "pr_open payloads payload (b_chunk_size (ap_binding A)) w2 = (Inr (chunks, None), w3)"
    and a3: "abs w3 = abs w2" and i3: "inv w3" using f(7) [OF i2] by blast
  have "\<exists>u' w'. upload_chunks A payload (Some u) [] chunks None w3 = (Inr (Some u', Inr ([] @ concat chunks)), w')
    \<and> ul_url u' = ul_url u \<and> abs w' = store_session (ul_url u) (Some ([] @ concat chunks)) (abs w3) \<and> inv w'"
    using start_offset [OF st] by (intro upload_chunks_ok [OF f(1) i3 _ _ f(6) f(2) f(3)]) (simp_all add: a3 a2)
  then obtain u' w4 where uc: "upload_chunks A payload (Some u) [] chunks None w3 = (Inr (Some u', Inr v), w4)"
    and u': "ul_url u' = ul_url u" and a4: "abs w4 = store_session (ul_url u) (Some v) (abs w3)" and i4: "inv w4"
    by (auto simp: v)
  have "st_uploads (abs w4) (ul_url u') = Some v" by (simp add: a4 u')
  from finish_ok [OF i4 this] obtain d w5 where fi: "tr_finish_upload tr u' (sha256_digest v) w4 = (Inr d, w5)"
    and a5: "abs w5 = store_session (ul_url u') None (store_put_blob v (abs w4))" and i5: "inv w5" by blast
  have "upload_try A payloads payload None w = (Inr (Some u', Inr \<lparr>ci_digest = sha256_digest v, ci_byte_length = int (length v)\<rparr>), w5)"
    using st op uc fi f(1,4,5) v
    by (simp add: upload_try_def finish_payload_def bnd_def outcome_def ret_def lift_def)
  then show ?thesis using i5 by (auto simp: a5 a4 a3 a2)
qed

lemma upload_try_existing:
  assumes U: "uploadable tr inv abs A payloads payload chunks" and v: "v = concat chunks" and i: "inv w" and d: "d_size d = length v"
  shows "\<exists>w'. upload_try A payloads payload (Some d) w = (Inr (None, Inr \<lparr>ci_digest = sha256_digest v, ci_byte_length = int (length v)\<rparr>), w')
    \<and> abs w' = abs w \<and> inv w'"
proof -
  note f = uploadable_facts [OF U]
  obtain w3 where op: "pr_open payloads payload (b_chunk_size (ap_binding A)) w = (Inr (chunks, None), w3)"
    and a3: "abs w3 = abs w" and i3: "inv w3" using f(7) [OF i] by blast
  have uc: "upload_chunks A payload None [] chunks None w3 = (Inr (None, Inr v), w3)"
    using upload_chunks_hash_only [OF f(2,3)] by (simp add: v)
  have "upload_try A payloads payload (Some d) w = (Inr (None, Inr \<lparr>ci_digest = sha256_digest v, ci_byte_length = int (length v)\<rparr>), w3)"
    using op uc f(1,4,5) v d
    by (simp add: upload_try_def finish_payload_def bnd_def outcome_def ret_def lift_def)
  with a3 i3 show ?thesis by blast
qed

lemma upload_payload_ok:
  assumes U: "uploadable tr inv abs A payloads payload chunks" and v: "v = concat chunks" and i: "inv w" and nc: "no_collision (abs w) v"
  shows "\<exists>w'. upload_payload A payload payloads w = (Inr \<lparr>ci_digest = sha256_digest v, ci_byte_length = int (length v)\<rparr>, w')
    \<and> st_tags (abs w') = st_tags (abs w) \<and> st_blobs (abs w') = (st_blobs (abs w))(sha256_digest v \<mapsto> v) \<and> inv w'"
proof -
  have ed: "pl_expected_digest payload = None \<or> pl_expected_digest payload = Some (sha256_digest v)"
    using U v by (simp add: uploadable_def Let_def)
  obtain existing w1 where
    e: "(case pl_expected_digest payload of None \<Rightarrow> ret None | Some d \<Rightarrow> tr_head_blob tr d) w = (Inr existing, w1)"
    and a1: "abs w1 = abs w" and i1: "inv w1"
    and ex: "existing = None \<or> (\<exists>d. existing = Some d \<and> d_size d = length v \<and> st_blobs (abs w) (sha256_digest v) = Some v)"
    using ed head_ok [OF i, of v] nc i by (auto simp: no_collision_def ret_def)
  have "\<exists>u w'. upload_try A payloads payload existing w1 = (Inr (u, Inr \<lparr>ci_digest = sha256_digest v, ci_byte_length = int (length v)\<rparr>), w')
    \<and> st_tags (abs w') = st_tags (abs w) \<and> st_blobs (abs w') = (st_blobs (abs w))(sha256_digest v \<mapsto> v) \<and> inv w'"
  proof (cases existing)
    case None
    then show ?thesis using upload_try_new [OF U v i1] by (simp add: a1)
  next
    case (Some d)
    with ex upload_try_existing [OF U v i1, of d] show ?thesis by (auto simp: a1 fun_upd_idem)
  qed
  then obtain u w' where t: "upload_try A payloads payload existing w1 = (Inr (u, Inr \<lparr>ci_digest = sha256_digest v, ci_byte_length = int (length v)\<rparr>), w')"
    and "st_tags (abs w') = st_tags (abs w)" "st_blobs (abs w') = (st_blobs (abs w))(sha256_digest v \<mapsto> v)" "inv w'" by blast
  moreover have "upload_attempts A payloads payload (Suc k) w = (Inr \<lparr>ci_digest = sha256_digest v, ci_byte_length = int (length v)\<rparr>, w')" for k
    using e [folded uploadable_facts(1) [OF U]] t by (simp add: io_simps)
  ultimately show ?thesis unfolding upload_payload_def by (cases "pl_replayable payload") (auto simp: numeral_2_eq_2)
qed

text \<open>The anchor of an object: found intact or created.\<close>

lemma ensure_anchor_ok:
  assumes A: "ap_transport A = tr" and i: "inv w"
    and t: "at = ''m-a1-'' @ object_id_hash oid" and am: "am = build_anchor_manifest (object_id_hash oid)"
    and fresh: "st_tags (abs w) at = None \<or> st_tags (abs w) at = Some am"
    and nc: "no_collision (abs w) EMPTY_JSON" and mc: "no_clash (abs w) am" and len: "int (length am) \<le> max_manifest"
  shows "\<exists>w'. ensure_anchor A oid w =
      (Inr \<lparr>d_media_type = OCI_MANIFEST_MEDIA_TYPE, d_digest = sha256_digest am, d_size = length am\<rparr>, w')
    \<and> st_tags (abs w') = (st_tags (abs w))(at \<mapsto> am)
    \<and> (st_blobs (abs w') = st_blobs (abs w) \<or> st_blobs (abs w') = (st_blobs (abs w))(sha256_digest EMPTY_JSON \<mapsto> EMPTY_JSON))
    \<and> inv w'"
proof -
  have tm: "tag_match at" using sha.tag_match_hx(1) [of oid] by (simp add: t object_id_hash_def)
  have at: "anchor_tag oid = Inr at" by (simp add: t anchor_tag_eq)
  obtain doc where doc: "parse_manifest am None max_manifest = Inr doc"
    "obj_get (md_value doc) ''artifactType'' = JStr MERIDIAN_OBJECT_ANCHOR_TYPE"
    "is_obj (obj_get (md_value doc) ''annotations'')"
    "obj_get (fields_of (obj_get (md_value doc) ''annotations'')) ''org.meridian.object.anchor'' = JStr (object_id_hash oid)"
    using anchor_manifest_parses [of "object_id_hash oid" max_manifest] len by (auto simp: am object_id_hash_def)
  obtain w1 where e: "tr_manifest_exists tr at w = (Inr (st_tags (abs w) at \<noteq> None), w1)" "abs w1 = abs w" "inv w1"
    using exists_ok [OF i tm] by blast
  show ?thesis
  proof (cases "st_tags (abs w) at")
    case None
    have "no_collision (abs w1) EMPTY_JSON" using nc by (simp add: e)
    from store_blob_ok [OF e(3) this media_type_slash(2)] obtain d w2 where
      b: "tr_upload_blob_bytes tr EMPTY_JSON ''application/vnd.oci.empty.v1+json'' w1 = (Inr d, w2)"
      "st_blobs (abs w2) = (st_blobs (abs w))(sha256_digest EMPTY_JSON \<mapsto> EMPTY_JSON)" "st_tags (abs w2) = st_tags (abs w)" "inv w2"
      by (auto simp: e OCI_EMPTY_MEDIA_TYPE_def)
    have "no_clash (abs w2) am" using mc by (simp add: no_clash_def b)
    from put_ok [OF b(4) tm doc(1) this] obtain w3 where
      p: "tr_put_manifest tr at am w2 =
        (Inr \<lparr>d_media_type = OCI_MANIFEST_MEDIA_TYPE, d_digest = sha256_digest am, d_size = length am\<rparr>, w3)"
      "abs w3 = store_put_tag at am (abs w2)" "inv w3" by blast
    have "ensure_anchor A oid w =
        (Inr \<lparr>d_media_type = OCI_MANIFEST_MEDIA_TYPE, d_digest = sha256_digest am, d_size = length am\<rparr>, w3)"
      using e b p None at A by (simp add: ensure_anchor_def io_simps am)
    with p b show ?thesis by (intro exI [of _ w3]) simp
  next
    case (Some x)
    with fresh have x: "st_tags (abs w1) at = Some am" by (simp add: e)
    from get_ok [OF e(3) tm x doc(1)] obtain w2 where g: "tr_get_manifest tr at w1 = (Inr doc, w2)" "abs w2 = abs w" "inv w2"
      by (auto simp: e)
    have "st_tags (abs w) = (st_tags (abs w))(at \<mapsto> am)" using x by (simp add: e fun_upd_idem)
    with e g at A doc Some parse_manifest_sound(1,2) [OF doc(1)] show ?thesis
      by (simp add: ensure_anchor_def io_simps Let_def)
  qed
qed

text \<open>Reading back a stored object by any of its tags.\<close>

lemma stored_from_manifest_ok:
  assumes A: "ap_transport A = tr" and i: "inv w"
    and st: "storable (ap_common A) max_manifest (b_max_metadata_bytes (ap_binding A)) sem oid v s"
    and doc: "manifest_descriptors doc = Inr (config_descriptor (ap_common A) s, payload_descriptor s, subject)"
    and blob: "st_blobs (abs w) (sha256_digest (stored_to_bytes (ap_common A) s)) = Some (stored_to_bytes (ap_common A) s)"
  shows "\<exists>w'. stored_from_manifest A doc w = (Inr \<lparr>ro_stored = s, ro_manifest = doc, ro_payload = payload_descriptor s\<rparr>, w')
    \<and> abs w' = abs w \<and> inv w'"
proof -
  let ?c = "stored_to_bytes (ap_common A) s"
  have len: "int (length ?c) \<le> b_max_metadata_bytes (ap_binding A)" and ok: "stored_codec_ok (ap_common A) s"
    using st by (simp_all add: storable_def Let_def)
  from fetch_blob_ok [OF i blob len] obtain w1 where
    g: "tr_get_blob_bytes tr (config_descriptor (ap_common A) s) (b_max_metadata_bytes (ap_binding A)) w = (Inr ?c, w1)"
    "abs w1 = abs w" "inv w1" by (auto simp: config_descriptor_def)
  have "stored_from_manifest A doc w = (Inr \<lparr>ro_stored = s, ro_manifest = doc, ro_payload = payload_descriptor s\<rparr>, w1)"
    using g doc stored_bytes_parse [OF ok len] A st
    by (simp add: stored_from_manifest_def io_simps Let_def storable_def payload_descriptor_def)
  with g show ?thesis by blast
qed

lemma stored_for_reference_ok:
  assumes A: "ap_transport A = tr" and i: "inv w"
    and st: "storable (ap_common A) max_manifest (b_max_metadata_bytes (ap_binding A)) (semantic_resource_of A) oid v s"
    and tag: "reference_tag reference = Inr tag" "tag_match tag" "st_tags (abs w) tag = Some (version_body (ap_common A) oid s)"
    and anchor: "st_tags (abs w) (''m-a1-'' @ object_id_hash oid) = Some (anchor_body oid)"
    and blob: "st_blobs (abs w) (sha256_digest (stored_to_bytes (ap_common A) s)) = Some (stored_to_bytes (ap_common A) s)"
    and ref: "or_object_id reference = oid" "or_digest reference = None \<or> or_digest reference = Some (sha256_digest v)"
  shows "\<exists>r w'. stored_for_reference A reference w = (Inr r, w') \<and> ro_stored r = s \<and> ro_payload r = payload_descriptor s
    \<and> md_body (ro_manifest r) = version_body (ap_common A) oid s \<and> abs w' = abs w \<and> inv w'"
proof -
  obtain doc where p: "parse_manifest (version_body (ap_common A) oid s) None max_manifest = Inr doc"
    and d: "manifest_descriptors doc = Inr (config_descriptor (ap_common A) s, payload_descriptor s, manifest_descriptor (anchor_body oid))"
    using version_body_parses [OF st] by blast
  obtain w1 where g1: "tr_get_manifest tr tag w = (Inr doc, w1)" and a1: "abs w1 = abs w" and i1: "inv w1"
    using get_ok [OF i tag(2,3) p] by blast
  have "st_blobs (abs w1) (sha256_digest (stored_to_bytes (ap_common A) s)) = Some (stored_to_bytes (ap_common A) s)"
    using blob by (simp add: a1)
  from stored_from_manifest_ok [OF A i1 st d this] obtain w2 where
    g2: "stored_from_manifest A doc w1 = (Inr \<lparr>ro_stored = s, ro_manifest = doc, ro_payload = payload_descriptor s\<rparr>, w2)"
    and a2: "abs w2 = abs w" and i2: "inv w2" by (auto simp: a1)
  have tm: "tag_match (''m-a1-'' @ object_id_hash oid)" using sha.tag_match_hx(1) [of oid] by (simp add: object_id_hash_def)
  have "int (length (anchor_body oid)) \<le> max_manifest" using st by (simp add: storable_def Let_def)
  then obtain adoc where ad: "parse_manifest (anchor_body oid) None max_manifest = Inr adoc"
    using anchor_manifest_parses [of "object_id_hash oid" max_manifest] by (auto simp: anchor_body_def object_id_hash_def)
  have "st_tags (abs w2) (''m-a1-'' @ object_id_hash oid) = Some (anchor_body oid)" using anchor by (simp add: a2)
  from get_ok [OF i2 tm this ad] obtain w3 where
    g3: "tr_get_manifest tr (''m-a1-'' @ object_id_hash oid) w2 = (Inr adoc, w3)" and a3: "abs w3 = abs w" and i3: "inv w3"
    by (auto simp: a2)
  have dg: "md_digest adoc = d_digest (manifest_descriptor (anchor_body oid))"
    using parse_manifest_sound(2) [OF ad] by (simp add: manifest_descriptor_def)
  have "stored_for_reference A reference w =
      (Inr \<lparr>ro_stored = s, ro_manifest = doc, ro_payload = payload_descriptor s\<rparr>, w3)"
    using tag(1) g1 g2 g3 d dg A st ref
    by (auto simp: stored_for_reference_def io_simps Let_def anchor_tag_eq storable_def)
  then show ?thesis using a3 i3 parse_manifest_sound(1) [OF p] by auto
qed

text \<open>Publishing a new version: anchor, metadata blob, then the manifest under both tags.\<close>

lemma publish_version_ok:
  assumes A: "ap_transport A = tr" and i: "inv w" and oc: "oc = ap_common A" and oid: "oid = in_object_id v"
    and st: "storable oc max_manifest (b_max_metadata_bytes (ap_binding A)) (semantic_resource_of A) oid content s"
    and ac: "accepts A v content t s" and clk: "clock_reads inv abs A t"
    and anchor: "st_tags (abs w) (''m-a1-'' @ object_id_hash oid) \<in> {None, Some (anchor_body oid)}"
    and cf: "collision_free (abs w) [EMPTY_JSON, content, stored_to_bytes oc s]" and vt: "tag_match vt"
    and mf: "manifests_free (abs w) [anchor_body oid, version_body oc oid s]"
  shows "\<exists>w'. publish_version A v \<lparr>ci_digest = sha256_digest content, ci_byte_length = int (length content)\<rparr>
        (so_immutability s) (so_retention s) vt w = (Inr (so_metadata s), w')
    \<and> st_tags (abs w') = (st_tags (abs w))(''m-a1-'' @ object_id_hash oid \<mapsto> anchor_body oid,
         vt \<mapsto> version_body oc oid s, ''m-l1-'' @ object_id_hash oid \<mapsto> version_body oc oid s)
    \<and> st_blobs (abs w') (sha256_digest (stored_to_bytes oc s)) = Some (stored_to_bytes oc s)
    \<and> (st_blobs (abs w) (sha256_digest content) = Some content \<longrightarrow> st_blobs (abs w') (sha256_digest content) = Some content)
    \<and> inv w'"
proof -
  let ?cfg = "stored_to_bytes oc s" and ?mb = "version_body oc oid s" and ?l = "''m-l1-'' @ object_id_hash oid"
  have nc: "no_collision (abs w) EMPTY_JSON" using cf by (simp add: collision_free_def)
  have al: "int (length (anchor_body oid)) \<le> max_manifest" using st by (simp add: storable_def Let_def)
  from anchor have "st_tags (abs w) (''m-a1-'' @ object_id_hash oid) = None \<or> st_tags (abs w) (''m-a1-'' @ object_id_hash oid) = Some (anchor_body oid)" by blast
  moreover have "no_clash (abs w) (anchor_body oid)" using mf by (simp add: manifests_free_def)
  note ensure_anchor_ok [OF A i refl anchor_body_def _ nc this al]
  ultimately
  obtain w1 where e: "ensure_anchor A oid w = (Inr (manifest_descriptor (anchor_body oid)), w1)" and i1: "inv w1"
    and t1: "st_tags (abs w1) = (st_tags (abs w))(''m-a1-'' @ object_id_hash oid \<mapsto> anchor_body oid)"
    and b1: "st_blobs (abs w1) = st_blobs (abs w) \<or> st_blobs (abs w1) = (st_blobs (abs w))(sha256_digest EMPTY_JSON \<mapsto> EMPTY_JSON)"
    by (auto simp: manifest_descriptor_def)
  obtain w2 where n: "ap_clock A w1 = (Inr (AwareTime t), w2)" and a2: "abs w2 = abs w1" and i2: "inv w2"
    using clk i1 by (auto simp: clock_reads_def)
  have "collision_free (abs w1) [EMPTY_JSON, content, ?cfg]"
    using b1 collision_free_same [OF cf] collision_free_update [OF cf, of EMPTY_JSON] by auto
  then have "no_collision (abs w2) ?cfg" by (simp add: a2 collision_free_def)
  from store_blob_ok [OF i2 this media_type_slash(3)] obtain w3 where
    b: "tr_upload_blob_bytes tr ?cfg MERIDIAN_OBJECT_CONFIG_MEDIA_TYPE w2 = (Inr (config_descriptor oc s), w3)" and i3: "inv w3"
    and b3: "st_blobs (abs w3) = (st_blobs (abs w1))(sha256_digest ?cfg \<mapsto> ?cfg)" and t3: "st_tags (abs w3) = st_tags (abs w1)"
    by (auto simp: a2 config_descriptor_def)
  obtain doc where p: "parse_manifest ?mb None max_manifest = Inr doc" using version_body_parses [OF st] by blast
  have mf3: "manifests_free (abs w3) [anchor_body oid, ?mb]" using manifests_free_update [OF mf, of "abs w3"] by (simp add: t3 t1)
  have "no_clash (abs w3) ?mb" using mf3 by (simp add: manifests_free_def)
  from put_ok [OF i3 vt p this] obtain d1 w4 where p4: "tr_put_manifest tr vt ?mb w3 = (Inr d1, w4)"
    and a4: "abs w4 = store_put_tag vt ?mb (abs w3)" and i4: "inv w4" by blast
  have "no_clash (abs w4) ?mb" using manifests_free_update [OF mf3, of "abs w4"] by (simp add: a4 manifests_free_def)
  from put_ok [OF i4 tags_match(2) p this] obtain d2 w5 where p5: "tr_put_manifest tr ?l ?mb w4 = (Inr d2, w5)"
    and a5: "abs w5 = store_put_tag ?l ?mb (abs w4)" and i5: "inv w5" by blast
  have pd: "mk_descriptor (om_media_type (so_metadata s)) (sha256_digest content) (int (length content)) = Inr (payload_descriptor s)"
    using st by (simp add: storable_def Let_def payload_descriptor_def)
  have lm: "int (length ?cfg) \<le> b_max_metadata_bytes (ap_binding A)" using st by (simp add: storable_def Let_def)
  have sr: "\<lparr>so_metadata = so_metadata s, so_immutability = so_immutability s, so_retention = so_retention s\<rparr> = s"
    by simp
  have "publish_version A v \<lparr>ci_digest = sha256_digest content, ci_byte_length = int (length content)\<rparr>
      (so_immutability s) (so_retention s) vt w = (Inr (so_metadata s), w5)"
    using e n b p4 p5 pd lm ac A oc oid
    by (auto simp: publish_version_def accepts_def adapter_now_def io_simps Let_def latest_tag_eq version_body_def sr)
  moreover have "st_blobs (abs w) (sha256_digest content) = Some content \<longrightarrow> st_blobs (abs w3) (sha256_digest content) = Some content"
  proof -
    have "sha256_digest EMPTY_JSON = sha256_digest content \<longrightarrow> EMPTY_JSON = content"
      "sha256_digest ?cfg = sha256_digest content \<longrightarrow> ?cfg = content"
      using cf by (simp_all add: collision_free_def inj_on_def)
    with b1 b3 show ?thesis by auto
  qed
  ultimately show ?thesis using b3 i5 by (auto simp: a5 a4 t3 t1)
qed

lemma require_create_ok:
  assumes "ap_transport A = tr" "inv w"
    and "create_only \<longrightarrow> st_tags (abs w) ((if im_publish_once im then ''m-a1-'' else ''m-l1-'') @ object_id_hash oid) = None"
  shows "\<exists>w'. require_create_available A oid im create_only w = (Inr (), w') \<and> abs w' = abs w \<and> inv w'"
proof (cases create_only)
  case True
  let ?t = "(if im_publish_once im then ''m-a1-'' else ''m-l1-'') @ object_id_hash oid"
  have "tag_match ?t" using tags_match(1,2) by simp
  from exists_ok [OF assms(2) this] True assms obtain w' where
    "tr_manifest_exists tr ?t w = (Inr False, w')" "abs w' = abs w" "inv w'" by auto
  moreover from this have "require_create_available A oid im create_only w = (Inr (), w')"
    using True assms(1)
    by (simp add: require_create_available_def anchor_tag_eq latest_tag_eq io_simps split: if_splits)
  ultimately show ?thesis by blast
qed (use assms(2) in \<open>auto simp: require_create_available_def ret_def\<close>)

text \<open>Committing content that is in the store: the version is published under its three tags.\<close>

lemma commit_object_ok:
  assumes A: "ap_transport A = tr" and i: "inv w" and oc: "oc = ap_common A" and oid: "oid = in_object_id v"
    and st: "storable oc max_manifest (b_max_metadata_bytes (ap_binding A)) (semantic_resource_of A) oid content s"
    and ac: "accepts A v content t s" and clk: "clock_reads inv abs A t"
    and anchor: "st_tags (abs w) (''m-a1-'' @ object_id_hash oid) \<in> {None, Some (anchor_body oid)}"
    and new: "st_tags (abs w) (''m-v1-'' @ take 32 (object_id_hash oid) @ ''-'' @ hexdigest content) = None"
    and g: "create_only \<longrightarrow> st_tags (abs w) ((if im_publish_once (so_immutability s) then ''m-a1-'' else ''m-l1-'') @ object_id_hash oid) = None"
    and cf: "collision_free (abs w) [EMPTY_JSON, content, stored_to_bytes oc s]"
    and mf: "manifests_free (abs w) [anchor_body oid, version_body oc oid s]"
    and blob: "st_blobs (abs w) (sha256_digest content) = Some content"
  shows "\<exists>w'. commit_object A v \<lparr>ci_digest = sha256_digest content, ci_byte_length = int (length content)\<rparr>
        (so_immutability s) (so_retention s) create_only w = (Inr (so_metadata s), w')
    \<and> st_tags (abs w') = (st_tags (abs w))(''m-a1-'' @ object_id_hash oid \<mapsto> anchor_body oid,
         ''m-v1-'' @ take 32 (object_id_hash oid) @ ''-'' @ hexdigest content \<mapsto> version_body oc oid s,
         ''m-l1-'' @ object_id_hash oid \<mapsto> version_body oc oid s)
    \<and> st_blobs (abs w') (sha256_digest (stored_to_bytes oc s)) = Some (stored_to_bytes oc s)
    \<and> st_blobs (abs w') (sha256_digest content) = Some content \<and> inv w'"
proof -
  let ?id = "\<lparr>ci_digest = sha256_digest content, ci_byte_length = int (length content)\<rparr>"
  let ?vt = "''m-v1-'' @ take 32 (object_id_hash oid) @ ''-'' @ hexdigest content"
  obtain w3 where r3: "require_create_available A oid (so_immutability s) create_only w = (Inr (), w3)" and a3: "abs w3 = abs w" and i3: "inv w3"
    using require_create_ok [OF A i g] by blast
  obtain w4 where e4: "tr_manifest_exists tr ?vt w3 = (Inr False, w4)" and a4: "abs w4 = abs w" and i4: "inv w4"
    using exists_ok [OF i3 tags_match(3) [of oid content]] new by (auto simp: a3)
  from publish_version_ok [OF A i4 oc oid st ac clk, unfolded a4, OF anchor cf tags_match(3) [of oid content] mf] blob obtain w5 where
    p: "publish_version A v ?id (so_immutability s) (so_retention s) ?vt w4 = (Inr (so_metadata s), w5)"
    and k: "st_tags (abs w5) = (st_tags (abs w))(''m-a1-'' @ object_id_hash oid \<mapsto> anchor_body oid,
         ?vt \<mapsto> version_body oc oid s, ''m-l1-'' @ object_id_hash oid \<mapsto> version_body oc oid s)"
      "st_blobs (abs w5) (sha256_digest (stored_to_bytes oc s)) = Some (stored_to_bytes oc s)"
      "st_blobs (abs w5) (sha256_digest content) = Some content" "inv w5"
    by blast
  have "commit_object A v ?id (so_immutability s) (so_retention s) create_only w = (Inr (so_metadata s), w5)"
    using r3 e4 p A by (simp add: commit_object_def io_simps version_tag_sha256 oid)
  with k show ?thesis by blast
qed

lemma put_guarded_ok: "m w = (Inr a, w') \<Longrightarrow> put_guarded oc st phys m w = (Inr a, w')"
  by (simp add: put_guarded_def io_simps)

lemma adapter_put_ok:
  assumes A: "ap_transport A = tr" and i: "inv w" and v: "v = op_input operation" and oc: "oc = ap_common A"
    and oid: "oid = in_object_id v" and c: "content = concat chunks"
    and r: "put_ready tr inv abs max_manifest A v payloads chunks t s w"
    and ncl: "\<not> collides (abs w) (put_contents oc oid content s)"
  shows "\<exists>w'. adapter_put A operation payloads w = (Inr [(''metadata'', JObj (oc_metadata_to_dict oc (so_metadata s)))], w')
    \<and> st_tags (abs w') = (st_tags (abs w))(''m-a1-'' @ object_id_hash oid \<mapsto> anchor_body oid,
         ''m-v1-'' @ take 32 (object_id_hash oid) @ ''-'' @ hexdigest content \<mapsto> version_body oc oid s,
         ''m-l1-'' @ object_id_hash oid \<mapsto> version_body oc oid s)
    \<and> st_blobs (abs w') (sha256_digest (stored_to_bytes oc s)) = Some (stored_to_bytes oc s)
    \<and> st_blobs (abs w') (sha256_digest content) = Some content \<and> inv w'"
proof -
  let ?id = "\<lparr>ci_digest = sha256_digest content, ci_byte_length = int (length content)\<rparr>"
  let ?vt = "''m-v1-'' @ take 32 (object_id_hash oid) @ ''-'' @ hexdigest content"
  let ?co = "in_create_only v \<or> im_publish_once (so_immutability s)"
  obtain ps payload s1 s2 s3 where pl: "in_payload v = JObj ps" "oc_payload_from oc ps = Inr payload"
    and U: "uploadable tr inv abs A payloads payload chunks"
    and sm: "oc_put_transition oc (oc_put_initial oc) PUT_UPLOADING = Inr s1"
      "oc_put_transition oc s1 PUT_VERIFYING = Inr s2" "oc_put_transition oc s2 PUT_COMMITTED = Inr s3"
    using r by (auto simp: put_ready_def oc)
  have g: "?co \<longrightarrow> st_tags (abs w) ((if im_publish_once (so_immutability s) then ''m-a1-'' else ''m-l1-'') @ object_id_hash oid) = None"
    and ir: "put_immutability oc (in_immutability v) = Inr (so_immutability s)" "put_retention oc (in_retention v) = Inr (so_retention s)"
    and vn: "st_tags (abs w) ?vt = None"
    using r by (simp_all add: put_ready_def oc oid c)
  have cf: "collision_free (abs w) [EMPTY_JSON, content, stored_to_bytes oc s]"
    and mf: "manifests_free (abs w) [anchor_body oid, version_body oc oid s]"
    using no_collision_facts [OF ncl _ blob_keyed [OF i]] by (simp_all add: put_contents_def)
  obtain w1 where r1: "require_create_available A oid (so_immutability s) ?co w = (Inr (), w1)" and a1: "abs w1 = abs w" and i1: "inv w1"
    using require_create_ok [OF A i g] by blast
  have "no_collision (abs w1) content" using cf by (simp add: a1 collision_free_def)
  from upload_payload_ok [OF U c i1 this] obtain w2 where u: "upload_payload A payload payloads w1 = (Inr ?id, w2)"
    and t2: "st_tags (abs w2) = st_tags (abs w)" and b2: "st_blobs (abs w2) = (st_blobs (abs w))(sha256_digest content \<mapsto> content)"
    and i2: "inv w2" by (auto simp: a1)
  have "\<exists>w'. commit_object A v ?id (so_immutability s) (so_retention s) ?co w2 = (Inr (so_metadata s), w')
    \<and> st_tags (abs w') = (st_tags (abs w2))(''m-a1-'' @ object_id_hash oid \<mapsto> anchor_body oid,
         ?vt \<mapsto> version_body oc oid s, ''m-l1-'' @ object_id_hash oid \<mapsto> version_body oc oid s)
    \<and> st_blobs (abs w') (sha256_digest (stored_to_bytes oc s)) = Some (stored_to_bytes oc s)
    \<and> st_blobs (abs w') (sha256_digest content) = Some content \<and> inv w'"
    using r g vn collision_free_update [OF cf, of content "abs w2"] manifests_free_same [OF mf, of "abs w2"]
    by (intro commit_object_ok [OF A i2 oc oid, where t = t]) (simp_all add: put_ready_def t2 b2 c oc oid)
  then obtain w5 where cm: "commit_object A v ?id (so_immutability s) (so_retention s) ?co w2 = (Inr (so_metadata s), w5)"
    and k: "st_tags (abs w5) = (st_tags (abs w2))(''m-a1-'' @ object_id_hash oid \<mapsto> anchor_body oid,
         ?vt \<mapsto> version_body oc oid s, ''m-l1-'' @ object_id_hash oid \<mapsto> version_body oc oid s)"
    "st_blobs (abs w5) (sha256_digest (stored_to_bytes oc s)) = Some (stored_to_bytes oc s)"
    "st_blobs (abs w5) (sha256_digest content) = Some content" "inv w5" by blast
  have "adapter_put A operation payloads w = (Inr [(''metadata'', JObj (oc_metadata_to_dict oc (so_metadata s)))], w5)"
    using pl sm ir r1 u cm by (simp add: adapter_put_def Let_def io_simps put_guarded_ok v oc oid)
  with k show ?thesis by (auto simp: t2)
qed

section \<open>Put, read, delete\<close>

lemma put_establishes:
  assumes "ap_transport A = tr" "inv w" "put_ready tr inv abs max_manifest A (op_input operation) payloads chunks t s w"
    and "\<not> collides (abs w) (put_contents (ap_common A) (in_object_id (op_input operation)) (concat chunks) s)"
  shows "\<exists>w'. adapter_put A operation payloads w = (Inr [(''metadata'', JObj (oc_metadata_to_dict (ap_common A) (so_metadata s)))], w')
    \<and> holds_version tr inv abs max_manifest A (in_object_id (op_input operation)) (concat chunks) s w'"
proof -
  have "storable (ap_common A) max_manifest (b_max_metadata_bytes (ap_binding A)) (semantic_resource_of A)
      (in_object_id (op_input operation)) (concat chunks) s"
    using assms(3) by (simp add: put_ready_def)
  with adapter_put_ok [OF assms(1,2) refl refl refl refl assms(3,4)] assms(1) show ?thesis
    by (auto simp: holds_version_def)
qed

lemma reference_tag_eq:
  assumes "or_object_id reference = oid" "or_digest reference = None \<or> or_digest reference = Some (sha256_digest content)"
  obtains tag where "reference_tag reference = Inr tag" "tag_match tag"
    "tag = ''m-l1-'' @ object_id_hash oid \<or> tag = ''m-v1-'' @ take 32 (object_id_hash oid) @ ''-'' @ hexdigest content"
  using assms tags_match that by (auto simp: reference_tag_def latest_tag_eq version_tag_sha256)

lemma stored_version_resolves:
  assumes h: "holds_version tr inv abs max_manifest A oid content s w"
    and ref: "or_object_id reference = oid" "or_digest reference = None \<or> or_digest reference = Some (sha256_digest content)"
  shows "\<exists>r w'. stored_for_reference A reference w = (Inr r, w') \<and> ro_stored r = s \<and> ro_payload r = payload_descriptor s
    \<and> md_body (ro_manifest r) = version_body (ap_common A) oid s \<and> holds_version tr inv abs max_manifest A oid content s w' \<and> abs w' = abs w"
proof -
  obtain tag where tag: "reference_tag reference = Inr tag" "tag_match tag" "st_tags (abs w) tag = Some (version_body (ap_common A) oid s)"
    using reference_tag_eq [OF ref] h by (auto simp: holds_version_def)
  from h have f: "ap_transport A = tr" "inv w"
    "storable (ap_common A) max_manifest (b_max_metadata_bytes (ap_binding A)) (semantic_resource_of A) oid content s"
    "st_tags (abs w) (''m-a1-'' @ object_id_hash oid) = Some (anchor_body oid)"
    "st_blobs (abs w) (sha256_digest (stored_to_bytes (ap_common A) s)) = Some (stored_to_bytes (ap_common A) s)"
    by (simp_all add: holds_version_def)
  from stored_for_reference_ok [OF f(1,2,3) tag f(4,5) ref] h show ?thesis by (auto simp: holds_version_def)
qed

lemma stat_stored_version:
  assumes h: "holds_version tr inv abs max_manifest A oid content s w" and a: "adapter_reference A (op_input operation) False = Inr reference"
    and ref: "or_object_id reference = oid" "or_digest reference = None \<or> or_digest reference = Some (sha256_digest content)"
  shows "\<exists>w'. adapter_stat A operation w = (Inr [(''metadata'', JObj (oc_metadata_to_dict (ap_common A) (so_metadata s)))], w')
    \<and> holds_version tr inv abs max_manifest A oid content s w'"
proof -
  obtain r w' where "stored_for_reference A reference w = (Inr r, w')" "ro_stored r = s" "holds_version tr inv abs max_manifest A oid content s w'"
    using stored_version_resolves [OF h ref] by blast
  with a show ?thesis by (auto simp: adapter_stat_def io_simps)
qed

text \<open>The payload handle of a get opens to the stored content.\<close>

lemma open_stored_version:
  assumes h: "holds_version tr inv abs max_manifest A oid content s w"
  shows "\<exists>cs w'. tr_open_blob (ap_transport A) (d_digest (payload_descriptor s)) None w = (Inr (cs, None), w')
    \<and> concat cs = content \<and> holds_version tr inv abs max_manifest A oid content s w'"
proof -
  from h have f: "inv w" "st_blobs (abs w) (sha256_digest content) = Some content" "ap_transport A = tr"
    "d_digest (payload_descriptor s) = sha256_digest content"
    by (simp_all add: holds_version_def storable_def Let_def payload_descriptor_def)
  from open_ok [OF f(1,2)] f h show ?thesis by (auto simp: holds_version_def)
qed

lemma delete_stored_version:
  assumes h: "holds_version tr inv abs max_manifest A oid content s w" and a: "adapter_reference A (op_input operation) True = Inr reference"
    and ref: "or_object_id reference = oid" "or_digest reference = Some (sha256_digest content)"
    and clk: "clock_reads inv abs A t"
    and ret: "require_delete_permitted (ap_common A) t (so_retention s) (Some (AwareTime t)) = Inr ()"
  shows "\<exists>w'. adapter_delete A operation w = (Inr [(''deleted'', JBool True)], w') \<and> inv w'
    \<and> abs w' = store_delete (sha256_digest (version_body (ap_common A) oid s)) (abs w)"
proof -
  let ?b = "version_body (ap_common A) oid s"
  obtain r w1 where g: "stored_for_reference A reference w = (Inr r, w1)" "ro_stored r = s" "md_body (ro_manifest r) = ?b"
    and a1: "abs w1 = abs w" and h1: "holds_version tr inv abs max_manifest A oid content s w1"
    using stored_version_resolves [OF h ref(1)] ref(2) by blast
  have "stored_for_reference A reference w = (Inr r, w1)" "ap_transport A = tr" using g h by (simp_all add: holds_version_def)
  from stored_for_reference_sound [OF this(2,1)] g(3) have dg: "md_digest (ro_manifest r) = sha256_digest ?b"
    by (simp add: resolved_sound_def)
  obtain w2 where c: "ap_clock A w1 = (Inr (AwareTime t), w2)" and a2: "abs w2 = abs w" and i2: "inv w2"
    using clk h1 by (auto simp: clock_reads_def holds_version_def a1)
  have "st_tags (abs w2) (''m-l1-'' @ object_id_hash oid) = Some ?b" using h by (simp add: a2 holds_version_def)
  from delete_ok [OF i2 this] obtain w3 where d: "tr_delete_manifest tr (sha256_digest ?b) w2 = (Inr True, w3)"
    and a3: "abs w3 = store_delete (sha256_digest ?b) (abs w)" and i3: "inv w3" by (auto simp: a2)
  have "adapter_delete A operation w = (Inr [(''deleted'', JBool True)], w3)"
    using g c d dg a ret h by (simp add: adapter_delete_def adapter_now_def io_simps holds_version_def)
  with a3 i3 show ?thesis by blast
qed

lemma deleted_version_missing:
  assumes h: "holds_version tr inv abs max_manifest A oid content s w" and i: "inv w'"
    and d: "abs w' = store_delete (sha256_digest (version_body (ap_common A) oid s)) (abs w)"
    and ref: "or_object_id reference = oid" "or_digest reference = None \<or> or_digest reference = Some (sha256_digest content)"
  shows "\<exists>e w''. stored_for_reference A reference w' = (Inl e, w'') \<and> exn_kind_of e = ObjectNotFound"
proof -
  obtain tag where tag: "reference_tag reference = Inr tag" "tag_match tag" "st_tags (abs w) tag = Some (version_body (ap_common A) oid s)"
    using reference_tag_eq [OF ref] h by (auto simp: holds_version_def)
  have "st_tags (abs w') tag = None" using tag(3) by (simp add: d store_delete_def)
  from get_missing [OF i tag(2) this] h tag(1) show ?thesis
    by (auto simp: stored_for_reference_def io_simps holds_version_def)
qed

end

end
