(* ===== verification/Registry.thy ===== *)
theory Registry
  imports Store
begin

text \<open>
  \<^verbatim>\<open>src/tests/support/registry.py\<close>: the stateful in-memory OCI Distribution endpoint the repository
  tests against, as the world of the HTTP client. What \<open>httpx\<close> contributes (taking a URL apart,
  merging query parameters, encoding a JSON body, the body a rebuilt response exposes) is the
  parameter record \<open>http_lib\<close>. A \<open>dict\<close> is an association list in insertion order. Headers that
  \<open>httpx\<close> adds to a response by itself are left out; no reader in the client looks at them.
\<close>

section \<open>What httpx contributes\<close>

record http_lib =
  hl_path :: "string \<Rightarrow> string"
  hl_param :: "string \<Rightarrow> string \<Rightarrow> string option"
  hl_merge :: "string \<Rightarrow> (string \<times> string) list \<Rightarrow> exn + string"
  hl_json :: "json \<Rightarrow> string"
  hl_rebuild :: "headers \<Rightarrow> string \<Rightarrow> exn + string"

section \<open>The standard library\<close>

text \<open>\<open>urllib.parse.unquote\<close>, octet by octet.\<close>

definition hex_digit_val :: "char \<Rightarrow> nat option" where
  "hex_digit_val c =
     (if is_digit c then Some (oct c - 48)
      else if 97 \<le> oct c \<and> oct c \<le> 102 then Some (oct c - 87)
      else if 65 \<le> oct c \<and> oct c \<le> 70 then Some (oct c - 55) else None)"

fun unquote :: "string \<Rightarrow> string" where
  "unquote (p # a # b # s) =
     (if p = CHR ''%'' then
        (case (hex_digit_val a, hex_digit_val b) of
           (Some x, Some y) \<Rightarrow> char_of (16 * x + y) # unquote s
         | _ \<Rightarrow> p # unquote (a # b # s))
      else p # unquote (a # b # s))"
| "unquote s = s"

text \<open>\<open>int(text)\<close> for text that is an optional sign and digits.\<close>

definition py_int :: "string \<Rightarrow> int option" where
  "py_int s =
     (if s \<noteq> [] \<and> hd s = CHR ''-'' \<and> py_isdigit (tl s) then Some (- int (digits_val (tl s)))
      else if s \<noteq> [] \<and> hd s = CHR ''+'' \<and> py_isdigit (tl s) then Some (int (digits_val (tl s)))
      else if py_isdigit s then Some (int (digits_val s)) else None)"

section \<open>The server\<close>

record fake_registry =
  fr_repository :: string
  fr_required_authorization :: "string option"
  fr_blobs :: "(string \<times> string) list"
  fr_manifests :: "(string \<times> string) list"
  fr_tags :: "(string \<times> string) list"
  fr_uploads :: "(string \<times> string) list"
  fr_requests :: "http_request list"
  fr_upload_counter :: nat

definition fake_new :: "string \<Rightarrow> string option \<Rightarrow> fake_registry" where
  "fake_new repository authorization =
     \<lparr>fr_repository = repository, fr_required_authorization = authorization, fr_blobs = [], fr_manifests = [],
      fr_tags = [], fr_uploads = [], fr_requests = [], fr_upload_counter = 0\<rparr>"

definition fake_reset :: "fake_registry \<Rightarrow> fake_registry" where
  "fake_reset s = s\<lparr>fr_blobs := [], fr_manifests := [], fr_tags := [], fr_uploads := [], fr_requests := [], fr_upload_counter := 0\<rparr>"

abbreviation respond :: "nat \<Rightarrow> headers \<Rightarrow> string \<Rightarrow> http_result" where
  "respond status hs content \<equiv> \<lparr>hr_status = status, hr_headers = hs, hr_content = content\<rparr>"

definition error_json :: "string \<Rightarrow> json" where
  "error_json code = JObj [(''errors'', JArr [JObj [(''code'', JStr code), (''message'', JStr code)]])]"

definition fake_error :: "http_lib \<Rightarrow> nat \<Rightarrow> string \<Rightarrow> http_result" where
  "fake_error L status code = respond status [] (hl_json L (error_json code))"

definition request_content :: "http_request \<Rightarrow> string" where
  "request_content rq = (case rq_content rq of None \<Rightarrow> [] | Some b \<Rightarrow> b)"

definition fake_start_upload :: "fake_registry \<Rightarrow> http_result \<times> fake_registry" where
  "fake_start_upload s =
     (let n = Suc (fr_upload_counter s); upload_id = ''upload-'' @ str_nat n
      in (respond 202 [(''Location'', ''/v2/'' @ fr_repository s @ ''/blobs/uploads/'' @ upload_id),
                       (''Docker-Upload-UUID'', upload_id)] [],
          s\<lparr>fr_upload_counter := n, fr_uploads := AList.update upload_id [] (fr_uploads s)\<rparr>))"

definition fake_upload :: "http_lib \<Rightarrow> http_request \<Rightarrow> string \<Rightarrow> fake_registry \<Rightarrow> http_result \<times> fake_registry" where
  "fake_upload L rq upload_id s =
     (case map_of (fr_uploads s) upload_id of
        None \<Rightarrow> (fake_error L 404 ''BLOB_UPLOAD_UNKNOWN'', s)
      | Some v \<Rightarrow>
          let location = ''/v2/'' @ fr_repository s @ ''/blobs/uploads/'' @ upload_id; body = request_content rq
          in if rq_method rq = ''PATCH'' then
               if header_get (rq_headers rq) ''Content-Range''
                  \<noteq> Some (str_nat (length v) @ ''-'' @ str_int (int (length v) + int (length body) - 1))
               then (fake_error L 416 ''BLOB_UPLOAD_INVALID'', s)
               else (respond 202 [(''Location'', location), (''Docker-Upload-UUID'', upload_id),
                        (''Range'', ''0-'' @ str_int (int (length (v @ body)) - 1))] [],
                     s\<lparr>fr_uploads := AList.update upload_id (v @ body) (fr_uploads s)\<rparr>)
             else if rq_method rq = ''GET'' then
               (respond 204 ([(''Location'', location), (''Docker-Upload-UUID'', upload_id)]
                  @ (if v \<noteq> [] then [(''Range'', ''0-'' @ str_int (int (length v) - 1))] else [])) [], s)
             else if rq_method rq = ''DELETE'' then
               (respond 204 [] [], s\<lparr>fr_uploads := AList.delete upload_id (fr_uploads s)\<rparr>)
             else if rq_method rq = ''PUT'' then
               let w = v @ body; s' = s\<lparr>fr_uploads := AList.update upload_id w (fr_uploads s)\<rparr>
               in if hl_param L (rq_url rq) ''digest'' \<noteq> Some (sha256_digest w)
                  then (fake_error L 400 ''DIGEST_INVALID'', s')
                  else (respond 201 [(''Location'', ''/v2/'' @ fr_repository s @ ''/blobs/'' @ sha256_digest w),
                          (''Docker-Content-Digest'', sha256_digest w)] [],
                        s'\<lparr>fr_blobs := AList.update (sha256_digest w) w (fr_blobs s),
                           fr_uploads := AList.delete upload_id (fr_uploads s')\<rparr>)
             else (fake_error L 405 ''UNSUPPORTED'', s))"

text \<open>The two numbers of a Range header, or \<open>None\<close> when they cannot be read.\<close>

definition range_values :: "string \<Rightarrow> (int \<times> int) option" where
  "range_values r =
     (let t = (if startswith r ''bytes='' then drop 6 r else r)
      in if CHR ''-'' \<notin> set t then None
         else (case (py_int (before (CHR ''-'') t), py_int (after (CHR ''-'') t)) of
                 (Some a, Some b) \<Rightarrow> Some (a, b) | _ \<Rightarrow> None))"

definition fake_blob :: "http_lib \<Rightarrow> http_request \<Rightarrow> string \<Rightarrow> fake_registry \<Rightarrow> http_result" where
  "fake_blob L rq d s =
     (case map_of (fr_blobs s) d of
        None \<Rightarrow> fake_error L 404 ''BLOB_UNKNOWN''
      | Some v \<Rightarrow>
          let base = [(''Content-Length'', str_nat (length v)), (''Docker-Content-Digest'', d)]
          in if rq_method rq = ''HEAD'' then respond 200 base []
             else if rq_method rq \<noteq> ''GET'' then fake_error L 405 ''UNSUPPORTED''
             else (case header_get (rq_headers rq) ''Range'' of
                None \<Rightarrow> respond 200 base v
              | Some r \<Rightarrow>
                  (case range_values r of
                     None \<Rightarrow> fake_error L 416 ''RANGE_INVALID''
                   | Some (a, b) \<Rightarrow>
                       if a < 0 \<or> b < a \<or> int (length v) \<le> b then fake_error L 416 ''RANGE_INVALID''
                       else let sel = take (nat b + 1 - nat a) (drop (nat a) v)
                            in respond 206 [(''Content-Length'', str_nat (length sel)),
                                 (''Content-Range'', ''bytes '' @ str_int a @ ''-'' @ str_int b @ ''/'' @ str_nat (length v)),
                                 (''Docker-Content-Digest'', d)] sel)))"

definition fake_put_manifest :: "http_lib \<Rightarrow> http_request \<Rightarrow> string \<Rightarrow> fake_registry \<Rightarrow> http_result \<times> fake_registry" where
  "fake_put_manifest L rq reference s =
     (let body = request_content rq; d = sha256_digest body
      in case json_loads body of
           Inr (JObj ps) \<Rightarrow>
             if \<not> json_eq_2 (obj_get ps ''schemaVersion'') then (fake_error L 400 ''MANIFEST_INVALID'', s)
             else (respond 201 [(''Location'', ''/v2/'' @ fr_repository s @ ''/manifests/'' @ d), (''Docker-Content-Digest'', d)] [],
                   s\<lparr>fr_manifests := AList.update d body (fr_manifests s), fr_tags := AList.update reference d (fr_tags s)\<rparr>)
         | _ \<Rightarrow> (fake_error L 400 ''MANIFEST_INVALID'', s))"

definition selected_manifest :: "fake_registry \<Rightarrow> string \<Rightarrow> (string \<times> string) option" where
  "selected_manifest s reference =
     (case (if startswith reference ''sha256:'' then Some reference else map_of (fr_tags s) reference) of
        None \<Rightarrow> None
      | Some d \<Rightarrow> (case map_of (fr_manifests s) d of None \<Rightarrow> None | Some b \<Rightarrow> Some (d, b)))"

definition fake_manifest :: "http_lib \<Rightarrow> http_request \<Rightarrow> string \<Rightarrow> fake_registry \<Rightarrow> http_result \<times> fake_registry" where
  "fake_manifest L rq reference s =
     (if rq_method rq = ''PUT'' then fake_put_manifest L rq reference s
      else (case selected_manifest s reference of
         None \<Rightarrow> (fake_error L 404 ''MANIFEST_UNKNOWN'', s)
       | Some (d, body) \<Rightarrow>
           let hs = [(''Content-Length'', str_nat (length body)), (''Content-Type'', OCI_MANIFEST_MEDIA_TYPE),
                     (''Docker-Content-Digest'', d)]
           in if rq_method rq = ''DELETE''
              then (respond 202 [] [], s\<lparr>fr_manifests := AList.delete d (fr_manifests s),
                      fr_tags := filter (\<lambda>(t, x). x \<noteq> d) (fr_tags s)\<rparr>)
              else if rq_method rq = ''HEAD'' then (respond 200 hs [], s)
              else if rq_method rq = ''GET'' then (respond 200 hs body, s)
              else (fake_error L 405 ''UNSUPPORTED'', s)))"

text \<open>\<open>values[:limit]\<close> counts from the end when the limit is negative.\<close>

definition slice_to :: "int \<Rightarrow> 'a list \<Rightarrow> 'a list" where
  "slice_to n xs = (if n < 0 then take (nat (int (length xs) + n)) xs else take (nat n) xs)"

definition fake_tags :: "http_lib \<Rightarrow> http_request \<Rightarrow> fake_registry \<Rightarrow> exn + http_result" where
  "fake_tags L rq s =
     (case py_int (case hl_param L (rq_url rq) ''n'' of None \<Rightarrow> ''100'' | Some x \<Rightarrow> x) of
        None \<Rightarrow> Inl (bare_exn ValueError)
      | Some limit \<Rightarrow>
          let values = sort (map fst (fr_tags s));
              values' = (case hl_param L (rq_url rq) ''last'' of None \<Rightarrow> values | Some l \<Rightarrow> filter (\<lambda>t. l < t) values);
              page = slice_to limit values'
          in Inr (respond 200 (if limit < int (length values') \<and> page \<noteq> []
                then [(''Link'', ''</v2/'' @ fr_repository s @ ''/tags/list?n='' @ str_int limit @ ''&last='' @ last page @ ''>; rel=\"next\"'')]
                else []) (hl_json L (JObj [(''name'', JStr (fr_repository s)), (''tags'', JArr (map JStr page))]))))"

fun referrer_items :: "string \<Rightarrow> string option \<Rightarrow> (string \<times> string) list \<Rightarrow> exn + json list" where
  "referrer_items subject_digest artifact_type [] = Inr []"
| "referrer_items subject_digest artifact_type ((d, body) # rest) =
     bindE (json_loads body) (\<lambda>v.
     bindE (guardE (is_obj v) (bare_exn (OtherError ''AttributeError''))) (\<lambda>_.
     bindE (referrer_items subject_digest artifact_type rest) (\<lambda>items.
     let ps = fields_of v; subject = obj_get ps ''subject''
     in if \<not> is_obj subject \<or> obj_get (fields_of subject) ''digest'' \<noteq> JStr subject_digest then Inr items
        else if artifact_type \<noteq> None \<and> obj_get ps ''artifactType'' \<noteq> JStr (the artifact_type) then Inr items
        else Inr (JObj [(''mediaType'', JStr OCI_MANIFEST_MEDIA_TYPE), (''digest'', JStr d),
                        (''size'', JInt (int (length body)))] # items))))"

definition fake_referrers :: "http_lib \<Rightarrow> http_request \<Rightarrow> string \<Rightarrow> fake_registry \<Rightarrow> exn + http_result" where
  "fake_referrers L rq subject_digest s =
     bindE (referrer_items subject_digest (hl_param L (rq_url rq) ''artifactType'') (sort_key fst (fr_manifests s))) (\<lambda>items.
     Inr (respond 200 [(''Content-Type'', ''application/vnd.oci.image.index.v1+json'')]
       (hl_json L (JObj [(''schemaVersion'', JInt 2), (''mediaType'', JStr ''application/vnd.oci.image.index.v1+json''),
          (''manifests'', JArr items)]))))"

text \<open>\<open>FakeRegistry.handle\<close>.\<close>

definition fake_handle :: "http_lib \<Rightarrow> http_request \<Rightarrow> fake_registry \<Rightarrow> (exn + http_result) \<times> fake_registry" where
  "fake_handle L rq s0 =
     (let s = s0\<lparr>fr_requests := fr_requests s0 @ [rq]\<rparr>;
          path = unquote (hl_path L (rq_url rq)); pre = ''/v2/'' @ fr_repository s; suffix = drop (length pre) path
      in if fr_required_authorization s \<noteq> None
            \<and> header_get (rq_headers rq) ''Authorization'' \<noteq> fr_required_authorization s
         then (Inr (fake_error L 401 ''UNAUTHORIZED''), s)
         else if path = ''/v2/'' then (Inr (respond 200 [(''Docker-Distribution-Api-Version'', ''registry/2.0'')] []), s)
         else if \<not> startswith path pre then (Inr (fake_error L 404 ''NAME_UNKNOWN''), s)
         else if suffix = ''/blobs/uploads/'' \<and> rq_method rq = ''POST''
         then map_prod Inr id (fake_start_upload s)
         else if startswith suffix ''/blobs/uploads/''
         then map_prod Inr id (fake_upload L rq (drop (length ''/blobs/uploads/'') suffix) s)
         else if startswith suffix ''/blobs/'' then (Inr (fake_blob L rq (drop (length ''/blobs/'') suffix) s), s)
         else if suffix = ''/tags/list'' \<and> rq_method rq = ''GET'' then (fake_tags L rq s, s)
         else if startswith suffix ''/referrers/'' \<and> rq_method rq = ''GET''
         then (fake_referrers L rq (drop (length ''/referrers/'') suffix) s, s)
         else if startswith suffix ''/manifests/''
         then map_prod Inr id (fake_manifest L rq (drop (length ''/manifests/'') suffix) s)
         else (Inr (fake_error L 404 ''NAME_UNKNOWN''), s))"

text \<open>The client's network when the server sits behind \<open>httpx.MockTransport\<close>: the response URL is the
  request's, and a body arrives in one chunk.\<close>

definition fake_env :: "http_lib \<Rightarrow> fake_registry http_env" where
  "fake_env L =
     \<lparr>he_send = (\<lambda>rq. bnd (fake_handle L rq) (\<lambda>r. ret
         \<lparr>rs_status = hr_status r, rs_headers = hr_headers r, rs_url = rq_url rq,
          rs_chunks = (if hr_content r = [] then [] else [hr_content r]), rs_error = None\<rparr>)),
      he_sleep = (\<lambda>n. ret ()), he_rebuild = hl_rebuild L, he_merge_params = hl_merge L,
      he_add_param = (\<lambda>u k v. hl_merge L u [(k, v)])\<rparr>"

definition fake_client :: "http_lib \<Rightarrow> fake_registry binding \<Rightarrow> nat \<Rightarrow> fake_registry client" where
  "fake_client L b attempts = \<lparr>cl_binding = b, cl_http = fake_env L, cl_max_read_attempts = attempts\<rparr>"

section \<open>The invariant of the server\<close>

text \<open>Content is stored under its digest, manifests are JSON objects of schema version 2, every tag names
  a stored manifest, and no dictionary has a key twice.\<close>

definition fake_inv :: "fake_registry \<Rightarrow> bool" where
  "fake_inv s \<longleftrightarrow>
     (\<forall>(d, b) \<in> set (fr_blobs s). d = sha256_digest b)
     \<and> (\<forall>(d, b) \<in> set (fr_manifests s). d = sha256_digest b
          \<and> (\<exists>ps. json_loads b = Inr (JObj ps) \<and> json_eq_2 (obj_get ps ''schemaVersion'')))
     \<and> snd ` set (fr_tags s) \<subseteq> fst ` set (fr_manifests s)
     \<and> distinct (map fst (fr_blobs s)) \<and> distinct (map fst (fr_manifests s))
     \<and> distinct (map fst (fr_tags s)) \<and> distinct (map fst (fr_uploads s))"

end
