(* ===== verification/Url_Laws.thy ===== *)
theory Url_Laws
  imports Client_Laws
begin

text \<open>
  Laws of \<open>urllib.parse\<close> on the URLs the client and the registry exchange: quoting and unquoting
  leave the characters of repositories, tags, digests and upload identifiers alone, an absolute path
  without dot segments resolves against the endpoint to itself, and every URL below the endpoint
  passes the client's redirect check.
\<close>

section \<open>Plain paths\<close>

definition path_char :: "char \<Rightarrow> bool" where
  "path_char c \<longleftrightarrow> always_safe c \<or> c = CHR '':'' \<or> c = CHR ''/''"

definition plain_path :: "string \<Rightarrow> bool" where
  "plain_path p \<longleftrightarrow> startswith p ''/'' \<and> list_all path_char p"

lemma path_char_facts:
  assumes "path_char c"
  shows "url_clean c" "c \<noteq> CHR ''?''" "c \<noteq> CHR ''#''" "c \<noteq> CHR ''%''" "c \<noteq> CHR '';''" "32 < oct c"
  using assms by (auto simp: path_char_def always_safe_def is_alpha_def is_digit_def url_clean_def)

lemma plain_path_append: "plain_path p \<Longrightarrow> list_all path_char s \<Longrightarrow> plain_path (p @ s)"
  by (auto simp: plain_path_def prefix_def)

lemma before_none: "c \<notin> set p \<Longrightarrow> before c p = p" and after_none: "c \<notin> set p \<Longrightarrow> after c p = []"
  by (induction p) (auto simp: before_def after_def)

lemma plain_path_query: "list_all path_char p \<Longrightarrow> CHR ''?'' \<notin> set p" "list_all path_char p \<Longrightarrow> CHR ''#'' \<notin> set p"
  using path_char_facts(2,3) by (auto simp: list_all_iff)

lemmas plain_path_cut = before_none [OF plain_path_query(1)] before_none [OF plain_path_query(2)]
  after_none [OF plain_path_query(1)] after_none [OF plain_path_query(2)]

lemma filter_clean_plain: "list_all path_char p \<Longrightarrow> filter url_clean p = p"
  using path_char_facts(1) by (auto simp: list_all_iff filter_id_conv)

section \<open>Segments\<close>

lemma split_char_nonempty [simp]: "split_char c s \<noteq> []"
  by (induction s) (auto split: list.splits)

lemma join_split_char: "join [c] (split_char c s) = s"
proof (induction s)
  case (Cons x s)
  have j: "join [c] (y # ys) = y @ (if ys = [] then [] else c # join [c] ys)" for y ys by (cases ys) auto
  from Cons show ?case by (cases "split_char c s") (auto simp: j)
qed simp

lemma split_char_append: "split_char c (a @ c # b) = split_char c a @ split_char c b"
proof (induction a)
  case (Cons x a)
  obtain p ps where "split_char c a = p # ps" using split_char_nonempty [of c a] by (cases "split_char c a") auto
  with Cons show ?case by simp
qed simp

lemma split_char_none: "c \<notin> set s \<Longrightarrow> split_char c s = [s]"
  by (induction s) auto

lemma resolve_plain: "''.'' \<notin> set ss \<Longrightarrow> ''..'' \<notin> set ss \<Longrightarrow> resolve_segments acc ss = acc @ ss"
  by (induction ss arbitrary: acc) auto

lemma join_path_plain:
  assumes "startswith p ''/''" "''.'' \<notin> set (split_char (CHR ''/'') p)" "''..'' \<notin> set (split_char (CHR ''/'') p)"
  shows "join_path b p = p"
proof -
  have "last (split_char (CHR ''/'') p) \<in> set (split_char (CHR ''/'') p)" by (rule last_in_set) simp
  then have "last (split_char (CHR ''/'') p) \<noteq> ''.''" "last (split_char (CHR ''/'') p) \<noteq> ''..''"
    using assms(2,3) by metis+
  with assms(1) resolve_plain [OF assms(2,3), of "[]"] join_split_char [of "CHR ''/''" p] show ?thesis
    by (auto simp: join_path_def Let_def)
qed

section \<open>Resolving a path against the endpoint\<close>

lemma urlsplit_path:
  assumes "plain_path p" "\<not> startswith p ''//''"
  shows "urlsplit_with d p = Inr \<lparr>sr_scheme = d, sr_netloc = [], sr_path = p, sr_query = [], sr_fragment = []\<rparr>"
proof -
  have l: "list_all path_char p" and h: "p \<noteq> []" "hd p = CHR ''/''"
    using assms(1) by (auto simp: plain_path_def prefix_def)
  have "dropWhile (\<lambda>c. oct c \<le> 32) p = p" using h by (cases p) auto
  then have "strip_url p = p" using filter_clean_plain [OF l] by (simp add: strip_url_filter)
  moreover have "split_scheme d p = (d, p)" using h by (simp add: split_scheme_def is_alpha_def Let_def)
  ultimately show ?thesis
    using assms(2) plain_path_cut [OF l] by (simp add: urlsplit_with_def Let_def)
qed

lemma split_params_plain: "CHR '';'' \<notin> set p \<Longrightarrow> split_params d p = (p, [])"
proof -
  assume p: "CHR '';'' \<notin> set p"
  have "set (rsplit_last (CHR ''/'') p) \<subseteq> set p"
    by (auto simp: rsplit_last_def dest: set_takeWhileD)
  with p show ?thesis by (auto simp: split_params_def Let_def)
qed

lemma urljoin_endpoint:
  assumes e: "endpoint_shape h e" and p: "plain_path p" "\<not> startswith p ''//''"
    and s: "''.'' \<notin> set (split_char (CHR ''/'') p)" "''..'' \<notin> set (split_char (CHR ''/'') p)"
  shows "urljoin (e @ ''/'') p = Inr (e @ p)"
proof -
  from e obtain sc n where e': "e = sc @ ''://'' @ n" and sc: "sc = ''https'' \<or> sc = ''http''" and n: "plain_authority n"
    unfolding endpoint_shape_def by blast
  have b: "urlsplit (e @ ''/'') = Inr \<lparr>sr_scheme = sc, sr_netloc = n, sr_path = ''/'', sr_query = [], sr_fragment = []\<rparr>"
    using urlsplit_authority [OF sc n, of "''/''" "[]"] by (simp add: e' netloc_delim_def url_clean_def before_def after_def)
  have pl: "list_all path_char p" "startswith p ''/''" "p \<noteq> []" using p(1) by (auto simp: plain_path_def)
  then have nsc: "CHR '';'' \<notin> set p" using path_char_facts(5) by (auto simp: list_all_iff)
  have sp: "split_params sc p = (p, [])" "split_params sc ''/'' = (''/'', [])"
    using nsc by (simp_all add: split_params_plain)
  have mem: "sc \<in> set uses_relative" "sc \<in> set uses_netloc" "sc \<noteq> []"
    using sc by (auto simp: uses_relative_def uses_netloc_def)
  have "n \<noteq> []" using n by (simp add: plain_authority_def)
  then show ?thesis
    using b urlsplit_path [OF p, of sc] sp mem join_path_plain [OF pl(2) s] pl
    by (simp add: urljoin_def urlunsplit_def with_params_def e')
qed

section \<open>URLs below the endpoint\<close>

lemma endpoint_url_parts:
  assumes wf: "binding_wf b" and p: "hd p = CHR ''/''"
  shows "\<exists>r. urlsplit (b_endpoint b @ p) = Inr r \<and> sr_hostname r \<noteq> None \<and> sr_username r = None
    \<and> (sr_scheme r = ''https'' \<or> sr_scheme r = ''http'' \<and> b_allow_insecure_http b)"
proof -
  let ?e = "b_endpoint b"
  have c: "endpoint_checked (PyStr ?e) (b_allow_insecure_http b) = Inr ?e" and sh: "endpoint_shape (b_allow_insecure_http b) ?e"
    using wf by (simp_all add: binding_wf_def)
  from sh obtain sc n where e': "?e = sc @ ''://'' @ n" and n: "plain_authority n"
    and sc: "sc = ''https'' \<or> b_allow_insecure_http b \<and> sc = ''http''"
    unfolding endpoint_shape_def by blast
  have sc': "sc = ''https'' \<or> sc = ''http''" using sc by blast
  have d: "p = [] \<or> netloc_delim (hd p)" using p by (simp add: netloc_delim_def)
  note split = urlsplit_authority [OF sc' n]
  have "sr_hostname \<lparr>sr_scheme = sc, sr_netloc = n, sr_path = x, sr_query = y, sr_fragment = z\<rparr> \<noteq> None" for x y z
    using c split [of "[]" "[]"] by (auto simp: endpoint_checked_def e' sr_hostname_def host_port_def)
  moreover have "CHR ''@'' \<notin> set n" using n by (auto simp: plain_authority_def list_all_iff)
  ultimately show ?thesis using split [OF d, of "[]"] sc by (auto simp: e' sr_username_def)
qed

lemma endpoint_same_origin:
  "binding_wf b \<Longrightarrow> hd p = CHR ''/'' \<Longrightarrow> same_origin (b_endpoint b @ p) (b_endpoint b) = Inr True"
  using origin_endpoint_path [of "b_allow_insecure_http b" "b_endpoint b" p]
    origin_endpoint_ok [of "b_endpoint b" "b_allow_insecure_http b"]
  by (auto simp: same_origin_def binding_wf_def)

text \<open>The client accepts a response from any path of its endpoint, and a Location that is a path below it.\<close>

lemma endpoint_url_safe:
  assumes "binding_wf (cl_binding cl)" "hd p = CHR ''/''" "rs_url response = b_endpoint (cl_binding cl) @ p"
  shows "require_safe_response_url cl response = Inr ()"
  using endpoint_url_parts [OF assms(1,2)] endpoint_same_origin [OF assms(1,2)] assms(3)
  by (auto simp: require_safe_response_url_def)

lemma endpoint_location:
  assumes wf: "binding_wf (cl_binding cl)" and p: "plain_path p" "\<not> startswith p ''//''"
    and s: "''.'' \<notin> set (split_char (CHR ''/'') p)" "''..'' \<notin> set (split_char (CHR ''/'') p)"
    and l: "header_get (hr_headers response) ''Location'' = Some p"
  shows "client_location cl response = Inr (b_endpoint (cl_binding cl) @ p)"
proof -
  have h: "hd p = CHR ''/''" "p \<noteq> []" using p(1) by (auto simp: plain_path_def prefix_def)
  have "endpoint_shape (b_allow_insecure_http (cl_binding cl)) (b_endpoint (cl_binding cl))" using wf by (simp add: binding_wf_def)
  from urljoin_endpoint [OF this p s] endpoint_url_parts [OF wf h(1)] endpoint_same_origin [OF wf h(1)] l h show ?thesis
    by (auto simp: client_location_def)
qed

section \<open>Names that need no quoting\<close>

lemma repo_component_shape:
  assumes "repo_component s"
  shows "list_all always_safe s \<and> s \<noteq> [] \<and> lower_alnum (hd s)"
  using assms
proof (induction s rule: repo_component.induct)
  case (1 s)
  let ?r = "dropWhile lower_alnum s" and ?t = "takeWhile lower_alnum s"
  let ?d = "dropWhile (\<lambda>c. \<not> lower_alnum c) ?r" and ?p = "takeWhile (\<lambda>c. \<not> lower_alnum c) ?r"
  have s: "s = ?t @ ?p @ ?d" by simp
  have t: "?t \<noteq> []" and rest: "?r = [] \<or> repo_separator ?p \<and> repo_component ?d"
    using "1.prems" by (subst (asm) repo_component.simps; auto simp: Let_def split: if_splits)+
  have "list_all always_safe ?t"
    by (auto simp: list_all_iff lower_alnum_def always_safe_def is_alpha_def dest: set_takeWhileD)
  moreover have "list_all always_safe ?p \<and> list_all always_safe ?d"
  proof (cases "?r = []")
    case True
    then show ?thesis by (simp only: takeWhile.simps dropWhile.simps list.pred_inject simp_thms)
  next
    case False
    with rest "1.IH" [OF refl t] show ?thesis by (auto simp: repo_separator_def list_all_iff always_safe_def)
  qed
  ultimately have "list_all always_safe (?t @ ?p @ ?d)" by (simp only: list_all_append simp_thms)
  moreover have "s \<noteq> []" "lower_alnum (hd s)" using t by (cases s; auto split: if_splits)+
  ultimately show ?case using s by simp
qed

lemma set_split_char: "set s \<subseteq> insert c (\<Union> (set ` set (split_char c s)))"
proof -
  have "set (join [c] ss) \<subseteq> insert c (\<Union> (set ` set ss))" for ss by (induction "[c]" ss rule: join.induct) auto
  then show ?thesis using join_split_char [of c s] by metis
qed

lemma repository_chars:
  assumes "repository_match r"
  shows "list_all (\<lambda>c. always_safe c \<or> c = CHR ''/'') r" "r \<noteq> []" "hd r \<noteq> CHR ''/''"
    "''.'' \<notin> set (split_char (CHR ''/'') r)" "''..'' \<notin> set (split_char (CHR ''/'') r)"
proof -
  have c: "list_all always_safe s \<and> s \<noteq> [] \<and> lower_alnum (hd s)" if "s \<in> set (split_char (CHR ''/'') r)" for s
    using assms that repo_component_shape by (auto simp: repository_match_def list_all_iff)
  then show "list_all (\<lambda>c. always_safe c \<or> c = CHR ''/'') r"
    using set_split_char [of r "CHR ''/''"] by (auto simp: list_all_iff)
  show "''.'' \<notin> set (split_char (CHR ''/'') r)" "''..'' \<notin> set (split_char (CHR ''/'') r)"
    using c by (fastforce simp: lower_alnum_def is_digit_def)+
  have "[] \<notin> set (split_char (CHR ''/'') r)" using c by blast
  then show "r \<noteq> []" "hd r \<noteq> CHR ''/''" by (cases r; auto)+
qed

lemma quote_plain:
  assumes "list_all (\<lambda>c. always_safe c \<or> c = x) s" "x \<in> set safe"
  shows "quote safe s = s"
  using assms by (intro quote_safe) (auto simp: list_all_iff)

lemma hex_safe: "is_hex_lower c \<Longrightarrow> always_safe c"
  by (auto simp: is_hex_lower_def always_safe_def is_alpha_def)

lemma digest_chars: "list_all (\<lambda>c. always_safe c \<or> c = CHR '':'') (sha256_digest v)"
proof -
  have "list_all always_safe ''sha256''" by (simp add: always_safe_def is_alpha_def is_digit_def)
  then show ?thesis
    using hexdigest_lower [of v] hex_safe by (auto simp: sha256_digest_def list_all_iff)
qed

lemma tag_chars: "tag_match t \<Longrightarrow> list_all always_safe t"
  by (cases t) (auto simp: tag_match_def tag_rest_def tag_first_def always_safe_def is_alpha_def list_all_iff)

lemma str_nat_chars: "list_all always_safe (str_nat n)"
  using str_nat_digits [of n] by (auto simp: list_all_iff always_safe_def)

end
