(* ===== verification/Registry_Laws.thy ===== *)
theory Registry_Laws
  imports Registry Url_Laws
begin

text \<open>
  The registry the repository tests against implements the abstract store, and the HTTP client over it
  is a working transport. What is needed of \<open>httpx\<close> is the locale \<open>httpx_urls\<close>; the locale
  \<open>fake_setup\<close> adds a well-formed binding with static credentials, and is a \<open>registry_store\<close>.
\<close>

section \<open>The invariant of the server\<close>

lemma fake_inv_requests [simp]: "fake_inv (s\<lparr>fr_requests := rs\<rparr>) = fake_inv s"
  by (simp add: fake_inv_def)

lemma in_set_updateD: "x \<in> set (AList.update k v al) \<Longrightarrow> x = (k, v) \<or> x \<in> set al"
  by (induction al) (auto split: if_splits)

lemma fake_inv_uploads: "fake_inv s \<Longrightarrow> distinct (map fst us) \<Longrightarrow> fake_inv (s\<lparr>fr_uploads := us\<rparr>)"
  by (simp add: fake_inv_def)

lemma fake_inv_counter: "fake_inv s \<Longrightarrow> fake_inv (s\<lparr>fr_upload_counter := c\<rparr>)"
  by (simp add: fake_inv_def)

lemma fake_inv_blob: "fake_inv s \<Longrightarrow> fake_inv (s\<lparr>fr_blobs := AList.update (sha256_digest v) v (fr_blobs s)\<rparr>)"
  unfolding fake_inv_def by (auto simp: distinct_update dest!: in_set_updateD)

lemma fake_inv_distinct: "fake_inv s \<Longrightarrow> distinct (map fst (fr_uploads s))"
  by (simp add: fake_inv_def)

lemma fake_inv_manifest:
  assumes "fake_inv s" "json_loads b = Inr (JObj ps)" "json_eq_2 (obj_get ps ''schemaVersion'')"
  shows "fake_inv (s\<lparr>fr_manifests := AList.update (sha256_digest b) b (fr_manifests s),
     fr_tags := AList.update t (sha256_digest b) (fr_tags s)\<rparr>)"
proof -
  have k: "fst ` set (AList.update (sha256_digest b) b (fr_manifests s)) = insert (sha256_digest b) (fst ` set (fr_manifests s))"
    by (simp add: update_keys flip: set_map) auto
  have "\<forall>x \<in> set (fr_tags s). snd x \<in> fst ` set (fr_manifests s)" using assms(1) by (auto simp: fake_inv_def)
  then have "snd ` set (AList.update t (sha256_digest b) (fr_tags s)) \<subseteq> fst ` set (AList.update (sha256_digest b) b (fr_manifests s))"
    unfolding k by (auto dest!: in_set_updateD)
  moreover have "\<forall>(d, c) \<in> set (AList.update (sha256_digest b) b (fr_manifests s)). d = sha256_digest c
      \<and> (\<exists>ps. json_loads c = Inr (JObj ps) \<and> json_eq_2 (obj_get ps ''schemaVersion''))"
    using assms by (auto simp: fake_inv_def dest!: in_set_updateD)
  ultimately show ?thesis using assms(1) by (simp add: fake_inv_def distinct_update)
qed

lemma fake_inv_delete:
  assumes "fake_inv s"
  shows "fake_inv (s\<lparr>fr_manifests := AList.delete d (fr_manifests s), fr_tags := filter (\<lambda>(t, x). x \<noteq> d) (fr_tags s)\<rparr>)"
proof -
  have k: "fst ` set (AList.delete d (fr_manifests s)) = fst ` set (fr_manifests s) - {d}"
    by (auto simp: AList.delete_eq)
  have "snd ` set (filter (\<lambda>(t, x). x \<noteq> d) (fr_tags s)) \<subseteq> fst ` set (fr_manifests s) - {d}"
    using assms by (auto simp: fake_inv_def)
  moreover have "set (AList.delete d (fr_manifests s)) \<subseteq> set (fr_manifests s)" by (simp add: AList.delete_eq)
  ultimately show ?thesis
    using assms k by (auto simp: fake_inv_def distinct_delete distinct_map_filter)
qed

lemma fake_start_upload_inv: "fake_inv s \<Longrightarrow> fake_inv (snd (fake_start_upload s))"
  unfolding fake_start_upload_def Let_def
  by (simp add: fake_inv_counter fake_inv_uploads distinct_update fake_inv_distinct)

lemma fake_upload_inv:
  assumes "fake_inv s"
  shows "fake_inv (snd (fake_upload L rq u s))"
proof -
  have d: "distinct (map fst (AList.update k v (fr_uploads s)))" "distinct (map fst (AList.delete k al))"
    if "distinct (map fst al)" for k v and al :: "(string \<times> string) list"
    using that fake_inv_distinct [OF assms] by (simp_all add: distinct_update distinct_delete)
  have "fake_inv (s\<lparr>fr_blobs := AList.update (sha256_digest v) v (fr_blobs s), fr_uploads := us\<rparr>)"
    if "distinct (map fst us)" for v us
    using fake_inv_uploads [OF fake_inv_blob [OF assms] that] .
  with assms fake_inv_uploads [OF assms] fake_inv_distinct [OF assms] d show ?thesis
    by (auto simp: fake_upload_def Let_def distinct_update distinct_delete split: option.split)
qed

lemma fake_manifest_inv:
  assumes "fake_inv s"
  shows "fake_inv (snd (fake_manifest L rq reference s))"
  using assms fake_inv_manifest [OF assms] fake_inv_delete [OF assms]
  by (auto simp: fake_manifest_def fake_put_manifest_def Let_def split: option.split sum.split json.split)

text \<open>Whatever is sent to the registry, it keeps its invariant: content and manifests stay under their
  digests, manifests are JSON objects of schema version 2, tags name stored manifests and keys are
  unique.\<close>

lemma fake_handle_inv:
  assumes "fake_inv s" "fake_handle L rq s = (r, s')"
  shows "fake_inv s'"
  using assms fake_start_upload_inv fake_upload_inv fake_manifest_inv
  by (auto simp: fake_handle_def Let_def map_prod_def split: if_splits prod.splits dest: sndI)

lemma fake_handle_inv_witness:
  "fake_inv (fake_new ''team/objects'' None)
   \<and> fake_inv (snd (fake_handle
        \<lparr>hl_path = id, hl_param = (\<lambda>u k. None), hl_merge = (\<lambda>u ps. Inr u), hl_json = write_json, hl_rebuild = (\<lambda>hs c. Inr c)\<rparr>
        \<lparr>rq_method = ''PUT'', rq_url = [], rq_headers = [], rq_content = None\<rparr> (fake_new ''team/objects'' None)))"
proof -
  have i: "fake_inv (fake_new ''team/objects'' None)" by (simp add: fake_inv_def fake_new_def)
  from i fake_handle_inv [OF i surjective_pairing] show ?thesis by blast
qed

section \<open>Header lookups\<close>

lemma lower_eval:
  "to_lower (CHR ''-'') = CHR ''-''" "to_lower (CHR ''A'') = CHR ''a''" "to_lower (CHR ''C'') = CHR ''c''"
  "to_lower (CHR ''D'') = CHR ''d''" "to_lower (CHR ''E'') = CHR ''e''" "to_lower (CHR ''I'') = CHR ''i''"
  "to_lower (CHR ''L'') = CHR ''l''" "to_lower (CHR ''M'') = CHR ''m''" "to_lower (CHR ''O'') = CHR ''o''"
  "to_lower (CHR ''R'') = CHR ''r''" "to_lower (CHR ''T'') = CHR ''t''" "to_lower (CHR ''U'') = CHR ''u''"
  "to_lower (CHR ''V'') = CHR ''v''" "to_lower (CHR ''a'') = CHR ''a''" "to_lower (CHR ''b'') = CHR ''b''"
  "to_lower (CHR ''c'') = CHR ''c''" "to_lower (CHR ''d'') = CHR ''d''" "to_lower (CHR ''e'') = CHR ''e''"
  "to_lower (CHR ''g'') = CHR ''g''" "to_lower (CHR ''h'') = CHR ''h''" "to_lower (CHR ''i'') = CHR ''i''"
  "to_lower (CHR ''k'') = CHR ''k''" "to_lower (CHR ''l'') = CHR ''l''" "to_lower (CHR ''n'') = CHR ''n''"
  "to_lower (CHR ''o'') = CHR ''o''" "to_lower (CHR ''p'') = CHR ''p''" "to_lower (CHR ''r'') = CHR ''r''"
  "to_lower (CHR ''s'') = CHR ''s''" "to_lower (CHR ''t'') = CHR ''t''" "to_lower (CHR ''u'') = CHR ''u''"
  "to_lower (CHR ''y'') = CHR ''y''" "to_lower (CHR ''z'') = CHR ''z''"
  by code_simp+

lemmas header_eval = header_get_def header_or_def header_values_def merge_headers_def lower_eval

lemma filter_update: "\<not> P k \<Longrightarrow> filter (\<lambda>h. P (fst h)) (AList.update k v al) = filter (\<lambda>h. P (fst h)) al"
  by (induction al) auto

lemma filter_updates:
  "\<forall>k \<in> set ks. \<not> P k \<Longrightarrow> filter (\<lambda>h. P (fst h)) (AList.updates ks vs al) = filter (\<lambda>h. P (fst h)) al"
proof (induction ks arbitrary: vs al)
  case (Cons k ks)
  then show ?case by (cases vs) (simp_all add: filter_update)
qed simp

lemma merged_authorization:
  assumes "\<forall>k \<in> fst ` set hs. map to_lower k \<noteq> ''authorization''"
  shows "header_get (merge_headers a hs) ''Authorization'' = a"
proof -
  have "filter (\<lambda>h. map to_lower (fst h) = ''authorization'') (merge_headers a hs)
      = filter (\<lambda>h. map to_lower (fst h) = ''authorization'') (case a of None \<Rightarrow> [] | Some v \<Rightarrow> [(''Authorization'', v)])"
    using assms filter_updates [of "map fst hs" "\<lambda>k. map to_lower k = ''authorization''" "map snd hs"]
    by (auto simp: merge_headers_def Let_def lower_eval split: option.split)
  then show ?thesis by (auto simp: header_get_def header_values_def lower_eval split: option.split)
qed

section \<open>The registry as a store\<close>

definition uploads_base :: "'w binding \<Rightarrow> string" where
  "uploads_base b = b_endpoint b @ ''/v2/'' @ b_repository b @ ''/blobs/uploads/''"

definition fake_store :: "'w binding \<Rightarrow> fake_registry \<Rightarrow> store" where
  "fake_store b s =
     \<lparr>st_blobs = map_of (fr_blobs s),
      st_tags = (\<lambda>t. case map_of (fr_tags s) t of None \<Rightarrow> None | Some d \<Rightarrow> map_of (fr_manifests s) d),
      st_uploads = (\<lambda>u. if startswith u (uploads_base b) then map_of (fr_uploads s) (drop (length (uploads_base b)) u) else None)\<rparr>"

text \<open>The registry serves the binding's repository to its credentials, and upload identifiers are the ones it
  handed out.\<close>

definition fake_ok :: "'w binding \<Rightarrow> string option \<Rightarrow> fake_registry \<Rightarrow> bool" where
  "fake_ok b auth s \<longleftrightarrow> fake_inv s \<and> fr_repository s = b_repository b \<and> fr_required_authorization s \<in> {None, auth}
     \<and> (\<forall>u \<in> fst ` set (fr_uploads s). \<exists>k \<le> fr_upload_counter s. u = ''upload-'' @ str_nat k)"

definition logged :: "http_request \<Rightarrow> fake_registry \<Rightarrow> fake_registry" where
  "logged rq s = s\<lparr>fr_requests := fr_requests s @ [rq]\<rparr>"

lemma logged_simps [simp]:
  "fake_store b (logged rq s) = fake_store b s" "fake_ok b auth (logged rq s) = fake_ok b auth s"
  "fr_blobs (logged rq s) = fr_blobs s" "fr_manifests (logged rq s) = fr_manifests s" "fr_tags (logged rq s) = fr_tags s"
  "fr_uploads (logged rq s) = fr_uploads s" "fr_repository (logged rq s) = fr_repository s"
  "fr_upload_counter (logged rq s) = fr_upload_counter s"
  by (auto simp: logged_def fake_store_def fake_ok_def fun_eq_iff split: option.split)

text \<open>The dispatch of \<open>FakeRegistry.handle\<close> on what follows the repository.\<close>

definition fake_route :: "http_lib \<Rightarrow> http_request \<Rightarrow> string \<Rightarrow> fake_registry \<Rightarrow> (exn + http_result) \<times> fake_registry" where
  "fake_route L rq rest s =
     (if rest = ''/blobs/uploads/'' \<and> rq_method rq = ''POST'' then map_prod Inr id (fake_start_upload s)
      else if startswith rest ''/blobs/uploads/'' then map_prod Inr id (fake_upload L rq (drop (length ''/blobs/uploads/'') rest) s)
      else if startswith rest ''/blobs/'' then (Inr (fake_blob L rq (drop (length ''/blobs/'') rest) s), s)
      else if rest = ''/tags/list'' \<and> rq_method rq = ''GET'' then (fake_tags L rq s, s)
      else if startswith rest ''/referrers/'' \<and> rq_method rq = ''GET'' then (fake_referrers L rq (drop (length ''/referrers/'') rest) s, s)
      else if startswith rest ''/manifests/'' then map_prod Inr id (fake_manifest L rq (drop (length ''/manifests/'') rest) s)
      else (Inr (fake_error L 404 ''NAME_UNKNOWN''), s))"

lemma ok_counter: "fake_ok b auth s \<Longrightarrow> fr_upload_counter s \<le> k \<Longrightarrow> fake_ok b auth (s\<lparr>fr_upload_counter := k\<rparr>)"
  unfolding fake_ok_def by (auto simp: fake_inv_counter dest!: bspec intro: order_trans)

lemma ok_upload:
  assumes "fake_ok b auth s"
  shows "u = ''upload-'' @ str_nat k \<Longrightarrow> k \<le> fr_upload_counter s \<Longrightarrow> fake_ok b auth (s\<lparr>fr_uploads := AList.update u c (fr_uploads s)\<rparr>)"
    "fake_ok b auth (s\<lparr>fr_uploads := AList.delete u (fr_uploads s)\<rparr>)"
proof -
  have i: "fake_inv s" using assms by (simp add: fake_ok_def)
  from fake_inv_uploads [OF i] fake_inv_distinct [OF i]
  have u: "fake_inv (s\<lparr>fr_uploads := AList.update u c (fr_uploads s)\<rparr>)" "fake_inv (s\<lparr>fr_uploads := AList.delete u (fr_uploads s)\<rparr>)"
    by (simp_all add: distinct_update distinct_delete)
  show "fake_ok b auth (s\<lparr>fr_uploads := AList.update u c (fr_uploads s)\<rparr>)"
    if "u = ''upload-'' @ str_nat k" "k \<le> fr_upload_counter s"
    using assms that u(1) unfolding fake_ok_def by (auto dest!: in_set_updateD)
  have "set (AList.delete u (fr_uploads s)) \<subseteq> set (fr_uploads s)" by (simp add: AList.delete_eq)
  then show "fake_ok b auth (s\<lparr>fr_uploads := AList.delete u (fr_uploads s)\<rparr>)"
    using assms u(2) unfolding fake_ok_def by auto
qed

lemma ok_blob: "fake_ok b auth s \<Longrightarrow> fake_ok b auth (s\<lparr>fr_blobs := AList.update (sha256_digest v) v (fr_blobs s)\<rparr>)"
  by (simp add: fake_ok_def fake_inv_blob)

lemma unquote_plain: "CHR ''%'' \<notin> set p \<Longrightarrow> unquote p = p"
  by (induction p rule: unquote.induct) auto

lemma routes:
  "fake_route L rq (''/manifests/'' @ t) s = map_prod Inr id (fake_manifest L rq t s)"
  "fake_route L rq (''/blobs/'' @ sha256_digest v) s = (Inr (fake_blob L rq (sha256_digest v) s), s)"
  "rq_method rq = ''POST'' \<Longrightarrow> fake_route L rq ''/blobs/uploads/'' s = map_prod Inr id (fake_start_upload s)"
  "rq_method rq \<noteq> ''POST'' \<Longrightarrow> fake_route L rq (''/blobs/uploads/'' @ u) s = map_prod Inr id (fake_upload L rq u s)"
  by (simp_all add: fake_route_def sha256_digest_def)

lemma map_of_filter_value:
  "distinct (map fst al) \<Longrightarrow> map_of (filter (\<lambda>(t, x). P x) al) t
     = (case map_of al t of None \<Rightarrow> None | Some x \<Rightarrow> if P x then Some x else None)"
  by (induction al) (auto simp: map_of_eq_None_iff split: option.split dest: map_of_SomeD)

lemma tag_not_digest:
  assumes "tag_match t"
  shows "\<not> startswith t ''sha256:''"
proof
  assume "startswith t ''sha256:''"
  then have "CHR '':'' \<in> set t" by (auto simp: prefix_def)
  with tag_chars [OF assms] show False by (auto simp: list_all_iff always_safe_def is_alpha_def is_digit_def)
qed

lemma manifest_keyed:
  assumes "fake_ok b auth s"
  shows "map_of (fr_manifests s) d = Some c \<Longrightarrow> d = sha256_digest c"
    "map_of (fr_tags s) t = Some d \<Longrightarrow> map_of (fr_manifests s) d \<noteq> None"
proof -
  show "d = sha256_digest c" if "map_of (fr_manifests s) d = Some c"
    using assms map_of_SomeD [OF that] by (auto simp: fake_ok_def fake_inv_def)
  show "map_of (fr_manifests s) d \<noteq> None" if "map_of (fr_tags s) t = Some d"
  proof -
    have "d \<in> snd ` set (fr_tags s)" using map_of_SomeD [OF that] by force
    moreover have "snd ` set (fr_tags s) \<subseteq> fst ` set (fr_manifests s)" using assms by (simp add: fake_ok_def fake_inv_def)
    ultimately show ?thesis by (auto simp: map_of_eq_None_iff)
  qed
qed

lemma selected_tag:
  assumes "fake_ok b auth s" "tag_match t"
  shows "selected_manifest s t = (case st_tags (fake_store b s) t of None \<Rightarrow> None | Some body \<Rightarrow> Some (sha256_digest body, body))"
  using manifest_keyed [OF assms(1)] tag_not_digest [OF assms(2)]
  by (auto simp: selected_manifest_def fake_store_def split: option.split)

text \<open>Publishing and deleting a manifest, in the abstract.\<close>

lemma store_publish:
  assumes ok: "fake_ok b auth s" and nc: "no_clash (fake_store b s) c"
  shows "fake_store b (s\<lparr>fr_manifests := AList.update (sha256_digest c) c (fr_manifests s),
     fr_tags := AList.update t (sha256_digest c) (fr_tags s)\<rparr>) = store_put_tag t c (fake_store b s)"
proof -
  have "map_of (fr_manifests s) (sha256_digest c) = Some c" if x: "map_of (fr_tags s) x = Some (sha256_digest c)" for x
  proof -
    obtain c' where c': "map_of (fr_manifests s) (sha256_digest c) = Some c'" using manifest_keyed(2) [OF ok x] by auto
    then have "st_tags (fake_store b s) x = Some c'" using x by (simp add: fake_store_def)
    with nc manifest_keyed(1) [OF ok c'] have "c' = c" by (simp add: no_clash_def)
    with c' show ?thesis by simp
  qed
  then show ?thesis
    by (auto simp: fake_store_def store_put_tag_def update_conv' fun_eq_iff split: option.split)
qed

lemma store_remove:
  assumes ok: "fake_ok b auth s"
  shows "fake_store b (s\<lparr>fr_manifests := AList.delete d (fr_manifests s), fr_tags := filter (\<lambda>(t, x). x \<noteq> d) (fr_tags s)\<rparr>)
     = store_delete d (fake_store b s)"
proof -
  have f: "map_of (filter (\<lambda>(t, x). x \<noteq> d) (fr_tags s)) t = (case map_of (fr_tags s) t of None \<Rightarrow> None | Some x \<Rightarrow> if x = d then None else Some x)" for t
    using ok by (auto simp: fake_ok_def fake_inv_def map_of_filter_value split: option.split)
  then show ?thesis
    using manifest_keyed [OF ok]
    by (auto simp: fake_store_def store_delete_def delete_conv' fun_eq_iff split: option.split)
qed

lemma selected_digest:
  "selected_manifest s (sha256_digest v) =
     (case map_of (fr_manifests s) (sha256_digest v) of None \<Rightarrow> None | Some c \<Rightarrow> Some (sha256_digest v, c))"
proof -
  have "startswith (sha256_digest v) ''sha256:''" by (simp add: sha256_digest_def)
  then show ?thesis by (simp add: selected_manifest_def)
qed

text \<open>A response the client takes at once: not retried, not encoded, within the bound.\<close>

definition servable :: "int \<Rightarrow> http_result \<Rightarrow> bool" where
  "servable m r \<longleftrightarrow> hr_status r \<notin> set RETRIABLE_STATUS \<and> header_get (hr_headers r) ''Content-Encoding'' = None
     \<and> int (length (hr_content r)) \<le> m"

lemma servable_respond:
  "servable m (respond st hs c) \<longleftrightarrow> st \<notin> set RETRIABLE_STATUS \<and> header_get hs ''Content-Encoding'' = None \<and> int (length c) \<le> m"
  by (simp add: servable_def)

lemma before_append: "c \<notin> set x \<Longrightarrow> before c (x @ c # y) = x" and after_append: "c \<notin> set x \<Longrightarrow> after c (x @ c # y) = y"
  by (induction x) (auto simp: before_def after_def)

lemma str_nat_no_sign: "CHR ''-'' \<notin> set (str_nat n)" "CHR ''+'' \<notin> set (str_nat n)"
  using str_nat_digits [of n] by (auto simp: list_all_iff is_digit_def)

lemma py_int_str_nat: "py_int (str_nat n) = Some (int n)"
proof -
  have "hd (str_nat n) \<in> set (str_nat n)" by (rule hd_in_set) simp
  with str_nat_no_sign [of n] have "hd (str_nat n) \<noteq> CHR ''-''" "hd (str_nat n) \<noteq> CHR ''+''" by metis+
  then show ?thesis by (simp add: py_int_def)
qed

lemma str_int_nat [simp]: "str_int (int n) = str_nat n"
  by (simp add: str_int_def)

lemma range_values_bytes: "range_values (''bytes='' @ str_nat i @ ''-'' @ str_nat j) = Some (int i, int j)"
  using before_append [OF str_nat_no_sign(1), of i "str_nat j"] after_append [OF str_nat_no_sign(1), of i "str_nat j"]
  by (simp add: range_values_def py_int_str_nat)

section \<open>What is needed of httpx\<close>

locale httpx_urls =
  fixes L :: http_lib and endpoint :: string
  assumes url_path: "plain_path p \<Longrightarrow> hl_path L (endpoint @ p) = p"
    and url_merge: "plain_path p \<Longrightarrow> ps \<noteq> [] \<Longrightarrow> distinct (map fst ps)
      \<Longrightarrow> list_all (\<lambda>(k, v). list_all path_char k \<and> list_all path_char v) ps
      \<Longrightarrow> \<exists>q. hl_merge L (endpoint @ p) ps = Inr (endpoint @ p @ ''?'' @ q)
            \<and> hl_path L (endpoint @ p @ ''?'' @ q) = p \<and> (\<forall>k. hl_param L (endpoint @ p @ ''?'' @ q) k = map_of ps k)"
    and rebuilt: "header_get hs ''Content-Encoding'' = None \<Longrightarrow> hl_rebuild L hs c = Inr c"
    and json_body: "fs \<noteq> [] \<Longrightarrow> json_wf (JObj fs) \<Longrightarrow> json_loads (hl_json L (JObj fs)) = Inr (JObj fs)"
    and json_small: "length code \<le> 64 \<Longrightarrow> length (hl_json L (error_json code)) \<le> 1024"
begin

lemma error_code:
  assumes "list_all (\<lambda>c. oct c < 128) code"
  shows "provider_code (hl_json L (error_json code)) = code"
proof -
  have "list_all (\<lambda>s. utf8_ok s) [''errors'', ''code'', ''message'', code]"
    using assms by (auto intro: utf8_ok_ascii)
  then have "json_wf (error_json code)" by (simp add: error_json_def)
  then have "json_loads (hl_json L (error_json code)) = Inr (error_json code)"
    unfolding error_json_def by (rule json_body [rotated]) simp
  then show ?thesis by (simp add: provider_code_def error_json_def obj_get_def)
qed

end

locale fake_setup = httpx_urls L "b_endpoint b" for L :: http_lib and b :: "fake_registry binding" +
  fixes auth :: "string option" and attempts :: nat
  assumes wf: "binding_wf b" and credentials: "authorization_header (b_credentials b) = ret auth" and retries: "0 < attempts"
begin

lemma client_binding [simp]: "cl_binding (fake_client L b attempts) = b"
  by (simp add: fake_client_def)

lemma repository: "list_all (\<lambda>c. always_safe c \<or> c = CHR ''/'') (b_repository b)" "b_repository b \<noteq> []"
  using repository_chars [of "b_repository b"] wf by (simp_all add: binding_wf_def)

lemma repository_path: "list_all path_char (b_repository b)"
  using repository(1) by (auto simp: list_all_iff path_char_def)

lemma handle_route:
  assumes ok: "fake_ok b auth s" and p: "hl_path L (rq_url rq) = ''/v2/'' @ b_repository b @ rest" "list_all path_char rest"
    and a: "header_get (rq_headers rq) ''Authorization'' = auth"
  shows "fake_handle L rq s = fake_route L rq rest (logged rq s)"
proof -
  have "CHR ''%'' \<notin> set (''/v2/'' @ b_repository b @ rest)"
    using p(2) repository_path path_char_facts(4) by (auto simp: list_all_iff)
  from unquote_plain [OF this] p(1) have u: "unquote (hl_path L (rq_url rq)) = (''/v2/'' @ b_repository b) @ rest" by simp
  have n: "(''/v2/'' @ b_repository b) @ rest \<noteq> ''/v2/''" using repository(2) by simp
  have f: "fr_repository s = b_repository b" "\<not> (fr_required_authorization s \<noteq> None \<and> auth \<noteq> fr_required_authorization s)"
    using ok by (auto simp: fake_ok_def)
  have "(fr_required_authorization s \<noteq> None \<and> header_get (rq_headers rq) ''Authorization'' \<noteq> fr_required_authorization s) = False"
    using f(2) a by blast
  then show ?thesis
    unfolding fake_handle_def fake_route_def logged_def Let_def u
    by (cases "fr_required_authorization s") (simp_all add: f(1) repository(2))
qed

text \<open>A request below the repository is answered with what the dispatch returns.\<close>

lemma headers_ok:
  assumes "url = b_endpoint b @ p" "hd p = CHR ''/''"
  shows "client_headers (fake_client L b attempts) url hs w = (Inr (merge_headers auth hs), w)"
  using client_url_same_origin [of "fake_client L b attempts" p] assms wf
  by (simp add: client_headers_def client_url_def fake_client_def credentials io_simps)

lemma sent:
  assumes ok: "fake_ok b auth w" and p: "hl_path L (rq_url rq) = ''/v2/'' @ b_repository b @ rest" "list_all path_char rest"
    and hs: "rq_headers rq = merge_headers auth hs" "\<forall>k \<in> fst ` set hs. map to_lower k \<noteq> ''authorization''"
    and route: "fake_route L rq rest (logged rq w) = (Inr r, w')"
  shows "he_send (cl_http (fake_client L b attempts)) rq w = (Inr \<lparr>rs_status = hr_status r, rs_headers = hr_headers r, rs_url = rq_url rq,
     rs_chunks = (if hr_content r = [] then [] else [hr_content r]), rs_error = None\<rparr>, w')"
  using handle_route [OF ok p] merged_authorization [OF hs(2)] hs(1) route
  by (simp add: fake_client_def fake_env_def io_simps)

lemma served:
  assumes ok: "fake_ok b auth w" and url: "url = b_endpoint b @ ''/v2/'' @ b_repository b @ rest @ q"
    and p: "hl_path L url = ''/v2/'' @ b_repository b @ rest" "list_all path_char rest"
    and hs: "\<forall>k \<in> fst ` set hs. map to_lower k \<noteq> ''authorization''"
    and route: "fake_route L rq rest (logged rq w) = (Inr r, w')"
    and rq: "rq = \<lparr>rq_method = method, rq_url = url, rq_headers = merge_headers auth hs, rq_content = content\<rparr>"
    and r: "servable maximum r"
  shows "client_request (fake_client L b attempts) method url hs content expected retry maximum w =
    (if hr_status r \<in> set expected then (Inr r, w') else (Inl (response_error (hr_status r) (hr_content r)), w'))"
proof -
  let ?cl = "fake_client L b attempts"
  let ?rs = "\<lparr>rs_status = hr_status r, rs_headers = hr_headers r, rs_url = url,
     rs_chunks = (if hr_content r = [] then [] else [hr_content r]), rs_error = None\<rparr>"
  have h: "client_headers ?cl url hs w = (Inr (merge_headers auth hs), w)"
    by (rule headers_ok [of _ "''/v2/'' @ b_repository b @ rest @ q"]) (simp_all add: url)
  have s: "he_send (cl_http ?cl) \<lparr>rq_method = method, rq_url = url, rq_headers = merge_headers auth hs, rq_content = content\<rparr> w
      = (Inr ?rs, w')"
    using sent [OF ok _ p(2) _ hs route] p(1) by (simp add: rq)
  have safe: "require_safe_response_url ?cl ?rs = Inr ()"
    by (rule endpoint_url_safe [of _ "''/v2/'' @ b_repository b @ rest @ q"]) (simp_all add: url fake_client_def wf)
  have "bounded_response ?cl ?rs maximum = Inr r"
    using bounded_response_ok [of ?rs maximum ?cl "hr_content r"] r rebuilt
    by (simp add: fake_client_def fake_env_def servable_def)
  from client_request_answered [OF h s safe _ this] r retries show ?thesis by (simp add: fake_client_def servable_def)
qed

text \<open>The URLs of blobs, manifests and uploads.\<close>

lemma plain_rest: "list_all path_char rest \<Longrightarrow> plain_path (''/v2/'' @ b_repository b @ rest)"
  using repository_path by (simp add: plain_path_def path_char_def always_safe_def is_alpha_def is_digit_def)

lemma repository_quoted: "client_repository (fake_client L b attempts) = b_repository b"
  using repository(1) by (simp add: client_repository_def fake_client_def quote_plain)

lemma path_literals: "list_all path_char ''/blobs/''" "list_all path_char ''/manifests/''" "list_all path_char ''/blobs/uploads/''"
  "list_all path_char ''/blobs/uploads/upload-''" "list_all path_char ''digest''"
  by (simp_all add: path_char_def always_safe_def is_alpha_def)

lemma digest_path: "list_all path_char (sha256_digest v)"
  using digest_chars [of v] by (auto simp: list_all_iff path_char_def)

lemma blob_url_eq: "blob_url (fake_client L b attempts) (sha256_digest v) = b_endpoint b @ ''/v2/'' @ b_repository b @ ''/blobs/'' @ sha256_digest v"
  using digest_chars [of v] by (simp add: blob_url_def client_url_def repository_quoted quote_plain)

lemma manifest_url_eq:
  "tag_match t \<Longrightarrow> manifest_url (fake_client L b attempts) t = b_endpoint b @ ''/v2/'' @ b_repository b @ ''/manifests/'' @ t"
  "manifest_url (fake_client L b attempts) (sha256_digest v) = b_endpoint b @ ''/v2/'' @ b_repository b @ ''/manifests/'' @ sha256_digest v"
proof -
  have q: "quote '':._-'' x = x" if "list_all (\<lambda>c. always_safe c \<or> c = CHR '':'') x" for x
    using that by (rule quote_plain) simp
  assume "tag_match t"
  then have "list_all (\<lambda>c. always_safe c \<or> c = CHR '':'') t" using tag_chars [of t] by (auto simp: list_all_iff)
  then show "manifest_url (fake_client L b attempts) t = b_endpoint b @ ''/v2/'' @ b_repository b @ ''/manifests/'' @ t"
    by (simp add: manifest_url_def client_url_def repository_quoted q)
next
  have "quote '':._-'' (sha256_digest v) = sha256_digest v" using digest_chars by (rule quote_plain) simp
  then show "manifest_url (fake_client L b attempts) (sha256_digest v) = b_endpoint b @ ''/v2/'' @ b_repository b @ ''/manifests/'' @ sha256_digest v"
    by (simp add: manifest_url_def client_url_def repository_quoted)
qed

lemma error_status [simp]: "hr_status (fake_error L st code) = st"
  by (simp add: fake_error_def)

lemma error_served:
  "length code \<le> 64 \<Longrightarrow> 1024 \<le> m \<Longrightarrow> st \<notin> set RETRIABLE_STATUS \<Longrightarrow> servable m (fake_error L st code)"
  using json_small [of code] by (simp add: fake_error_def header_eval servable_def)

lemmas served_simps = DEFAULT_RESPONSE_BYTES_def RETRIABLE_STATUS_def servable_respond header_eval error_served

subsection \<open>Manifests\<close>

lemma manifest_served:
  assumes ok: "fake_ok b auth w" and url: "manifest_url (fake_client L b attempts) t = b_endpoint b @ ''/v2/'' @ b_repository b @ ''/manifests/'' @ t"
    and t: "list_all path_char t" and hs: "\<forall>k \<in> fst ` set hs. map to_lower k \<noteq> ''authorization''"
    and m: "fake_manifest L rq t (logged rq w) = (r, w')"
    and rq: "rq = \<lparr>rq_method = method, rq_url = manifest_url (fake_client L b attempts) t, rq_headers = merge_headers auth hs, rq_content = content\<rparr>"
    and r: "servable maximum r"
  shows "client_request (fake_client L b attempts) method (manifest_url (fake_client L b attempts) t) hs content expected retry maximum w =
    (if hr_status r \<in> set expected then (Inr r, w') else (Inl (response_error (hr_status r) (hr_content r)), w'))"
proof (rule served [where q = "[]", OF ok _ _ _ hs _ rq r])
  show c: "list_all path_char (''/manifests/'' @ t)" using t path_literals(2) by (simp only: list_all_append simp_thms)
  show "manifest_url (fake_client L b attempts) t = b_endpoint b @ ''/v2/'' @ b_repository b @ (''/manifests/'' @ t) @ []"
    using url by simp
  show "hl_path L (manifest_url (fake_client L b attempts) t) = ''/v2/'' @ b_repository b @ ''/manifests/'' @ t"
    using url_path [OF plain_rest [OF c]] url by simp
  show "fake_route L rq (''/manifests/'' @ t) (logged rq w) = (Inr r, w')" using m by (simp only: routes map_prod_simp id_apply)
qed

lemma tag_path: "tag_match t \<Longrightarrow> list_all path_char t"
  using tag_chars [of t] by (auto simp: list_all_iff path_char_def)

abbreviation (input) fcl :: "fake_registry client" where "fcl \<equiv> fake_client L b attempts"

lemma manifest_exists_ok:
  assumes ok: "fake_ok b auth w" and t: "tag_match t"
  shows "\<exists>w'. manifest_exists fcl t w = (Inr (st_tags (fake_store b w) t \<noteq> None), w')
    \<and> fake_store b w' = fake_store b w \<and> fake_ok b auth w'"
proof -
  define rq where "rq = \<lparr>rq_method = ''HEAD'', rq_url = manifest_url fcl t,
     rq_headers = merge_headers auth [(''Accept'', OCI_MANIFEST_MEDIA_TYPE)], rq_content = None\<rparr>"
  define r where "r = (case st_tags (fake_store b w) t of None \<Rightarrow> fake_error L 404 ''MANIFEST_UNKNOWN''
     | Some c \<Rightarrow> respond 200 [(''Content-Length'', str_nat (length c)), (''Content-Type'', OCI_MANIFEST_MEDIA_TYPE),
                     (''Docker-Content-Digest'', sha256_digest c)] [])"
  have m: "fake_manifest L rq t (logged rq w) = (r, logged rq w)"
    using selected_tag [of b auth "logged rq w" t] ok t
    by (auto simp: fake_manifest_def rq_def r_def Let_def split: option.split)
  have st: "hr_status r = (if st_tags (fake_store b w) t = None then 404 else 200)"
    by (auto simp: r_def split: option.split)
  have "servable DEFAULT_RESPONSE_BYTES r"
    by (simp add: r_def served_simps split: option.split)
  then have "client_request fcl ''HEAD'' (manifest_url fcl t) [(''Accept'', OCI_MANIFEST_MEDIA_TYPE)] None [200, 404] True
      DEFAULT_RESPONSE_BYTES w = (Inr r, logged rq w)"
    by (subst manifest_served [OF ok manifest_url_eq(1) [OF t] tag_path [OF t] _ m rq_def]) (simp_all add: st lower_eval)
  then have "manifest_exists fcl t w = (Inr (st_tags (fake_store b w) t \<noteq> None), logged rq w)"
    by (simp add: manifest_exists_def io_simps st)
  with ok show ?thesis by auto
qed

lemma get_manifest_ok:
  assumes ok: "fake_ok b auth w" and t: "tag_match t" and c: "st_tags (fake_store b w) t = Some c"
    and doc: "parse_manifest c None (b_max_manifest_bytes b) = Inr doc"
  shows "\<exists>w'. get_manifest fcl t w = (Inr doc, w') \<and> fake_store b w' = fake_store b w \<and> fake_ok b auth w'"
proof -
  define rq where "rq = \<lparr>rq_method = ''GET'', rq_url = manifest_url fcl t,
     rq_headers = merge_headers auth [(''Accept'', OCI_MANIFEST_MEDIA_TYPE)], rq_content = None\<rparr>"
  define r where "r = respond 200 [(''Content-Length'', str_nat (length c)), (''Content-Type'', OCI_MANIFEST_MEDIA_TYPE),
                     (''Docker-Content-Digest'', sha256_digest c)] c"
  note d = parse_manifest_sound [OF doc]
  have m: "fake_manifest L rq t (logged rq w) = (r, logged rq w)"
    using selected_tag [of b auth "logged rq w" t] ok t c by (simp add: fake_manifest_def rq_def r_def Let_def)
  have "servable (b_max_manifest_bytes b) r" using d(3) by (simp add: r_def served_simps)
  then have "client_request fcl ''GET'' (manifest_url fcl t) [(''Accept'', OCI_MANIFEST_MEDIA_TYPE)] None [200] True
      (b_max_manifest_bytes b) w = (Inr r, logged rq w)"
    by (subst manifest_served [OF ok manifest_url_eq(1) [OF t] tag_path [OF t] _ m rq_def]) (simp_all add: r_def lower_eval)
  then have "get_manifest fcl t w = (Inr doc, logged rq w)"
    using doc d tag_not_digest [OF t]
    by (simp add: get_manifest_def io_simps fake_client_def r_def header_eval before_def OCI_MANIFEST_MEDIA_TYPE_def Let_def)
  with ok show ?thesis by auto
qed

lemma get_manifest_missing:
  assumes ok: "fake_ok b auth w" and t: "tag_match t" and c: "st_tags (fake_store b w) t = None"
  shows "\<exists>e w'. get_manifest fcl t w = (Inl e, w') \<and> exn_kind_of e = ObjectNotFound \<and> fake_store b w' = fake_store b w \<and> fake_ok b auth w'"
proof -
  define rq where "rq = \<lparr>rq_method = ''GET'', rq_url = manifest_url fcl t,
     rq_headers = merge_headers auth [(''Accept'', OCI_MANIFEST_MEDIA_TYPE)], rq_content = None\<rparr>"
  let ?r = "fake_error L 404 ''MANIFEST_UNKNOWN''"
  have m: "fake_manifest L rq t (logged rq w) = (?r, logged rq w)"
    using selected_tag [of b auth "logged rq w" t] ok t c by (simp add: fake_manifest_def rq_def)
  have "servable (b_max_manifest_bytes b) ?r" using wf by (simp add: served_simps binding_wf_def)
  then have "client_request fcl ''GET'' (manifest_url fcl t) [(''Accept'', OCI_MANIFEST_MEDIA_TYPE)] None [200] True
      (b_max_manifest_bytes b) w = (Inl (response_error 404 (hr_content ?r)), logged rq w)"
    by (subst manifest_served [OF ok manifest_url_eq(1) [OF t] tag_path [OF t] _ m rq_def]) (simp_all add: lower_eval)
  moreover have "exn_kind_of (response_error 404 (hr_content ?r)) = ObjectNotFound"
    using error_code [of "''MANIFEST_UNKNOWN''"] by (simp add: response_error_def fake_error_def error_kind_def Let_def)
  ultimately show ?thesis
    using ok by (intro exI [of _ "response_error 404 (hr_content ?r)"] exI [of _ "logged rq w"])
      (simp add: get_manifest_def io_simps fake_client_def)
qed

lemma put_manifest_ok:
  assumes ok: "fake_ok b auth w" and t: "tag_match t" and doc: "parse_manifest c None (b_max_manifest_bytes b) = Inr doc"
    and nc: "no_clash (fake_store b w) c"
  shows "\<exists>w'. put_manifest fcl t c w = (Inr \<lparr>d_media_type = OCI_MANIFEST_MEDIA_TYPE, d_digest = sha256_digest c, d_size = length c\<rparr>, w')
    \<and> fake_store b w' = store_put_tag t c (fake_store b w) \<and> fake_ok b auth w'"
proof -
  define rq where "rq = \<lparr>rq_method = ''PUT'', rq_url = manifest_url fcl t,
     rq_headers = merge_headers auth [(''Content-Type'', OCI_MANIFEST_MEDIA_TYPE)], rq_content = Some c\<rparr>"
  define r where "r = respond 201 [(''Location'', ''/v2/'' @ b_repository b @ ''/manifests/'' @ sha256_digest c),
     (''Docker-Content-Digest'', sha256_digest c)] []"
  define w' where "w' = (logged rq w)\<lparr>fr_manifests := AList.update (sha256_digest c) c (fr_manifests w),
     fr_tags := AList.update t (sha256_digest c) (fr_tags w)\<rparr>"
  note d = parse_manifest_sound [OF doc]
  from doc obtain ps where j: "json_loads c = Inr (JObj ps)" "json_eq_2 (obj_get ps ''schemaVersion'')"
    by (auto simp: parse_manifest_def parse_json_object_def split: json.splits)
  have rep: "fr_repository w = b_repository b" using ok by (simp add: fake_ok_def)
  have m: "fake_manifest L rq t (logged rq w) = (r, w')"
    using j rep by (simp add: fake_manifest_def fake_put_manifest_def rq_def r_def w'_def request_content_def Let_def)
  have "servable DEFAULT_RESPONSE_BYTES r" by (simp add: r_def served_simps)
  then have "client_request fcl ''PUT'' (manifest_url fcl t) [(''Content-Type'', OCI_MANIFEST_MEDIA_TYPE)] (Some c) [201] False
      DEFAULT_RESPONSE_BYTES w = (Inr r, w')"
    by (subst manifest_served [OF ok manifest_url_eq(1) [OF t] tag_path [OF t] _ m rq_def]) (simp_all add: r_def lower_eval)
  then have "put_manifest fcl t c w = (Inr \<lparr>d_media_type = OCI_MANIFEST_MEDIA_TYPE, d_digest = sha256_digest c, d_size = length c\<rparr>, w')"
    using doc d by (simp add: put_manifest_def io_simps fake_client_def r_def header_eval media_type_slash)
  moreover have "fake_store b w' = store_put_tag t c (fake_store b w)"
    using store_publish [of b auth "logged rq w" c t] ok nc by (simp add: w'_def)
  moreover have "fake_inv w'"
    using fake_inv_manifest [of "logged rq w" c ps t] ok j by (simp add: w'_def fake_ok_def logged_def)
  ultimately show ?thesis using ok by (auto simp: fake_ok_def w'_def logged_def)
qed

lemma delete_manifest_ok:
  assumes ok: "fake_ok b auth w" and c: "st_tags (fake_store b w) t = Some c"
  shows "\<exists>w'. delete_manifest fcl (sha256_digest c) w = (Inr True, w')
    \<and> fake_store b w' = store_delete (sha256_digest c) (fake_store b w) \<and> fake_ok b auth w'"
proof -
  let ?d = "sha256_digest c"
  define rq where "rq = \<lparr>rq_method = ''DELETE'', rq_url = manifest_url fcl ?d, rq_headers = merge_headers auth [], rq_content = None\<rparr>"
  define w' where "w' = (logged rq w)\<lparr>fr_manifests := AList.delete ?d (fr_manifests w),
     fr_tags := filter (\<lambda>(t, x). x \<noteq> ?d) (fr_tags w)\<rparr>"
  have "map_of (fr_manifests w) ?d = Some c"
    using c manifest_keyed(1) [OF ok] by (auto simp: fake_store_def split: option.splits)
  then have m: "fake_manifest L rq ?d (logged rq w) = (respond 202 [] [], w')"
    by (simp add: fake_manifest_def selected_digest rq_def w'_def Let_def)
  have "servable DEFAULT_RESPONSE_BYTES (respond 202 [] [])" by (simp add: served_simps)
  then have "client_request fcl ''DELETE'' (manifest_url fcl ?d) [] None [202, 404] True DEFAULT_RESPONSE_BYTES w
      = (Inr (respond 202 [] []), w')"
    by (subst manifest_served [OF ok manifest_url_eq(2) digest_path _ m rq_def]) simp_all
  then have "delete_manifest fcl ?d w = (Inr True, w')" by (simp add: delete_manifest_def io_simps)
  moreover have "fake_store b w' = store_delete ?d (fake_store b w)"
    using store_remove [of b auth "logged rq w" ?d] ok by (simp add: w'_def)
  moreover have "fake_inv w'" using fake_inv_delete [of "logged rq w" ?d] ok by (simp add: w'_def fake_ok_def logged_def)
  ultimately show ?thesis using ok by (auto simp: fake_ok_def w'_def logged_def)
qed

subsection \<open>Blobs\<close>

lemma blob_path: "list_all path_char (''/blobs/'' @ sha256_digest v)"
  using path_literals(1) digest_path by (simp only: list_all_append simp_thms)

lemma blob_url_path: "hl_path L (blob_url fcl (sha256_digest v)) = ''/v2/'' @ b_repository b @ ''/blobs/'' @ sha256_digest v"
  using url_path [OF plain_rest [OF blob_path, of v]] by (simp add: blob_url_eq)

lemma blob_served:
  assumes ok: "fake_ok b auth w" and hs: "\<forall>k \<in> fst ` set hs. map to_lower k \<noteq> ''authorization''"
    and rq: "rq = \<lparr>rq_method = method, rq_url = blob_url fcl (sha256_digest v), rq_headers = merge_headers auth hs, rq_content = None\<rparr>"
    and m: "fake_blob L rq (sha256_digest v) (logged rq w) = r" and r: "servable maximum r"
  shows "client_request fcl method (blob_url fcl (sha256_digest v)) hs None expected retry maximum w =
    (if hr_status r \<in> set expected then (Inr r, logged rq w) else (Inl (response_error (hr_status r) (hr_content r)), logged rq w))"
proof (rule served [where q = "[]", OF ok _ blob_url_path blob_path hs _ rq r])
  show "blob_url fcl (sha256_digest v) = b_endpoint b @ ''/v2/'' @ b_repository b @ (''/blobs/'' @ sha256_digest v) @ []"
    by (simp add: blob_url_eq)
  show "fake_route L rq (''/blobs/'' @ sha256_digest v) (logged rq w) = (Inr r, logged rq w)" using m by (simp only: routes)
qed

lemma head_blob_ok:
  assumes ok: "fake_ok b auth w"
  shows "\<exists>w'. head_blob fcl (sha256_digest v) w =
      (Inr (map_option (\<lambda>c. \<lparr>d_media_type = ''application/octet-stream'', d_digest = sha256_digest v, d_size = length c\<rparr>)
              (st_blobs (fake_store b w) (sha256_digest v))), w') \<and> fake_store b w' = fake_store b w \<and> fake_ok b auth w'"
proof -
  define rq where "rq = \<lparr>rq_method = ''HEAD'', rq_url = blob_url fcl (sha256_digest v), rq_headers = merge_headers auth [], rq_content = None\<rparr>"
  define r where "r = (case st_blobs (fake_store b w) (sha256_digest v) of None \<Rightarrow> fake_error L 404 ''BLOB_UNKNOWN''
     | Some c \<Rightarrow> respond 200 [(''Content-Length'', str_nat (length c)), (''Docker-Content-Digest'', sha256_digest v)] [])"
  have m: "fake_blob L rq (sha256_digest v) (logged rq w) = r"
    by (simp add: fake_blob_def rq_def r_def Let_def fake_store_def split: option.split)
  have sv: "servable DEFAULT_RESPONSE_BYTES r" by (simp add: r_def served_simps split: option.split)
  have st: "hr_status r = (if st_blobs (fake_store b w) (sha256_digest v) = None then 404 else 200)"
    by (simp add: r_def split: option.split)
  have "client_request fcl ''HEAD'' (blob_url fcl (sha256_digest v)) [] None [200, 404] True DEFAULT_RESPONSE_BYTES w
      = (Inr r, logged rq w)"
    using blob_served [OF ok _ rq_def m sv, of "[200, 404]" True] by (simp add: st)
  then have "head_blob fcl (sha256_digest v) w =
      (Inr (map_option (\<lambda>c. \<lparr>d_media_type = ''application/octet-stream'', d_digest = sha256_digest v, d_size = length c\<rparr>)
              (st_blobs (fake_store b w) (sha256_digest v))), logged rq w)"
    by (cases "st_blobs (fake_store b w) (sha256_digest v)")
      (simp_all add: head_blob_def io_simps st r_def content_length_def header_eval)
  with ok show ?thesis by auto
qed

lemma get_blob_ok:
  assumes ok: "fake_ok b auth w" and c: "st_blobs (fake_store b w) (sha256_digest v) = Some v" and n: "int (length v) \<le> n"
  shows "\<exists>w'. get_blob_bytes fcl \<lparr>d_media_type = mt, d_digest = sha256_digest v, d_size = length v\<rparr> n w = (Inr v, w')
    \<and> fake_store b w' = fake_store b w \<and> fake_ok b auth w'"
proof -
  define rq where "rq = \<lparr>rq_method = ''GET'', rq_url = blob_url fcl (sha256_digest v), rq_headers = merge_headers auth [], rq_content = None\<rparr>"
  define r where "r = respond 200 [(''Content-Length'', str_nat (length v)), (''Docker-Content-Digest'', sha256_digest v)] v"
  have nr: "header_get (merge_headers auth []) ''Range'' = None" by (simp add: header_eval Let_def split: option.split)
  have m: "fake_blob L rq (sha256_digest v) (logged rq w) = r"
    using c nr by (simp add: fake_blob_def rq_def r_def Let_def fake_store_def)
  have sv: "servable n r" using n by (simp add: r_def served_simps)
  have "client_request fcl ''GET'' (blob_url fcl (sha256_digest v)) [] None [200] True n w = (Inr r, logged rq w)"
    using blob_served [OF ok _ rq_def m sv, of "[200]" True] by (simp add: r_def)
  then have "get_blob_bytes fcl \<lparr>d_media_type = mt, d_digest = sha256_digest v, d_size = length v\<rparr> n w = (Inr v, logged rq w)"
    using n by (simp add: get_blob_bytes_def io_simps r_def Let_def)
  with ok show ?thesis by auto
qed

lemma open_blob_sent:
  assumes ok: "fake_ok b auth w" and hs: "\<forall>k \<in> fst ` set hs. map to_lower k \<noteq> ''authorization''"
    and rq: "rq = \<lparr>rq_method = ''GET'', rq_url = blob_url fcl (sha256_digest v), rq_headers = merge_headers auth hs, rq_content = None\<rparr>"
    and m: "fake_blob L rq (sha256_digest v) (logged rq w) = r"
  shows "\<exists>rs. client_headers fcl (blob_url fcl (sha256_digest v)) hs w = (Inr (rq_headers rq), w)
    \<and> catch_http (he_send (cl_http fcl) rq) w = (Inr (Some rs), logged rq w) \<and> require_safe_response_url fcl rs = Inr ()
    \<and> rs_status rs = hr_status r \<and> rs_headers rs = hr_headers r \<and> concat (rs_chunks rs) = hr_content r \<and> rs_error rs = None"
proof -
  let ?p = "''/v2/'' @ b_repository b @ ''/blobs/'' @ sha256_digest v"
  let ?rs = "\<lparr>rs_status = hr_status r, rs_headers = hr_headers r, rs_url = rq_url rq,
     rs_chunks = (if hr_content r = [] then [] else [hr_content r]), rs_error = None\<rparr>"
  have "client_headers fcl (blob_url fcl (sha256_digest v)) hs w = (Inr (rq_headers rq), w)"
    using headers_ok [of _ ?p] by (simp add: rq blob_url_eq)
  moreover have "he_send (cl_http fcl) rq w = (Inr ?rs, logged rq w)"
  proof (rule sent [OF ok _ blob_path _ hs])
    show "hl_path L (rq_url rq) = ''/v2/'' @ b_repository b @ ''/blobs/'' @ sha256_digest v" using blob_url_path by (simp add: rq)
    show "rq_headers rq = merge_headers auth hs" by (simp add: rq)
    show "fake_route L rq (''/blobs/'' @ sha256_digest v) (logged rq w) = (Inr r, logged rq w)" using m by (simp only: routes)
  qed
  moreover have "require_safe_response_url fcl ?rs = Inr ()"
    by (rule endpoint_url_safe [of _ ?p]) (simp_all add: rq blob_url_eq wf)
  ultimately show ?thesis
    by (intro exI [of _ ?rs]) (auto simp: catch_http_Some)
qed

lemma open_blob_ok:
  assumes ok: "fake_ok b auth w" and c: "st_blobs (fake_store b w) (sha256_digest v) = Some v"
  shows "\<exists>cs w'. open_blob fcl (sha256_digest v) None w = (Inr (cs, None), w') \<and> concat cs = v
    \<and> fake_store b w' = fake_store b w \<and> fake_ok b auth w'"
proof -
  let ?hs = "[(''Accept-Encoding'', ''identity'')]"
  define rq where "rq = \<lparr>rq_method = ''GET'', rq_url = blob_url fcl (sha256_digest v), rq_headers = merge_headers auth ?hs, rq_content = None\<rparr>"
  have nr: "header_get (merge_headers auth ?hs) ''Range'' = None" by (simp add: header_eval Let_def split: option.split)
  have m: "fake_blob L rq (sha256_digest v) (logged rq w) =
      respond 200 [(''Content-Length'', str_nat (length v)), (''Docker-Content-Digest'', sha256_digest v)] v"
    using c nr by (simp add: fake_blob_def rq_def Let_def fake_store_def)
  have "\<forall>k \<in> fst ` set ?hs. map to_lower k \<noteq> ''authorization''" by (simp add: lower_eval)
  from open_blob_sent [OF ok this rq_def m] obtain rs where
    rs: "client_headers fcl (blob_url fcl (sha256_digest v)) ?hs w = (Inr (rq_headers rq), w)"
      "catch_http (he_send (cl_http fcl) rq) w = (Inr (Some rs), logged rq w)" "require_safe_response_url fcl rs = Inr ()"
      "rs_status rs = 200" "rs_headers rs = [(''Content-Length'', str_nat (length v)), (''Docker-Content-Digest'', sha256_digest v)]"
      "concat (rs_chunks rs) = v" "rs_error rs = None" by auto
  then have "open_blob fcl (sha256_digest v) None w = (Inr (rs_chunks rs, None), logged rq w)"
    by (simp add: open_blob_def io_simps header_eval rq_def)
  with ok rs show ?thesis by auto
qed

lemma open_range_ok:
  assumes ok: "fake_ok b auth w" and c: "st_blobs (fake_store b w) (sha256_digest v) = Some v" and ij: "i \<le> j" "j < length v"
  shows "\<exists>cs w'. open_blob fcl (sha256_digest v) (Some (int i, Some (int j))) w = (Inr (cs, None), w')
    \<and> concat cs = take (Suc j - i) (drop i v) \<and> fake_store b w' = fake_store b w \<and> fake_ok b auth w'"
proof -
  let ?hs = "[(''Accept-Encoding'', ''identity''), (''Range'', ''bytes='' @ str_nat i @ ''-'' @ str_nat j)]"
  let ?sel = "take (Suc j - i) (drop i v)"
  let ?rh = "[(''Content-Length'', str_nat (length ?sel)),
     (''Content-Range'', ''bytes '' @ str_nat i @ ''-'' @ str_nat j @ ''/'' @ str_nat (length v)), (''Docker-Content-Digest'', sha256_digest v)]"
  define rq where "rq = \<lparr>rq_method = ''GET'', rq_url = blob_url fcl (sha256_digest v), rq_headers = merge_headers auth ?hs, rq_content = None\<rparr>"
  have nr: "header_get (merge_headers auth ?hs) ''Range'' = Some (''bytes='' @ str_nat i @ ''-'' @ str_nat j)"
    by (simp add: header_eval Let_def split: option.split)
  have "fake_blob L rq (sha256_digest v) (logged rq w) = (case range_values (''bytes='' @ str_nat i @ ''-'' @ str_nat j) of
      None \<Rightarrow> fake_error L 416 ''RANGE_INVALID''
    | Some (a, b) \<Rightarrow> if a < 0 \<or> b < a \<or> int (length v) \<le> b then fake_error L 416 ''RANGE_INVALID''
        else let sel = take (nat b + 1 - nat a) (drop (nat a) v)
             in respond 206 [(''Content-Length'', str_nat (length sel)),
                  (''Content-Range'', ''bytes '' @ str_int a @ ''-'' @ str_int b @ ''/'' @ str_nat (length v)),
                  (''Docker-Content-Digest'', sha256_digest v)] sel)"
    using c nr by (simp add: fake_blob_def rq_def Let_def fake_store_def)
  then have m: "fake_blob L rq (sha256_digest v) (logged rq w) = respond 206 ?rh ?sel"
    unfolding range_values_bytes using ij by (simp add: Let_def)
  have "\<forall>k \<in> fst ` set ?hs. map to_lower k \<noteq> ''authorization''" by (simp add: lower_eval)
  from open_blob_sent [OF ok this rq_def m] obtain rs where
    rs: "client_headers fcl (blob_url fcl (sha256_digest v)) ?hs w = (Inr (rq_headers rq), w)"
      "catch_http (he_send (cl_http fcl) rq) w = (Inr (Some rs), logged rq w)" "require_safe_response_url fcl rs = Inr ()"
      "rs_status rs = 206" "rs_headers rs = ?rh" "concat (rs_chunks rs) = ?sel" "rs_error rs = None" by auto
  then have "open_blob fcl (sha256_digest v) (Some (int i, Some (int j))) w = (Inr (rs_chunks rs, None), logged rq w)"
    by (simp add: open_blob_def io_simps header_eval rq_def)
  with ok rs show ?thesis by auto
qed

subsection \<open>Uploads\<close>

lemma upload_id_path:
  assumes "u = ''upload-'' @ str_nat k"
  shows "list_all path_char (''/blobs/uploads/'' @ u)" "CHR ''/'' \<notin> set u" "u \<noteq> ''.''" "u \<noteq> ''..''" "u \<noteq> []"
proof -
  have s: "list_all always_safe (str_nat k)" by (rule str_nat_chars)
  then have "list_all path_char (str_nat k)" by (auto simp: list_all_iff path_char_def)
  then show "list_all path_char (''/blobs/uploads/'' @ u)" using path_literals(4) by (simp add: assms)
  show "CHR ''/'' \<notin> set u" using s by (auto simp: assms list_all_iff always_safe_def is_alpha_def is_digit_def)
qed (simp_all add: assms)

lemma upload_location_ok:
  assumes u: "u = ''upload-'' @ str_nat k"
    and l: "header_get (hr_headers r) ''Location'' = Some (''/v2/'' @ b_repository b @ ''/blobs/uploads/'' @ u)"
  shows "client_location fcl r = Inr (uploads_base b @ u)"
proof -
  let ?p = "''/v2/'' @ b_repository b @ ''/blobs/uploads/'' @ u"
  have r: "''.'' \<notin> set (split_char (CHR ''/'') (b_repository b))" "''..'' \<notin> set (split_char (CHR ''/'') (b_repository b))"
    using repository_chars [of "b_repository b"] wf by (simp_all add: binding_wf_def)
  have "split_char (CHR ''/'') ?p = [[], ''v2''] @ split_char (CHR ''/'') (b_repository b) @ [''blobs'', ''uploads'', u]"
    using split_char_append [of "CHR ''/''" "b_repository b" "''blobs/uploads/'' @ u"] split_char_none [OF upload_id_path(2) [OF u]]
    by simp
  with r upload_id_path [OF u] have "''.'' \<notin> set (split_char (CHR ''/'') ?p)" "''..'' \<notin> set (split_char (CHR ''/'') ?p)" by auto
  from endpoint_location [of fcl ?p r, OF _ _ _ this] plain_rest [OF upload_id_path(1) [OF u]] wf l show ?thesis
    by (simp add: uploads_base_def)
qed

lemma store_counter: "fake_store b (s\<lparr>fr_upload_counter := k\<rparr>) = fake_store b s"
  by (auto simp: fake_store_def fun_eq_iff split: option.split)

lemma store_upload:
  "fake_store b (s\<lparr>fr_uploads := AList.update u c (fr_uploads s)\<rparr>) = store_session (uploads_base b @ u) (Some c) (fake_store b s)"
  "fake_store b (s\<lparr>fr_uploads := AList.delete u (fr_uploads s)\<rparr>) = store_session (uploads_base b @ u) None (fake_store b s)"
  by (auto simp: fake_store_def store_session_def update_conv' delete_conv' fun_eq_iff prefix_def split: option.split)

lemma upload_id:
  assumes ok: "fake_ok b auth w" and c: "st_uploads (fake_store b w) x = Some c"
  obtains u k where "x = uploads_base b @ u" "map_of (fr_uploads w) u = Some c" "u = ''upload-'' @ str_nat k" "k \<le> fr_upload_counter w"
proof -
  obtain u where u: "x = uploads_base b @ u" "map_of (fr_uploads w) u = Some c"
    using c by (auto simp: fake_store_def prefix_def split: if_splits)
  then have "u \<in> fst ` set (fr_uploads w)" by (force dest: map_of_SomeD)
  with ok u that show ?thesis by (auto simp: fake_ok_def)
qed

lemma start_upload_ok:
  assumes ok: "fake_ok b auth w"
  shows "\<exists>u w'. start_upload fcl w = (Inr u, w') \<and> st_uploads (fake_store b w) (ul_url u) = None
    \<and> fake_store b w' = store_session (ul_url u) (Some []) (fake_store b w) \<and> fake_ok b auth w'"
proof -
  let ?url = "client_url fcl (''/v2/'' @ client_repository fcl @ ''/blobs/uploads/'')"
  define rq where "rq = \<lparr>rq_method = ''POST'', rq_url = ?url, rq_headers = merge_headers auth [(''Content-Length'', ''0'')], rq_content = None\<rparr>"
  define k where "k = Suc (fr_upload_counter w)"
  define u where "u = ''upload-'' @ str_nat k"
  define r where "r = respond 202 [(''Location'', ''/v2/'' @ b_repository b @ ''/blobs/uploads/'' @ u), (''Docker-Upload-UUID'', u)] []"
  define w' where "w' = (logged rq w)\<lparr>fr_upload_counter := k, fr_uploads := AList.update u [] (fr_uploads w)\<rparr>"
  have url: "?url = b_endpoint b @ ''/v2/'' @ b_repository b @ ''/blobs/uploads/'' @ []"
    by (simp add: client_url_def repository_quoted)
  have rep: "fr_repository w = b_repository b" using ok by (simp add: fake_ok_def)
  have route: "fake_route L rq ''/blobs/uploads/'' (logged rq w) = (Inr r, w')"
    using routes(3) [of rq L "logged rq w"] rep by (simp add: rq_def fake_start_upload_def r_def u_def k_def w'_def Let_def)
  have p: "hl_path L ?url = ''/v2/'' @ b_repository b @ ''/blobs/uploads/''"
    using url_path [OF plain_rest [OF path_literals(3)]] by (simp add: client_url_def repository_quoted)
  have sv: "servable DEFAULT_RESPONSE_BYTES r" by (simp add: r_def served_simps)
  have "client_request fcl ''POST'' ?url [(''Content-Length'', ''0'')] None [202] False DEFAULT_RESPONSE_BYTES w = (Inr r, w')"
    by (subst served [OF ok url p path_literals(3) _ route rq_def sv]) (simp_all add: lower_eval r_def)
  moreover have "client_location fcl r = Inr (uploads_base b @ u)"
    by (rule upload_location_ok [OF u_def]) (simp add: r_def header_eval)
  ultimately obtain x where x: "start_upload fcl w = (Inr x, w')" "ul_url x = uploads_base b @ u"
    by (simp add: start_upload_def io_simps)
  have "u \<notin> fst ` set (fr_uploads w)"
    using ok str_nat_inj by (force simp: fake_ok_def u_def k_def)
  then have "st_uploads (fake_store b w) (uploads_base b @ u) = None" by (simp add: fake_store_def map_of_eq_None_iff)
  moreover have "fake_store b w' = store_session (uploads_base b @ u) (Some []) (fake_store b w)"
    using store_upload(1) [where s = "(logged rq w)\<lparr>fr_upload_counter := k\<rparr>" and u = u and c = "[]"]
    by (simp add: w'_def store_counter)
  moreover have "fake_ok b auth w'"
    using ok_upload(1) [OF ok_counter [of b auth "logged rq w" k], of u k "[]"] ok by (simp add: w'_def u_def k_def)
  ultimately show ?thesis using x by auto
qed

lemma upload_url_path:
  assumes "u = ''upload-'' @ str_nat k"
  shows "hl_path L (uploads_base b @ u) = ''/v2/'' @ b_repository b @ ''/blobs/uploads/'' @ u"
  using url_path [OF plain_rest [OF upload_id_path(1) [OF assms]]] by (simp add: uploads_base_def)

lemma patch_upload_ok:
  assumes ok: "fake_ok b auth w" and c: "st_uploads (fake_store b w) (ul_url x) = Some c" and o: "ul_offset x = length c" and ne: "chunk \<noteq> []"
  shows "\<exists>x' w'. patch_upload fcl x chunk w = (Inr x', w') \<and> ul_url x' = ul_url x
    \<and> fake_store b w' = store_session (ul_url x) (Some (c @ chunk)) (fake_store b w) \<and> fake_ok b auth w'"
proof -
  obtain u k where url: "ul_url x = uploads_base b @ u" and m: "map_of (fr_uploads w) u = Some c"
    and u: "u = ''upload-'' @ str_nat k" "k \<le> fr_upload_counter w" using upload_id [OF ok c] .
  define e where "e = length c + length chunk - 1"
  have len: "length chunk \<ge> 1" using ne by (cases chunk) auto
  then have e: "int (length c) + int (length chunk) - 1 = int e" by (simp add: e_def)
  let ?hs = "[(''Content-Type'', ''application/octet-stream''), (''Content-Length'', str_nat (length chunk)),
     (''Content-Range'', str_nat (length c) @ ''-'' @ str_nat e)]"
  define rq where "rq = \<lparr>rq_method = ''PATCH'', rq_url = ul_url x, rq_headers = merge_headers auth ?hs, rq_content = Some chunk\<rparr>"
  define r where "r = respond 202 [(''Location'', ''/v2/'' @ b_repository b @ ''/blobs/uploads/'' @ u), (''Docker-Upload-UUID'', u),
     (''Range'', ''0-'' @ str_nat e)] []"
  define w' where "w' = (logged rq w)\<lparr>fr_uploads := AList.update u (c @ chunk) (fr_uploads w)\<rparr>"
  have rep: "fr_repository w = b_repository b" using ok by (simp add: fake_ok_def)
  have cr: "header_get (merge_headers auth ?hs) ''Content-Range'' = Some (str_nat (length c) @ ''-'' @ str_nat e)"
    by (simp add: header_eval Let_def split: option.split)
  have "fake_upload L rq u (logged rq w) = (r, w')"
    using m rep cr e by (simp add: fake_upload_def rq_def r_def w'_def request_content_def Let_def)
  then have route: "fake_route L rq (''/blobs/uploads/'' @ u) (logged rq w) = (Inr r, w')"
    using routes(4) [of rq L u "logged rq w"] by (simp add: rq_def)
  have url': "ul_url x = b_endpoint b @ ''/v2/'' @ b_repository b @ (''/blobs/uploads/'' @ u) @ []" by (simp add: url uploads_base_def)
  have p: "hl_path L (ul_url x) = ''/v2/'' @ b_repository b @ ''/blobs/uploads/'' @ u" using upload_url_path [OF u(1)] by (simp add: url)
  have sv: "servable DEFAULT_RESPONSE_BYTES r" by (simp add: r_def served_simps)
  have "client_request fcl ''PATCH'' (ul_url x) ?hs (Some chunk) [202] False DEFAULT_RESPONSE_BYTES w = (Inr r, w')"
    by (subst served [OF ok url' p upload_id_path(1) [OF u(1)] _ route rq_def sv]) (simp_all add: lower_eval r_def)
  moreover have "client_location fcl r = Inr (ul_url x)"
    unfolding url by (rule upload_location_ok [OF u(1)]) (simp add: r_def header_eval)
  moreover have "header_get (hr_headers r) ''Range'' = Some (''0-'' @ str_nat e)" by (simp add: r_def header_eval)
  ultimately obtain x' where "patch_upload fcl x chunk w = (Inr x', w')" "ul_url x' = ul_url x"
    using ne o by (simp add: patch_upload_def io_simps Let_def e_def)
  moreover have "fake_store b w' = store_session (ul_url x) (Some (c @ chunk)) (fake_store b w)"
    using store_upload(1) [where s = "logged rq w" and u = u and c = "c @ chunk"] by (simp add: w'_def url)
  moreover have "fake_ok b auth w'" using ok_upload(1) [of b auth "logged rq w" u k] ok u by (simp add: w'_def)
  ultimately show ?thesis by blast
qed

text \<open>Closing an upload with a final piece of content, empty or the whole blob.\<close>

lemma put_upload_ok:
  assumes ok: "fake_ok b auth w" and c: "st_uploads (fake_store b w) x = Some c" and v: "v = c @ body"
    and hs: "\<forall>k \<in> fst ` set hs. map to_lower k \<noteq> ''authorization''"
  shows "\<exists>url r w'. hl_merge L x [(''digest'', sha256_digest v)] = Inr url
    \<and> client_request fcl ''PUT'' url hs (Some body) [201] False DEFAULT_RESPONSE_BYTES w = (Inr r, w')
    \<and> header_get (hr_headers r) ''Docker-Content-Digest'' = Some (sha256_digest v)
    \<and> fake_store b w' = store_session x None (store_put_blob v (fake_store b w)) \<and> fake_ok b auth w'"
proof -
  obtain u k where x: "x = uploads_base b @ u" and m: "map_of (fr_uploads w) u = Some c"
    and u: "u = ''upload-'' @ str_nat k" "k \<le> fr_upload_counter w" using upload_id [OF ok c] .
  have "\<exists>q. hl_merge L x [(''digest'', sha256_digest v)] = Inr (x @ ''?'' @ q)
      \<and> hl_path L (x @ ''?'' @ q) = ''/v2/'' @ b_repository b @ ''/blobs/uploads/'' @ u
      \<and> (\<forall>k. hl_param L (x @ ''?'' @ q) k = map_of [(''digest'', sha256_digest v)] k)"
    using url_merge [OF plain_rest [OF upload_id_path(1) [OF u(1)]], of "[(''digest'', sha256_digest v)]"] digest_path path_literals(5)
    by (simp add: x uploads_base_def)
  then obtain q where q: "hl_merge L x [(''digest'', sha256_digest v)] = Inr (x @ ''?'' @ q)"
      "hl_path L (x @ ''?'' @ q) = ''/v2/'' @ b_repository b @ ''/blobs/uploads/'' @ u"
      "hl_param L (x @ ''?'' @ q) ''digest'' = Some (sha256_digest v)" by auto
  define rq where "rq = \<lparr>rq_method = ''PUT'', rq_url = x @ ''?'' @ q, rq_headers = merge_headers auth hs, rq_content = Some body\<rparr>"
  define r where "r = respond 201 [(''Location'', ''/v2/'' @ b_repository b @ ''/blobs/'' @ sha256_digest v),
     (''Docker-Content-Digest'', sha256_digest v)] []"
  define w' where "w' = (logged rq w)\<lparr>fr_blobs := AList.update (sha256_digest v) v (fr_blobs w),
     fr_uploads := AList.delete u (AList.update u v (fr_uploads w))\<rparr>"
  have rep: "fr_repository w = b_repository b" using ok by (simp add: fake_ok_def)
  have "fake_upload L rq u (logged rq w) = (r, w')"
    using m rep q(3) v by (simp add: fake_upload_def rq_def r_def w'_def request_content_def Let_def)
  then have route: "fake_route L rq (''/blobs/uploads/'' @ u) (logged rq w) = (Inr r, w')"
    using routes(4) [of rq L u "logged rq w"] by (simp add: rq_def)
  have url: "x @ ''?'' @ q = b_endpoint b @ ''/v2/'' @ b_repository b @ (''/blobs/uploads/'' @ u) @ ''?'' @ q"
    by (simp add: x uploads_base_def)
  have sv: "servable DEFAULT_RESPONSE_BYTES r" by (simp add: r_def served_simps)
  have "client_request fcl ''PUT'' (x @ ''?'' @ q) hs (Some body) [201] False DEFAULT_RESPONSE_BYTES w = (Inr r, w')"
    by (subst served [OF ok url q(2) upload_id_path(1) [OF u(1)] hs route rq_def sv]) (simp add: r_def)
  moreover have "fake_store b w' = store_session x None (store_put_blob v (fake_store b w))"
    by (auto simp: w'_def x fake_store_def store_session_def store_put_blob_def update_conv' delete_conv' fun_eq_iff prefix_def
        split: option.split)
  moreover have "fake_ok b auth w'"
    using ok_upload(2) [OF ok_upload(1) [OF ok_blob [of b auth "logged rq w" v] u(1), of v], of u] ok u(2) by (simp add: w'_def)
  ultimately show ?thesis using q(1) by (auto simp: r_def header_eval)
qed

lemma finish_upload_ok:
  assumes ok: "fake_ok b auth w" and c: "st_uploads (fake_store b w) (ul_url x) = Some c"
  shows "\<exists>d w'. finish_upload fcl x (sha256_digest c) w = (Inr d, w')
    \<and> fake_store b w' = store_session (ul_url x) None (store_put_blob c (fake_store b w)) \<and> fake_ok b auth w'"
proof -
  have "\<forall>k \<in> fst ` set [(''Content-Type'', ''application/octet-stream''), (''Content-Length'', ''0'')].
      map to_lower k \<noteq> ''authorization''" by (simp add: lower_eval)
  from put_upload_ok [OF ok c _ this, of c "[]"] show ?thesis
    by (auto simp: finish_upload_def io_simps fake_client_def fake_env_def header_or_def)
qed

lemma upload_blob_ok:
  assumes ok: "fake_ok b auth w" and nc: "no_collision (fake_store b w) v" and mt: "CHR ''/'' \<in> set mt"
  shows "\<exists>w'. upload_blob_bytes fcl v mt w = (Inr \<lparr>d_media_type = mt, d_digest = sha256_digest v, d_size = length v\<rparr>, w')
    \<and> st_blobs (fake_store b w') = (st_blobs (fake_store b w))(sha256_digest v \<mapsto> v)
    \<and> st_tags (fake_store b w') = st_tags (fake_store b w) \<and> fake_ok b auth w'"
proof -
  obtain w1 where h: "head_blob fcl (sha256_digest v) w =
      (Inr (map_option (\<lambda>c. \<lparr>d_media_type = ''application/octet-stream'', d_digest = sha256_digest v, d_size = length c\<rparr>)
              (st_blobs (fake_store b w) (sha256_digest v))), w1)" and s1: "fake_store b w1 = fake_store b w" and o1: "fake_ok b auth w1"
    using head_blob_ok [OF ok] by blast
  show ?thesis
  proof (cases "st_blobs (fake_store b w) (sha256_digest v)")
    case None
    obtain x w2 where st: "start_upload fcl w1 = (Inr x, w2)" and s2: "fake_store b w2 = store_session (ul_url x) (Some []) (fake_store b w)"
      and o2: "fake_ok b auth w2" using start_upload_ok [OF o1] s1 by auto
    have "\<forall>k \<in> fst ` set [(''Content-Type'', ''application/octet-stream'')]. map to_lower k \<noteq> ''authorization''"
      by (simp add: lower_eval)
    from put_upload_ok [OF o2 _ _ this, of "ul_url x" "[]" v v] s2 obtain url r w3 where
      "hl_merge L (ul_url x) [(''digest'', sha256_digest v)] = Inr url"
      "client_request fcl ''PUT'' url [(''Content-Type'', ''application/octet-stream'')] (Some v) [201] False DEFAULT_RESPONSE_BYTES w2 = (Inr r, w3)"
      "header_get (hr_headers r) ''Docker-Content-Digest'' = Some (sha256_digest v)"
      "fake_store b w3 = store_session (ul_url x) None (store_put_blob v (fake_store b w2))" "fake_ok b auth w3" by auto
    with h st None mt s2 show ?thesis
      by (auto simp: upload_blob_bytes_def put_whole_blob_def io_simps fake_client_def fake_env_def header_or_def)
  next
    case (Some c)
    with nc have "c = v" by (simp add: no_collision_def)
    with h Some mt s1 o1 show ?thesis by (auto simp: upload_blob_bytes_def io_simps fun_upd_idem)
  qed
qed

lemma blob_keyed: "fake_ok b auth w \<Longrightarrow> st_blobs (fake_store b w) d = Some v \<Longrightarrow> d = sha256_digest v"
  by (auto simp: fake_ok_def fake_inv_def fake_store_def dest: map_of_SomeD)

end

text \<open>The client over the registry implements the store, and its requests can be counted.\<close>

sublocale fake_setup \<subseteq> store: registry_store "http_transport (fake_client L b attempts)" "fake_ok b auth" "fake_store b" "b_max_manifest_bytes b"
  by unfold_locales
    (simp_all add: http_transport_def manifest_exists_ok [simplified] get_manifest_ok get_manifest_missing put_manifest_ok delete_manifest_ok
      upload_blob_ok get_blob_ok head_blob_ok open_blob_ok open_range_ok start_upload_ok patch_upload_ok finish_upload_ok blob_keyed)

context fake_setup
begin

lemmas store_facts = store.put_establishes store.stat_stored_version store.open_stored_version store.delete_stored_version
  store.deleted_version_missing store.stored_version_resolves

end

lemma fake_handle_counts: "fake_handle L rq s = (r, s') \<Longrightarrow> length (fr_requests s') = Suc (length (fr_requests s))"
  by (auto simp: fake_handle_def fake_start_upload_def fake_upload_def fake_manifest_def fake_put_manifest_def Let_def
      split: if_splits option.splits sum.splits json.splits)

sublocale fake_setup \<subseteq> meter: metered_http "fake_client L b attempts" "\<lambda>s. length (fr_requests s)"
  by unfold_locales
    (auto simp: costs_def fake_client_def fake_env_def credentials fake_handle_counts ret_def bnd_def split: prod.splits sum.splits)

end
