(* ===== verification/Example_Registry.thy ===== *)
theory Example_Registry
  imports Registry_Laws Example_Common
begin

text \<open>
  A concrete instance of the parameters: a small \<open>http_lib\<close> that keeps the laws of \<open>httpx_urls\<close>
  for the example binding, so that the test registry with the example binding is a working registry.
\<close>

section \<open>A query-string codec\<close>

definition query_pair :: "string \<Rightarrow> string \<times> string" where
  "query_pair s = (before (CHR ''='') s, after (CHR ''='') s)"

definition example_lib :: http_lib where
  "example_lib =
     \<lparr>hl_path = (\<lambda>u. before (CHR ''?'') (dropWhile (\<lambda>c. c \<noteq> CHR ''/'') (drop (length ''https://'') u))),
      hl_param = (\<lambda>u k. map_of (map query_pair (split_char (CHR ''&'') (after (CHR ''?'') u))) k),
      hl_merge = (\<lambda>u ps. Inr (u @ ''?'' @ join ''&'' (map (\<lambda>(k, v). k @ ''='' @ v) ps))),
      hl_json = write_json, hl_rebuild = (\<lambda>hs c. Inr c)\<rparr>"

lemma split_join:
  assumes "xs \<noteq> []" "\<forall>x \<in> set xs. c \<notin> set x"
  shows "split_char c (join [c] xs) = xs"
  using assms
proof (induction "[c]" xs rule: join.induct)
  case (3 x y ys)
  then show ?case using split_char_append [of c x "join [c] (y # ys)"] by (simp add: split_char_none)
qed (simp_all add: split_char_none)

lemma path_char_query: "path_char c \<Longrightarrow> c \<noteq> CHR ''&'' \<and> c \<noteq> CHR ''='' \<and> c \<noteq> CHR ''?''"
  by (auto simp: path_char_def always_safe_def is_alpha_def is_digit_def)

lemma query_roundtrip:
  assumes "ps \<noteq> []" "list_all (\<lambda>(k, v). list_all path_char k \<and> list_all path_char v) ps"
  shows "map query_pair (split_char (CHR ''&'') (join ''&'' (map (\<lambda>(k, v). k @ ''='' @ v) ps))) = ps"
proof -
  have p: "CHR ''&'' \<notin> set (k @ ''='' @ v) \<and> query_pair (k @ ''='' @ v) = (k, v)" if "(k, v) \<in> set ps" for k v
  proof -
    have "list_all path_char k" "list_all path_char v" using assms(2) that by (auto simp: list_all_iff)
    then have "CHR ''='' \<notin> set k" "CHR ''&'' \<notin> set k" "CHR ''&'' \<notin> set v" using path_char_query by (auto simp: list_all_iff)
    then show ?thesis using before_append [of "CHR ''=''" k v] after_append [of "CHR ''=''" k v] by (simp add: query_pair_def)
  qed
  have "split_char (CHR ''&'') (join ''&'' (map (\<lambda>(k, v). k @ ''='' @ v) ps)) = map (\<lambda>(k, v). k @ ''='' @ v) ps"
    using assms(1) p by (intro split_join) auto
  moreover have "map query_pair (map (\<lambda>(k, v). k @ ''='' @ v) ps) = ps"
    using p by (auto intro!: map_idI simp: comp_def split: prod.splits)
  ultimately show ?thesis by simp
qed

section \<open>JSON bodies\<close>

lemma loads_write_object:
  assumes "fs \<noteq> []" "json_wf (JObj fs)"
  shows "json_loads (write_json (JObj fs)) = Inr (JObj fs)"
proof -
  obtain t where t: "write_json (JObj fs) = CHR ''{'' # CHR 0x22 # t"
  proof -
    obtain k v rest where "fs = (k, v) # rest" using assms(1) by (cases fs) auto
    then show ?thesis by (cases rest) (auto simp: quote_str_def intro!: that)
  qed
  have "oct (CHR 0x22) \<noteq> 0" by code_simp
  from decode_utf8_object [OF utf8_ok_write [OF assms(2)] t this] loads_text_write [OF assms(2)] show ?thesis
    by (simp add: json_loads_def del: write_json.simps)
qed

lemma quote_str_length: "length (quote_str s) \<le> 6 * length s + 2"
proof -
  have "length (escape_char c) \<le> 6" for c by (simp add: escape_char_def u_escape_def hex4_def)
  then have "length (concat (map escape_char s)) \<le> 6 * length s"
    by (induction s) (auto intro: order_trans [OF add_mono])
  then show ?thesis by (simp add: quote_str_def)
qed

lemma error_json_length: "length code \<le> 64 \<Longrightarrow> length (write_json (error_json code)) \<le> 1024"
  using quote_str_length [of code] quote_str_length [of "''errors''"] quote_str_length [of "''code''"] quote_str_length [of "''message''"]
  by (simp add: error_json_def)

section \<open>The instance\<close>

lemma example_path:
  assumes "plain_path p"
  shows "before (CHR ''?'') (dropWhile (\<lambda>c. c \<noteq> CHR ''/'') (drop (length ''https://'') (''https://registry.example:5000'' @ p))) = p"
    "before (CHR ''?'') (dropWhile (\<lambda>c. c \<noteq> CHR ''/'') (drop (length ''https://'') (''https://registry.example:5000'' @ p @ ''?'' @ q))) = p"
    "after (CHR ''?'') (''https://registry.example:5000'' @ p @ ''?'' @ q) = q"
proof -
  have l: "list_all path_char p" and "\<exists>t. p = CHR ''/'' # t" using assms by (auto simp: plain_path_def prefix_def)
  then have "dropWhile (\<lambda>c. c \<noteq> CHR ''/'') (''registry.example:5000'' @ p @ r) = p @ r" for r by auto
  from this [of "[]"] this [of "''?'' @ q"] plain_path_cut(1) [OF l] before_append [OF plain_path_query(1) [OF l], of q]
    after_append [of "CHR ''?''" "''https://registry.example:5000'' @ p" q] plain_path_query(1) [OF l]
  show "before (CHR ''?'') (dropWhile (\<lambda>c. c \<noteq> CHR ''/'') (drop (length ''https://'') (''https://registry.example:5000'' @ p))) = p"
    "before (CHR ''?'') (dropWhile (\<lambda>c. c \<noteq> CHR ''/'') (drop (length ''https://'') (''https://registry.example:5000'' @ p @ ''?'' @ q))) = p"
    "after (CHR ''?'') (''https://registry.example:5000'' @ p @ ''?'' @ q) = q"
    by simp_all
qed

definition registry_binding :: "fake_registry binding" where
  "registry_binding = example_binding"

interpretation example: fake_setup example_lib registry_binding "Some ''Bearer token''" 3
proof
  fix p and ps :: "(string \<times> string) list"
  assume p: "plain_path p"
  show "hl_path example_lib (b_endpoint registry_binding @ p) = p"
    using example_path(1) [OF p] by (simp add: example_lib_def registry_binding_def example_binding_def)
  assume ps: "ps \<noteq> []" "list_all (\<lambda>(k, v). list_all path_char k \<and> list_all path_char v) ps"
  let ?q = "join ''&'' (map (\<lambda>(k, v). k @ ''='' @ v) ps)"
  have "hl_merge example_lib (b_endpoint registry_binding @ p) ps = Inr (b_endpoint registry_binding @ p @ ''?'' @ ?q)"
    by (simp add: example_lib_def)
  moreover have "hl_path example_lib (b_endpoint registry_binding @ p @ ''?'' @ ?q) = p"
    using example_path(2) [OF p] by (simp add: example_lib_def registry_binding_def example_binding_def)
  moreover have "hl_param example_lib (b_endpoint registry_binding @ p @ ''?'' @ ?q) k = map_of ps k" for k
    using example_path(3) [OF p, of ?q] query_roundtrip [OF ps] by (simp add: example_lib_def registry_binding_def example_binding_def)
  ultimately show "\<exists>q. hl_merge example_lib (b_endpoint registry_binding @ p) ps = Inr (b_endpoint registry_binding @ p @ ''?'' @ q)
      \<and> hl_path example_lib (b_endpoint registry_binding @ p @ ''?'' @ q) = p
      \<and> (\<forall>k. hl_param example_lib (b_endpoint registry_binding @ p @ ''?'' @ q) k = map_of ps k)" by blast
next
  show "binding_wf registry_binding" using constructed_binding_wf [OF example_mk_binding] by (simp add: registry_binding_def)
  show "authorization_header (b_credentials registry_binding) = ret (Some ''Bearer token'')" by (simp add: registry_binding_def example_binding_def)
qed (simp_all add: example_lib_def loads_write_object error_json_length del: write_json.simps)

end
