(* ===== verification/Example_Put.thy ===== *)
theory Example_Put
  imports Example_Registry
begin

text \<open>
  A concrete put over the test registry: the example adapter, a request that stores five octets as a new
  object, and the proof that an empty registry is ready for it. The sizes of the documents are bounded
  without computing any digest.
\<close>

section \<open>Bounding the size of a document\<close>

primrec json_weight :: "json \<Rightarrow> nat" where
  "json_weight JNull = 4"
| "json_weight (JBool b) = 5"
| "json_weight (JInt i) = length (str_int i)"
| "json_weight (JFloat s) = length s"
| "json_weight (JStr s) = 6 * length s + 2"
| "json_weight (JArr xs) = 2 + sum_list (map Suc (map json_weight xs))"
| "json_weight (JObj ps) = 2 + sum_list (map (\<lambda>(k, n). 6 * length k + 4 + n) (map (map_prod id json_weight) ps))"

lemma length_join_le: "length (join [c] xs) \<le> sum_list (map (\<lambda>x. Suc (length x)) xs)"
  by (induction "[c]" xs rule: join.induct) auto

lemma length_write: "length (write_json v) \<le> json_weight v"
proof (induction v)
  case (JArr xs)
  have "sum_list (map (\<lambda>x. Suc (length x)) (map write_json xs)) \<le> sum_list (map Suc (map json_weight xs))"
    using JArr by (auto simp: comp_def intro!: sum_list_mono)
  with length_join_le [of "CHR '',''" "map write_json xs"] show ?case by (simp add: comp_def)
next
  case (JObj ps)
  have "Suc (length (quote_str k @ '':'' @ write_json v)) \<le> 6 * length k + 4 + json_weight v" if "(k, v) \<in> set ps" for k v
    using JObj that quote_str_length [of k] by (force simp: snds.simps)
  then have "sum_list (map (\<lambda>x. Suc (length x)) (map (\<lambda>(k, t). quote_str k @ '':'' @ t) (map (map_prod id write_json) ps)))
      \<le> sum_list (map (\<lambda>(k, n). 6 * length k + 4 + n) (map (map_prod id json_weight) ps))"
    by (fastforce simp: comp_def intro!: sum_list_mono)
  with length_join_le [of "CHR '',''" "map (\<lambda>(k, t). quote_str k @ '':'' @ t) (map (map_prod id write_json) ps)"] show ?case by simp
qed (use quote_str_length in auto)

lemma sum_list_sort_key: "sum_list (map f (sort_key g xs)) = (sum_list (map f xs) :: nat)"
  by (metis mset_map mset_sort sum_mset_sum_list)

lemma weight_sort: "json_weight (sort_json v) = json_weight v"
proof (induction v)
  case (JArr xs)
  then show ?case by (simp add: comp_def cong: map_cong)
next
  case (JObj ps)
  have "map (\<lambda>(k, n). 6 * length k + 4 + n) (map (map_prod id json_weight) (map (map_prod id sort_json) ps))
      = map (\<lambda>(k, n). 6 * length k + 4 + n) (map (map_prod id json_weight) ps)"
    using JObj by (force simp: snds.simps)
  then show ?case by (simp only: sort_json.simps json_weight.simps map_map sum_list_sort_key comp_assoc)
qed simp_all

lemma length_canonical: "length (canonical_json ps) \<le> json_weight (JObj ps)"
  using length_write [of "sort_json (JObj ps)"] weight_sort [of "JObj ps"]
  by (simp add: canonical_json_def dumps_sorted_def del: sort_json.simps json_weight.simps write_json.simps)

section \<open>The example adapter and its put\<close>

definition example_transport :: "fake_registry transport" where
  "example_transport = http_transport (fake_client example_lib registry_binding 3)"

definition example_adapter :: "int \<Rightarrow> fake_registry adapter" where
  "example_adapter now =
     \<lparr>ap_binding = registry_binding, ap_transport = example_transport, ap_clock = ret (AwareTime now), ap_common = example_common,
      ap_manifest = configured_capability_manifest registry_binding,
      ap_cursor = \<lparr>codec_key = ''0123456789abcdef''\<rparr>\<rparr>"

definition example_input :: operation_input where
  "example_input =
     \<lparr>in_object_id = ''o'', in_payload = JObj [], in_create_only = True, in_immutability = JNull, in_retention = JObj [(''retainUntil'', JInt 7)],
      in_provenance = JObj [], in_media_type = JStr ''text/plain'', in_creation_context = JNull, in_user_metadata = JNull,
      in_expected_digest = None, in_expected_length = None, in_reference = JObj [(''objectId'', JStr ''o''), (''namespace'', JStr ''ns''), (''name'', JStr ''media'')],
      in_range = JNull, in_prefix = [], in_limit = 10, in_cursor = None\<rparr>"

definition example_operation :: "string \<Rightarrow> operation_input \<Rightarrow> operation" where
  "example_operation contract v =
     \<lparr>op_catalog = ''object'', op_contract = contract, op_version = ''1.0.0'', op_resources = [b_resource registry_binding],
      op_requirements = JNull, op_input = v\<rparr>"

definition example_payloads :: "fake_registry payload_registry" where
  "example_payloads = \<lparr>pr_open = (\<lambda>p n. ret ([''hello''], None)), 
      pr_register = (\<lambda>m n d. ret \<lparr>pl_handle = ''h'', pl_replayable = True, pl_expected_digest = d, pl_expected_length = Some n\<rparr>)\<rparr>"

definition example_envelope :: "int \<Rightarrow> stored_object" where
  "example_envelope now =
     \<lparr>so_metadata =
        \<lparr>om_ref = \<lparr>or_resource = \<lparr>sem_catalog = CATALOG_OBJECT, sem_namespace = ''ns'', sem_name = ''media''\<rparr>, or_object_id = ''o'', or_digest = Some (sha256_digest ''hello'')\<rparr>,
         om_digest = sha256_digest ''hello'', om_byte_length = 5, om_media_type = ''text/plain'', om_created_at = ''T'' @ str_int now,
         om_creation_context = JNull, om_user_metadata = JNull, om_mutability = ''immutable'',
         om_provenance = sort_fields [(''meridianAdapter'', JObj (adapter_provenance (example_adapter now)))]\<rparr>,
      so_immutability = \<lparr>im_mutability = ''immutable'', im_publish_once = False\<rparr>, so_retention = Some \<lparr>rt_retain_until = Some 7, rt_terms = []\<rparr>\<rparr>"

abbreviation empty_registry :: fake_registry where
  "empty_registry \<equiv> fake_new ''team/objects'' (Some ''Bearer token'')"

lemmas example_defs = example_adapter_def registry_binding_def example_binding_def example_common_def example_input_def
  example_operation_def

lemma example_provenance:
  "sort_fields [(''meridianAdapter'', JObj (adapter_provenance (example_adapter now)))] =
     [(''meridianAdapter'', JObj [(''adapterId'', JStr ''oci-distribution''), (''capabilityFingerprint'', JStr ''fp''),
        (''distributionSpec'', JStr ''1.1.1''), (''engineProfile'', JStr ''oci-distribution''), (''engineVersion'', JStr ''1.1.1''),
        (''registryReleaseObservation'', JStr ''unavailable'')])]"
  by (simp add: sort_fields_def adapter_provenance_def example_defs ADAPTER_ID_def insort_key.simps)

lemma utf8_sha256: "utf8_ok (sha256_digest v)"
proof -
  have "oct c < 128" if "always_safe c \<or> c = CHR '':''" for c
    using that by (auto simp: always_safe_def is_alpha_def is_digit_def)
  then show ?thesis using digest_chars [of v] by (intro utf8_ok_ascii) (auto simp: list_all_iff)
qed

text \<open>The clock of the example reads 5, within the retention period, or 9, after it.\<close>

lemma example_times: "now \<in> {5, 9} \<Longrightarrow> str_int now = ''5'' \<or> str_int now = ''9''"
proof -
  have "str_int 5 = ''5''" "str_int 9 = ''9''" by code_simp+
  then show "now \<in> {5, 9} \<Longrightarrow> str_int now = ''5'' \<or> str_int now = ''9''" by auto
qed

lemma example_time_text:
  assumes "now \<in> {5, 9}"
  shows "length (str_int now) = 1" "utf8_ok (''T'' @ str_int now)"
proof -
  from example_times [OF assms] have "length (str_int now) = 1 \<and> utf8_ok (''T'' @ str_int now)"
    by (elim disjE) (simp_all add: utf8_ok_ascii)
  then show "length (str_int now) = 1" "utf8_ok (''T'' @ str_int now)" by blast+
qed

lemma example_envelope_codec: "now \<in> {5, 9} \<Longrightarrow> stored_codec_ok example_common (example_envelope now)"
  unfolding example_envelope_def example_provenance using example_times [of now]
  by (auto simp add: stored_codec_ok_def utf8_sha256 example_common_def metadata_fields_def
      fields_metadata_def reference_fields_def fields_reference_def example_readers obj_get_def
      sort_fields_def insort_key.simps utf8_ok_ascii)

lemma sha256_digest_length [simp]: "length (sha256_digest v) = 71"
  by (simp add: sha256_digest_def hexdigest_length)

lemma str_nat_length: "n < 10 ^ k \<Longrightarrow> 0 < k \<Longrightarrow> length (str_nat n) \<le> k"
proof (induction k arbitrary: n)
  case (Suc k)
  show ?case
  proof (cases "n < 10")
    case False
    with Suc.prems(1) have "n div 10 < 10 ^ k" "0 < k" by (auto simp: less_mult_imp_div_less intro: gr0I)
    from Suc.IH [OF this] False show ?thesis by (subst str_nat.simps) simp
  qed (subst str_nat.simps, simp)
qed simp

lemma example_envelope_size: "now \<in> {5, 9} \<Longrightarrow> length (stored_to_bytes example_common (example_envelope now)) \<le> 10000"
proof -
  assume "now \<in> {5, 9}"
  then have "length (str_int now) = 1" by (rule example_time_text(1))
  then have "json_weight (JObj (stored_fields example_common (example_envelope now))) \<le> 10000"
    unfolding example_envelope_def example_provenance
    by (simp add: stored_fields_def STORED_METADATA_FORMAT_def example_common_def metadata_fields_def reference_fields_def example_readers
        str_int_def [of "numeral k" for k] str_nat.simps)
  then show ?thesis
    unfolding stored_to_bytes_def by (rule order_trans [OF length_canonical])
qed

lemma object_id_hash_length [simp]: "length (object_id_hash v) = 64"
  by (simp add: object_id_hash_def hexdigest_length)

lemma anchor_body_size: "length (anchor_body oid) \<le> 10000"
proof -
  have "json_weight (JObj (anchor_manifest_fields (object_id_hash oid))) \<le> 10000"
    by (simp add: anchor_manifest_fields_def STORED_METADATA_FORMAT_def OCI_MANIFEST_MEDIA_TYPE_def MERIDIAN_OBJECT_ANCHOR_TYPE_def
        descriptor_to_dict_def EMPTY_DESCRIPTOR_def OCI_EMPTY_MEDIA_TYPE_def EMPTY_JSON_def str_int_def str_nat.simps)
  then show ?thesis
    unfolding anchor_body_def build_anchor_manifest_def by (rule order_trans [OF length_canonical])
qed

lemma example_version_size: "now \<in> {5, 9} \<Longrightarrow> length (version_body example_common ''o'' (example_envelope now)) \<le> 20000"
proof -
  assume now: "now \<in> {5, 9}"
  then have t: "length (str_int now) = 1" by (rule example_time_text(1))
  have "length (str_nat (length (stored_to_bytes example_common (example_envelope now)))) \<le> 5" "length (str_nat (length (anchor_body ''o''))) \<le> 5"
    using example_envelope_size [OF now] anchor_body_size [of "''o''"] by (intro str_nat_length; simp)+
  with t have "json_weight (JObj (object_manifest_fields (manifest_descriptor (anchor_body ''o'')) (config_descriptor example_common (example_envelope now))
      (payload_descriptor (example_envelope now)) (object_id_hash ''o'') (''T'' @ str_int now) ''immutable'')) \<le> 20000"
    by (simp add: object_manifest_fields_def OCI_MANIFEST_MEDIA_TYPE_def MERIDIAN_OBJECT_ARTIFACT_TYPE_def MERIDIAN_OBJECT_CONFIG_MEDIA_TYPE_def
        descriptor_to_dict_def manifest_descriptor_def config_descriptor_def payload_descriptor_def example_envelope_def str_int_def [of "int k" for k]
        str_int_def [of "numeral k" for k] str_nat.simps [of 5] str_nat.simps [of 2])
  then show ?thesis
    unfolding version_body_def build_object_manifest_def by (simp add: example_envelope_def order_trans [OF length_canonical] del: json_weight.simps)
qed

lemma example_adapter_simps [simp]:
  "ap_common (example_adapter now) = example_common" "ap_binding (example_adapter now) = registry_binding"
  "ap_transport (example_adapter now) = example_transport" "ap_clock (example_adapter now) = ret (AwareTime now)"
  by (simp_all add: example_adapter_def)

lemma example_common_calls:
  "oc_mk_reference example_common = (\<lambda>r i d. Inr \<lparr>or_resource = r, or_object_id = i, or_digest = d\<rparr>)"
  "oc_mk_metadata example_common = construct_metadata"
  "oc_mk_identity example_common = (\<lambda>d n. Inr \<lparr>ci_digest = d, ci_byte_length = n\<rparr>)"
  "oc_mk_immutability example_common = (\<lambda>m p. Inr \<lparr>im_mutability = m, im_publish_once = p\<rparr>)"
  "oc_put_transition example_common = (\<lambda>s t. Inr t)"
  "oc_payload_from example_common = (\<lambda>v. Inr \<lparr>pl_handle = str_of (obj_get v ''handle''),
     pl_replayable = (obj_get v ''replayable'' = JBool True),
     pl_expected_digest = opt_str (obj_get v ''expectedDigest''), pl_expected_length = opt_int (obj_get v ''expectedLength'')\<rparr>)"
  "oc_retention_from example_common = (\<lambda>v. Inr \<lparr>rt_retain_until = opt_int (obj_get (fields_of v) ''retainUntil''), rt_terms = []\<rparr>)"
  by (simp_all add: example_common_def)

lemma example_resource: "semantic_resource_of (example_adapter now) = \<lparr>sem_catalog = CATALOG_OBJECT, sem_namespace = ''ns'', sem_name = ''media''\<rparr>"
  by (simp add: semantic_resource_of_def example_defs)

lemma example_storable:
  "now \<in> {5, 9} \<Longrightarrow> storable example_common (b_max_manifest_bytes registry_binding) (b_max_metadata_bytes registry_binding)
     (semantic_resource_of (example_adapter now)) ''o'' ''hello'' (example_envelope now)"
proof -
  assume now: "now \<in> {5, 9}"
  have m: "so_metadata (example_envelope now) =
      \<lparr>om_ref = \<lparr>or_resource = \<lparr>sem_catalog = CATALOG_OBJECT, sem_namespace = ''ns'', sem_name = ''media''\<rparr>, or_object_id = ''o'', or_digest = Some (sha256_digest ''hello'')\<rparr>,
         om_digest = sha256_digest ''hello'', om_byte_length = 5, om_media_type = ''text/plain'', om_created_at = ''T'' @ str_int now,
         om_creation_context = JNull, om_user_metadata = JNull, om_mutability = ''immutable'',
         om_provenance = sort_fields [(''meridianAdapter'', JObj (adapter_provenance (example_adapter now)))]\<rparr>"
    by (simp add: example_envelope_def)
  show ?thesis
    using example_envelope_codec [OF now] example_envelope_size [OF now] anchor_body_size [of "''o''"] example_version_size [OF now]
      example_time_text(2) [OF now]
    by (simp add: storable_def m example_resource registry_binding_def example_binding_def utf8_ok_ascii)
qed

lemma empty_registry_ok: "fake_ok registry_binding (Some ''Bearer token'') empty_registry"
  by (simp add: fake_ok_def fake_inv_def fake_new_def registry_binding_def example_binding_def)

lemma empty_registry_store: "fake_store b empty_registry = \<lparr>st_blobs = Map.empty, st_tags = Map.empty, st_uploads = Map.empty\<rparr>"
  by (simp add: fake_store_def fake_new_def fun_eq_iff)

lemma example_put_ready:
  "now \<in> {5, 9} \<Longrightarrow> put_ready example_transport (fake_ok registry_binding (Some ''Bearer token'')) (fake_store registry_binding)
     (b_max_manifest_bytes registry_binding) (example_adapter now) example_input example_payloads [''hello''] now (example_envelope now) empty_registry"
proof -
  assume now: "now \<in> {5, 9}"
  have "accepts (example_adapter now) example_input ''hello'' now (example_envelope now)"
    by (simp add: accepts_def example_envelope_def example_input_def example_common_calls construct_metadata_def example_resource)
  with example_storable [OF now] show ?thesis
    unfolding put_ready_def uploadable_def opens_to_def clock_reads_def put_immutability_def put_retention_def
    by (simp add: empty_registry_store example_payloads_def example_common_calls example_input_def
        example_envelope_def registry_binding_def example_binding_def ret_def example_readers obj_get_def)
qed

end
