(* ===== verification/Adapter_Properties.thy ===== *)
theory Adapter_Properties
  imports Example_Put
begin

text \<open>
  The properties of the adapter: the round trips of put, stat, get and delete over the test registry, what
  a successful operation establishes against any server, and the refusals. Statements about storing
  content name a SHA-256 collision among the contents involved as the only alternative outcome.
\<close>

section \<open>Round trips over the registry\<close>

abbreviation served_by :: "http_lib \<Rightarrow> fake_registry binding \<Rightarrow> nat \<Rightarrow> fake_registry transport" where
  "served_by L b attempts \<equiv> http_transport (fake_client L b attempts)"

text \<open>C4. The HTTP client over the test registry refines the abstract store: publishing, finding, reading
  and deleting manifests and storing, finding and reading blobs have exactly the store's result and effect,
  whenever the registry holds no other manifest or blob under the digest of what is written.\<close>

theorem client_refines_store:
  assumes "fake_setup L b auth attempts" "fake_ok b auth w" "tag_match t"
    and "parse_manifest m None (b_max_manifest_bytes b) = Inr doc" "no_clash (fake_store b w) m"
    and "no_collision (fake_store b w) v" "CHR ''/'' \<in> set mt"
  shows "(\<exists>w'. put_manifest (fake_client L b attempts) t m w = (Inr (manifest_descriptor m), w')
        \<and> fake_store b w' = store_put_tag t m (fake_store b w)
        \<and> (\<exists>w''. get_manifest (fake_client L b attempts) t w' = (Inr doc, w'') \<and> fake_store b w'' = fake_store b w')
        \<and> (\<exists>w''. delete_manifest (fake_client L b attempts) (sha256_digest m) w' = (Inr True, w'')
             \<and> fake_store b w'' = store_delete (sha256_digest m) (fake_store b w')))
    \<and> (\<exists>w'. manifest_exists (fake_client L b attempts) t w = (Inr (st_tags (fake_store b w) t \<noteq> None), w')
        \<and> fake_store b w' = fake_store b w)
    \<and> (\<exists>w'. upload_blob_bytes (fake_client L b attempts) v mt w =
          (Inr \<lparr>d_media_type = mt, d_digest = sha256_digest v, d_size = length v\<rparr>, w')
        \<and> st_blobs (fake_store b w') = (st_blobs (fake_store b w))(sha256_digest v \<mapsto> v)
        \<and> st_tags (fake_store b w') = st_tags (fake_store b w)
        \<and> (\<exists>w''. get_blob_bytes (fake_client L b attempts) \<lparr>d_media_type = mt, d_digest = sha256_digest v, d_size = length v\<rparr>
              (int (length v)) w' = (Inr v, w'') \<and> fake_store b w'' = fake_store b w'))"
proof -
  note ok = fake_setup.put_manifest_ok [OF assms(1)] fake_setup.get_manifest_ok [OF assms(1)]
    fake_setup.delete_manifest_ok [OF assms(1)] fake_setup.upload_blob_ok [OF assms(1)] fake_setup.get_blob_ok [OF assms(1)]
  obtain w1 where p: "put_manifest (fake_client L b attempts) t m w = (Inr (manifest_descriptor m), w1)"
    "fake_store b w1 = store_put_tag t m (fake_store b w)" "fake_ok b auth w1"
    using ok(1) [OF assms(2-5)] by (auto simp: manifest_descriptor_def)
  then have t1: "st_tags (fake_store b w1) t = Some m" by simp
  obtain w2 where u: "upload_blob_bytes (fake_client L b attempts) v mt w =
          (Inr \<lparr>d_media_type = mt, d_digest = sha256_digest v, d_size = length v\<rparr>, w2)"
    "st_blobs (fake_store b w2) = (st_blobs (fake_store b w))(sha256_digest v \<mapsto> v)"
    "st_tags (fake_store b w2) = st_tags (fake_store b w)" "fake_ok b auth w2"
    using ok(4) [OF assms(2,6,7)] by blast
  then have v2: "st_blobs (fake_store b w2) (sha256_digest v) = Some v" by simp
  from p u ok(2) [OF p(3) assms(3) t1 assms(4)] ok(3) [OF p(3) t1] ok(5) [OF u(4) v2 order_refl]
    fake_setup.manifest_exists_ok [OF assms(1-3)] show ?thesis by blast
qed

lemma example_setup: "fake_setup example_lib registry_binding (Some ''Bearer token'') 3"
  by unfold_locales

lemma example_anchor_parses: "\<exists>doc. parse_manifest (anchor_body ''o'') None (b_max_manifest_bytes registry_binding) = Inr doc"
  using anchor_manifest_parses [of "object_id_hash ''o''" "b_max_manifest_bytes registry_binding"] anchor_body_size [of "''o''"]
  by (auto simp: anchor_body_def object_id_hash_def registry_binding_def example_binding_def)

theorem client_refines_store_witness:
  "\<exists>w'. put_manifest (fake_client example_lib registry_binding 3) ''t'' (anchor_body ''o'') empty_registry
       = (Inr (manifest_descriptor (anchor_body ''o'')), w')
     \<and> st_tags (fake_store registry_binding w') ''t'' = Some (anchor_body ''o'')"
proof -
  obtain doc where doc: "parse_manifest (anchor_body ''o'') None (b_max_manifest_bytes registry_binding) = Inr doc"
    using example_anchor_parses by blast
  have t: "tag_match ''t''" by (simp add: tag_match_def tag_first_def)
  have c: "no_clash (fake_store registry_binding empty_registry) (anchor_body ''o'')"
    "no_collision (fake_store registry_binding empty_registry) ''hello''"
    by (simp_all add: empty_registry_store no_clash_def no_collision_def)
  have mt: "CHR ''/'' \<in> set ''text/plain''" by simp
  from client_refines_store [OF example_setup empty_registry_ok t doc c mt] show ?thesis
    by (elim conjE exE) (auto intro!: exI)
qed

text \<open>C1. What is put can be read back: on the test registry, a put of a new version that the registry and
  the object-common package are ready for succeeds and returns the new metadata; stat, by object id alone
  or with the content digest, then returns the same metadata; and opening the payload's digest yields
  exactly the octets that were put. The only other possibility is an explicit SHA-256 collision between
  the contents written or stored.\<close>

theorem put_read_roundtrip:
  assumes "fake_setup L b auth attempts" "fake_ok b auth w" "ap_transport A = served_by L b attempts"
    and "put_ready (served_by L b attempts) (fake_ok b auth) (fake_store b) (b_max_manifest_bytes b) A (op_input operation) payloads chunks t s w"
    and "adapter_reference A (op_input query) False = Inr reference"
    and "or_object_id reference = in_object_id (op_input operation)"
    and "or_digest reference = None \<or> or_digest reference = Some (sha256_digest (concat chunks))"
  shows "collides (fake_store b w) (put_contents (ap_common A) (in_object_id (op_input operation)) (concat chunks) s)
    \<or> (\<exists>w1 w2 w3 cs. adapter_put A operation payloads w = (Inr [(''metadata'', JObj (oc_metadata_to_dict (ap_common A) (so_metadata s)))], w1)
        \<and> adapter_stat A query w1 = (Inr [(''metadata'', JObj (oc_metadata_to_dict (ap_common A) (so_metadata s)))], w2)
        \<and> om_digest (so_metadata s) = sha256_digest (concat chunks)
        \<and> tr_open_blob (ap_transport A) (om_digest (so_metadata s)) None w2 = (Inr (cs, None), w3) \<and> concat cs = concat chunks)"
proof (cases "collides (fake_store b w) (put_contents (ap_common A) (in_object_id (op_input operation)) (concat chunks) s)")
  case False
  note store = fake_setup.store_facts [OF assms(1)]
  obtain w1 where p: "adapter_put A operation payloads w = (Inr [(''metadata'', JObj (oc_metadata_to_dict (ap_common A) (so_metadata s)))], w1)"
    and h1: "holds_version (served_by L b attempts) (fake_ok b auth) (fake_store b) (b_max_manifest_bytes b) A
      (in_object_id (op_input operation)) (concat chunks) s w1"
    using store(1) [OF assms(3,2,4) False] by blast
  from store(2) [OF h1 assms(5-7)] obtain w2 where
    q: "adapter_stat A query w1 = (Inr [(''metadata'', JObj (oc_metadata_to_dict (ap_common A) (so_metadata s)))], w2)"
    and h2: "holds_version (served_by L b attempts) (fake_ok b auth) (fake_store b) (b_max_manifest_bytes b) A
      (in_object_id (op_input operation)) (concat chunks) s w2" by blast
  have d: "om_digest (so_metadata s) = sha256_digest (concat chunks)"
    using h1 by (simp add: holds_version_def storable_def Let_def)
  from store(3) [OF h2] p q d show ?thesis by (auto simp: payload_descriptor_def)
qed simp

lemma example_latest:
  "adapter_reference (example_adapter 5) (op_input (example_operation c example_input)) False
     = Inr \<lparr>or_resource = \<lparr>sem_catalog = CATALOG_OBJECT, sem_namespace = ''ns'', sem_name = ''media''\<rparr>, or_object_id = ''o'', or_digest = None\<rparr>"
  by (simp add: adapter_reference_def example_operation_def example_input_def example_resource example_common_def
      fields_reference_def obj_get_def example_readers)

theorem put_read_roundtrip_witness:
  "collides (fake_store registry_binding empty_registry) (put_contents example_common ''o'' ''hello'' (example_envelope 5))
   \<or> (\<exists>w1 w2 w3 cs. adapter_put (example_adapter 5) (example_operation ''meridian.object.put'' example_input) example_payloads empty_registry
          = (Inr [(''metadata'', JObj (metadata_fields (so_metadata (example_envelope 5))))], w1)
        \<and> adapter_stat (example_adapter 5) (example_operation ''meridian.object.stat'' example_input) w1
          = (Inr [(''metadata'', JObj (metadata_fields (so_metadata (example_envelope 5))))], w2)
        \<and> tr_open_blob example_transport (sha256_digest ''hello'') None w2 = (Inr (cs, None), w3) \<and> concat cs = ''hello'')"
proof -
  have "oc_metadata_to_dict example_common = metadata_fields" by (simp add: example_common_def)
  with put_read_roundtrip [OF example_setup empty_registry_ok _ _ example_latest [of "''meridian.object.stat''"],
      of "example_operation ''meridian.object.put'' example_input" example_payloads "[''hello'']" 5 "example_envelope 5"] example_put_ready [of 5]
  show ?thesis
    by (auto simp: example_transport_def example_operation_def example_input_def)
qed

text \<open>C2. What is deleted is gone: after a put, a delete of that exact version whose retention permits it
  succeeds, removes exactly the tags that name its manifest and leaves the blobs alone; afterwards the
  object is not found, neither by its id nor by its digest. The only other possibility is an explicit
  SHA-256 collision between the contents written or stored.\<close>

theorem put_delete_roundtrip:
  assumes "fake_setup L b auth attempts" "fake_ok b auth w" "ap_transport A = served_by L b attempts"
    and "put_ready (served_by L b attempts) (fake_ok b auth) (fake_store b) (b_max_manifest_bytes b) A (op_input operation) payloads chunks t s w"
    and "adapter_reference A (op_input deletion) True = Inr reference"
    and "or_object_id reference = in_object_id (op_input operation)" "or_digest reference = Some (sha256_digest (concat chunks))"
    and "clock_reads (fake_ok b auth) (fake_store b) A now"
    and "require_delete_permitted (ap_common A) now (so_retention s) (Some (AwareTime now)) = Inr ()"
  shows "collides (fake_store b w) (put_contents (ap_common A) (in_object_id (op_input operation)) (concat chunks) s)
    \<or> (\<exists>m w1 w2. adapter_put A operation payloads w = (Inr m, w1)
        \<and> adapter_delete A deletion w1 = (Inr [(''deleted'', JBool True)], w2)
        \<and> fake_store b w2 = store_delete (sha256_digest (version_body (ap_common A) (in_object_id (op_input operation)) s)) (fake_store b w1)
        \<and> (\<exists>e w3. stored_for_reference A reference w2 = (Inl e, w3) \<and> exn_kind_of e = ObjectNotFound)
        \<and> (\<exists>e w3. stored_for_reference A (reference\<lparr>or_digest := None\<rparr>) w2 = (Inl e, w3) \<and> exn_kind_of e = ObjectNotFound))"
proof (cases "collides (fake_store b w) (put_contents (ap_common A) (in_object_id (op_input operation)) (concat chunks) s)")
  case False
  note store = fake_setup.store_facts [OF assms(1)]
  obtain w1 where p: "adapter_put A operation payloads w = (Inr [(''metadata'', JObj (oc_metadata_to_dict (ap_common A) (so_metadata s)))], w1)"
    and h: "holds_version (served_by L b attempts) (fake_ok b auth) (fake_store b) (b_max_manifest_bytes b) A
      (in_object_id (op_input operation)) (concat chunks) s w1"
    using store(1) [OF assms(3,2,4) False] by blast
  from store(4) [OF h assms(5-9)] obtain w2 where d: "adapter_delete A deletion w1 = (Inr [(''deleted'', JBool True)], w2)" "fake_ok b auth w2"
    "fake_store b w2 = store_delete (sha256_digest (version_body (ap_common A) (in_object_id (op_input operation)) s)) (fake_store b w1)"
    by blast
  from store(5) [OF h d(2,3), of reference] store(5) [OF h d(2,3), of "reference\<lparr>or_digest := None\<rparr>"] p d(1,3) assms(6,7)
  show ?thesis by auto
qed simp

definition example_deletion :: operation where
  "example_deletion = example_operation ''meridian.object.delete''
     (example_input\<lparr>in_reference := JObj [(''digest'', JStr (sha256_digest ''hello'')), (''name'', JStr ''media''),
        (''namespace'', JStr ''ns''), (''objectId'', JStr ''o'')]\<rparr>)"

lemma example_exact:
  "adapter_reference (example_adapter now) (op_input example_deletion) True
     = Inr \<lparr>or_resource = \<lparr>sem_catalog = CATALOG_OBJECT, sem_namespace = ''ns'', sem_name = ''media''\<rparr>, or_object_id = ''o'', or_digest = Some (sha256_digest ''hello'')\<rparr>"
  by (simp add: adapter_reference_def example_deletion_def example_operation_def example_input_def example_resource example_common_def
      fields_reference_def obj_get_def example_readers)

text \<open>The runs of the example: after the put, the object resolves, and a delete after the retention period
  succeeds.\<close>

lemma example_runs:
  assumes "now \<in> {5, 9}"
    and "\<not> collides (fake_store registry_binding empty_registry) (put_contents example_common ''o'' ''hello'' (example_envelope now))"
  obtains w1 r w2 where "adapter_put (example_adapter now) (example_operation ''meridian.object.put'' example_input) example_payloads empty_registry
      = (Inr [(''metadata'', JObj (oc_metadata_to_dict example_common (so_metadata (example_envelope now))))], w1)"
    "stored_for_reference (example_adapter now)
       \<lparr>or_resource = \<lparr>sem_catalog = CATALOG_OBJECT, sem_namespace = ''ns'', sem_name = ''media''\<rparr>, or_object_id = ''o'', or_digest = None\<rparr> w1 = (Inr r, w2)"
    "ro_stored r = example_envelope now"
    "now = 9 \<Longrightarrow> \<exists>w3. adapter_delete (example_adapter now) example_deletion w1 = (Inr [(''deleted'', JBool True)], w3)"
proof -
  note store = fake_setup.store_facts [OF example_setup]
  have A: "ap_transport (example_adapter now) = served_by example_lib registry_binding 3" by (simp add: example_transport_def)
  have in_op: "op_input (example_operation c v) = v" for c v by (simp add: example_operation_def)
  have oid: "in_object_id example_input = ''o''" by (simp add: example_input_def)
  obtain w1 where p: "adapter_put (example_adapter now) (example_operation ''meridian.object.put'' example_input) example_payloads empty_registry
      = (Inr [(''metadata'', JObj (oc_metadata_to_dict example_common (so_metadata (example_envelope now))))], w1)"
    and h: "holds_version (served_by example_lib registry_binding 3) (fake_ok registry_binding (Some ''Bearer token'')) (fake_store registry_binding)
       (b_max_manifest_bytes registry_binding) (example_adapter now) ''o'' ''hello'' (example_envelope now) w1"
    using store(1) [OF A empty_registry_ok, of "example_operation ''meridian.object.put'' example_input" example_payloads "[''hello'']" now "example_envelope now"]
      example_put_ready [OF assms(1)] assms(2) by (auto simp: in_op oid example_transport_def)
  have c: "clock_reads (fake_ok registry_binding (Some ''Bearer token'')) (fake_store registry_binding) (example_adapter now) now"
    by (simp add: clock_reads_def ret_def)
  have "now = 9 \<Longrightarrow> require_delete_permitted (ap_common (example_adapter now)) now (so_retention (example_envelope now)) (Some (AwareTime now)) = Inr ()"
    by (simp add: require_delete_permitted_def example_envelope_def example_common_def)
  with store(4) [OF h example_exact _ _ c] have "now = 9 \<Longrightarrow> \<exists>w3. adapter_delete (example_adapter now) example_deletion w1 = (Inr [(''deleted'', JBool True)], w3)"
    by auto
  with p store(6) [OF h, of "\<lparr>or_resource = \<lparr>sem_catalog = CATALOG_OBJECT, sem_namespace = ''ns'', sem_name = ''media''\<rparr>, or_object_id = ''o'', or_digest = None\<rparr>"] that
  show thesis by auto
qed

theorem put_delete_roundtrip_witness:
  "collides (fake_store registry_binding empty_registry) (put_contents example_common ''o'' ''hello'' (example_envelope 9))
   \<or> (\<exists>m w1 w2. adapter_put (example_adapter 9) (example_operation ''meridian.object.put'' example_input) example_payloads empty_registry = (Inr m, w1)
        \<and> adapter_delete (example_adapter 9) example_deletion w1 = (Inr [(''deleted'', JBool True)], w2))"
proof -
  have c: "clock_reads (fake_ok registry_binding (Some ''Bearer token'')) (fake_store registry_binding) (example_adapter 9) 9"
    by (simp add: clock_reads_def ret_def)
  have r: "require_delete_permitted (ap_common (example_adapter 9)) 9 (so_retention (example_envelope 9)) (Some (AwareTime 9)) = Inr ()"
    by (simp add: require_delete_permitted_def example_envelope_def example_common_def)
  from put_delete_roundtrip [OF example_setup empty_registry_ok _ _ example_exact _ _ c r,
      of "example_operation ''meridian.object.put'' example_input" example_payloads "[''hello'']" 9] example_put_ready [of 9]
  show ?thesis by (auto simp: example_transport_def example_operation_def example_input_def)
qed

text \<open>C6. What is retained survives: after a put whose retention does not permit deletion at the time the
  clock reads, a delete of that version fails with the reason retention gives and changes nothing in the
  registry. The only other possibility is an explicit SHA-256 collision.\<close>

theorem retained_object_survives:
  assumes "fake_setup L b auth attempts" "fake_ok b auth w" "ap_transport A = served_by L b attempts"
    and "put_ready (served_by L b attempts) (fake_ok b auth) (fake_store b) (b_max_manifest_bytes b) A (op_input operation) payloads chunks t s w"
    and "adapter_reference A (op_input deletion) True = Inr reference"
    and "or_object_id reference = in_object_id (op_input operation)" "or_digest reference = Some (sha256_digest (concat chunks))"
    and "clock_reads (fake_ok b auth) (fake_store b) A now"
    and "require_delete_permitted (ap_common A) now (so_retention s) (Some (AwareTime now)) = Inl e"
  shows "collides (fake_store b w) (put_contents (ap_common A) (in_object_id (op_input operation)) (concat chunks) s)
    \<or> (\<exists>m w1 w2. adapter_put A operation payloads w = (Inr m, w1) \<and> adapter_delete A deletion w1 = (Inl e, w2)
        \<and> fake_store b w2 = fake_store b w1)"
proof (cases "collides (fake_store b w) (put_contents (ap_common A) (in_object_id (op_input operation)) (concat chunks) s)")
  case False
  note store = fake_setup.store_facts [OF assms(1)]
  obtain m w1 where p: "adapter_put A operation payloads w = (Inr m, w1)"
    and h: "holds_version (served_by L b attempts) (fake_ok b auth) (fake_store b) (b_max_manifest_bytes b) A
      (in_object_id (op_input operation)) (concat chunks) s w1"
    using store(1) [OF assms(3,2,4) False] by blast
  from store(6) [OF h assms(6)] assms(7) obtain r w2 where r: "stored_for_reference A reference w1 = (Inr r, w2)" "ro_stored r = s"
    and h2: "holds_version (served_by L b attempts) (fake_ok b auth) (fake_store b) (b_max_manifest_bytes b) A
      (in_object_id (op_input operation)) (concat chunks) s w2" and s2: "fake_store b w2 = fake_store b w1" by blast
  obtain w3 where c: "ap_clock A w2 = (Inr (AwareTime now), w3)" "fake_store b w3 = fake_store b w1"
    using assms(8) h2 s2 by (auto simp: clock_reads_def holds_version_def)
  have "adapter_delete A deletion w1 = (Inl e, w3)"
    using assms(5,9) r c by (simp add: adapter_delete_def adapter_now_def io_simps)
  with p c(2) show ?thesis by blast
qed simp

theorem retained_object_survives_witness:
  "collides (fake_store registry_binding empty_registry) (put_contents example_common ''o'' ''hello'' (example_envelope 5))
   \<or> (\<exists>m w1 w2. adapter_put (example_adapter 5) (example_operation ''meridian.object.put'' example_input) example_payloads empty_registry = (Inr m, w1)
        \<and> adapter_delete (example_adapter 5) example_deletion w1 = (Inl (bare_exn RetentionDenied), w2)
        \<and> fake_store registry_binding w2 = fake_store registry_binding w1)"
proof -
  have c: "clock_reads (fake_ok registry_binding (Some ''Bearer token'')) (fake_store registry_binding) (example_adapter 5) 5"
    by (simp add: clock_reads_def ret_def)
  have r: "require_delete_permitted (ap_common (example_adapter 5)) 5 (so_retention (example_envelope 5)) (Some (AwareTime 5))
      = Inl (bare_exn RetentionDenied)"
    by (simp add: require_delete_permitted_def example_envelope_def example_common_def)
  from retained_object_survives [OF example_setup empty_registry_ok _ _ example_exact _ _ c r,
      of "example_operation ''meridian.object.put'' example_input" example_payloads "[''hello'']" 5] example_put_ready [of 5]
  show ?thesis by (auto simp: example_transport_def example_operation_def example_input_def)
qed

section \<open>Against any server\<close>

text \<open>C3. Whatever the server answers, a successful get hands out verified content only. In this very run the server
  answered the request for the tag of the reference with a manifest, and the request for the config blob of that
  manifest with octets that have the digest and length the manifest names; the metadata handed out is the one
  read from those octets, it describes the payload the manifest names, and it is that of an object of the
  bound resource with the requested id (and digest, when one was asked for), attached to the anchor of that
  id (\<open>resolves_to\<close>). The payload handle is registered for exactly that payload's digest and length, so the
  reader can verify it.\<close>

theorem get_sound:
  assumes "ap_transport A = http_transport cl" "adapter_get A operation payloads w = (Inr result, w')"
  shows "\<exists>reference r payload w1. adapter_reference A (op_input operation) False = Inr reference
    \<and> resolves_to cl A reference r w w1
    \<and> pr_register payloads (open_blob cl (om_digest (so_metadata (ro_stored r))) None)
         (om_byte_length (so_metadata (ro_stored r))) (Some (om_digest (so_metadata (ro_stored r)))) w1 = (Inr payload, w')
    \<and> result = [(''metadata'', JObj (oc_metadata_to_dict (ap_common A) (so_metadata (ro_stored r)))),
                 (''payload'', JObj (oc_payload_to_dict (ap_common A) payload))]"
proof -
  from assms obtain reference r w1 payload where a: "adapter_reference A (op_input operation) False = Inr reference"
    and s: "stored_for_reference A reference w = (Inr r, w1)"
    and g: "pr_register payloads (tr_open_blob (http_transport cl) (d_digest (ro_payload r)) None) (int (d_size (ro_payload r)))
          (Some (d_digest (ro_payload r))) w1 = (Inr payload, w')"
    and res: "result = [(''metadata'', JObj (oc_metadata_to_dict (ap_common A) (so_metadata (ro_stored r)))),
                 (''payload'', JObj (oc_payload_to_dict (ap_common A) payload))]"
    unfolding adapter_get_def by auto
  note R = stored_for_reference_resolves [OF assms(1) s]
  from g have "pr_register payloads (open_blob cl (om_digest (so_metadata (ro_stored r))) None)
      (om_byte_length (so_metadata (ro_stored r))) (Some (om_digest (so_metadata (ro_stored r)))) w1 = (Inr payload, w')"
    by (simp add: http_transport_def resolves_to_payload [OF R])
  with a R res show ?thesis by blast
qed

theorem get_sound_witness:
  "collides (fake_store registry_binding empty_registry) (put_contents example_common ''o'' ''hello'' (example_envelope 5))
   \<or> (\<exists>w1 result w2 reference r w3. adapter_get (example_adapter 5) (example_operation ''meridian.object.get'' example_input) example_payloads w1 = (Inr result, w2)
        \<and> resolves_to (fake_client example_lib registry_binding 3) (example_adapter 5) reference r w1 w3
        \<and> result ! 0 = (''metadata'', JObj (metadata_fields (so_metadata (ro_stored r)))))"
proof (cases "collides (fake_store registry_binding empty_registry) (put_contents example_common ''o'' ''hello'' (example_envelope 5))")
  case False
  obtain w1 r w2 where r: "stored_for_reference (example_adapter 5)
      \<lparr>or_resource = \<lparr>sem_catalog = CATALOG_OBJECT, sem_namespace = ''ns'', sem_name = ''media''\<rparr>, or_object_id = ''o'', or_digest = None\<rparr> w1 = (Inr r, w2)"
    using example_runs [OF _ False] by blast
  have A: "ap_transport (example_adapter 5) = http_transport (fake_client example_lib registry_binding 3)" by (simp add: example_transport_def)
  obtain result where g: "adapter_get (example_adapter 5) (example_operation ''meridian.object.get'' example_input) example_payloads w1 = (Inr result, w2)"
    using r example_latest [of "''meridian.object.get''"] by (simp add: adapter_get_def io_simps example_payloads_def)
  have "oc_metadata_to_dict example_common = metadata_fields" by (simp add: example_common_def)
  moreover obtain reference r' payload w3 where "resolves_to (fake_client example_lib registry_binding 3) (example_adapter 5) reference r' w1 w3"
    "result = [(''metadata'', JObj (oc_metadata_to_dict example_common (so_metadata (ro_stored r')))),
       (''payload'', JObj (oc_payload_to_dict example_common payload))]"
    using get_sound [OF A g] by auto
  ultimately show ?thesis using g
    by (intro disjI2 exI [of _ w1] exI [of _ result] exI [of _ w2] exI [of _ reference] exI [of _ r'] exI [of _ w3]) simp
qed simp

text \<open>C5. Whatever the server answers, a successful delete removed the manifest it had verified, and one that retention
  released. In this very run the server answered the reference with a manifest and its config blob
  (\<open>resolves_to\<close>: the metadata in that blob is of the bound resource, of the requested id and of the requested
  digest); the retention written in that same blob permits deletion at the time the clock then read; and the
  last request deleted the SHA-256 digest of the body of that same manifest, which the server accepted with
  status 202.\<close>

theorem delete_sound:
  assumes "ap_transport A = http_transport cl" "adapter_delete A operation w = (Inr result, w')"
  shows "\<exists>reference r now w1 w2 body. adapter_reference A (op_input operation) True = Inr reference
    \<and> resolves_to cl A reference r w w1
    \<and> or_digest reference \<in> {None, Some (om_digest (so_metadata (ro_stored r)))}
    \<and> ap_clock A w1 = (Inr (AwareTime now), w2)
    \<and> require_delete_permitted (ap_common A) now (so_retention (ro_stored r)) (Some (AwareTime now)) = Inr ()
    \<and> delete_manifest cl (sha256_digest (md_body (ro_manifest r))) w2 = (Inr True, w')
    \<and> answered cl ''DELETE'' (manifest_url cl (sha256_digest (md_body (ro_manifest r)))) 202 body w'
    \<and> result = [(''deleted'', JBool True)]"
proof -
  from assms obtain reference r w1 v w2 t d where a: "adapter_reference A (op_input operation) True = Inr reference"
    and s: "stored_for_reference A reference w = (Inr r, w1)" and c: "ap_clock A w1 = (Inr v, w2)" and v: "v = AwareTime t"
    and p: "require_delete_permitted (ap_common A) t (so_retention (ro_stored r)) (Some (AwareTime t)) = Inr ()"
    and d: "tr_delete_manifest (http_transport cl) (md_digest (ro_manifest r)) w2 = (Inr d, w')" "d"
    and res: "result = [(''deleted'', JBool True)]"
    unfolding adapter_delete_def adapter_now_def by (auto split: datetime.splits if_splits)
  note R = stored_for_reference_resolves [OF assms(1) s]
  from d have d: "delete_manifest cl (sha256_digest (md_body (ro_manifest r))) w2 = (Inr True, w')"
    by (simp add: http_transport_def resolves_to_payload [OF R])
  have "or_digest reference \<in> {None, Some (om_digest (so_metadata (ro_stored r)))}" using R unfolding resolves_to_def by blast
  with a R c v p d res delete_manifest_answered [OF d] show ?thesis by blast
qed

theorem delete_sound_witness:
  "collides (fake_store registry_binding empty_registry) (put_contents example_common ''o'' ''hello'' (example_envelope 9))
   \<or> (\<exists>w1 w2 (r :: resolved_object) w'. adapter_delete (example_adapter 9) example_deletion w1 = (Inr [(''deleted'', JBool True)], w')
        \<and> require_delete_permitted example_common 9 (so_retention (ro_stored r)) (Some (AwareTime 9)) = Inr ()
        \<and> delete_manifest (fake_client example_lib registry_binding 3) (sha256_digest (md_body (ro_manifest r))) w2 = (Inr True, w'))"
proof (cases "collides (fake_store registry_binding empty_registry) (put_contents example_common ''o'' ''hello'' (example_envelope 9))")
  case False
  obtain w1 w' where d: "adapter_delete (example_adapter 9) example_deletion w1 = (Inr [(''deleted'', JBool True)], w')"
    using example_runs [OF _ False] by blast
  have A: "ap_transport (example_adapter 9) = http_transport (fake_client example_lib registry_binding 3)" by (simp add: example_transport_def)
  from delete_sound [OF A d] obtain r :: resolved_object and now w2 w3 where "ap_clock (example_adapter 9) w2 = (Inr (AwareTime now), w3)"
    and r: "require_delete_permitted (ap_common (example_adapter 9)) now (so_retention (ro_stored r)) (Some (AwareTime now)) = Inr ()"
      "delete_manifest (fake_client example_lib registry_binding 3) (sha256_digest (md_body (ro_manifest r))) w3 = (Inr True, w')"
    by blast
  then have "now = 9" by simp
  with r d show ?thesis by (intro disjI2 exI [of _ w1] exI [of _ w3] exI [of _ r] exI [of _ w']) simp
qed simp

text \<open>C12. Whatever the server answers, the identity a successful upload reports is that of the payload's own
  octets: the digest and length of the chunks read in one pass over the payload, within the object size
  limit and equal to the expectations stated in the payload reference; and the server either had a blob of
  that digest and length or was asked to finalize an upload of that many octets under that digest.\<close>

theorem upload_identity_sound:
  assumes "ap_transport A = http_transport cl" "upload_payload A payload payloads w = (Inr identity, w')"
  shows "\<exists>chunks w1 w2. pr_open payloads payload (b_chunk_size (ap_binding A)) w1 = (Inr (chunks, None), w2)
    \<and> oc_mk_identity (ap_common A) (sha256_digest (concat chunks)) (int (length (concat chunks))) = Inr identity
    \<and> verify_identity payload identity = Inr ()
    \<and> (chunks = [] \<or> int (length (concat chunks)) \<le> b_max_object_bytes (ap_binding A))
    \<and> ((\<exists>d v v'. head_blob cl (ci_digest identity) v = (Inr (Some d), v') \<and> int (d_size d) = ci_byte_length identity)
        \<or> (\<exists>u d v. ul_offset u = length (concat chunks) \<and> finish_upload cl u (ci_digest identity) v = (Inr d, w')))"
  using http.upload_payload_Inr [OF assms] by (simp add: http_transport_def)

theorem upload_identity_sound_witness:
  "\<exists>w' chunks. upload_payload (example_adapter 5) \<lparr>pl_handle = ''h'', pl_replayable = False, pl_expected_digest = None, pl_expected_length = Some 5\<rparr>
       example_payloads empty_registry = (Inr \<lparr>ci_digest = sha256_digest ''hello'', ci_byte_length = 5\<rparr>, w')
     \<and> sha256_digest (concat chunks) = sha256_digest ''hello'' \<and> length (concat chunks) = 5"
proof -
  let ?p = "\<lparr>pl_handle = ''h'', pl_replayable = False, pl_expected_digest = None, pl_expected_length = Some 5\<rparr>"
  have "uploadable (http_transport (fake_client example_lib registry_binding 3)) (fake_ok registry_binding (Some ''Bearer token'')) (fake_store registry_binding)
      (example_adapter 5) example_payloads ?p [''hello'']"
    by (simp add: uploadable_def opens_to_def example_payloads_def example_common_calls example_transport_def ret_def registry_binding_def example_binding_def)
  moreover have "no_collision (fake_store registry_binding empty_registry) ''hello''" by (simp add: empty_registry_store no_collision_def)
  ultimately obtain w' where u: "upload_payload (example_adapter 5) ?p example_payloads empty_registry
      = (Inr \<lparr>ci_digest = sha256_digest ''hello'', ci_byte_length = 5\<rparr>, w')"
    using example.store.upload_payload_ok [of "example_adapter 5" example_payloads ?p "[''hello'']" "''hello''" empty_registry] empty_registry_ok by auto
  have A: "ap_transport (example_adapter 5) = http_transport (fake_client example_lib registry_binding 3)" by (simp add: example_transport_def)
  from upload_identity_sound [OF A u] u show ?thesis by (auto simp: example_common_calls)
qed

text \<open>C13. Whatever the server answers, a successful listing is exact, bounded and resumable. It starts after the tag its
  cursor authenticates and scans a first stretch of the page the server lists there; the items are, in order, the
  metadata of those objects with the requested prefix among the ones the server served, in this very run,
  under the version tags of that stretch (\<open>scans\<close>, \<open>served_object\<close>); there are at most \<open>limit\<close> of them; the scan
  stops before the end of the page only right after the tag that made the listing full; and a cursor is returned
  exactly when something was scanned and the listing is full or the server has more, and it encodes the last
  scanned tag.\<close>

theorem list_sound:
  assumes "ap_transport A = http_transport cl" "adapter_list A operation w = (Inr result, w')" "0 < in_limit (op_input operation)"
  shows "\<exists>start page n rs hits w1.
    (case in_cursor (op_input operation) of None \<Rightarrow> start = None | Some c \<Rightarrow> \<exists>t. start = Some t \<and> cursor_decode (ap_cursor A) c = Inr t)
    \<and> list_tags cl (b_max_scan_tags (ap_binding A)) start w = (Inr page, w1)
    \<and> n \<le> length (tp_tags page)
    \<and> scans cl (ap_common A) (b_max_metadata_bytes (ap_binding A)) (take n (tp_tags page)) rs w1 w'
    \<and> hits = filter (\<lambda>r. startswith (or_object_id (om_ref (so_metadata (ro_stored r)))) (in_prefix (op_input operation))) rs
    \<and> int (length hits) \<le> in_limit (op_input operation)
    \<and> (if int (length hits) = in_limit (op_input operation)
       then n \<noteq> 0 \<and> startswith (tp_tags page ! (n - 1)) (version_tag_prefix None) \<and> last rs = last hits
         \<and> startswith (or_object_id (om_ref (so_metadata (ro_stored (last rs))))) (in_prefix (op_input operation))
       else n = length (tp_tags page))
    \<and> result = [(''items'', JArr (map (\<lambda>r. JObj (oc_metadata_to_dict (ap_common A) (so_metadata (ro_stored r)))) hits)),
         (''cursor'', if n \<noteq> 0 \<and> (int (length hits) = in_limit (op_input operation) \<or> tp_has_more page)
            then JStr (cursor_encode (ap_cursor A) (tp_tags page ! (n - 1))) else JNull)]"
proof -
  let ?v = "op_input operation" and ?d = "\<lambda>r. oc_metadata_to_dict (ap_common A) (so_metadata (ro_stored r))"
  let ?hit = "\<lambda>r. startswith (or_object_id (om_ref (so_metadata (ro_stored r)))) (in_prefix ?v)"
  from assms(1,2) obtain start page w1 items scanned stopped where
    c: "case in_cursor ?v of None \<Rightarrow> start = None | Some c \<Rightarrow> \<exists>t. start = Some t \<and> cursor_decode (ap_cursor A) c = Inr t"
    and l: "list_tags cl (b_max_scan_tags (ap_binding A)) start w = (Inr page, w1)"
    and sc: "list_scan A (in_prefix ?v) (in_limit ?v) [] None (tp_tags page) w1 = (Inr (items, scanned, stopped), w')"
    and res: "result = [(''items'', JArr (map JObj items)),
              (''cursor'', case scanned of
                 Some t \<Rightarrow> if stopped \<or> tp_has_more page then JStr (cursor_encode (ap_cursor A) t) else JNull
               | None \<Rightarrow> JNull)]"
    unfolding adapter_list_def by (auto simp: http_transport_def Let_def split: prod.splits option.splits)
  from list_scan_exact [OF assms(1) sc] assms(3) obtain n rs where n: "n \<le> length (tp_tags page)"
    and s: "scans cl (ap_common A) (b_max_metadata_bytes (ap_binding A)) (take n (tp_tags page)) rs w1 w'"
    and i: "items = map ?d (filter ?hit rs)" and k: "scanned = (if n = 0 then None else Some (tp_tags page ! (n - 1)))"
    and e: "if stopped then int (length items) = in_limit ?v \<and> n \<noteq> 0 \<and> startswith (tp_tags page ! (n - 1)) (version_tag_prefix None) \<and> rs \<noteq> [] \<and> ?hit (last rs)
       else int (length items) < in_limit ?v \<and> n = length (tp_tags page)"
    by auto
  have len: "length items = length (filter ?hit rs)" by (simp add: i)
  have stop: "stopped = (int (length (filter ?hit rs)) = in_limit ?v)" using e by (auto simp: len split: if_splits)
  have "last (filter ?hit rs) = last rs" if "rs \<noteq> []" "?hit (last rs)" using that by (induction rs rule: rev_induct) auto
  with e len have "if int (length (filter ?hit rs)) = in_limit ?v
       then n \<noteq> 0 \<and> startswith (tp_tags page ! (n - 1)) (version_tag_prefix None) \<and> last rs = last (filter ?hit rs) \<and> ?hit (last rs)
       else n = length (tp_tags page)" "int (length (filter ?hit rs)) \<le> in_limit ?v" by (auto simp: stop split: if_splits)
  moreover have "result = [(''items'', JArr (map (\<lambda>r. JObj (?d r)) (filter ?hit rs))),
         (''cursor'', if n \<noteq> 0 \<and> (int (length (filter ?hit rs)) = in_limit ?v \<or> tp_has_more page)
            then JStr (cursor_encode (ap_cursor A) (tp_tags page ! (n - 1))) else JNull)]"
    by (simp add: res i k stop comp_def)
  ultimately show ?thesis using c l n s
    by (intro exI [of _ start] exI [of _ page] exI [of _ n] exI [of _ rs] exI [of _ "filter ?hit rs"] exI [of _ w1] conjI) (assumption | rule refl)+
qed

text \<open>A server that answers each URL in its own way.\<close>

definition scripted_client :: "(string \<Rightarrow> http_response) \<Rightarrow> unit client" where
  "scripted_client f = \<lparr>cl_binding = example_binding,
     cl_http = \<lparr>he_send = (\<lambda>rq. ret (f (rq_url rq))), he_sleep = (\<lambda>k. ret ()), he_rebuild = (\<lambda>hs b. Inr b),
       he_merge_params = (\<lambda>u ps. Inr u), he_add_param = (\<lambda>u k v. Inr u)\<rparr>,
     cl_max_read_attempts = 3\<rparr>"

lemma scripted_request:
  assumes "url = client_url (scripted_client f) p" "hd p = CHR ''/''" "f url = example_response n hs b"
    and "n \<notin> set RETRIABLE_STATUS" "n \<in> set expected" "int (length b) \<le> mx"
  shows "client_request (scripted_client f) m url add c expected retry mx () =
    (Inr \<lparr>hr_status = n, hr_headers = hs, hr_content = b\<rparr>, ())"
proof -
  let ?cl = "scripted_client f"
  have wf: "binding_wf (cl_binding ?cl)" using constructed_binding_wf [OF example_mk_binding] by (simp add: scripted_client_def)
  obtain h where h: "client_headers ?cl url add () = (Inr h, ())"
    using client_url_same_origin [OF wf assms(2)] unfolding assms(1) by (simp add: client_headers_def scripted_client_def example_binding_def)
  have s: "he_send (cl_http ?cl) \<lparr>rq_method = m, rq_url = url, rq_headers = h, rq_content = c\<rparr> () = (Inr (example_response n hs b), ())"
    using assms(3) by (simp add: scripted_client_def ret_def)
  have u: "require_safe_response_url ?cl (example_response n hs b) = Inr ()"
    by (simp add: require_safe_response_url_def scripted_client_def example_binding_def example_response_def url_eval)
  have b: "bounded_response ?cl (example_response n hs b) mx = Inr \<lparr>hr_status = n, hr_headers = hs, hr_content = b\<rparr>"
    using bounded_response_ok [of "example_response n hs b" mx ?cl b] assms(6) by (simp add: example_response_def scripted_client_def)
  have "rs_status (example_response n hs b) \<notin> set RETRIABLE_STATUS" "0 < cl_max_read_attempts ?cl"
    using assms(4) by (simp_all add: example_response_def scripted_client_def)
  from client_request_answered [OF h s u this(1) b this(2)] assms(5) show ?thesis by simp
qed

text \<open>A registry that lists one version tag and says that there are more.\<close>

definition listing_tag :: string where
  "listing_tag = ''m-v1-'' @ take 32 (object_id_hash ''o'') @ ''-'' @ hexdigest ''hello''"

definition listing_server :: "string \<Rightarrow> http_response" where
  "listing_server url =
     (let cl = replying_client (example_response 404 [] []); envelope = stored_to_bytes example_common (example_envelope 5)
      in if url = manifest_url cl listing_tag then example_response 200 [] (version_body example_common ''o'' (example_envelope 5))
         else if url = blob_url cl (sha256_digest envelope) then example_response 200 [] envelope
         else example_response 200 [(''Link'', ''<next>; rel=\"next\"'')] (canonical_json [(''tags'', JArr [JStr listing_tag])]))"

definition listing_adapter :: "unit adapter" where
  "listing_adapter =
     \<lparr>ap_binding = example_binding, ap_transport = http_transport (scripted_client listing_server), ap_clock = ret (AwareTime 5),
      ap_common = example_common, ap_manifest = configured_capability_manifest (example_binding :: unit binding),
      ap_cursor = \<lparr>codec_key = ''0123456789abcdef''\<rparr>\<rparr>"

lemma listing_urls:
  "manifest_url (scripted_client f) t = manifest_url (replying_client rs) t" "blob_url (scripted_client f) d = blob_url (replying_client rs) d"
  "blob_url (replying_client rs) d \<noteq> manifest_url (replying_client rs) t"
  "client_url (scripted_client f) (''/v2/'' @ client_repository (scripted_client f) @ ''/tags/list'') \<noteq> manifest_url (replying_client rs) t"
  "client_url (scripted_client f) (''/v2/'' @ client_repository (scripted_client f) @ ''/tags/list'') \<noteq> blob_url (replying_client rs) d"
  by (simp_all add: manifest_url_def blob_url_def client_url_def client_repository_def scripted_client_def replying_client_def)

lemma listing_tag_plain: "length listing_tag = 102" "utf8_ok listing_tag" "\<not> startswith listing_tag ''sha256:''" "startswith listing_tag (version_tag_prefix None)"
proof -
  have "oct c < 128" if "is_hex_lower c" for c using that by (auto simp: is_hex_lower_def is_digit_def)
  then have "list_all (\<lambda>c. oct c < 128) (take 32 (hexdigest ''o''))" "list_all (\<lambda>c. oct c < 128) (hexdigest ''hello'')"
    using hexdigest_lower [of "''o''"] hexdigest_lower [of "''hello''"] by (auto simp: list_all_iff dest: in_set_takeD)
  then show "utf8_ok listing_tag" by (intro utf8_ok_ascii) (simp add: listing_tag_def object_id_hash_def)
  show "length listing_tag = 102" "\<not> startswith listing_tag ''sha256:''" "startswith listing_tag (version_tag_prefix None)"
    by (simp_all add: listing_tag_def hexdigest_length object_id_hash_def version_tag_prefix_def)
qed

lemma listing_answers:
  defines "cl \<equiv> scripted_client listing_server" and "e \<equiv> stored_to_bytes example_common (example_envelope 5)"
  shows "list_tags cl 2000 None () = (Inr \<lparr>tp_tags = [listing_tag], tp_has_more = True\<rparr>, ())"
    "parse_manifest (version_body example_common ''o'' (example_envelope 5)) None 4194304 = Inr document
       \<Longrightarrow> get_manifest cl listing_tag () = (Inr document, ())"
    "get_blob_bytes cl (config_descriptor example_common (example_envelope 5)) 524288 () = (Inr e, ())"
proof -
  let ?b = "version_body example_common ''o'' (example_envelope 5)" and ?tags = "[(''tags'', JArr [JStr listing_tag])]"
  have st: "storable example_common 4194304 524288 (semantic_resource_of (example_adapter 5)) ''o'' ''hello'' (example_envelope 5)"
    using example_storable [of 5] by (simp add: registry_binding_def example_binding_def)
  have size: "int (length ?b) \<le> 4194304" "int (length e) \<le> 524288" using st by (simp_all add: storable_def e_def Let_def)
  have b: "cl_binding cl = example_binding" by (simp add: cl_def scripted_client_def)
  let ?base = "replying_client (example_response 404 [] [])"
  have urls: "manifest_url cl listing_tag = manifest_url ?base listing_tag" "blob_url cl d = blob_url ?base d"
    "blob_url ?base d \<noteq> manifest_url ?base listing_tag" for d
    unfolding cl_def by (rule listing_urls)+
  let ?p = "''/v2/'' @ client_repository cl @ ''/tags/list''"
  have "client_url cl ?p \<noteq> manifest_url ?base listing_tag" "client_url cl ?p \<noteq> blob_url ?base d" for d
    unfolding cl_def by (rule listing_urls)+
  then have served: "listing_server (manifest_url cl listing_tag) = example_response 200 [] ?b"
    "listing_server (blob_url cl (sha256_digest e)) = example_response 200 [] e"
    "listing_server (client_url cl ?p) = example_response 200 [(''Link'', ''<next>; rel=\"next\"'')] (canonical_json ?tags)"
    unfolding listing_server_def Let_def e_def [symmetric] using urls by (simp_all del: append.simps)
  have request: "client_request cl m (client_url cl q) add c expected retry mx () = (Inr \<lparr>hr_status = 200, hr_headers = hs, hr_content = x\<rparr>, ())"
    if "listing_server (client_url cl q) = example_response 200 hs x" "hd q = CHR ''/''" "200 \<in> set expected" "int (length x) \<le> mx"
    for m q add c expected retry mx hs x
    unfolding cl_def by (rule scripted_request [OF refl that(2)]) (use that in \<open>simp_all add: cl_def RETRIABLE_STATUS_def\<close>)
  show "get_manifest cl listing_tag () = (Inr document, ())" if p: "parse_manifest ?b None 4194304 = Inr document" for document
  proof -
    have "client_request cl ''GET'' (manifest_url cl listing_tag) [(''Accept'', OCI_MANIFEST_MEDIA_TYPE)] None [200] True 4194304 ()
        = (Inr \<lparr>hr_status = 200, hr_headers = [], hr_content = ?b\<rparr>, ())"
      using request [OF served(1) [unfolded manifest_url_def]] size(1) by (simp add: manifest_url_def)
    then show ?thesis using p listing_tag_plain(3)
      by (simp add: get_manifest_def b example_binding_def io_simps Let_def header_get_def header_or_def header_values_def before_def)
  qed
  have "client_request cl ''GET'' (blob_url cl (sha256_digest e)) [] None [200] True 524288 ()
      = (Inr \<lparr>hr_status = 200, hr_headers = [], hr_content = e\<rparr>, ())"
    using request [OF served(2) [unfolded blob_url_def]] size(2) by (simp add: blob_url_def)
  then show "get_blob_bytes cl (config_descriptor example_common (example_envelope 5)) 524288 () = (Inr e, ())"
    using size(2) by (simp add: get_blob_bytes_def config_descriptor_def e_def [symmetric] io_simps Let_def)
  have wf: "json_wf (JObj ?tags)" using listing_tag_plain(2) by (simp add: utf8_ok_ascii)
  have "json_weight (JObj ?tags) \<le> 3000" using listing_tag_plain(1) by simp
  then have "int (length (canonical_json ?tags)) \<le> max DEFAULT_RESPONSE_BYTES (2000 * 192 + 1024)"
    using length_canonical [of ?tags] by simp
  from request [OF served(3) _ _ this]
  have "client_request cl ''GET'' (client_url cl ?p) [] None [200, 404] True (max DEFAULT_RESPONSE_BYTES (2000 * 192 + 1024)) ()
      = (Inr \<lparr>hr_status = 200, hr_headers = [(''Link'', ''<next>; rel=\"next\"'')], hr_content = canonical_json ?tags\<rparr>, ())" by simp
  moreover have "json_loads (canonical_json ?tags) = Inr (JObj ?tags)"
    using parse_canonical_json [OF wf, of "[]"] by (auto simp: parse_json_object_def sort_fields_def catchE_def split: sum.splits json.splits)
  moreover have "contains (header_or [(''Link'', ''<next>; rel=\"next\"'')] ''Link'' []) ''rel=\"next\"''" by code_simp
  moreover have "he_merge_params (cl_http cl) x ps = Inr x" for x ps by (simp add: cl_def scripted_client_def)
  ultimately show "list_tags cl 2000 None () = (Inr \<lparr>tp_tags = [listing_tag], tp_has_more = True\<rparr>, ())"
    by (simp add: list_tags_def io_simps tag_values_def obj_get_def)
qed

theorem list_sound_witness:
  "\<exists>cursor rs. cursor = cursor_encode \<lparr>codec_key = ''0123456789abcdef''\<rparr> listing_tag
     \<and> adapter_list listing_adapter (example_operation ''meridian.object.list'' example_input) ()
         = (Inr [(''items'', JArr [JObj (metadata_fields (so_metadata (example_envelope 5)))]), (''cursor'', JStr cursor)], ())
     \<and> scans (scripted_client listing_server) example_common 524288 [listing_tag] rs () ()
     \<and> map (metadata_fields \<circ> so_metadata \<circ> ro_stored) rs = [metadata_fields (so_metadata (example_envelope 5))]"
proof -
  let ?o = "example_operation ''meridian.object.list'' example_input"
  have st: "storable example_common 4194304 524288 (semantic_resource_of (example_adapter 5)) ''o'' ''hello'' (example_envelope 5)"
    using example_storable [of 5] by (simp add: registry_binding_def example_binding_def)
  obtain doc where p: "parse_manifest (version_body example_common ''o'' (example_envelope 5)) None 4194304 = Inr doc"
    and d: "manifest_descriptors doc = Inr (config_descriptor example_common (example_envelope 5), payload_descriptor (example_envelope 5),
      manifest_descriptor (anchor_body ''o''))" using version_body_parses [OF st] by blast
  have "stored_codec_ok example_common (example_envelope 5)"
    and len: "int (length (stored_to_bytes example_common (example_envelope 5))) \<le> 524288"
    using st by (simp_all add: storable_def Let_def)
  note sp = stored_bytes_parse [OF this]
  have pos: "0 \<le> om_byte_length (so_metadata (example_envelope 5))" by (simp add: example_envelope_def)
  have "stored_from_manifest listing_adapter doc ()
      = (Inr \<lparr>ro_stored = example_envelope 5, ro_manifest = doc, ro_payload = payload_descriptor (example_envelope 5)\<rparr>, ())"
    using d sp listing_answers(3) pos
    by (simp add: stored_from_manifest_def listing_adapter_def http_transport_def io_simps Let_def payload_descriptor_def
        example_binding_def config_descriptor_def)
  moreover have "tr_get_manifest (ap_transport listing_adapter) listing_tag () = (Inr doc, ())"
    "tr_list_tags (ap_transport listing_adapter) 2000 None () = (Inr \<lparr>tp_tags = [listing_tag], tp_has_more = True\<rparr>, ())"
    using listing_answers(1) listing_answers(2) [OF p] by (simp_all add: listing_adapter_def http_transport_def)
  moreover have m: "oc_metadata_to_dict (ap_common listing_adapter) = metadata_fields" by (simp add: listing_adapter_def example_common_def)
  ultimately have "list_scan listing_adapter [] 10 [] None [listing_tag] ()
      = (Inr ([metadata_fields (so_metadata (example_envelope 5))], Some listing_tag, False), ())"
    "tr_list_tags (ap_transport listing_adapter) 2000 None () = (Inr \<lparr>tp_tags = [listing_tag], tp_has_more = True\<rparr>, ())"
    using listing_tag_plain(4) by (simp_all add: io_simps Let_def)
  moreover have "b_max_scan_tags (ap_binding listing_adapter) = 2000" "ap_cursor listing_adapter = \<lparr>codec_key = ''0123456789abcdef''\<rparr>"
    by (simp_all add: listing_adapter_def example_binding_def)
  ultimately have run: "adapter_list listing_adapter ?o ()
      = (Inr [(''items'', JArr [JObj (metadata_fields (so_metadata (example_envelope 5)))]),
          (''cursor'', JStr (cursor_encode \<lparr>codec_key = ''0123456789abcdef''\<rparr> listing_tag))], ())"
    by (simp add: adapter_list_def io_simps Let_def example_operation_def example_input_def del: list_scan.simps)
  have A: "ap_transport listing_adapter = http_transport (scripted_client listing_server)"
    and k: "ap_common listing_adapter = example_common" "b_max_metadata_bytes (ap_binding listing_adapter) = 524288"
      "b_max_scan_tags (ap_binding listing_adapter) = 2000" by (simp_all add: listing_adapter_def example_binding_def)
  have v: "in_cursor (op_input ?o) = None" "0 < in_limit (op_input ?o)" "in_prefix (op_input ?o) = []"
    by (simp_all add: example_operation_def example_input_def)
  from list_sound [OF A run v(2)] obtain start page n rs hits w1 where
    "case in_cursor (op_input ?o) of None \<Rightarrow> start = None | Some c \<Rightarrow> \<exists>t. start = Some t \<and> cursor_decode (ap_cursor listing_adapter) c = Inr t"
    "list_tags (scripted_client listing_server) (b_max_scan_tags (ap_binding listing_adapter)) start () = (Inr page, w1)"
    and n: "n \<le> length (tp_tags page)"
    and s: "scans (scripted_client listing_server) (ap_common listing_adapter) (b_max_metadata_bytes (ap_binding listing_adapter))
      (take n (tp_tags page)) rs w1 ()"
    and h: "hits = filter (\<lambda>r. startswith (or_object_id (om_ref (so_metadata (ro_stored r)))) (in_prefix (op_input ?o))) rs"
      "[(''items'', JArr [JObj (metadata_fields (so_metadata (example_envelope 5)))]),
          (''cursor'', JStr (cursor_encode \<lparr>codec_key = ''0123456789abcdef''\<rparr> listing_tag))]
        = [(''items'', JArr (map (\<lambda>r. JObj (oc_metadata_to_dict (ap_common listing_adapter) (so_metadata (ro_stored r)))) hits)),
         (''cursor'', if n \<noteq> 0 \<and> (int (length hits) = in_limit (op_input ?o) \<or> tp_has_more page)
            then JStr (cursor_encode (ap_cursor listing_adapter) (tp_tags page ! (n - 1))) else JNull)]"
    by (elim exE conjE) (rule that, assumption+)
  then have page: "page = \<lparr>tp_tags = [listing_tag], tp_has_more = True\<rparr>" using listing_answers(1) v(1) by (simp add: k)
  from h v(3) have items: "map (metadata_fields \<circ> so_metadata \<circ> ro_stored) rs = [metadata_fields (so_metadata (example_envelope 5))]"
    by (auto simp: m)
  then have "n \<noteq> 0" using s by (intro notI) simp
  with n have t: "take n (tp_tags page) = [listing_tag]" by (cases n) (auto simp: page)
  have sc: "scans (scripted_client listing_server) example_common 524288 [listing_tag] rs () ()"
    using s by (simp add: k t del: scans.simps)
  show ?thesis by (rule exI, rule exI, intro conjI, rule refl) (rule run sc items)+
qed

section \<open>Requests and refusals\<close>

text \<open>The dispatch is complete and confined: an operation the adapter accepts belongs to the Object Catalog at
  version 1.0.0, targets exactly the bound resource and names one of the data-plane methods, with
  delete among them only when the binding enables deletion; so the branch for an unknown method is
  never taken.\<close>

lemma validate_operation_sound:
  assumes "mk_adapter oc b tr clock = Inr A" "validate_operation A operation = Inr method"
  shows "method \<in> {''put'', ''get'', ''stat'', ''read_range'', ''list'', ''delete''} \<and> (method = ''delete'') \<le> b_deletion_enabled b
    \<and> op_contract operation = ''meridian.object.'' @ method \<and> op_catalog operation = ''object''
    \<and> op_version operation = ''1.0.0'' \<and> op_resources operation = [b_resource b]"
proof -
  from assms(1) have A: "ap_binding A = b" "cm_available (ap_manifest A) = available_operations b"
    by (auto simp: mk_adapter_def configured_capability_manifest_def)
  from assms(2) have o: "op_catalog operation = ''object''" "op_version operation = ''1.0.0''" "op_resources operation = [b_resource b]"
    "op_contract operation \<in> set (available_operations b)" "method = rsplit_last (CHR ''.'') (op_contract operation)"
    by (auto simp: validate_operation_def A split: if_splits)
  have "rsplit_last (CHR ''.'') (''meridian.object'' @ CHR ''.'' # m) = m" if "CHR ''.'' \<notin> set m" for m
    using that by (rule rsplit_last_append)
  from this [of "''put''"] this [of "''get''"] this [of "''stat''"] this [of "''read_range''"] this [of "''list''"] this [of "''delete''"] o
  show ?thesis by (auto simp: available_operations_def split: if_splits)
qed

text \<open>A refused operation touches nothing: when validation fails, or the required capabilities are not met,
  execution returns that exception and leaves the world as it was; in particular a delete on a binding
  that does not enable deletion is refused as a capability mismatch without any request.\<close>

lemma execute_refusal:
  "(case validate_operation A operation of
      Inl e \<Rightarrow> execute A operation payloads w = (Inl e, w)
    | Inr _ \<Rightarrow> (case oc_require_capabilities (ap_common A) (ap_manifest A) (op_requirements operation) of
          Inl e \<Rightarrow> execute A operation payloads w = (Inl e, w) | Inr _ \<Rightarrow> True))
   \<and> (op_contract operation = ''meridian.object.delete'' \<and> op_catalog operation = ''object'' \<and> op_version operation = ''1.0.0''
        \<and> op_resources operation = [b_resource b] \<and> mk_adapter oc b tr clock = Inr A \<and> b_deletion_enabled b = False
      \<longrightarrow> (\<exists>e. execute A operation payloads w = (Inl e, w) \<and> exn_kind_of e = ObjectCapabilityMismatch))"
proof -
  have "execute A operation payloads w = (Inl e, w)" if "validate_operation A operation = Inl e" for e
    using that by (simp add: execute_def io_simps)
  moreover have "execute A operation payloads w = (Inl e, w)"
    if "validate_operation A operation = Inr m" "oc_require_capabilities (ap_common A) (ap_manifest A) (op_requirements operation) = Inl e" for e m
    using that by (simp add: execute_def io_simps)
  moreover have "\<exists>e. validate_operation A operation = Inl e \<and> exn_kind_of e = ObjectCapabilityMismatch"
    if "op_contract operation = ''meridian.object.delete'' \<and> op_catalog operation = ''object'' \<and> op_version operation = ''1.0.0''
        \<and> op_resources operation = [b_resource b] \<and> mk_adapter oc b tr clock = Inr A \<and> b_deletion_enabled b = False"
    using that by (auto simp: validate_operation_def mk_adapter_def configured_capability_manifest_def available_operations_def)
  ultimately show ?thesis by (auto split: sum.split)
qed

lemma execute_refusal_witness:
  "\<exists>e. execute (example_adapter 5) (example_operation ''meridian.object.delete'' example_input) example_payloads empty_registry = (Inl e, empty_registry)
     \<and> exn_kind_of e = ObjectCapabilityMismatch"
proof -
  have "mk_adapter example_common registry_binding example_transport (ret (AwareTime 5)) = Inr (example_adapter 5)"
    by (simp add: mk_adapter_def mk_cursor_codec_def example_adapter_def registry_binding_def example_binding_def)
  moreover have "b_deletion_enabled registry_binding = False" by (simp add: registry_binding_def example_binding_def)
  ultimately show ?thesis
    using execute_refusal [of "example_adapter 5" "example_operation ''meridian.object.delete'' example_input" example_payloads empty_registry
        registry_binding example_common example_transport "ret (AwareTime 5)"]
    by (simp add: example_operation_def)
qed

text \<open>C11. Creation happens once: after a put of an object, a second put of the same object id that asks for
  create-only (or publish-once) fails with a conflict before uploading anything, whatever its payload:
  the registry is unchanged. The only other possibility is an explicit SHA-256 collision.\<close>

theorem create_only_once:
  assumes "fake_setup L b auth attempts" "fake_ok b auth w" "ap_transport A = served_by L b attempts"
    and "put_ready (served_by L b attempts) (fake_ok b auth) (fake_store b) (b_max_manifest_bytes b) A (op_input operation) payloads chunks t s w"
    and "in_object_id (op_input again) = in_object_id (op_input operation)" "in_create_only (op_input again)"
    and "in_payload (op_input again) = JObj ps" "oc_payload_from (ap_common A) ps = Inr payload"
    and "put_immutability (ap_common A) (in_immutability (op_input again)) = Inr i" "put_retention (ap_common A) (in_retention (op_input again)) = Inr r"
  shows "collides (fake_store b w) (put_contents (ap_common A) (in_object_id (op_input operation)) (concat chunks) s)
    \<or> (\<exists>m w1 w2 e. adapter_put A operation payloads w = (Inr m, w1) \<and> adapter_put A again payloads' w1 = (Inl e, w2)
        \<and> exn_kind_of e = (if im_publish_once i then ImmutableObjectConflict else ConditionalConflict)
        \<and> fake_store b w2 = fake_store b w1)"
proof (cases "collides (fake_store b w) (put_contents (ap_common A) (in_object_id (op_input operation)) (concat chunks) s)")
  case False
  let ?oid = "in_object_id (op_input operation)"
  obtain m w1 where p: "adapter_put A operation payloads w = (Inr m, w1)"
    and h: "holds_version (served_by L b attempts) (fake_ok b auth) (fake_store b) (b_max_manifest_bytes b) A ?oid (concat chunks) s w1"
    using fake_setup.store_facts(1) [OF assms(1) assms(3,2,4) False] by blast
  define tag where "tag = (if im_publish_once i then ''m-a1-'' else ''m-l1-'') @ object_id_hash ?oid"
  have "tag_match tag" using tags_match(1,2) by (simp add: tag_def)
  moreover have "st_tags (fake_store b w1) tag \<noteq> None" "fake_ok b auth w1" using h by (simp_all add: holds_version_def tag_def)
  ultimately obtain w2 where e: "manifest_exists (fake_client L b attempts) tag w1 = (Inr True, w2)" "fake_store b w2 = fake_store b w1"
    using fake_setup.manifest_exists_ok [OF assms(1), of w1 tag] by auto
  have "require_create_available A ?oid i True w1 = (Inl (published_error i ''logical Object id was already published''), w2)"
    using e(1) assms(3) by (simp add: require_create_available_def anchor_tag_eq latest_tag_eq tag_def io_simps http_transport_def split: if_splits)
  then have "adapter_put A again payloads' w1 = (Inl (published_error i ''logical Object id was already published''), w2)"
    using assms(5-10) by (simp add: adapter_put_def io_simps Let_def)
  with p e(2) show ?thesis by (auto simp: published_error_def)
qed simp

theorem create_only_once_witness:
  "collides (fake_store registry_binding empty_registry) (put_contents example_common ''o'' ''hello'' (example_envelope 5))
   \<or> (\<exists>m w1 w2 e. adapter_put (example_adapter 5) (example_operation ''meridian.object.put'' example_input) example_payloads empty_registry = (Inr m, w1)
        \<and> adapter_put (example_adapter 5) (example_operation ''meridian.object.put'' example_input) example_payloads w1 = (Inl e, w2)
        \<and> exn_kind_of e = ConditionalConflict \<and> fake_store registry_binding w2 = fake_store registry_binding w1)"
proof -
  let ?op = "example_operation ''meridian.object.put'' example_input"
  have A: "ap_transport (example_adapter 5) = served_by example_lib registry_binding 3" by (simp add: example_transport_def)
  have o: "op_input ?op = example_input" by (simp add: example_operation_def)
  have v: "in_object_id example_input = ''o''" "in_create_only example_input" "in_payload example_input = JObj []"
    by (simp_all add: example_input_def)
  have i: "put_immutability (ap_common (example_adapter 5)) (in_immutability example_input) = Inr \<lparr>im_mutability = ''immutable'', im_publish_once = False\<rparr>"
    "put_retention (ap_common (example_adapter 5)) (in_retention example_input) = Inr (Some \<lparr>rt_retain_until = Some 7, rt_terms = []\<rparr>)"
    by (simp_all add: put_immutability_def put_retention_def example_input_def example_common_def obj_get_def example_readers)
  from create_only_once [OF example_setup empty_registry_ok A, of ?op example_payloads "[''hello'']" 5 "example_envelope 5" ?op "[]" _
      "\<lparr>im_mutability = ''immutable'', im_publish_once = False\<rparr>" "Some \<lparr>rt_retain_until = Some 7, rt_terms = []\<rparr>" example_payloads]
    example_put_ready [of 5] v i show ?thesis
    by (simp add: o example_transport_def example_common_calls)
qed

end
