(* ===== verification/Timestamps.thy ===== *)
theory Timestamps
  imports Prelude
begin

text \<open>
  \<open>datetime.strftime("%Y-%m-%dT%H:%M:%S.%fZ")\<close> of an aware UTC time, as the multipart manager and the
  probe use it: an instant is a number of microseconds since the epoch, the date is the proleptic
  Gregorian one. \<open>datetime_max\<close> is the first instant a \<open>datetime\<close> cannot hold.
\<close>

definition pad_left :: "nat \<Rightarrow> int \<Rightarrow> string" where
  "pad_left width n = (let s = str_int n in replicate (width - length s) (CHR ''0'') @ s)"

text \<open>The date of a day number, counted from 1970-01-01, with years that begin in March and the
  400-year cycle of 146097 days.\<close>

definition civil_from_days :: "int \<Rightarrow> int \<times> int \<times> int" where
  "civil_from_days days =
     (let z = days + 719468;
          era = z div 146097;
          doe = z mod 146097;
          yoe = (doe - doe div 1460 + doe div 36524 - doe div 146096) div 365;
          doy = doe - (365 * yoe + yoe div 4 - yoe div 100);
          mp = (5 * doy + 2) div 153;
          m = (if mp < 10 then mp + 3 else mp - 9)
      in (yoe + era * 400 + (if m \<le> 2 then 1 else 0), m, doy - (153 * mp + 2) div 5 + 1))"

definition datetime_max :: int where
  "datetime_max = 253402300800 * 1000000"

definition utc_timestamp :: "int \<Rightarrow> string" where
  "utc_timestamp t =
     (let secs = t div 1000000; (y, m, d) = civil_from_days (secs div 86400); tod = secs mod 86400
      in pad_left 4 y @ ''-'' @ pad_left 2 m @ ''-'' @ pad_left 2 d @ ''T'' @ pad_left 2 (tod div 3600) @ '':''
         @ pad_left 2 (tod div 60 mod 60) @ '':'' @ pad_left 2 (tod mod 60) @ ''.'' @ pad_left 6 (t mod 1000000) @ ''Z'')"

text \<open>Leap days, century years and the last day a \<open>datetime\<close> holds.\<close>

lemma civil_from_days_examples:
  "civil_from_days 0 = (1970, 1, 1)" "civil_from_days 11016 = (2000, 2, 29)"
  "civil_from_days 47540 = (2100, 2, 28)" "civil_from_days 47541 = (2100, 3, 1)"
  "civil_from_days (datetime_max div (86400 * 1000000) - 1) = (9999, 12, 31)"
  by code_simp+

end
