(* ===== verification/Multipart.thy ===== *)
theory Multipart
  imports Adapter_Laws Timestamps
begin

text \<open>
  \<^verbatim>\<open>src/src/meridian_storage/adapters/oci/multipart/__init__.py\<close>: resumable uploads in parts.

  The world of the manager is the adapter's world together with the table of open sessions; \<open>inner\<close> runs
  an adapter computation in it. The source mutates a session's state object in place while the table holds
  it, so every mutation is written back to the table under the session's identifier. The classes of the
  object-common package the manager constructs, and the random token of a session, are the parameter
  record \<open>multipart_common\<close>.
\<close>

section \<open>Sessions\<close>

record multipart_session =
  mse_session_id :: string
  mse_object_ref :: object_reference
  mse_part_size :: int
  mse_expires_at :: string

record multipart_part =
  mpt_part_number :: int
  mpt_identity :: content_identity
  mpt_verification :: string

text \<open>\<open>_MultipartState\<close>; the running hash is the octets hashed so far.\<close>

record multipart_state =
  ms_operation :: operation
  ms_upload :: upload_location
  ms_machine :: put_state
  ms_hashed :: string
  ms_length :: int
  ms_next_part :: int
  ms_parts :: "multipart_part list"

type_synonym sessions = "(string \<times> multipart_state) list"

text \<open>\<open>MultipartLimits\<close>, \<open>MultipartSession\<close>, \<open>MultipartPart\<close> and \<open>MultipartCompletion\<close> may reject their
  arguments; \<open>mc_token_hex\<close> is \<open>secrets.token_hex\<close>.\<close>

record 'w multipart_common =
  mc_check_limits :: "int \<Rightarrow> int \<Rightarrow> int \<Rightarrow> exn + unit"
  mc_mk_session :: "multipart_session \<Rightarrow> exn + multipart_session"
  mc_mk_part :: "multipart_part \<Rightarrow> exn + multipart_part"
  mc_mk_completion :: "multipart_part list \<Rightarrow> content_identity \<Rightarrow> exn + unit"
  mc_token_hex :: "nat \<Rightarrow> ('w, string) io"

record 'w manager =
  mg_adapter :: "'w adapter"
  mg_common :: "'w multipart_common"
  mg_min_part_bytes :: int

definition mk_manager :: "'w multipart_common \<Rightarrow> 'w adapter \<Rightarrow> exn + 'w manager" where
  "mk_manager mc A =
     bindE (mc_check_limits mc (64 * 1024) (b_chunk_size (ap_binding A)) (b_max_multipart_parts (ap_binding A))) (\<lambda>_.
     Inr \<lparr>mg_adapter = A, mg_common = mc, mg_min_part_bytes = 64 * 1024\<rparr>)"

section \<open>Running in the manager's world\<close>

definition put_session :: "string \<Rightarrow> multipart_state \<Rightarrow> ('w \<times> sessions, unit) io" where
  "put_session i st = (\<lambda>(w, ss). (Inr (), w, AList.update i st ss))"

definition pop_session :: "string \<Rightarrow> ('w \<times> sessions, multipart_state option) io" where
  "pop_session i = (\<lambda>(w, ss). (Inr (map_of ss i), w, AList.delete i ss))"

definition multipart_state_of :: "'w manager \<Rightarrow> multipart_session \<Rightarrow> ('w \<times> sessions, multipart_state) io" where
  "multipart_state_of M session =
     bnd (\<lambda>(w, ss). (Inr (map_of ss (mse_session_id session)), w, ss)) (\<lambda>found. case found of
        None \<Rightarrow> raise (exn_of MultipartInvalid ''multipart session is unknown or does not match the Object'')
      | Some st \<Rightarrow>
          bnd (lift (object_reference_for_operation (mg_adapter M) (ms_operation st))) (\<lambda>r.
          if mse_object_ref session \<noteq> r
          then raise (exn_of MultipartInvalid ''multipart session is unknown or does not match the Object'')
          else ret st))"

definition abort_multipart :: "'w manager \<Rightarrow> multipart_session \<Rightarrow> ('w \<times> sessions, unit) io" where
  "abort_multipart M session =
     bnd (pop_session (mse_session_id session)) (\<lambda>popped. case popped of
        None \<Rightarrow> ret ()
      | Some st \<Rightarrow>
          bnd (inner (adapter_abort_safely (mg_adapter M) (ms_upload st))) (\<lambda>_.
          if ms_machine st = PUT_UPLOADING
          then bnd (lift (oc_put_transition (ap_common (mg_adapter M)) (ms_machine st) PUT_ABORTED)) (\<lambda>_. ret ())
          else ret ()))"

section \<open>Beginning\<close>

definition begin_multipart :: "'w manager \<Rightarrow> operation \<Rightarrow> ('w \<times> sessions, multipart_session) io" where
  "begin_multipart M operation =
     (let A = mg_adapter M; oc = ap_common A; v = op_input operation
      in bnd (lift (validate_operation A operation)) (\<lambda>method.
         if method \<noteq> ''put'' then raise (exn_of MultipartInvalid ''multipart is available only for Object put'')
         else
         bnd (lift (oc_require_capabilities oc (ap_manifest A) (op_requirements operation))) (\<lambda>_.
         bnd (lift (put_immutability oc (in_immutability v))) (\<lambda>immutability.
         bnd (inner (require_create_available A (in_object_id v) immutability
                (in_create_only v \<or> im_publish_once immutability))) (\<lambda>_.
         bnd (inner (tr_start_upload (ap_transport A))) (\<lambda>upload.
         bnd (lift (oc_put_transition oc (oc_put_initial oc) PUT_UPLOADING)) (\<lambda>machine.
         bnd (inner (mc_token_hex (mg_common M) 30)) (\<lambda>token.
         bnd (inner (adapter_now A)) (\<lambda>now.
         if datetime_max \<le> now + 3600 * 1000000 then raise (exn_of (OtherError ''OverflowError'') ''date value out of range'')
         else
         bnd (lift (object_reference_for_operation A operation)) (\<lambda>reference.
         bnd (lift (mc_mk_session (mg_common M)
                \<lparr>mse_session_id = ''u'' @ token, mse_object_ref = reference, mse_part_size = b_chunk_size (ap_binding A),
                 mse_expires_at = utc_timestamp (now + 3600 * 1000000)\<rparr>)) (\<lambda>session.
         bnd (put_session (''u'' @ token)
                \<lparr>ms_operation = operation, ms_upload = upload, ms_machine = machine, ms_hashed = [], ms_length = 0,
                 ms_next_part = 1, ms_parts = []\<rparr>) (\<lambda>_.
         ret session))))))))))))"

section \<open>Parts\<close>

definition verification_token :: "string \<Rightarrow> string \<Rightarrow> int \<Rightarrow> content_identity \<Rightarrow> string" where
  "verification_token key session_id part_number identity =
     ''p_'' @ hmac_hexdigest key
       (session_id @ ''|'' @ str_int part_number @ ''|'' @ ci_digest identity @ ''|'' @ str_int (ci_byte_length identity))"

text \<open>The chunk loop of \<open>upload_part\<close>: the session state, mutated, and the octets of the part so far. As in
  \<open>upload_chunks\<close>, what the payload stream delivers does not depend on the requests sent in between.\<close>

fun part_chunks ::
  "'w adapter \<Rightarrow> int \<Rightarrow> multipart_state \<Rightarrow> string \<Rightarrow> string list \<Rightarrow> exn option
    \<Rightarrow> ('w, multipart_state \<times> (exn + string)) io" where
  "part_chunks A part_size st part [] err = ret (st, case err of None \<Rightarrow> Inr part | Some e \<Rightarrow> Inl e)"
| "part_chunks A part_size st part (chunk # chunks) err =
     (if part_size < int (length (part @ chunk))
      then ret (st, Inl (exn_of MultipartInvalid ''multipart part exceeds the session part size''))
      else if b_max_object_bytes (ap_binding A) < ms_length st + int (length (part @ chunk))
      then ret (st, Inl (exn_of MultipartInvalid ''multipart Object exceeds the configured size limit''))
      else
        let st1 = st\<lparr>ms_hashed := ms_hashed st @ chunk\<rparr>
        in bnd (outcome (tr_patch_upload (ap_transport A) (ms_upload st) chunk)) (\<lambda>r. case r of
             Inl e \<Rightarrow> ret (st1, Inl e)
           | Inr u \<Rightarrow> part_chunks A part_size (st1\<lparr>ms_upload := u\<rparr>) (part @ chunk) chunks err))"

text \<open>The \<open>try\<close> block: the part's identity, or the exception that aborts the session. The mutated state
  is written back before the outcome is looked at.\<close>

definition part_try ::
  "'w manager \<Rightarrow> multipart_session \<Rightarrow> multipart_state \<Rightarrow> payload_reference \<Rightarrow> 'w payload_registry
    \<Rightarrow> ('w \<times> sessions, multipart_state \<times> int \<times> content_identity) io" where
  "part_try M session st payload payloads =
     (let A = mg_adapter M
      in bnd (inner (pr_open payloads payload (mse_part_size session))) (\<lambda>(chunks, err).
         bnd (inner (part_chunks A (mse_part_size session) st [] chunks err)) (\<lambda>(st', r).
         bnd (put_session (mse_session_id session) st') (\<lambda>_.
         bnd (lift r) (\<lambda>part.
         if part = [] then raise (exn_of MultipartInvalid ''multipart parts cannot be empty'')
         else
         bnd (lift (oc_mk_identity (ap_common A) (''sha256:'' @ hexdigest part) (int (length part)))) (\<lambda>identity.
         bnd (lift (verify_identity payload identity)) (\<lambda>_.
         ret (st', int (length part), identity))))))))"

definition upload_part ::
  "'w manager \<Rightarrow> multipart_session \<Rightarrow> int \<Rightarrow> payload_reference \<Rightarrow> 'w payload_registry \<Rightarrow> ('w \<times> sessions, multipart_part) io" where
  "upload_part M session part_number payload payloads =
     (let A = mg_adapter M; i = mse_session_id session
      in bnd (multipart_state_of M session) (\<lambda>st.
         if part_number \<noteq> ms_next_part st
         then raise (exn_of MultipartInvalid ''OCI multipart parts must be uploaded in order'')
         else if b_max_multipart_parts (ap_binding A) < part_number
         then raise (exn_of MultipartInvalid ''OCI multipart part-count limit was exceeded'')
         else
         bnd (catch (part_try M session st payload payloads) (\<lambda>e. bnd (abort_multipart M session) (\<lambda>_. raise e)))
           (\<lambda>(st', part_length, identity).
         let st1 = st'\<lparr>ms_length := ms_length st' + part_length\<rparr>
         in bnd (put_session i st1) (\<lambda>_.
            bnd (lift (mc_mk_part (mg_common M)
                   \<lparr>mpt_part_number = part_number, mpt_identity = identity,
                    mpt_verification = verification_token (b_cursor_signing_key (ap_binding A)) i part_number identity\<rparr>)) (\<lambda>part.
            bnd (put_session i (st1\<lparr>ms_parts := ms_parts st1 @ [part], ms_next_part := ms_next_part st1 + 1\<rparr>)) (\<lambda>_.
            ret part))))))"

section \<open>Completion\<close>

text \<open>The \<open>except\<close> clause of \<open>complete_multipart\<close> for the machine's state.\<close>

definition completion_failed :: "'w manager \<Rightarrow> multipart_state \<Rightarrow> put_state \<Rightarrow> exn \<Rightarrow> ('w \<times> sessions, 'a) io" where
  "completion_failed M st machine e =
     (let A = mg_adapter M
      in if machine = PUT_UPLOADING
         then bnd (inner (adapter_abort_safely A (ms_upload st))) (\<lambda>_.
              bnd (lift (oc_put_fail (ap_common A) machine False)) (\<lambda>_. raise e))
         else if machine = PUT_VERIFYING
         then bnd (lift (oc_put_fail (ap_common A) machine True)) (\<lambda>_. raise e)
         else raise e)"

text \<open>The \<open>try\<close> block: each step's failure is handled in the machine state it left.\<close>

definition complete_try ::
  "'w manager \<Rightarrow> multipart_state \<Rightarrow> content_identity \<Rightarrow> immutability_request \<Rightarrow> retention_request option \<Rightarrow> bool
    \<Rightarrow> ('w \<times> sessions, object_metadata) io" where
  "complete_try M st identity immutability retention create_only =
     (let A = mg_adapter M; oc = ap_common A; v = op_input (ms_operation st); m0 = ms_machine st
      in bnd (catch (inner (bnd (require_create_available A (in_object_id v) immutability create_only) (\<lambda>_.
                tr_finish_upload (ap_transport A) (ms_upload st) (ci_digest identity)))) (completion_failed M st m0)) (\<lambda>_.
         bnd (catch (lift (oc_put_transition oc m0 PUT_VERIFYING)) (completion_failed M st m0)) (\<lambda>m1.
         bnd (catch (inner (commit_object A v identity immutability retention create_only)) (completion_failed M st m1)) (\<lambda>metadata.
         bnd (catch (lift (oc_put_transition oc m1 PUT_COMMITTED)) (completion_failed M st m1)) (\<lambda>_.
         ret metadata)))))"

definition complete_multipart :: "'w manager \<Rightarrow> multipart_session \<Rightarrow> multipart_part list \<Rightarrow> ('w \<times> sessions, object_metadata) io" where
  "complete_multipart M session parts =
     (let A = mg_adapter M; oc = ap_common A
      in bnd (multipart_state_of M session) (\<lambda>st.
         let v = op_input (ms_operation st)
         in if parts \<noteq> ms_parts st
            then raise (exn_of MultipartInvalid ''multipart completion parts do not match uploaded parts'')
            else if list_ex (\<lambda>p. ci_byte_length (mpt_identity p) < mg_min_part_bytes M) (butlast parts)
            then raise (exn_of MultipartInvalid ''every non-final multipart part must meet the minimum size'')
            else
            bnd (lift (oc_mk_identity oc (''sha256:'' @ hexdigest (ms_hashed st)) (ms_length st))) (\<lambda>identity.
            bnd (lift (mc_mk_completion (mg_common M) parts identity)) (\<lambda>_.
            if in_expected_digest v \<noteq> None \<and> in_expected_digest v \<noteq> Some (ci_digest identity)
            then bnd (abort_multipart M session) (\<lambda>_.
                 raise (exn_of IncompleteUpload ''multipart digest does not match the put declaration''))
            else if in_expected_length v \<noteq> None \<and> in_expected_length v \<noteq> Some (ci_byte_length identity)
            then bnd (abort_multipart M session) (\<lambda>_.
                 raise (exn_of IncompleteUpload ''multipart length does not match the put declaration''))
            else
            bnd (lift (put_immutability oc (in_immutability v))) (\<lambda>immutability.
            bnd (lift (put_retention oc (in_retention v))) (\<lambda>retention.
            finally_io
              (complete_try M st identity immutability retention (in_create_only v \<or> im_publish_once immutability))
              (bnd (pop_session (mse_session_id session)) (\<lambda>_. ret ()))))))))"

end
