(* ===== verification/Multipart_Laws.thy ===== *)
theory Multipart_Laws
  imports Multipart
begin

text \<open>
  What the multipart manager guarantees on any transport that accounts for uploaded bytes: the invariant
  of the session table, that it holds in every state the manager can reach whatever happens to the world
  between two calls, and the outcomes of the calls in terms of it.
\<close>

section \<open>The session invariant\<close>

text \<open>The record of part \<open>n\<close> of session \<open>i\<close> when its octets are \<open>segment\<close>, and the records of
  consecutive parts.\<close>

definition part_of :: "string \<Rightarrow> string \<Rightarrow> int \<Rightarrow> string \<Rightarrow> multipart_part" where
  "part_of key i n segment =
     (let identity = \<lparr>ci_digest = sha256_digest segment, ci_byte_length = int (length segment)\<rparr>
      in \<lparr>mpt_part_number = n, mpt_identity = identity, mpt_verification = verification_token key i n identity\<rparr>)"

fun parts_from :: "string \<Rightarrow> string \<Rightarrow> int \<Rightarrow> string list \<Rightarrow> multipart_part list" where
  "parts_from key i n [] = []"
| "parts_from key i n (segment # segments) = part_of key i n segment # parts_from key i (n + 1) segments"

lemma parts_from_append:
  "parts_from key i n (segments @ [segment]) = parts_from key i n segments @ [part_of key i (n + int (length segments)) segment]"
  by (induction segments arbitrary: n) (simp_all add: add.assoc)

abbreviation mg_key :: "'w manager \<Rightarrow> string" where
  "mg_key M \<equiv> b_cursor_signing_key (ap_binding (mg_adapter M))"

text \<open>A session has received the parts \<open>segments\<close>: their records, in order and numbered from one; the hash,
  the length and the offset of the upload are those of their concatenation; the limits hold; and the
  put state machine is uploading.\<close>

definition session_ok :: "'w manager \<Rightarrow> string \<Rightarrow> multipart_state \<Rightarrow> string list \<Rightarrow> bool" where
  "session_ok M i st segments \<longleftrightarrow>
     [] \<notin> set segments \<and> ms_hashed st = concat segments \<and> ms_parts st = parts_from (mg_key M) i 1 segments
     \<and> ms_next_part st = int (length segments) + 1 \<and> ms_length st = int (length (concat segments))
     \<and> ul_offset (ms_upload st) = length (concat segments)
     \<and> (segments = [] \<or> ms_length st \<le> b_max_object_bytes (ap_binding (mg_adapter M))
          \<and> int (length segments) \<le> b_max_multipart_parts (ap_binding (mg_adapter M)))
     \<and> oc_put_transition (ap_common (mg_adapter M)) (oc_put_initial (ap_common (mg_adapter M))) PUT_UPLOADING = Inr (ms_machine st)"

definition sessions_ok :: "'w manager \<Rightarrow> sessions \<Rightarrow> bool" where
  "sessions_ok M ss \<longleftrightarrow> distinct (map fst ss) \<and> (\<forall>i st. map_of ss i = Some st \<longrightarrow> (\<exists>segments. session_ok M i st segments))"

text \<open>The constructors of \<open>ContentIdentity\<close> and \<open>MultipartPart\<close> build the value of their arguments, and \<open>MultipartPart\<close> accepts
  a positive number. Were it to raise, \<open>upload_part\<close> would leave the session with the octets of the part counted and
  the part not recorded; the properties of the manager exclude that by this hypothesis.\<close>

definition part_classes :: "'w manager \<Rightarrow> bool" where
  "part_classes M \<longleftrightarrow>
     (\<forall>d n i. oc_mk_identity (ap_common (mg_adapter M)) d n = Inr i \<longrightarrow> i = \<lparr>ci_digest = d, ci_byte_length = n\<rparr>)
     \<and> (\<forall>p. 0 < mpt_part_number p \<longrightarrow> mc_mk_part (mg_common M) p = Inr p)"

lemma sessions_ok_Nil [simp]: "sessions_ok M []"
  by (simp add: sessions_ok_def)

lemma sessions_ok_update:
  "sessions_ok M ss \<Longrightarrow> session_ok M i st segments \<Longrightarrow> sessions_ok M (AList.update i st ss)"
  by (auto simp: sessions_ok_def AList.distinct_update AList.update_conv)

lemma sessions_ok_delete: "sessions_ok M ss \<Longrightarrow> sessions_ok M (AList.delete i ss)"
  by (auto simp: sessions_ok_def AList.distinct_delete AList.delete_conv split: if_splits)

section \<open>The calls on the table\<close>

lemma put_session_iff: "put_session i st (w, ss) = (r, w', ss') \<longleftrightarrow> r = Inr () \<and> w' = w \<and> ss' = AList.update i st ss"
  by (auto simp: put_session_def)

lemma pop_session_iff: "pop_session i (w, ss) = (r, w', ss') \<longleftrightarrow> r = Inr (map_of ss i) \<and> w' = w \<and> ss' = AList.delete i ss"
  by (auto simp: pop_session_def)

lemmas table_iffs = inner_iff put_session_iff pop_session_iff

lemma multipart_state_of_cases:
  assumes "multipart_state_of M session (w, ss) = (r, w', ss')"
  shows "w' = w \<and> ss' = ss \<and> (\<forall>st. r = Inr st \<longrightarrow> map_of ss (mse_session_id session) = Some st
    \<and> object_reference_for_operation (mg_adapter M) (ms_operation st) = Inr (mse_object_ref session))"
  using assms unfolding multipart_state_of_def bnd_def
  by (auto simp: lift_def split: option.splits sum.splits if_splits)

lemma abort_multipart_sessions:
  assumes "abort_multipart M session (w, ss) = (r, w', ss')"
  shows "ss' = AList.delete (mse_session_id session) ss"
  using assms unfolding abort_multipart_def bnd_def
  by (auto simp: table_iffs lift_def pop_session_def inner_def split: option.splits sum.splits if_splits prod.splits)

text \<open>Aborting an open session asks the server to abort its upload, whatever comes of that.\<close>

lemma abort_multipart_aborts:
  assumes "abort_multipart M session (w, ss) = (r, w', ss')" "map_of ss (mse_session_id session) = Some st"
  shows "\<exists>x. tr_abort_upload (ap_transport (mg_adapter M)) (ms_upload st) w = (x, w')"
  using assms unfolding abort_multipart_def adapter_abort_safely_def try_safely_def bnd_def
  by (cases "tr_abort_upload (ap_transport (mg_adapter M)) (ms_upload st) w")
     (auto simp: table_iffs lift_def pop_session_def inner_def ret_def split: sum.splits if_splits)

section \<open>Parts\<close>

text \<open>\<open>acknowledged tr (u, v) (u', v')\<close>: from the world \<open>v\<close>, chunks sent one after the other were accepted, which took the
  upload from \<open>u\<close> to \<open>u'\<close> and the world to \<open>v'\<close>. \<open>left_at\<close>: where a part leaves an upload, and the world: where it found it if
  its payload cannot be opened, else where the accepted chunks have taken it, a last one possibly refused.\<close>

definition acknowledged :: "'w transport \<Rightarrow> upload_location \<times> 'w \<Rightarrow> upload_location \<times> 'w \<Rightarrow> bool" where
  "acknowledged tr = (\<lambda>(u, v) (u', v'). \<exists>chunk. tr_patch_upload tr u chunk v = (Inr u', v'))\<^sup>*\<^sup>*"

definition left_at ::
  "'w transport \<Rightarrow> 'w payload_registry \<Rightarrow> payload_reference \<Rightarrow> int \<Rightarrow> upload_location \<Rightarrow> 'w \<Rightarrow> upload_location \<Rightarrow> 'w \<Rightarrow> bool" where
  "left_at tr payloads payload limit u w u' v \<longleftrightarrow>
     (\<exists>e. pr_open payloads payload limit w = (Inl e, v)) \<and> u' = u
     \<or> (\<exists>x w1 v1. pr_open payloads payload limit w = (Inr x, w1) \<and> acknowledged tr (u, w1) (u', v1)
          \<and> (v = v1 \<or> (\<exists>chunk e. tr_patch_upload tr u' chunk v1 = (Inl e, v))))"

lemma acknowledged_refl [simp]: "acknowledged tr p p"
  by (simp add: acknowledged_def)

lemma acknowledged_step: "tr_patch_upload tr u chunk v = (Inr u1, v1) \<Longrightarrow> acknowledged tr (u1, v1) p \<Longrightarrow> acknowledged tr (u, v) p"
  unfolding acknowledged_def by (rule converse_rtranclp_into_rtranclp) auto

lemma part_chunks_upload:
  "part_chunks A n st part chunks err w = (Inr (st', r), w') \<Longrightarrow>
     \<exists>v. acknowledged (ap_transport A) (ms_upload st, w) (ms_upload st', v)
       \<and> (w' = v \<or> (\<exists>chunk e. tr_patch_upload (ap_transport A) (ms_upload st') chunk v = (Inl e, w')))"
proof (induction chunks arbitrary: st part w)
  case Nil
  then show ?case by (intro exI [of _ w]) (auto simp: ret_def)
next
  case (Cons c cs)
  obtain o1 w1 where p: "tr_patch_upload (ap_transport A) (ms_upload st) c w = (o1, w1)" by fastforce
  show ?case
  proof (cases "n < int (length (part @ c)) \<or> b_max_object_bytes (ap_binding A) < ms_length st + int (length (part @ c))")
    case True
    with Cons.prems show ?thesis by (intro exI [of _ w]) (auto simp: ret_def split: if_splits)
  next
    case False
    show ?thesis
    proof (cases o1)
      case (Inl e)
      with p Cons.prems False show ?thesis by (intro exI [of _ w]) (auto simp: Let_def outcome_def bnd_def ret_def)
    next
      case (Inr u)
      from p Inr Cons.prems False
      have "part_chunks A n (st\<lparr>ms_hashed := ms_hashed st @ c, ms_upload := u\<rparr>) (part @ c) cs err w1 = (Inr (st', r), w')"
        by (auto simp: Let_def outcome_def bnd_def)
      from Cons.IH [OF this] acknowledged_step [OF p [unfolded Inr]] show ?thesis by fastforce
    qed
  qed
qed

text \<open>The chunk loop returns, its only effects on the session being the hash and the upload.\<close>

lemma part_chunks_total: "\<exists>st' r w'. part_chunks A n st part chunks err w = (Inr (st', r), w')"
proof (induction chunks arbitrary: st part w)
  case (Cons c cs)
  obtain r w1 where p: "tr_patch_upload (ap_transport A) (ms_upload st) c w = (r, w1)" by fastforce
  show ?case
  proof (cases r)
    case (Inr u)
    from Cons.IH [of "st\<lparr>ms_hashed := ms_hashed st @ c, ms_upload := u\<rparr>" "part @ c" w1] p Inr show ?thesis
      by (auto simp: Let_def outcome_def bnd_def)
  qed (use p in \<open>auto simp: Let_def outcome_def bnd_def\<close>)
qed simp

context verified_transport
begin

lemma part_chunks_Inr:
  assumes "ap_transport A = tr" "part_chunks A n st part chunks err w = (Inr (st', Inr p), w')"
  shows "err = None \<and> p = part @ concat chunks
    \<and> (\<exists>u. st' = st\<lparr>ms_hashed := ms_hashed st @ concat chunks, ms_upload := u\<rparr>
         \<and> ul_offset u = ul_offset (ms_upload st) + length (concat chunks))
    \<and> (chunks = [] \<or> int (length p) \<le> n \<and> ms_length st + int (length p) \<le> b_max_object_bytes (ap_binding A))"
  using assms(2)
proof (induction chunks arbitrary: st part w)
  case Nil
  then show ?case by (auto split: option.splits intro!: exI [of _ "ms_upload st"])
next
  case (Cons c cs)
  let ?st = "\<lambda>u. st\<lparr>ms_hashed := ms_hashed st @ c, ms_upload := u\<rparr>"
  from Cons.prems assms(1) obtain u w1 where p: "tr_patch_upload tr (ms_upload st) c w = (Inr u, w1)"
    and r: "part_chunks A n (?st u) (part @ c) cs err w1 = (Inr (st', Inr p), w')"
    and b: "int (length (part @ c)) \<le> n" "ms_length st + int (length (part @ c)) \<le> b_max_object_bytes (ap_binding A)"
    by (auto simp: Let_def split: if_splits sum.splits)
  from Cons.IH [OF r] patch_offset [OF p] b show ?case by (auto simp: add.assoc)
qed

lemma part_try_cases:
  assumes "ap_transport (mg_adapter M) = tr" "part_classes M"
    and "part_try M session st payload payloads (w, ss) = (r, w', ss')"
  shows "(\<exists>e. r = Inl e) \<and> (\<exists>u. left_at tr payloads payload (mse_part_size session) (ms_upload st) w u w'
         \<and> (ss' = ss \<and> u = ms_upload st \<or> (\<exists>st'. ss' = AList.update (mse_session_id session) st' ss \<and> u = ms_upload st')))
    \<or> (\<exists>chunks w1 u. pr_open payloads payload (mse_part_size session) w = (Inr (chunks, None), w1)
         \<and> concat chunks \<noteq> [] \<and> int (length (concat chunks)) \<le> mse_part_size session
         \<and> ms_length st + int (length (concat chunks)) \<le> b_max_object_bytes (ap_binding (mg_adapter M))
         \<and> ul_offset u = ul_offset (ms_upload st) + length (concat chunks)
         \<and> verify_identity payload \<lparr>ci_digest = sha256_digest (concat chunks), ci_byte_length = int (length (concat chunks))\<rparr> = Inr ()
         \<and> r = Inr (st\<lparr>ms_hashed := ms_hashed st @ concat chunks, ms_upload := u\<rparr>, int (length (concat chunks)),
              \<lparr>ci_digest = sha256_digest (concat chunks), ci_byte_length = int (length (concat chunks))\<rparr>)
         \<and> ss' = AList.update (mse_session_id session) (st\<lparr>ms_hashed := ms_hashed st @ concat chunks, ms_upload := u\<rparr>) ss)"
proof -
  let ?A = "mg_adapter M"
  obtain o1 w1 where o: "pr_open payloads payload (mse_part_size session) w = (o1, w1)" by fastforce
  show ?thesis
  proof (cases o1)
    case (Inl e)
    with o assms(3) show ?thesis by (auto simp: part_try_def inner_def bnd_def Let_def left_at_def)
  next
    case (Inr x)
    obtain chunks err where x: "x = (chunks, err)" by fastforce
    obtain st' q w2 where c: "part_chunks ?A (mse_part_size session) st [] chunks err w1 = (Inr (st', q), w2)"
      using part_chunks_total [of ?A "mse_part_size session" st "[]" chunks err w1] by auto
    have ss: "ss' = AList.update (mse_session_id session) st' ss" and w: "w' = w2"
      using assms(3) o Inr x c unfolding part_try_def
      by (auto simp: inner_def bnd_def put_session_def lift_def raise_def ret_def Let_def split: sum.splits if_splits)
    show ?thesis
    proof (cases r)
      case (Inr y)
      with assms(3) o \<open>o1 = Inr x\<close> x c obtain part identity where
        q: "q = Inr part" and ne: "part \<noteq> []" and y: "y = (st', int (length part), identity)"
        and i: "oc_mk_identity (ap_common ?A) (''sha256:'' @ hexdigest part) (int (length part)) = Inr identity"
        and v: "verify_identity payload identity = Inr ()"
        unfolding part_try_def
        by (auto simp: inner_def bnd_def put_session_def lift_def raise_def ret_def Let_def split: sum.splits if_splits)
      have id: "identity = \<lparr>ci_digest = sha256_digest part, ci_byte_length = int (length part)\<rparr>"
        using i assms(2) by (auto simp: part_classes_def sha256_digest_def)
      from part_chunks_Inr [OF assms(1) c [unfolded q]] obtain u where k: "err = None" "part = concat chunks"
        "st' = st\<lparr>ms_hashed := ms_hashed st @ concat chunks, ms_upload := u\<rparr>"
        "ul_offset u = ul_offset (ms_upload st) + length (concat chunks)"
        "chunks = [] \<or> int (length part) \<le> mse_part_size session \<and> ms_length st + int (length part) \<le> b_max_object_bytes (ap_binding ?A)"
        by auto
      from k ne have "chunks \<noteq> []" by auto
      with k ne o \<open>o1 = Inr x\<close> x id y v ss Inr show ?thesis
        by (intro disjI2 exI [of _ chunks] exI [of _ w1] exI [of _ u]) auto
    next
      case (Inl e)
      from part_chunks_upload [OF c] assms(1) o \<open>o1 = Inr x\<close> w
      have "left_at tr payloads payload (mse_part_size session) (ms_upload st) w (ms_upload st') w'" unfolding left_at_def by blast
      with Inl ss show ?thesis by blast
    qed
  qed
qed

lemma upload_part_cases:
  assumes "ap_transport (mg_adapter M) = tr" "part_classes M" "sessions_ok M ss"
    and "upload_part M session n payload payloads (w, ss) = (r, w', ss')"
  shows "(\<exists>e. r = Inl e) \<and> w' = w \<and> ss' = ss
    \<or> (\<exists>e. r = Inl e) \<and> ss' = AList.delete (mse_session_id session) ss
        \<and> (\<exists>st u v x. map_of ss (mse_session_id session) = Some st
             \<and> left_at tr payloads payload (mse_part_size session) (ms_upload st) w u v \<and> tr_abort_upload tr u v = (x, w'))
    \<or> (\<exists>st segments chunks w1. map_of ss (mse_session_id session) = Some st \<and> session_ok M (mse_session_id session) st segments
         \<and> n = int (length segments) + 1
         \<and> object_reference_for_operation (mg_adapter M) (ms_operation st) = Inr (mse_object_ref session)
         \<and> pr_open payloads payload (mse_part_size session) w = (Inr (chunks, None), w1) \<and> int (length (concat chunks)) \<le> mse_part_size session
         \<and> verify_identity payload \<lparr>ci_digest = sha256_digest (concat chunks), ci_byte_length = int (length (concat chunks))\<rparr> = Inr ()
         \<and> r = Inr (part_of (mg_key M) (mse_session_id session) n (concat chunks))
         \<and> (\<exists>st'. ss' = AList.update (mse_session_id session) st' ss \<and> ms_operation st' = ms_operation st
              \<and> session_ok M (mse_session_id session) st' (segments @ [concat chunks])))"
proof -
  let ?A = "mg_adapter M" and ?i = "mse_session_id session"
  obtain s0 w0 ss0 where m: "multipart_state_of M session (w, ss) = (s0, w0, ss0)" by (metis prod_cases3)
  note M = multipart_state_of_cases [OF m]
  from m M have s0: "multipart_state_of M session (w, ss) = (s0, w, ss)" by simp
  from M have found: "map_of ss ?i = Some st \<and> object_reference_for_operation ?A (ms_operation st) = Inr (mse_object_ref session)"
    if "s0 = Inr st" for st using that by simp
  show ?thesis
  proof (cases "\<exists>st. s0 = Inr st \<and> n = ms_next_part st \<and> n \<le> b_max_multipart_parts (ap_binding ?A)")
    case False
    with s0 assms(4) show ?thesis
      unfolding upload_part_def Let_def by (cases s0) (auto simp: bnd_def raise_def split: if_splits)
  next
    case True
    then obtain st where st: "s0 = Inr st" and n: "n = ms_next_part st" "n \<le> b_max_multipart_parts (ap_binding ?A)" by blast
    from found [OF st] assms(3) obtain segments where ok: "session_ok M ?i st segments" unfolding sessions_ok_def by blast
    then have num: "n = int (length segments) + 1" using n by (simp add: session_ok_def)
    obtain t w1 ss1 where t: "part_try M session st payload payloads (w, ss) = (t, w1, ss1)" by (metis prod_cases3)
    from part_try_cases [OF assms(1,2) t] show ?thesis
    proof (elim disjE)
      assume "(\<exists>e. t = Inl e) \<and> (\<exists>u. left_at tr payloads payload (mse_part_size session) (ms_upload st) w u w1
        \<and> (ss1 = ss \<and> u = ms_upload st \<or> (\<exists>st'. ss1 = AList.update ?i st' ss \<and> u = ms_upload st')))"
      then obtain e u where e: "t = Inl e" and k: "left_at tr payloads payload (mse_part_size session) (ms_upload st) w u w1"
        and f: "ss1 = ss \<and> u = ms_upload st \<or> (\<exists>st'. ss1 = AList.update ?i st' ss \<and> u = ms_upload st')" by blast
      obtain a w2 ss2 where ab: "abort_multipart M session (w1, ss1) = (a, w2, ss2)" by (metis prod_cases3)
      from abort_multipart_sessions [OF ab] f have "ss2 = AList.delete ?i ss" by (auto simp: AList.delete_update_same)
      moreover from assms(4) s0 st n t e ab have "ss' = ss2" "\<exists>e. r = Inl e" and w: "w' = w2"
        unfolding upload_part_def Let_def catch_def bnd_def raise_def by (auto split: sum.splits)
      moreover from f found [OF st] obtain st' where o: "map_of ss1 ?i = Some st'" "ms_upload st' = u"
        by (auto simp: AList.update_conv)
      from abort_multipart_aborts [OF ab o(1)] assms(1) w o(2) obtain x where "tr_abort_upload tr u w1 = (x, w')" by auto
      ultimately show ?thesis using k found [OF st] by blast
    next
      assume "\<exists>chunks w1 u. pr_open payloads payload (mse_part_size session) w = (Inr (chunks, None), w1)
         \<and> concat chunks \<noteq> [] \<and> int (length (concat chunks)) \<le> mse_part_size session
         \<and> ms_length st + int (length (concat chunks)) \<le> b_max_object_bytes (ap_binding ?A)
         \<and> ul_offset u = ul_offset (ms_upload st) + length (concat chunks)
         \<and> verify_identity payload \<lparr>ci_digest = sha256_digest (concat chunks), ci_byte_length = int (length (concat chunks))\<rparr> = Inr ()
         \<and> t = Inr (st\<lparr>ms_hashed := ms_hashed st @ concat chunks, ms_upload := u\<rparr>, int (length (concat chunks)),
              \<lparr>ci_digest = sha256_digest (concat chunks), ci_byte_length = int (length (concat chunks))\<rparr>)
         \<and> ss1 = AList.update ?i (st\<lparr>ms_hashed := ms_hashed st @ concat chunks, ms_upload := u\<rparr>) ss"
      then obtain chunks w2 u where k: "pr_open payloads payload (mse_part_size session) w = (Inr (chunks, None), w2)"
         "concat chunks \<noteq> []" "int (length (concat chunks)) \<le> mse_part_size session"
         "ms_length st + int (length (concat chunks)) \<le> b_max_object_bytes (ap_binding ?A)"
         "ul_offset u = ul_offset (ms_upload st) + length (concat chunks)"
         "verify_identity payload \<lparr>ci_digest = sha256_digest (concat chunks), ci_byte_length = int (length (concat chunks))\<rparr> = Inr ()"
        and t': "t = Inr (st\<lparr>ms_hashed := ms_hashed st @ concat chunks, ms_upload := u\<rparr>, int (length (concat chunks)),
              \<lparr>ci_digest = sha256_digest (concat chunks), ci_byte_length = int (length (concat chunks))\<rparr>)"
         "ss1 = AList.update ?i (st\<lparr>ms_hashed := ms_hashed st @ concat chunks, ms_upload := u\<rparr>) ss"
        by blast
      let ?p = "part_of (mg_key M) ?i n (concat chunks)"
      let ?st = "st\<lparr>ms_hashed := ms_hashed st @ concat chunks, ms_upload := u, ms_length := ms_length st + int (length (concat chunks)),
         ms_parts := ms_parts st @ [?p], ms_next_part := n + 1\<rparr>"
      have mk: "mc_mk_part (mg_common M) ?p = Inr ?p" using assms(2) num by (simp add: part_classes_def part_of_def Let_def)
      have "r = Inr ?p \<and> ss' = AList.update ?i ?st ss"
        using assms(4) s0 st n t t' mk
        by (simp add: upload_part_def Let_def catch_def bnd_def put_session_def lift_def ret_def part_of_def)
      moreover have "session_ok M ?i ?st (segments @ [concat chunks])"
        using ok k n num by (simp add: session_ok_def parts_from_append add.commute)
      ultimately show ?thesis using ok num k found [OF st]
        by (intro disjI2 exI [of _ st] exI [of _ segments] exI [of _ chunks] exI [of _ w2]) auto
    qed
  qed
qed

end

section \<open>How the calls move the table\<close>

text \<open>Every run of \<open>m\<close> takes the table along \<open>R\<close>, whatever its outcome.\<close>

definition moves :: "(sessions \<Rightarrow> sessions \<Rightarrow> bool) \<Rightarrow> ('w \<times> sessions, 'a) io \<Rightarrow> bool" where
  "moves R m \<longleftrightarrow> (\<forall>w ss r w' ss'. m (w, ss) = (r, w', ss') \<longrightarrow> R ss ss')"

lemma movesD: "moves R m \<Longrightarrow> m (w, ss) = (r, w', ss') \<Longrightarrow> R ss ss'"
  by (simp add: moves_def)

lemma moves_basic:
  "reflp R \<Longrightarrow> moves R (inner m)" "reflp R \<Longrightarrow> moves R (lift x)" "reflp R \<Longrightarrow> moves R (raise e)" "reflp R \<Longrightarrow> moves R (ret a)"
  by (auto simp: moves_def inner_iff dest: reflpD)

lemma moves_bnd: "transp R \<Longrightarrow> moves R m \<Longrightarrow> (\<And>a. moves R (f a)) \<Longrightarrow> moves R (bnd m f)"
  by (fastforce simp: moves_def bnd_def split: prod.splits sum.splits dest: transpD)

lemma moves_catch: "transp R \<Longrightarrow> moves R m \<Longrightarrow> (\<And>e. moves R (h e)) \<Longrightarrow> moves R (catch m h)"
  by (fastforce simp: moves_def catch_def split: prod.splits sum.splits dest: transpD)

lemma moves_finally: "transp R \<Longrightarrow> moves R m \<Longrightarrow> moves R f \<Longrightarrow> moves R (finally_io m f)"
  by (fastforce simp: moves_def finally_io_def split: prod.splits sum.splits dest: transpD)

lemma moves_if: "moves R m \<Longrightarrow> moves R m' \<Longrightarrow> moves R (if c then m else m')"
  by simp

lemmas moves_rules = moves_basic moves_bnd moves_catch moves_finally moves_if

text \<open>Sessions are only ever closed.\<close>

definition closes :: "string \<Rightarrow> sessions \<Rightarrow> sessions \<Rightarrow> bool" where
  "closes i ss ss' \<longleftrightarrow> ss' = ss \<or> ss' = AList.delete i ss"

lemma closes_refl [simp]: "reflp (closes i)" and closes_trans [simp]: "transp (closes i)"
  by (auto simp: closes_def reflp_def transp_def AList.delete_idem)

lemma moves_state_of: "reflp R \<Longrightarrow> moves R (multipart_state_of M session)"
  by (auto simp: moves_def reflp_def dest!: multipart_state_of_cases)

lemma moves_pop: "moves (closes i) (pop_session i)"
  by (auto simp: moves_def closes_def pop_session_iff)

lemma moves_abort: "moves (closes (mse_session_id session)) (abort_multipart M session)"
  by (auto simp: moves_def closes_def dest: abort_multipart_sessions)

lemma completion_failed_moves: "moves (closes i) (completion_failed M st machine e)"
  unfolding completion_failed_def Let_def by (intro moves_rules closes_refl closes_trans)

lemma complete_try_moves: "moves (closes i) (complete_try M st identity immutability retention create_only)"
  unfolding complete_try_def Let_def by (intro moves_rules completion_failed_moves closes_refl closes_trans)

lemma complete_multipart_moves: "moves (closes (mse_session_id session)) (complete_multipart M session parts)"
  unfolding complete_multipart_def Let_def
  by (intro moves_rules moves_state_of moves_abort moves_pop complete_try_moves closes_refl closes_trans)

lemma begin_multipart_cases:
  assumes "begin_multipart M operation (w, ss) = (r, w', ss')"
  shows "ss' = ss \<or> (\<exists>token upload machine. ss' = AList.update (''u'' @ token)
       \<lparr>ms_operation = operation, ms_upload = upload, ms_machine = machine, ms_hashed = [], ms_length = 0, ms_next_part = 1, ms_parts = []\<rparr> ss
    \<and> oc_put_transition (ap_common (mg_adapter M)) (oc_put_initial (ap_common (mg_adapter M))) PUT_UPLOADING = Inr machine
    \<and> (\<exists>v v'. tr_start_upload (ap_transport (mg_adapter M)) v = (Inr upload, v')))"
  using assms unfolding begin_multipart_def Let_def
  by (auto simp: bnd_def table_iffs inner_def put_session_def lift_def raise_def ret_def split: sum.splits if_splits prod.splits)

section \<open>Reachable states\<close>

text \<open>One call of the manager, with any outcome; between two calls other code, other connections and the
  server may take the world anywhere, but only the manager writes its table.\<close>

inductive multipart_step :: "'w manager \<Rightarrow> 'w \<times> sessions \<Rightarrow> 'w \<times> sessions \<Rightarrow> bool" for M where
  step_begin: "begin_multipart M operation s = (r, s') \<Longrightarrow> multipart_step M s s'"
| step_upload: "upload_part M session n payload payloads s = (r, s') \<Longrightarrow> multipart_step M s s'"
| step_complete: "complete_multipart M session parts s = (r, s') \<Longrightarrow> multipart_step M s s'"
| step_abort: "abort_multipart M session s = (r, s') \<Longrightarrow> multipart_step M s s'"
| step_world: "multipart_step M (w, ss) (w', ss)"

inductive multipart_reach :: "'w manager \<Rightarrow> 'w \<times> sessions \<Rightarrow> bool" for M where
  reach_new: "multipart_reach M (w, [])"
| reach_step: "multipart_reach M s \<Longrightarrow> multipart_step M s s' \<Longrightarrow> multipart_reach M s'"

lemma closes_ok: "closes i ss ss' \<Longrightarrow> sessions_ok M ss \<Longrightarrow> sessions_ok M ss'"
  by (auto simp: closes_def sessions_ok_delete)

lemma completion_failed_raises: "completion_failed M st machine e s \<noteq> (Inr a, s')"
  unfolding completion_failed_def Let_def by (auto split: if_splits)

lemma catch_completion_failed [simp]: "catch m (completion_failed M st machine) s = (Inr a, s') \<longleftrightarrow> m s = (Inr a, s')"
  by (auto simp: catch_def completion_failed_raises split: prod.splits sum.splits)

lemma complete_try_Inr:
  assumes "complete_try M st identity immutability retention create_only (w, ss) = (Inr metadata, w', ss')"
  shows "\<exists>w1 d w2. require_create_available (mg_adapter M) (in_object_id (op_input (ms_operation st))) immutability create_only w = (Inr (), w1)
    \<and> tr_finish_upload (ap_transport (mg_adapter M)) (ms_upload st) (ci_digest identity) w1 = (Inr d, w2)
    \<and> commit_object (mg_adapter M) (op_input (ms_operation st)) identity immutability retention create_only w2 = (Inr metadata, w') \<and> ss' = ss"
  using assms unfolding complete_try_def Let_def by (elim bnd_SuccE) (auto simp: inner_iff inner_def split: prod.splits)

lemma finally_pop_Inr:
  "finally_io m (bnd (pop_session i) (\<lambda>_. ret ())) (w, ss) = (Inr a, w', ss') \<longleftrightarrow>
     (\<exists>ss1. m (w, ss) = (Inr a, w', ss1) \<and> ss' = AList.delete i ss1)"
  by (auto simp: finally_io_def bnd_def pop_session_def ret_def split: prod.splits)

lemma complete_multipart_Inr:
  assumes "complete_multipart M session parts (w, ss) = (Inr metadata, w', ss')"
  shows "\<exists>st identity immutability retention w1 w2 d. map_of ss (mse_session_id session) = Some st
    \<and> object_reference_for_operation (mg_adapter M) (ms_operation st) = Inr (mse_object_ref session)
    \<and> parts = ms_parts st \<and> list_all (\<lambda>p. mg_min_part_bytes M \<le> ci_byte_length (mpt_identity p)) (butlast parts)
    \<and> oc_mk_identity (ap_common (mg_adapter M)) (sha256_digest (ms_hashed st)) (ms_length st) = Inr identity
    \<and> in_expected_digest (op_input (ms_operation st)) \<in> {None, Some (ci_digest identity)}
    \<and> in_expected_length (op_input (ms_operation st)) \<in> {None, Some (ci_byte_length identity)}
    \<and> put_immutability (ap_common (mg_adapter M)) (in_immutability (op_input (ms_operation st))) = Inr immutability
    \<and> put_retention (ap_common (mg_adapter M)) (in_retention (op_input (ms_operation st))) = Inr retention
    \<and> require_create_available (mg_adapter M) (in_object_id (op_input (ms_operation st))) immutability
         (in_create_only (op_input (ms_operation st)) \<or> im_publish_once immutability) w = (Inr (), w1)
    \<and> tr_finish_upload (ap_transport (mg_adapter M)) (ms_upload st) (ci_digest identity) w1 = (Inr d, w2)
    \<and> commit_object (mg_adapter M) (op_input (ms_operation st)) identity immutability retention
         (in_create_only (op_input (ms_operation st)) \<or> im_publish_once immutability) w2 = (Inr metadata, w')
    \<and> ss' = AList.delete (mse_session_id session) ss"
proof -
  let ?A = "mg_adapter M" and ?i = "mse_session_id session"
  from assms obtain st w0 ss0 where m: "multipart_state_of M session (w, ss) = (Inr st, w0, ss0)"
    unfolding complete_multipart_def Let_def by (auto simp: bnd_def split: prod.splits sum.splits)
  note M = multipart_state_of_cases [OF m]
  let ?v = "op_input (ms_operation st)"
  have raises: "bnd m (\<lambda>_. raise e) s \<noteq> (Inr a, s')" for m :: "('w \<times> sessions, unit) io" and e s s' and a :: object_metadata
    by auto
  from assms m M obtain identity u immutability retention where
    p: "parts = ms_parts st" "\<not> list_ex (\<lambda>p. ci_byte_length (mpt_identity p) < mg_min_part_bytes M) (butlast parts)"
    and k: "oc_mk_identity (ap_common ?A) (''sha256:'' @ hexdigest (ms_hashed st)) (ms_length st) = Inr identity"
    and e: "in_expected_digest ?v = None \<or> in_expected_digest ?v = Some (ci_digest identity)"
      "in_expected_length ?v = None \<or> in_expected_length ?v = Some (ci_byte_length identity)"
    and i: "put_immutability (ap_common ?A) (in_immutability ?v) = Inr immutability"
      "put_retention (ap_common ?A) (in_retention ?v) = Inr retention"
    and f: "finally_io (complete_try M st identity immutability retention (in_create_only ?v \<or> im_publish_once immutability))
      (bnd (pop_session ?i) (\<lambda>_. ret ())) (w, ss) = (Inr metadata, w', ss')"
    unfolding complete_multipart_def Let_def by (auto simp: bnd_Inr raises split: if_splits)
  from f obtain ss1 where t: "complete_try M st identity immutability retention (in_create_only ?v \<or> im_publish_once immutability) (w, ss)
      = (Inr metadata, w', ss1)" and d: "ss' = AList.delete ?i ss1"
    by (auto simp: finally_pop_Inr)
  from complete_try_Inr [OF t] d p k e i M show ?thesis
    by (fastforce simp: sha256_digest_def list_all_iff list_ex_iff not_less)
qed

text \<open>The table keeps its invariant in every reachable state.\<close>

context verified_transport
begin

lemma multipart_step_ok:
  assumes "ap_transport (mg_adapter M) = tr" "part_classes M" "multipart_step M (w, ss) (w', ss')" "sessions_ok M ss"
  shows "sessions_ok M ss'"
  using assms(3)
proof (cases rule: multipart_step.cases)
  case (step_begin operation r)
  from begin_multipart_cases [OF this] show ?thesis
  proof (elim disjE exE conjE)
    fix token upload machine v v'
    assume "ss' = AList.update (''u'' @ token)
       \<lparr>ms_operation = operation, ms_upload = upload, ms_machine = machine, ms_hashed = [], ms_length = 0, ms_next_part = 1, ms_parts = []\<rparr> ss"
      and "oc_put_transition (ap_common (mg_adapter M)) (oc_put_initial (ap_common (mg_adapter M))) PUT_UPLOADING = Inr machine"
      and "tr_start_upload (ap_transport (mg_adapter M)) v = (Inr upload, v')"
    with start_offset [of v upload v'] assms(1) show ?thesis
      by (auto intro!: sessions_ok_update [OF assms(4), where segments = "[]"] simp: session_ok_def)
  qed (use assms(4) in simp)
next
  case (step_upload session n payload payloads r)
  from upload_part_cases [OF assms(1,2,4) this] assms(4) show ?thesis
    by (elim disjE) (auto intro: sessions_ok_update sessions_ok_delete)
next
  case (step_complete session parts r)
  from movesD [OF complete_multipart_moves this] assms(4) show ?thesis by (rule closes_ok)
next
  case (step_abort session r)
  from movesD [OF moves_abort this] assms(4) show ?thesis by (rule closes_ok)
qed (use assms(4) in simp)

lemma multipart_reach_ok:
  assumes "ap_transport (mg_adapter M) = tr" "part_classes M" "multipart_reach M s"
  shows "sessions_ok M (snd s)"
  using assms(3)
proof induction
  case (reach_step s s')
  then show ?case using multipart_step_ok [OF assms(1,2), of "fst s" "snd s" "fst s'" "snd s'"] by simp
qed simp

end

end
