(* ===== verification/Multipart_Store.thy ===== *)
theory Multipart_Store
  imports Multipart_Laws Store
begin

text \<open>
  A complete multipart upload against a working registry: begin, every part in order, complete. It
  succeeds and leaves the same version in the store as a put of the concatenated parts.
\<close>

section \<open>A whole upload\<close>

text \<open>The calls of a client that uploads the payloads in order and completes with the parts it was given.\<close>

fun upload_parts :: "'w manager \<Rightarrow> multipart_session \<Rightarrow> int \<Rightarrow> payload_reference list \<Rightarrow> 'w payload_registry
    \<Rightarrow> ('w \<times> sessions, multipart_part list) io" where
  "upload_parts M session n [] payloads = ret []"
| "upload_parts M session n (p # ps) payloads =
     bnd (upload_part M session n p payloads) (\<lambda>part.
     bnd (upload_parts M session (n + 1) ps payloads) (\<lambda>parts. ret (part # parts)))"

definition multipart_put :: "'w manager \<Rightarrow> operation \<Rightarrow> payload_reference list \<Rightarrow> 'w payload_registry
    \<Rightarrow> ('w \<times> sessions, object_metadata) io" where
  "multipart_put M operation ps payloads =
     bnd (begin_multipart M operation) (\<lambda>session.
     bnd (upload_parts M session 1 ps payloads) (\<lambda>parts.
     complete_multipart M session parts))"

section \<open>When it can succeed\<close>

text \<open>A part the manager accepts: its payload opens to the octets \<open>segment\<close>, not empty and not above the
  part size, and they meet its expectations.\<close>

definition part_ready :: "('w \<Rightarrow> bool) \<Rightarrow> ('w \<Rightarrow> store) \<Rightarrow> 'w manager \<Rightarrow> 'w payload_registry \<Rightarrow> payload_reference \<Rightarrow> string \<Rightarrow> bool" where
  "part_ready ok view M payloads payload segment \<longleftrightarrow>
     segment \<noteq> [] \<and> int (length segment) \<le> b_chunk_size (ap_binding (mg_adapter M))
     \<and> (\<exists>chunks. concat chunks = segment \<and> opens_to ok view payloads payload (b_chunk_size (ap_binding (mg_adapter M))) chunks)
     \<and> oc_mk_identity (ap_common (mg_adapter M)) (sha256_digest segment) (int (length segment))
          = Inr \<lparr>ci_digest = sha256_digest segment, ci_byte_length = int (length segment)\<rparr>
     \<and> verify_identity payload \<lparr>ci_digest = sha256_digest segment, ci_byte_length = int (length segment)\<rparr> = Inr ()"

definition multipart_ready ::
  "('w \<Rightarrow> bool) \<Rightarrow> ('w \<Rightarrow> store) \<Rightarrow> 'w manager \<Rightarrow> operation \<Rightarrow> payload_reference list \<Rightarrow> 'w payload_registry \<Rightarrow> string list
     \<Rightarrow> string \<Rightarrow> int \<Rightarrow> object_reference \<Rightarrow> bool" where
  "multipart_ready ok view M operation ps payloads segments token t reference \<longleftrightarrow>
     (let A = mg_adapter M; oc = ap_common A; i = ''u'' @ token; content = concat segments; v = op_input operation
      in validate_operation A operation = Inr ''put'' \<and> oc_require_capabilities oc (ap_manifest A) (op_requirements operation) = Inr ()
       \<and> object_reference_for_operation A operation = Inr reference
       \<and> (\<forall>w. ok w \<longrightarrow> (\<exists>w'. mc_token_hex (mg_common M) 30 w = (Inr token, w') \<and> view w' = view w \<and> ok w'))
       \<and> t + 3600 * 1000000 < datetime_max
       \<and> (let session = \<lparr>mse_session_id = i, mse_object_ref = reference, mse_part_size = b_chunk_size (ap_binding A),
              mse_expires_at = utc_timestamp (t + 3600 * 1000000)\<rparr>
          in mc_mk_session (mg_common M) session = Inr session)
       \<and> list_all2 (part_ready ok view M payloads) ps segments
       \<and> (\<forall>p. 0 < mpt_part_number p \<longrightarrow> mc_mk_part (mg_common M) p = Inr p)
       \<and> int (length segments) \<le> b_max_multipart_parts (ap_binding A)
       \<and> int (length content) \<le> b_max_object_bytes (ap_binding A)
       \<and> list_all (\<lambda>x. mg_min_part_bytes M \<le> int (length x)) (butlast segments)
       \<and> oc_mk_identity oc (sha256_digest content) (int (length content))
          = Inr \<lparr>ci_digest = sha256_digest content, ci_byte_length = int (length content)\<rparr>
       \<and> mc_mk_completion (mg_common M) (parts_from (mg_key M) i 1 segments)
           \<lparr>ci_digest = sha256_digest content, ci_byte_length = int (length content)\<rparr> = Inr ()
       \<and> in_expected_digest v \<in> {None, Some (sha256_digest content)} \<and> in_expected_length v \<in> {None, Some (int (length content))})"

lemma parts_from_lengths: "map (\<lambda>p. ci_byte_length (mpt_identity p)) (parts_from key i n segments) = map (\<lambda>x. int (length x)) segments"
  by (induction segments arbitrary: n) (simp_all add: part_of_def Let_def)

lemma parts_from_minimum:
  "list_ex (\<lambda>p. ci_byte_length (mpt_identity p) < m) (butlast (parts_from key i n segments)) \<longleftrightarrow>
     \<not> list_all (\<lambda>x. m \<le> int (length x)) (butlast segments)"
proof -
  have "list_ex (\<lambda>p. ci_byte_length (mpt_identity p) < m) (butlast (parts_from key i n segments))
      = list_ex (\<lambda>k. k < m) (butlast (map (\<lambda>p. ci_byte_length (mpt_identity p)) (parts_from key i n segments)))"
    by (simp add: map_butlast [symmetric] list_ex_iff)
  also have "\<dots> = list_ex (\<lambda>k. k < m) (map (\<lambda>x. int (length x)) (butlast segments))"
    by (simp add: parts_from_lengths map_butlast)
  finally show ?thesis by (auto simp: list_ex_iff list_all_iff not_le)
qed

section \<open>That it does\<close>

context registry_store
begin

text \<open>The chunks of a part, into the session's upload.\<close>

lemma part_chunks_ok:
  assumes "ap_transport A = tr" "inv w" "st_uploads (abs w) (ul_url (ms_upload st)) = Some (ms_hashed st)"
    and "ul_offset (ms_upload st) = length (ms_hashed st)" "list_all (\<lambda>x. x \<noteq> []) chunks"
    and "int (length (part @ concat chunks)) \<le> n" "ms_length st + int (length (part @ concat chunks)) \<le> b_max_object_bytes (ap_binding A)"
  shows "\<exists>u w'. part_chunks A n st part chunks None w
      = (Inr (st\<lparr>ms_hashed := ms_hashed st @ concat chunks, ms_upload := u\<rparr>, Inr (part @ concat chunks)), w')
    \<and> ul_url u = ul_url (ms_upload st) \<and> ul_offset u = length (ms_hashed st @ concat chunks)
    \<and> abs w' = store_session (ul_url (ms_upload st)) (Some (ms_hashed st @ concat chunks)) (abs w) \<and> inv w'"
  using assms(2-)
proof (induction chunks arbitrary: st part w)
  case Nil
  then have "store_session (ul_url (ms_upload st)) (Some (ms_hashed st)) (abs w) = abs w"
    by (simp add: store_session_def fun_upd_idem)
  with Nil show ?case by (auto simp: ret_def intro!: exI [of _ "ms_upload st"])
next
  case (Cons x xs)
  have "x \<noteq> []" using Cons.prems(4) by simp
  from patch_ok [OF Cons.prems(1-3) this] obtain u1 w1 where p: "tr_patch_upload tr (ms_upload st) x w = (Inr u1, w1)"
    and u1: "ul_url u1 = ul_url (ms_upload st)" and a1: "abs w1 = store_session (ul_url (ms_upload st)) (Some (ms_hashed st @ x)) (abs w)"
    and i1: "inv w1" by blast
  let ?st = "st\<lparr>ms_hashed := ms_hashed st @ x, ms_upload := u1\<rparr>"
  have "\<exists>u w'. part_chunks A n ?st (part @ x) xs None w1
      = (Inr (?st\<lparr>ms_hashed := ms_hashed ?st @ concat xs, ms_upload := u\<rparr>, Inr ((part @ x) @ concat xs)), w')
    \<and> ul_url u = ul_url (ms_upload ?st) \<and> ul_offset u = length (ms_hashed ?st @ concat xs)
    \<and> abs w' = store_session (ul_url (ms_upload ?st)) (Some (ms_hashed ?st @ concat xs)) (abs w1) \<and> inv w'"
    using Cons.prems patch_offset [OF p] by (intro Cons.IH i1) (simp_all add: a1 u1)
  then obtain u w' where r: "part_chunks A n ?st (part @ x) xs None w1
      = (Inr (st\<lparr>ms_hashed := ms_hashed st @ concat (x # xs), ms_upload := u\<rparr>, Inr (part @ concat (x # xs))), w')"
    "ul_url u = ul_url (ms_upload st)" "ul_offset u = length (ms_hashed st @ concat (x # xs))"
    "abs w' = store_session (ul_url (ms_upload st)) (Some (ms_hashed st @ concat (x # xs))) (abs w1)" "inv w'"
    by (auto simp: u1)
  have "part_chunks A n st part (x # xs) None w = part_chunks A n ?st (part @ x) xs None w1"
    using p assms(1) Cons.prems(5,6) by (simp add: bnd_def outcome_def Let_def)
  with r show ?case by (auto simp: a1 store_session_def)
qed

text \<open>A part in order: it is acknowledged and the session has received it.\<close>

lemma upload_part_ok:
  assumes A: "ap_transport (mg_adapter M) = tr" and i: "inv w" and id: "i = mse_session_id session"
    and st: "map_of ss i = Some st" and ok: "session_ok M i st segments"
    and ref: "object_reference_for_operation (mg_adapter M) (ms_operation st) = Inr (mse_object_ref session)"
    and size: "mse_part_size session = b_chunk_size (ap_binding (mg_adapter M))"
    and up: "st_uploads (abs w) (ul_url (ms_upload st)) = Some (concat segments)"
    and ready: "part_ready inv abs M payloads payload segment"
    and mk: "\<forall>p. 0 < mpt_part_number p \<longrightarrow> mc_mk_part (mg_common M) p = Inr p"
    and limits: "int (length segments) < b_max_multipart_parts (ap_binding (mg_adapter M))"
      "int (length (concat segments @ segment)) \<le> b_max_object_bytes (ap_binding (mg_adapter M))"
  shows "\<exists>st' w'. upload_part M session (int (length segments) + 1) payload payloads (w, ss)
      = (Inr (part_of (mg_key M) i (int (length segments) + 1) segment), w', AList.update i st' ss)
    \<and> session_ok M i st' (segments @ [segment]) \<and> ms_operation st' = ms_operation st
    \<and> st_uploads (abs w') (ul_url (ms_upload st')) = Some (concat (segments @ [segment]))
    \<and> st_tags (abs w') = st_tags (abs w) \<and> st_blobs (abs w') = st_blobs (abs w) \<and> inv w'"
proof -
  let ?A = "mg_adapter M" and ?n = "int (length segments) + 1"
  let ?id = "\<lparr>ci_digest = sha256_digest segment, ci_byte_length = int (length segment)\<rparr>"
  have s: "ms_hashed st = concat segments" "ms_next_part st = ?n" "ms_length st = int (length (concat segments))"
    "ul_offset (ms_upload st) = length (concat segments)"
    using ok by (simp_all add: session_ok_def)
  obtain chunks where c: "concat chunks = segment" and op: "opens_to inv abs payloads payload (b_chunk_size (ap_binding ?A)) chunks"
    and ne: "segment \<noteq> []" and le: "int (length segment) \<le> b_chunk_size (ap_binding ?A)"
    and mi: "oc_mk_identity (ap_common ?A) (sha256_digest segment) (int (length segment)) = Inr ?id"
    and vi: "verify_identity payload ?id = Inr ()"
    using ready by (auto simp: part_ready_def)
  obtain w1 where o: "pr_open payloads payload (mse_part_size session) w = (Inr (chunks, None), w1)" and a1: "abs w1 = abs w" and i1: "inv w1"
    using op i by (auto simp: opens_to_def size)
  have "\<exists>u w'. part_chunks ?A (mse_part_size session) st [] chunks None w1
      = (Inr (st\<lparr>ms_hashed := ms_hashed st @ concat chunks, ms_upload := u\<rparr>, Inr ([] @ concat chunks)), w')
    \<and> ul_url u = ul_url (ms_upload st) \<and> ul_offset u = length (ms_hashed st @ concat chunks)
    \<and> abs w' = store_session (ul_url (ms_upload st)) (Some (ms_hashed st @ concat chunks)) (abs w1) \<and> inv w'"
    using op le limits(2) by (intro part_chunks_ok [OF A i1]) (simp_all add: a1 up s opens_to_def size c)
  then obtain u w2 where pc: "part_chunks ?A (mse_part_size session) st [] chunks None w1
      = (Inr (st\<lparr>ms_hashed := concat segments @ segment, ms_upload := u\<rparr>, Inr segment), w2)"
    and u: "ul_url u = ul_url (ms_upload st)" "ul_offset u = length (concat segments @ segment)"
    and a2: "abs w2 = store_session (ul_url (ms_upload st)) (Some (concat segments @ segment)) (abs w)" and i2: "inv w2"
    by (auto simp: s c a1)
  let ?st1 = "st\<lparr>ms_hashed := concat segments @ segment, ms_upload := u\<rparr>"
  let ?p = "part_of (mg_key M) i ?n segment"
  let ?st2 = "?st1\<lparr>ms_length := int (length (concat segments @ segment)), ms_parts := ms_parts st @ [?p], ms_next_part := ?n + 1\<rparr>"
  have t: "part_try M session st payload payloads (w, ss) = (Inr (?st1, int (length segment), ?id), w2, AList.update i ?st1 ss)"
    using o pc ne mi vi
    by (simp add: part_try_def Let_def bnd_def inner_def put_session_def lift_def ret_def sha256_digest_def id)
  have m: "multipart_state_of M session (w, ss) = (Inr st, w, ss)"
    using st ref by (simp add: multipart_state_of_def bnd_def lift_def ret_def id)
  have "upload_part M session ?n payload payloads (w, ss) = (Inr ?p, w2, AList.update i ?st2 ss)"
    using m t mk limits(1) s
    by (simp add: upload_part_def Let_def bnd_def catch_def put_session_def lift_def ret_def part_of_def id [symmetric])
  moreover have "session_ok M i ?st2 (segments @ [segment])"
    using ok ne u(2) limits by (simp add: session_ok_def parts_from_append add.commute)
  ultimately show ?thesis using i2 u(1) by (intro exI [of _ ?st2] exI [of _ w2]) (simp add: a2)
qed

lemma upload_parts_ok:
  assumes A: "ap_transport (mg_adapter M) = tr" and id: "i = mse_session_id session"
    and size: "mse_part_size session = b_chunk_size (ap_binding (mg_adapter M))"
    and mk: "\<forall>p. 0 < mpt_part_number p \<longrightarrow> mc_mk_part (mg_common M) p = Inr p"
    and "inv w" "map_of ss i = Some st" "session_ok M i st segments"
    and "object_reference_for_operation (mg_adapter M) (ms_operation st) = Inr (mse_object_ref session)"
    and "st_uploads (abs w) (ul_url (ms_upload st)) = Some (concat segments)"
    and "list_all2 (part_ready inv abs M payloads) ps later"
    and "int (length (segments @ later)) \<le> b_max_multipart_parts (ap_binding (mg_adapter M))"
    and "int (length (concat (segments @ later))) \<le> b_max_object_bytes (ap_binding (mg_adapter M))"
  shows "\<exists>st' w'. upload_parts M session (int (length segments) + 1) ps payloads (w, ss)
      = (Inr (parts_from (mg_key M) i (int (length segments) + 1) later), w', if later = [] then ss else AList.update i st' ss)
    \<and> (later = [] \<longrightarrow> st' = st) \<and> session_ok M i st' (segments @ later) \<and> ms_operation st' = ms_operation st
    \<and> st_uploads (abs w') (ul_url (ms_upload st')) = Some (concat (segments @ later))
    \<and> st_tags (abs w') = st_tags (abs w) \<and> st_blobs (abs w') = st_blobs (abs w) \<and> inv w'"
  using assms(5-)
proof (induction ps arbitrary: later segments st w ss)
  case Nil
  then show ?case by (auto simp: ret_def)
next
  case (Cons p ps)
  then obtain segment rest where later: "later = segment # rest" and ready: "part_ready inv abs M payloads p segment"
    and rest: "list_all2 (part_ready inv abs M payloads) ps rest"
    by (auto simp: list_all2_Cons1)
  have "\<exists>st' w'. upload_part M session (int (length segments) + 1) p payloads (w, ss)
      = (Inr (part_of (mg_key M) i (int (length segments) + 1) segment), w', AList.update i st' ss)
    \<and> session_ok M i st' (segments @ [segment]) \<and> ms_operation st' = ms_operation st
    \<and> st_uploads (abs w') (ul_url (ms_upload st')) = Some (concat (segments @ [segment]))
    \<and> st_tags (abs w') = st_tags (abs w) \<and> st_blobs (abs w') = st_blobs (abs w) \<and> inv w'"
    using Cons.prems later by (intro upload_part_ok [OF A Cons.prems(1) id Cons.prems(2-4) size Cons.prems(5) ready mk]) auto
  then obtain st1 w1 where u: "upload_part M session (int (length segments) + 1) p payloads (w, ss)
      = (Inr (part_of (mg_key M) i (int (length segments) + 1) segment), w1, AList.update i st1 ss)"
    and k: "session_ok M i st1 (segments @ [segment])" "ms_operation st1 = ms_operation st"
      "st_uploads (abs w1) (ul_url (ms_upload st1)) = Some (concat (segments @ [segment]))"
      "st_tags (abs w1) = st_tags (abs w)" "st_blobs (abs w1) = st_blobs (abs w)" "inv w1" by blast
  have "\<exists>st' w'. upload_parts M session (int (length (segments @ [segment])) + 1) ps payloads (w1, AList.update i st1 ss)
      = (Inr (parts_from (mg_key M) i (int (length (segments @ [segment])) + 1) rest), w',
         if rest = [] then AList.update i st1 ss else AList.update i st' (AList.update i st1 ss))
    \<and> (rest = [] \<longrightarrow> st' = st1) \<and> session_ok M i st' ((segments @ [segment]) @ rest) \<and> ms_operation st' = ms_operation st1
    \<and> st_uploads (abs w') (ul_url (ms_upload st')) = Some (concat ((segments @ [segment]) @ rest))
    \<and> st_tags (abs w') = st_tags (abs w1) \<and> st_blobs (abs w') = st_blobs (abs w1) \<and> inv w'"
    using Cons.prems later k rest by (intro Cons.IH) (simp_all add: AList.update_conv')
  then obtain st2 w2 where r: "upload_parts M session (int (length (segments @ [segment])) + 1) ps payloads (w1, AList.update i st1 ss)
      = (Inr (parts_from (mg_key M) i (int (length (segments @ [segment])) + 1) rest), w2, AList.update i st2 ss)"
    and k2: "session_ok M i st2 (segments @ later)" "ms_operation st2 = ms_operation st"
      "st_uploads (abs w2) (ul_url (ms_upload st2)) = Some (concat (segments @ later))"
      "st_tags (abs w2) = st_tags (abs w)" "st_blobs (abs w2) = st_blobs (abs w)" "inv w2"
    using k later by (auto split: if_splits)
  have n: "int (length segments) + 2 = int (length (segments @ [segment])) + 1" by simp
  have "upload_parts M session (int (length segments) + 1) (p # ps) payloads (w, ss)
      = (Inr (parts_from (mg_key M) i (int (length segments) + 1) later), w2, AList.update i st2 ss)"
    using u r by (simp add: bnd_def ret_def later add.commute n [symmetric])
  with k2 later show ?case by (intro exI [of _ st2] exI [of _ w2]) simp
qed

lemma begin_multipart_ok:
  assumes A: "ap_transport (mg_adapter M) = tr" and i: "inv w" and clk: "clock_reads inv abs (mg_adapter M) t"
    and ready: "multipart_ready inv abs M operation ps payloads segments token t reference"
    and sm: "oc_put_transition (ap_common (mg_adapter M)) (oc_put_initial (ap_common (mg_adapter M))) PUT_UPLOADING = Inr s1"
    and im: "put_immutability (ap_common (mg_adapter M)) (in_immutability (op_input operation)) = Inr im"
    and g: "in_create_only (op_input operation) \<or> im_publish_once im \<longrightarrow>
      st_tags (abs w) ((if im_publish_once im then ''m-a1-'' else ''m-l1-'') @ object_id_hash (in_object_id (op_input operation))) = None"
  shows "\<exists>u w' session. begin_multipart M operation (w, ss) = (Inr session, w', AList.update (''u'' @ token)
        \<lparr>ms_operation = operation, ms_upload = u, ms_machine = s1, ms_hashed = [], ms_length = 0, ms_next_part = 1, ms_parts = []\<rparr> ss)
    \<and> mse_session_id session = ''u'' @ token \<and> mse_object_ref session = reference
    \<and> mse_part_size session = b_chunk_size (ap_binding (mg_adapter M)) \<and> ul_offset u = 0
    \<and> st_uploads (abs w') (ul_url u) = Some [] \<and> st_tags (abs w') = st_tags (abs w) \<and> st_blobs (abs w') = st_blobs (abs w) \<and> inv w'"
proof -
  let ?A = "mg_adapter M" and ?co = "in_create_only (op_input operation) \<or> im_publish_once im"
  let ?session = "\<lparr>mse_session_id = ''u'' @ token, mse_object_ref = reference, mse_part_size = b_chunk_size (ap_binding ?A),
              mse_expires_at = utc_timestamp (t + 3600 * 1000000)\<rparr>"
  have r: "validate_operation ?A operation = Inr ''put''" "oc_require_capabilities (ap_common ?A) (ap_manifest ?A) (op_requirements operation) = Inr ()"
    "object_reference_for_operation ?A operation = Inr reference" "t + 3600 * 1000000 < datetime_max"
    "mc_mk_session (mg_common M) ?session = Inr ?session"
    "\<And>w. inv w \<Longrightarrow> \<exists>w'. mc_token_hex (mg_common M) 30 w = (Inr token, w') \<and> abs w' = abs w \<and> inv w'"
    using ready by (simp_all add: multipart_ready_def Let_def)
  obtain w1 where r1: "require_create_available ?A (in_object_id (op_input operation)) im ?co w = (Inr (), w1)" and a1: "abs w1 = abs w" and i1: "inv w1"
    using require_create_ok [OF A i g] by blast
  obtain u w2 where st: "tr_start_upload tr w1 = (Inr u, w2)" and a2: "abs w2 = store_session (ul_url u) (Some []) (abs w)" and i2: "inv w2"
    using start_ok [OF i1] by (auto simp: a1)
  obtain w3 where t3: "mc_token_hex (mg_common M) 30 w2 = (Inr token, w3)" and a3: "abs w3 = abs w2" and i3: "inv w3" using r(6) [OF i2] by blast
  obtain w4 where c4: "ap_clock ?A w3 = (Inr (AwareTime t), w4)" and a4: "abs w4 = abs w3" and i4: "inv w4"
    using clk i3 by (auto simp: clock_reads_def)
  have "begin_multipart M operation (w, ss) = (Inr ?session, w4, AList.update (''u'' @ token)
        \<lparr>ms_operation = operation, ms_upload = u, ms_machine = s1, ms_hashed = [], ms_length = 0, ms_next_part = 1, ms_parts = []\<rparr> ss)"
    using r im r1 st sm t3 c4 A
    by (simp add: begin_multipart_def Let_def bnd_def inner_def put_session_def lift_def ret_def adapter_now_def not_le [symmetric])
  then show ?thesis using start_offset [OF st] i4 by (intro exI [of _ u] exI [of _ w4] exI [of _ ?session]) (simp add: a4 a3 a2)
qed

lemma complete_multipart_ok:
  assumes A: "ap_transport (mg_adapter M) = tr" and i: "inv w" and oc: "oc = ap_common (mg_adapter M)" and v: "v = op_input operation"
    and oid: "oid = in_object_id v" and c: "content = concat segments"
    and P: "put_ready tr inv abs max_manifest (mg_adapter M) v pls chunks t s w" and same: "concat chunks = content"
    and ready: "multipart_ready inv abs M operation ps payloads segments token t reference"
    and session: "mse_session_id session = ''u'' @ token" "mse_object_ref session = reference"
    and st: "map_of ss (''u'' @ token) = Some st" "session_ok M (''u'' @ token) st segments" "ms_operation st = operation"
      "st_uploads (abs w) (ul_url (ms_upload st)) = Some content"
    and ncl: "\<not> collides (abs w) (put_contents oc oid content s)"
  shows "\<exists>w'. complete_multipart M session (parts_from (mg_key M) (''u'' @ token) 1 segments) (w, ss)
      = (Inr (so_metadata s), w', AList.delete (''u'' @ token) ss)
    \<and> st_tags (abs w') = (st_tags (abs w))(''m-a1-'' @ object_id_hash oid \<mapsto> anchor_body oid,
         ''m-v1-'' @ take 32 (object_id_hash oid) @ ''-'' @ hexdigest content \<mapsto> version_body oc oid s,
         ''m-l1-'' @ object_id_hash oid \<mapsto> version_body oc oid s)
    \<and> st_blobs (abs w') (sha256_digest (stored_to_bytes oc s)) = Some (stored_to_bytes oc s)
    \<and> st_blobs (abs w') (sha256_digest content) = Some content \<and> inv w'"
proof -
  let ?A = "mg_adapter M" and ?i = "''u'' @ token" and ?co = "in_create_only v \<or> im_publish_once (so_immutability s)"
  let ?id = "\<lparr>ci_digest = sha256_digest content, ci_byte_length = int (length content)\<rparr>"
  obtain s1 s2 s3 where sm: "oc_put_transition oc (oc_put_initial oc) PUT_UPLOADING = Inr s1"
      "oc_put_transition oc s1 PUT_VERIFYING = Inr s2" "oc_put_transition oc s2 PUT_COMMITTED = Inr s3"
    using P by (auto simp: put_ready_def oc)
  have m1: "ms_machine st = s1" and sp: "ms_parts st = parts_from (mg_key M) ?i 1 segments" "ms_hashed st = content"
    "ms_length st = int (length content)"
    using st(2) sm(1) by (simp_all add: session_ok_def oc c)
  have r: "object_reference_for_operation ?A operation = Inr reference"
    "oc_mk_identity oc (sha256_digest content) (int (length content)) = Inr ?id"
    "mc_mk_completion (mg_common M) (parts_from (mg_key M) ?i 1 segments) ?id = Inr ()"
    "in_expected_digest v \<in> {None, Some (sha256_digest content)}" "in_expected_length v \<in> {None, Some (int (length content))}"
    "list_all (\<lambda>x. mg_min_part_bytes M \<le> int (length x)) (butlast segments)"
    using ready by (simp_all add: multipart_ready_def Let_def c oc v)
  have g: "?co \<longrightarrow> st_tags (abs w) ((if im_publish_once (so_immutability s) then ''m-a1-'' else ''m-l1-'') @ object_id_hash oid) = None"
    and ir: "put_immutability oc (in_immutability v) = Inr (so_immutability s)" "put_retention oc (in_retention v) = Inr (so_retention s)"
    using P by (simp_all add: put_ready_def oc oid)
  have cf: "collision_free (abs w) [EMPTY_JSON, content, stored_to_bytes oc s]"
    and mf: "manifests_free (abs w) [anchor_body oid, version_body oc oid s]"
    using no_collision_facts [OF ncl _ blob_keyed [OF i]] by (simp_all add: put_contents_def)
  obtain w1 where r1: "require_create_available ?A oid (so_immutability s) ?co w = (Inr (), w1)" and a1: "abs w1 = abs w" and i1: "inv w1"
    using require_create_ok [OF A i g] by blast
  obtain d w2 where fi: "tr_finish_upload tr (ms_upload st) (sha256_digest content) w1 = (Inr d, w2)" and i2: "inv w2"
    and a2: "abs w2 = store_session (ul_url (ms_upload st)) None (store_put_blob content (abs w))"
    using finish_ok [OF i1, of "ms_upload st" content] st(4) by (auto simp: a1)
  have "\<exists>w'. commit_object ?A v ?id (so_immutability s) (so_retention s) ?co w2 = (Inr (so_metadata s), w')
    \<and> st_tags (abs w') = (st_tags (abs w2))(''m-a1-'' @ object_id_hash oid \<mapsto> anchor_body oid,
         ''m-v1-'' @ take 32 (object_id_hash oid) @ ''-'' @ hexdigest content \<mapsto> version_body oc oid s,
         ''m-l1-'' @ object_id_hash oid \<mapsto> version_body oc oid s)
    \<and> st_blobs (abs w') (sha256_digest (stored_to_bytes oc s)) = Some (stored_to_bytes oc s)
    \<and> st_blobs (abs w') (sha256_digest content) = Some content \<and> inv w'"
    using P g collision_free_update [OF cf, of content "abs w2"] manifests_free_same [OF mf, of "abs w2"]
    by (intro commit_object_ok [OF A i2 oc oid, where t = t]) (simp_all add: put_ready_def a2 same oc oid)
  then obtain w3 where cm: "commit_object ?A v ?id (so_immutability s) (so_retention s) ?co w2 = (Inr (so_metadata s), w3)"
    and k: "st_tags (abs w3) = (st_tags (abs w2))(''m-a1-'' @ object_id_hash oid \<mapsto> anchor_body oid,
         ''m-v1-'' @ take 32 (object_id_hash oid) @ ''-'' @ hexdigest content \<mapsto> version_body oc oid s,
         ''m-l1-'' @ object_id_hash oid \<mapsto> version_body oc oid s)"
    "st_blobs (abs w3) (sha256_digest (stored_to_bytes oc s)) = Some (stored_to_bytes oc s)"
    "st_blobs (abs w3) (sha256_digest content) = Some content" "inv w3" by blast
  have t: "complete_try M st ?id (so_immutability s) (so_retention s) ?co (w, ss) = (Inr (so_metadata s), w3, ss)"
    using r1 fi cm sm m1 A by (simp add: complete_try_def Let_def bnd_def catch_def inner_def lift_def ret_def st(3) v [symmetric] oid [symmetric] oc [symmetric])
  have mst: "multipart_state_of M session (w, ss) = (Inr st, w, ss)"
    using st r(1) session by (simp add: multipart_state_of_def bnd_def lift_def ret_def)
  have fin: "finally_io (complete_try M st ?id (so_immutability s) (so_retention s) ?co) (bnd (pop_session ?i) (\<lambda>_. ret ())) (w, ss)
      = (Inr (so_metadata s), w3, AList.delete ?i ss)"
    using t by (simp add: finally_pop_Inr)
  have "complete_multipart M session (parts_from (mg_key M) ?i 1 segments) (w, ss) = (Inr (so_metadata s), w3, AList.delete ?i ss)"
    using r ir fin sp
    by (auto simp add: complete_multipart_def Let_def bnd_Inr [of "multipart_state_of M session", OF mst] st(3) v [symmetric] oc [symmetric] session parts_from_minimum sha256_digest_def)
  with k show ?thesis by (auto simp: a2)
qed

lemma put_ready_tags:
  "st_tags (abs w') = st_tags (abs w) \<Longrightarrow> put_ready tr inv abs max_manifest A v payloads chunks t s w
     \<Longrightarrow> put_ready tr inv abs max_manifest A v payloads chunks t s w'"
  by (simp add: put_ready_def)

lemma collides_same:
  "st_tags (abs w') = st_tags (abs w) \<Longrightarrow> st_blobs (abs w') = st_blobs (abs w) \<Longrightarrow> collides (abs w') us = collides (abs w) us"
  by (simp add: collides_def)

text \<open>The whole upload: the metadata of a put of the same octets, the same tags, and no session left behind.\<close>

lemma multipart_put_ok:
  assumes A: "ap_transport (mg_adapter M) = tr" and i: "inv w" and oc: "oc = ap_common (mg_adapter M)"
    and oid: "oid = in_object_id (op_input operation)" and content: "content = concat chunks" "concat segments = content"
    and P: "put_ready tr inv abs max_manifest (mg_adapter M) (op_input operation) pls chunks t s w"
    and ready: "multipart_ready inv abs M operation ps payloads segments token t reference"
    and fresh: "''u'' @ token \<notin> fst ` set ss"
    and ncl: "\<not> collides (abs w) (put_contents oc oid content s)"
  shows "\<exists>w'. multipart_put M operation ps payloads (w, ss) = (Inr (so_metadata s), w', ss)
    \<and> st_tags (abs w') = (st_tags (abs w))(''m-a1-'' @ object_id_hash oid \<mapsto> anchor_body oid,
         ''m-v1-'' @ take 32 (object_id_hash oid) @ ''-'' @ hexdigest content \<mapsto> version_body oc oid s,
         ''m-l1-'' @ object_id_hash oid \<mapsto> version_body oc oid s)
    \<and> holds_version tr inv abs max_manifest (mg_adapter M) oid content s w'"
proof -
  let ?A = "mg_adapter M" and ?i = "''u'' @ token"
  obtain s1 where sm: "oc_put_transition oc (oc_put_initial oc) PUT_UPLOADING = Inr s1"
    using P by (auto simp: put_ready_def oc)
  have im: "put_immutability oc (in_immutability (op_input operation)) = Inr (so_immutability s)"
    and g: "in_create_only (op_input operation) \<or> im_publish_once (so_immutability s) \<longrightarrow>
      st_tags (abs w) ((if im_publish_once (so_immutability s) then ''m-a1-'' else ''m-l1-'') @ object_id_hash oid) = None"
    and clk: "clock_reads inv abs ?A t"
    and sto: "storable oc max_manifest (b_max_metadata_bytes (ap_binding ?A)) (semantic_resource_of ?A) oid content s"
    using P by (simp_all add: put_ready_def oc oid content)
  have q: "list_all2 (part_ready inv abs M payloads) ps segments" "\<forall>p. 0 < mpt_part_number p \<longrightarrow> mc_mk_part (mg_common M) p = Inr p"
    "int (length segments) \<le> b_max_multipart_parts (ap_binding ?A)" "int (length (concat segments)) \<le> b_max_object_bytes (ap_binding ?A)"
    "object_reference_for_operation ?A operation = Inr reference"
    using ready by (simp_all add: multipart_ready_def Let_def)
  obtain u w1 session where b: "begin_multipart M operation (w, ss) = (Inr session, w1, AList.update ?i
        \<lparr>ms_operation = operation, ms_upload = u, ms_machine = s1, ms_hashed = [], ms_length = 0, ms_next_part = 1, ms_parts = []\<rparr> ss)"
    and se: "mse_session_id session = ?i" "mse_object_ref session = reference" "mse_part_size session = b_chunk_size (ap_binding ?A)"
    and u: "ul_offset u = 0" "st_uploads (abs w1) (ul_url u) = Some []"
    and k1: "st_tags (abs w1) = st_tags (abs w)" "st_blobs (abs w1) = st_blobs (abs w)" "inv w1"
    using begin_multipart_ok [OF A i clk ready sm [unfolded oc] im [unfolded oc] g [unfolded oid]] by blast
  let ?st = "\<lparr>ms_operation = operation, ms_upload = u, ms_machine = s1, ms_hashed = [], ms_length = 0, ms_next_part = 1, ms_parts = []\<rparr>"
  have "\<exists>st' w'. upload_parts M session (int (length ([] :: string list)) + 1) ps payloads (w1, AList.update ?i ?st ss)
      = (Inr (parts_from (mg_key M) ?i (int (length ([] :: string list)) + 1) segments), w',
         if segments = [] then AList.update ?i ?st ss else AList.update ?i st' (AList.update ?i ?st ss))
    \<and> (segments = [] \<longrightarrow> st' = ?st) \<and> session_ok M ?i st' ([] @ segments) \<and> ms_operation st' = ms_operation ?st
    \<and> st_uploads (abs w') (ul_url (ms_upload st')) = Some (concat ([] @ segments))
    \<and> st_tags (abs w') = st_tags (abs w1) \<and> st_blobs (abs w') = st_blobs (abs w1) \<and> inv w'"
    using q se u k1 sm by (intro upload_parts_ok [OF A]) (simp_all add: AList.update_conv' session_ok_def oc)
  then obtain st w2 where up: "upload_parts M session 1 ps payloads (w1, AList.update ?i ?st ss)
      = (Inr (parts_from (mg_key M) ?i 1 segments), w2, AList.update ?i st ss)"
    and k2: "session_ok M ?i st segments" "ms_operation st = operation" "st_uploads (abs w2) (ul_url (ms_upload st)) = Some content"
      "st_tags (abs w2) = st_tags (abs w)" "st_blobs (abs w2) = st_blobs (abs w)" "inv w2"
    using k1 content by (cases "segments = []") auto
  have P2: "put_ready tr inv abs max_manifest ?A (op_input operation) pls chunks t s w2" by (rule put_ready_tags [OF k2(4) P])
  have "\<not> collides (abs w2) (put_contents oc oid content s)" using ncl by (simp add: collides_same [OF k2(4,5)])
  from complete_multipart_ok [OF A k2(6) oc refl oid content(2) [symmetric] P2 content(1) [symmetric] ready se(1,2) _ k2(1-3) this,
      of "AList.update ?i st ss"]
  obtain w3 where co: "complete_multipart M session (parts_from (mg_key M) ?i 1 segments) (w2, AList.update ?i st ss)
      = (Inr (so_metadata s), w3, AList.delete ?i (AList.update ?i st ss))"
    and k3: "st_tags (abs w3) = (st_tags (abs w2))(''m-a1-'' @ object_id_hash oid \<mapsto> anchor_body oid,
         ''m-v1-'' @ take 32 (object_id_hash oid) @ ''-'' @ hexdigest content \<mapsto> version_body oc oid s,
         ''m-l1-'' @ object_id_hash oid \<mapsto> version_body oc oid s)"
    "st_blobs (abs w3) (sha256_digest (stored_to_bytes oc s)) = Some (stored_to_bytes oc s)"
    "st_blobs (abs w3) (sha256_digest content) = Some content" "inv w3"
    by (auto simp: AList.update_conv')
  have "multipart_put M operation ps payloads (w, ss) = (Inr (so_metadata s), w3, ss)"
    using b up co fresh by (simp add: multipart_put_def bnd_def AList.delete_update_same)
  moreover have "holds_version tr inv abs max_manifest ?A oid content s w3"
    using sto A k3 by (auto simp: holds_version_def oc)
  ultimately show ?thesis using k3(1) k2(4) by auto
qed

end

end
