(* ===== verification/Multipart_Properties.thy ===== *)
theory Multipart_Properties
  imports Multipart_Store Adapter_Properties
begin

text \<open>
  The properties of multipart uploads: the table of sessions over any server, the outcomes of a part and of
  a completion, and the equivalence of a whole upload with a plain put over the test registry.
\<close>

section \<open>Equivalence with a put\<close>

context fake_setup
begin

lemmas upload_facts = store.adapter_put_ok store.multipart_put_ok store.begin_multipart_ok store.upload_part_ok

end

text \<open>C7. A multipart upload stores what a put stores: on a registry that is ready for a put of some content,
  uploading the same content in any number of parts (each but the last of the minimum size, none
  empty) and completing with the acknowledged parts returns the same metadata as the put, leaves the
  registry with the same tags naming the same manifests, stores the same version, and leaves no session
  behind. The only other possibility is an explicit SHA-256 collision.\<close>

theorem multipart_equals_put:
  assumes "fake_setup L b auth attempts" "fake_ok b auth w" "ap_transport (mg_adapter M) = served_by L b attempts"
    and "put_ready (served_by L b attempts) (fake_ok b auth) (fake_store b) (b_max_manifest_bytes b) (mg_adapter M) (op_input operation)
      payloads chunks t s w"
    and "multipart_ready (fake_ok b auth) (fake_store b) M operation parts part_payloads segments token t reference"
    and "concat segments = concat chunks" "''u'' @ token \<notin> fst ` set ss"
  shows "collides (fake_store b w) (put_contents (ap_common (mg_adapter M)) (in_object_id (op_input operation)) (concat chunks) s)
    \<or> (\<exists>w1 w2. adapter_put (mg_adapter M) operation payloads w
           = (Inr [(''metadata'', JObj (oc_metadata_to_dict (ap_common (mg_adapter M)) (so_metadata s)))], w1)
        \<and> multipart_put M operation parts part_payloads (w, ss) = (Inr (so_metadata s), w2, ss)
        \<and> st_tags (fake_store b w2) = st_tags (fake_store b w1)
        \<and> holds_version (served_by L b attempts) (fake_ok b auth) (fake_store b) (b_max_manifest_bytes b) (mg_adapter M)
            (in_object_id (op_input operation)) (concat chunks) s w1
        \<and> holds_version (served_by L b attempts) (fake_ok b auth) (fake_store b) (b_max_manifest_bytes b) (mg_adapter M)
            (in_object_id (op_input operation)) (concat chunks) s w2)"
proof (cases "collides (fake_store b w) (put_contents (ap_common (mg_adapter M)) (in_object_id (op_input operation)) (concat chunks) s)")
  case False
  obtain w1 where "adapter_put (mg_adapter M) operation payloads w
      = (Inr [(''metadata'', JObj (oc_metadata_to_dict (ap_common (mg_adapter M)) (so_metadata s)))], w1)"
    "holds_version (served_by L b attempts) (fake_ok b auth) (fake_store b) (b_max_manifest_bytes b) (mg_adapter M)
       (in_object_id (op_input operation)) (concat chunks) s w1"
    using fake_setup.store_facts(1) [OF assms(1,3,2,4) False] by blast
  then show ?thesis
    using fake_setup.upload_facts(1) [OF assms(1,3,2) refl refl refl refl assms(4) False]
      fake_setup.upload_facts(2) [OF assms(1,3,2) refl refl refl assms(6,4,5,7) False]
    by auto
qed simp

text \<open>The multipart classes of the example accept their arguments; the token of a session is constant.\<close>

definition example_parts :: "'w multipart_common" where
  "example_parts = \<lparr>mc_check_limits = (\<lambda>a b c. Inr ()), mc_mk_session = Inr, mc_mk_part = Inr, mc_mk_completion = (\<lambda>ps i. Inr ()),
     mc_token_hex = (\<lambda>n. ret ''ab'')\<rparr>"

definition example_manager :: "fake_registry manager" where
  "example_manager = \<lparr>mg_adapter = example_adapter 5, mg_common = example_parts, mg_min_part_bytes = 64 * 1024\<rparr>"

abbreviation example_payload :: payload_reference where
  "example_payload \<equiv> \<lparr>pl_handle = ''h'', pl_replayable = True, pl_expected_digest = None, pl_expected_length = Some 5\<rparr>"

lemma example_manager_simps [simp]:
  "mg_adapter example_manager = example_adapter 5" "mg_common example_manager = example_parts" "mg_min_part_bytes example_manager = 65536"
  by (simp_all add: example_manager_def)

lemma example_validates: "validate_operation (example_adapter 5) (example_operation ''meridian.object.put'' v) = Inr ''put''"
  by (simp add: validate_operation_def example_operation_def example_adapter_def configured_capability_manifest_def
      available_operations_def registry_binding_def example_binding_def rsplit_last_def)

lemma registry_limits:
  "b_chunk_size registry_binding = 4194304" "b_max_multipart_parts registry_binding = 10000" "b_max_object_bytes registry_binding = 5497558138880"
  by (simp_all add: registry_binding_def example_binding_def)

lemma example_put_input:
  "op_input (example_operation ''meridian.object.put'' example_input) = example_input" "in_object_id example_input = ''o''"
  "in_expected_digest example_input = None" "in_expected_length example_input = None"
  "in_immutability example_input = JNull"
  "oc_require_capabilities example_common = (\<lambda>m r. Inr ())"
  by (simp_all add: example_operation_def example_input_def example_common_def)

lemma example_part_ready:
  "part_ready (fake_ok registry_binding (Some ''Bearer token'')) (fake_store registry_binding) example_manager example_payloads example_payload ''hello''"
proof -
  have "opens_to (fake_ok registry_binding (Some ''Bearer token'')) (fake_store registry_binding) example_payloads example_payload
      (b_chunk_size registry_binding) [''hello'']"
    by (simp add: opens_to_def example_payloads_def ret_def)
  then have "\<exists>chunks. concat chunks = ''hello'' \<and> opens_to (fake_ok registry_binding (Some ''Bearer token'')) (fake_store registry_binding)
      example_payloads example_payload (b_chunk_size registry_binding) chunks"
    by (intro exI [of _ "[''hello'']"]) simp
  then show ?thesis by (simp add: part_ready_def example_common_calls verify_identity_def registry_limits)
qed

lemma example_multipart_ready:
  "multipart_ready (fake_ok registry_binding (Some ''Bearer token'')) (fake_store registry_binding) example_manager
     (example_operation ''meridian.object.put'' example_input) [example_payload] example_payloads [''hello''] ''ab'' 5
     \<lparr>or_resource = \<lparr>sem_catalog = CATALOG_OBJECT, sem_namespace = ''ns'', sem_name = ''media''\<rparr>, or_object_id = ''o'', or_digest = None\<rparr>"
  using example_part_ready
  by (simp add: multipart_ready_def Let_def example_validates example_put_input object_reference_for_operation_def example_common_calls
      example_resource example_parts_def ret_def datetime_max_def registry_limits)

theorem multipart_equals_put_witness:
  "collides (fake_store registry_binding empty_registry) (put_contents example_common ''o'' ''hello'' (example_envelope 5))
   \<or> (\<exists>m w1 w2. adapter_put (example_adapter 5) (example_operation ''meridian.object.put'' example_input) example_payloads empty_registry = (Inr m, w1)
        \<and> multipart_put example_manager (example_operation ''meridian.object.put'' example_input) [example_payload] example_payloads (empty_registry, [])
            = (Inr (so_metadata (example_envelope 5)), w2, [])
        \<and> st_tags (fake_store registry_binding w2) = st_tags (fake_store registry_binding w1))"
proof -
  have p: "put_ready (served_by example_lib registry_binding 3) (fake_ok registry_binding (Some ''Bearer token'')) (fake_store registry_binding)
      (b_max_manifest_bytes registry_binding) (mg_adapter example_manager) (op_input (example_operation ''meridian.object.put'' example_input))
      example_payloads [''hello''] 5 (example_envelope 5) empty_registry"
    using example_put_ready [of 5] by (simp add: example_transport_def example_operation_def)
  have A: "ap_transport (mg_adapter example_manager) = served_by example_lib registry_binding 3" by (simp add: example_transport_def)
  have oid: "in_object_id (op_input (example_operation ''meridian.object.put'' example_input)) = ''o''"
    by (simp add: example_operation_def example_input_def)
  from multipart_equals_put [OF example_setup empty_registry_ok A p example_multipart_ready, of "[]"] show ?thesis
    by (auto simp: oid)
qed

section \<open>The session table over any server\<close>

text \<open>C17. Over the HTTP client, whatever the server answers and whatever happens between two calls: in every
  state the manager reaches, each open session has received a sequence of non-empty parts such that the
  recorded parts are exactly theirs, numbered from one with the digest, length and verification token of
  each; the running hash, the recorded length and the upload offset are those of their concatenation; the
  object and part-count limits hold; and its put state machine is uploading. A failed part or
  completion never leaves a session behind that breaks this.\<close>

theorem multipart_invariant:
  assumes "ap_transport (mg_adapter M) = http_transport cl" "part_classes M" "multipart_reach M (w, ss)"
  shows "sessions_ok M ss"
  using http.multipart_reach_ok [OF assms] by simp

lemma example_part_classes: "part_classes example_manager"
  by (simp add: part_classes_def example_parts_def example_common_calls)

lemma example_client: "ap_transport (mg_adapter example_manager) = http_transport (fake_client example_lib registry_binding 3)"
  by (simp add: example_transport_def)

text \<open>The example after its session is opened and after its part is uploaded.\<close>

lemma example_begun:
  obtains u w session where
    "begin_multipart example_manager (example_operation ''meridian.object.put'' example_input) (empty_registry, [])
       = (Inr session, w, [(''uab'', \<lparr>ms_operation = example_operation ''meridian.object.put'' example_input, ms_upload = u,
            ms_machine = PUT_UPLOADING, ms_hashed = [], ms_length = 0, ms_next_part = 1, ms_parts = []\<rparr>)])"
    "mse_session_id session = ''uab''" "mse_part_size session = 4194304"
    "mse_object_ref session = \<lparr>or_resource = \<lparr>sem_catalog = CATALOG_OBJECT, sem_namespace = ''ns'', sem_name = ''media''\<rparr>, or_object_id = ''o'', or_digest = None\<rparr>"
    "ul_offset u = 0" "st_uploads (fake_store registry_binding w) (ul_url u) = Some []" "fake_ok registry_binding (Some ''Bearer token'') w"
proof -
  have "clock_reads (fake_ok registry_binding (Some ''Bearer token'')) (fake_store registry_binding) (mg_adapter example_manager) 5"
    by (simp add: clock_reads_def ret_def)
  from fake_setup.upload_facts(3) [OF example_setup example_client empty_registry_ok this example_multipart_ready, of PUT_UPLOADING
      "\<lparr>im_mutability = ''immutable'', im_publish_once = False\<rparr>" "[]"] that
  show thesis
    by (auto simp: example_common_calls put_immutability_def example_put_input empty_registry_store registry_limits)
qed

theorem multipart_invariant_witness:
  "\<exists>w st. multipart_reach example_manager (w, [(''uab'', st)]) \<and> sessions_ok example_manager [(''uab'', st)] \<and> ms_next_part st = 1"
proof -
  obtain u w session where b: "begin_multipart example_manager (example_operation ''meridian.object.put'' example_input) (empty_registry, [])
       = (Inr session, w, [(''uab'', \<lparr>ms_operation = example_operation ''meridian.object.put'' example_input, ms_upload = u,
            ms_machine = PUT_UPLOADING, ms_hashed = [], ms_length = 0, ms_next_part = 1, ms_parts = []\<rparr>)])"
    using example_begun by blast
  have "multipart_reach example_manager (w, [(''uab'', \<lparr>ms_operation = example_operation ''meridian.object.put'' example_input, ms_upload = u,
            ms_machine = PUT_UPLOADING, ms_hashed = [], ms_length = 0, ms_next_part = 1, ms_parts = []\<rparr>)])"
    by (rule reach_step [OF reach_new step_begin [OF b]])
  with multipart_invariant [OF example_client example_part_classes this] show ?thesis by (intro exI conjI) auto
qed

text \<open>C19. What becomes of a part, in any reachable state and whatever the server answers. Either the call is
  refused before anything is sent (unknown session, wrong part number, too many parts) and changes neither
  the world nor the table; or it fails and closes its session, leaving the other sessions alone, and the
  last thing it did was to ask the server to abort the session's upload, where the chunks accepted in this call
  had taken it (\<open>left_at\<close>); or it succeeds: the part is the next one, its payload was read once to the end, within the part size and
  the payload's own expectations, the acknowledged part carries its number and the SHA-256 digest,
  length and verification token of exactly the octets read, and the session has received exactly
  those octets more.\<close>

theorem upload_part_outcome:
  assumes "ap_transport (mg_adapter M) = http_transport cl" "part_classes M" "multipart_reach M (w, ss)"
    and "upload_part M session n payload payloads (w, ss) = (r, w', ss')"
  shows "(\<exists>e. r = Inl e) \<and> w' = w \<and> ss' = ss
    \<or> (\<exists>e. r = Inl e) \<and> ss' = AList.delete (mse_session_id session) ss
        \<and> (\<exists>st u v x. map_of ss (mse_session_id session) = Some st
             \<and> left_at (http_transport cl) payloads payload (mse_part_size session) (ms_upload st) w u v \<and> abort_upload cl u v = (x, w'))
    \<or> (\<exists>st segments chunks w1. map_of ss (mse_session_id session) = Some st \<and> session_ok M (mse_session_id session) st segments
         \<and> n = int (length segments) + 1
         \<and> object_reference_for_operation (mg_adapter M) (ms_operation st) = Inr (mse_object_ref session)
         \<and> pr_open payloads payload (mse_part_size session) w = (Inr (chunks, None), w1) \<and> int (length (concat chunks)) \<le> mse_part_size session
         \<and> verify_identity payload \<lparr>ci_digest = sha256_digest (concat chunks), ci_byte_length = int (length (concat chunks))\<rparr> = Inr ()
         \<and> r = Inr (part_of (mg_key M) (mse_session_id session) n (concat chunks))
         \<and> (\<exists>st'. ss' = AList.update (mse_session_id session) st' ss \<and> ms_operation st' = ms_operation st
              \<and> session_ok M (mse_session_id session) st' (segments @ [concat chunks])))"
proof -
  have "sessions_ok M ss" using http.multipart_reach_ok [OF assms(1-3)] by simp
  from http.upload_part_cases [OF assms(1,2) this assms(4)] show ?thesis by (simp add: http_transport_def [of cl, THEN arg_cong [where f = tr_abort_upload]])
qed

theorem upload_part_outcome_witness:
  "\<exists>session w ss w' st'. multipart_reach example_manager (w, ss)
     \<and> upload_part example_manager session 1 example_payload example_payloads (w, ss)
         = (Inr (part_of ''0123456789abcdef'' ''uab'' 1 ''hello''), w', [(''uab'', st')])
     \<and> session_ok example_manager ''uab'' st' [''hello'']"
proof -
  let ?op = "example_operation ''meridian.object.put'' example_input"
  obtain u w session where b: "begin_multipart example_manager ?op (empty_registry, [])
       = (Inr session, w, [(''uab'', \<lparr>ms_operation = ?op, ms_upload = u,
            ms_machine = PUT_UPLOADING, ms_hashed = [], ms_length = 0, ms_next_part = 1, ms_parts = []\<rparr>)])"
    and se: "mse_session_id session = ''uab''" "mse_part_size session = 4194304"
      "mse_object_ref session = \<lparr>or_resource = \<lparr>sem_catalog = CATALOG_OBJECT, sem_namespace = ''ns'', sem_name = ''media''\<rparr>, or_object_id = ''o'', or_digest = None\<rparr>"
    and u: "ul_offset u = 0" "st_uploads (fake_store registry_binding w) (ul_url u) = Some []" "fake_ok registry_binding (Some ''Bearer token'') w"
    using example_begun by blast
  let ?st = "\<lparr>ms_operation = ?op, ms_upload = u, ms_machine = PUT_UPLOADING, ms_hashed = [], ms_length = 0, ms_next_part = 1, ms_parts = []\<rparr>"
  have r: "multipart_reach example_manager (w, [(''uab'', ?st)])" by (rule reach_step [OF reach_new step_begin [OF b]])
  have "session_ok example_manager ''uab'' ?st []" using u by (simp add: session_ok_def example_common_calls)
  from fake_setup.upload_facts(4) [OF example_setup example_client u(3) se(1) [symmetric] _ this _ _ _ example_part_ready, of "[(''uab'', ?st)]"] se u
  obtain st1 w1 where up: "upload_part example_manager session 1 example_payload example_payloads (w, [(''uab'', ?st)])
      = (Inr (part_of ''0123456789abcdef'' ''uab'' 1 ''hello''), w1, [(''uab'', st1)])"
    by (auto simp: object_reference_for_operation_def example_common_calls example_resource example_put_input registry_limits
        example_parts_def registry_binding_def example_binding_def)
  from upload_part_outcome [OF example_client example_part_classes r up] obtain st segments chunks w2 where
    o: "session_ok example_manager ''uab'' st segments" "map_of [(''uab'', ?st)] ''uab'' = Some st"
      "pr_open example_payloads example_payload (mse_part_size session) w = (Inr (chunks, None), w2)"
      "session_ok example_manager ''uab'' st1 (segments @ [concat chunks])"
    by (auto simp: se)
  then have "segments = []" "concat chunks = ''hello''" by (auto simp: session_ok_def example_payloads_def ret_def)
  with o r up show ?thesis by (intro exI conjI) auto
qed

text \<open>C8. What a completion establishes, in any reachable state and whatever the server answers: the supplied
  parts are the recorded parts of the session, all but the last of the minimum size; the server was
  asked to finalize the session's upload, at the offset of all octets received, under the SHA-256 digest
  of their concatenation; the declared digest and length of the put, if any, were met; creation was still
  permitted just before; the object was committed with that digest and length; and the session is closed
  while all others remain.\<close>

theorem complete_multipart_sound:
  assumes "ap_transport (mg_adapter M) = http_transport cl" "part_classes M" "multipart_reach M (w, ss)"
    and "complete_multipart M session parts (w, ss) = (Inr metadata, w', ss')"
  shows "\<exists>st segments immutability retention w1 w2 d. map_of ss (mse_session_id session) = Some st
    \<and> session_ok M (mse_session_id session) st segments \<and> parts = parts_from (mg_key M) (mse_session_id session) 1 segments
    \<and> list_all (\<lambda>x. mg_min_part_bytes M \<le> int (length x)) (butlast segments)
    \<and> in_expected_digest (op_input (ms_operation st)) \<in> {None, Some (sha256_digest (concat segments))}
    \<and> in_expected_length (op_input (ms_operation st)) \<in> {None, Some (int (length (concat segments)))}
    \<and> require_create_available (mg_adapter M) (in_object_id (op_input (ms_operation st))) immutability
         (in_create_only (op_input (ms_operation st)) \<or> im_publish_once immutability) w = (Inr (), w1)
    \<and> finish_upload cl (ms_upload st) (sha256_digest (concat segments)) w1 = (Inr d, w2) \<and> ul_offset (ms_upload st) = length (concat segments)
    \<and> commit_object (mg_adapter M) (op_input (ms_operation st))
         \<lparr>ci_digest = sha256_digest (concat segments), ci_byte_length = int (length (concat segments))\<rparr> immutability retention
         (in_create_only (op_input (ms_operation st)) \<or> im_publish_once immutability) w2 = (Inr metadata, w')
    \<and> ss' = AList.delete (mse_session_id session) ss"
proof -
  have ok: "sessions_ok M ss" using http.multipart_reach_ok [OF assms(1-3)] by simp
  from complete_multipart_Inr [OF assms(4)] obtain st identity immutability retention w1 w2 d where
    st: "map_of ss (mse_session_id session) = Some st" and p: "parts = ms_parts st"
    and m: "list_all (\<lambda>p. mg_min_part_bytes M \<le> ci_byte_length (mpt_identity p)) (butlast parts)"
    and i: "oc_mk_identity (ap_common (mg_adapter M)) (sha256_digest (ms_hashed st)) (ms_length st) = Inr identity"
    and k: "in_expected_digest (op_input (ms_operation st)) \<in> {None, Some (ci_digest identity)}"
      "in_expected_length (op_input (ms_operation st)) \<in> {None, Some (ci_byte_length identity)}"
      "require_create_available (mg_adapter M) (in_object_id (op_input (ms_operation st))) immutability
         (in_create_only (op_input (ms_operation st)) \<or> im_publish_once immutability) w = (Inr (), w1)"
      "tr_finish_upload (ap_transport (mg_adapter M)) (ms_upload st) (ci_digest identity) w1 = (Inr d, w2)"
      "commit_object (mg_adapter M) (op_input (ms_operation st)) identity immutability retention
         (in_create_only (op_input (ms_operation st)) \<or> im_publish_once immutability) w2 = (Inr metadata, w')"
      "ss' = AList.delete (mse_session_id session) ss"
    by blast
  from ok st obtain segments where s: "session_ok M (mse_session_id session) st segments" unfolding sessions_ok_def by blast
  then have id: "identity = \<lparr>ci_digest = sha256_digest (concat segments), ci_byte_length = int (length (concat segments))\<rparr>"
    using i assms(2) by (auto simp: part_classes_def session_ok_def)
  have "\<not> list_ex (\<lambda>p. ci_byte_length (mpt_identity p) < mg_min_part_bytes M) (butlast parts)"
    using m by (auto simp: list_all_iff list_ex_iff not_le [symmetric])
  then have "list_all (\<lambda>x. mg_min_part_bytes M \<le> int (length x)) (butlast segments)"
    using s p by (simp add: session_ok_def parts_from_minimum)
  moreover have "ul_offset (ms_upload st) = length (concat segments)" "parts = parts_from (mg_key M) (mse_session_id session) 1 segments"
    using s p by (simp_all add: session_ok_def)
  moreover have "finish_upload cl (ms_upload st) (sha256_digest (concat segments)) w1 = (Inr d, w2)"
    using k(4) assms(1) id by (simp add: http_transport_def)
  ultimately show ?thesis using st s k(1-3,5,6) unfolding id by (intro exI conjI) (assumption | simp)+
qed

lemma upload_parts_reach: "multipart_reach M s \<Longrightarrow> upload_parts M session n ps payloads s = (Inr parts, s') \<Longrightarrow> multipart_reach M s'"
proof (induction ps arbitrary: n s parts)
  case (Cons p ps)
  then obtain part s1 rest where "upload_part M session n p payloads s = (Inr part, s1)"
    "upload_parts M session (n + 1) ps payloads s1 = (Inr rest, s')" by auto
  with Cons show ?case by (blast intro: reach_step step_upload)
qed simp

theorem complete_multipart_sound_witness:
  "collides (fake_store registry_binding empty_registry) (put_contents example_common ''o'' ''hello'' (example_envelope 5))
   \<or> (\<exists>session parts w ss w' segments. multipart_reach example_manager (w, ss)
        \<and> complete_multipart example_manager session parts (w, ss) = (Inr (so_metadata (example_envelope 5)), w', [])
        \<and> parts = parts_from ''0123456789abcdef'' (mse_session_id session) 1 segments)"
proof (cases "collides (fake_store registry_binding empty_registry) (put_contents example_common ''o'' ''hello'' (example_envelope 5))")
  case False
  let ?op = "example_operation ''meridian.object.put'' example_input"
  have p: "put_ready (served_by example_lib registry_binding 3) (fake_ok registry_binding (Some ''Bearer token'')) (fake_store registry_binding)
      (b_max_manifest_bytes registry_binding) (mg_adapter example_manager) (op_input ?op) example_payloads [''hello''] 5 (example_envelope 5) empty_registry"
    using example_put_ready [of 5] by (simp add: example_transport_def example_operation_def)
  from fake_setup.upload_facts(2) [OF example_setup example_client empty_registry_ok refl refl refl _ p example_multipart_ready, of "[]"] False
  obtain w' where "multipart_put example_manager ?op [example_payload] example_payloads (empty_registry, [])
      = (Inr (so_metadata (example_envelope 5)), w', [])" by (auto simp: example_put_input)
  then obtain session s1 parts s2 where b: "begin_multipart example_manager ?op (empty_registry, []) = (Inr session, s1)"
    and u: "upload_parts example_manager session 1 [example_payload] example_payloads s1 = (Inr parts, s2)"
    and c: "complete_multipart example_manager session parts s2 = (Inr (so_metadata (example_envelope 5)), w', [])"
    unfolding multipart_put_def by blast
  obtain w ss where s2: "s2 = (w, ss)" by fastforce
  have r: "multipart_reach example_manager (w, ss)"
    using upload_parts_reach [OF reach_step [OF reach_new step_begin [OF b]] u] by (simp add: s2)
  have "mg_key example_manager = ''0123456789abcdef''" by (simp add: registry_binding_def example_binding_def)
  then have "\<exists>segments. parts = parts_from ''0123456789abcdef'' (mse_session_id session) 1 segments"
    using complete_multipart_sound [OF example_client example_part_classes r c [unfolded s2]] by metis
  with r c [unfolded s2] show ?thesis by blast
qed simp

end
