(* ===== verification/Probe.thy ===== *)
theory Probe
  imports Adapter Timestamps
begin

text \<open>
  \<^verbatim>\<open>src/src/meridian_storage/adapters/oci/probe/__init__.py\<close>: the authenticated probe and the explicit
  write-path probe of a registry.

  The local variables that \<open>deep\<close> assigns while it runs are the record \<open>deep_locals\<close>, carried beside
  the world, so that the report of a failure and the clean-up read what was assigned before it. The
  random token and the wall clock are parameters.
\<close>

section \<open>Reports\<close>

record probe_report =
  pb_passed :: bool
  pb_mode :: string
  pb_api_version :: string
  pb_push_pull :: bool
  pb_range_read :: bool
  pb_referrers :: bool
  pb_deletion :: bool
  pb_manifest :: capability_manifest
  pb_failure :: "string option"

text \<open>\<open>type(exc).__name__\<close>.\<close>

fun class_name :: "exn_kind \<Rightarrow> string" where
  "class_name ConditionalConflict = ''ConditionalConflict''"
| "class_name DigestMismatch = ''DigestMismatch''"
| "class_name ImmutableObjectConflict = ''ImmutableObjectConflict''"
| "class_name IncompleteUpload = ''IncompleteUpload''"
| "class_name MultipartInvalid = ''MultipartInvalid''"
| "class_name ObjectAuthenticationFailed = ''ObjectAuthenticationFailed''"
| "class_name ObjectAuthorizationFailed = ''ObjectAuthorizationFailed''"
| "class_name ObjectCapabilityMismatch = ''ObjectCapabilityMismatch''"
| "class_name ObjectInvalidRequest = ''ObjectInvalidRequest''"
| "class_name ObjectNotFound = ''ObjectNotFound''"
| "class_name ObjectQuotaExceeded = ''ObjectQuotaExceeded''"
| "class_name ObjectRateLimited = ''ObjectRateLimited''"
| "class_name ObjectUnavailable = ''ObjectUnavailable''"
| "class_name RangeNotSatisfiable = ''RangeNotSatisfiable''"
| "class_name RetentionDenied = ''RetentionDenied''"
| "class_name ValueError = ''ValueError''"
| "class_name TypeError = ''TypeError''"
| "class_name KeyError = ''KeyError''"
| "class_name AssertionError = ''AssertionError''"
| "class_name JSONDecodeError = ''JSONDecodeError''"
| "class_name UnicodeDecodeError = ''UnicodeDecodeError''"
| "class_name HTTPError = ''HTTPError''"
| "class_name (OtherError s) = s"

definition report_to_dict :: "object_common \<Rightarrow> probe_report \<Rightarrow> exn + fields" where
  "report_to_dict oc r =
     (let selected = (case map_of (cm_extensions (pb_manifest r)) ''selectedRegistry'' of None \<Rightarrow> JObj [] | Some v \<Rightarrow> v)
      in if \<not> is_obj selected then Inl (bare_exn AssertionError)
         else Inr
           [(''formatVersion'', JStr ''meridian.oci-probe.v1''), (''passed'', JBool (pb_passed r)), (''mode'', JStr (pb_mode r)),
            (''apiVersion'', JStr (pb_api_version r)),
            (''checks'', JObj [(''pushPull'', JBool (pb_push_pull r)), (''rangeRead'', JBool (pb_range_read r)),
               (''referrers'', JBool (pb_referrers r)), (''deletion'', JBool (pb_deletion r))]),
            (''capabilityFingerprint'', JStr (oc_manifest_fingerprint oc (pb_manifest r))),
            (''failure'', case pb_failure r of None \<Rightarrow> JNull | Some f \<Rightarrow> JStr f),
            (''registryProvenance'', JObj [(''distributionSpec'', JStr OCI_DISTRIBUTION_VERSION), (''selected'', selected),
               (''observedRelease'', JNull), (''observationStatus'', JStr ''unavailable'')])])"

text \<open>\<open>d[key]\<close> of a dictionary.\<close>

definition dict_item :: "(string \<times> string) list \<Rightarrow> string \<Rightarrow> exn + string" where
  "dict_item d key = (case map_of d key of None \<Rightarrow> Inl (exn_of KeyError key) | Some v \<Rightarrow> Inr v)"

section \<open>The authenticated probe\<close>

definition authenticated :: "'w binding \<Rightarrow> 'w transport \<Rightarrow> ('w, probe_report) io" where
  "authenticated b tr =
     (let manifest = configured_capability_manifest b
      in bnd (outcome (bnd (tr_ping tr) (\<lambda>result. bnd (tr_list_tags tr 1 None) (\<lambda>_. ret result)))) (\<lambda>r. case r of
           Inl e \<Rightarrow> ret
             \<lparr>pb_passed = False, pb_mode = ''authenticated'', pb_api_version = ''unknown'', pb_push_pull = False, pb_range_read = False,
              pb_referrers = False, pb_deletion = False, pb_manifest = manifest, pb_failure = Some (class_name (exn_kind_of e))\<rparr>
         | Inr result \<Rightarrow>
             bnd (lift (dict_item result ''apiVersion'')) (\<lambda>api. ret
             \<lparr>pb_passed = True, pb_mode = ''authenticated'', pb_api_version = api, pb_push_pull = False, pb_range_read = False,
              pb_referrers = False, pb_deletion = False, pb_manifest = manifest, pb_failure = None\<rparr>)))"

section \<open>The deep probe\<close>

definition delete_safely :: "'w transport \<Rightarrow> oci_descriptor option \<Rightarrow> ('w, unit) io" where
  "delete_safely tr descriptor =
     (case descriptor of None \<Rightarrow> ret () | Some d \<Rightarrow> try_safely (tr_delete_manifest tr (d_digest d)))"

record deep_locals =
  dl_api_version :: string
  dl_push_pull :: bool
  dl_range_read :: bool
  dl_referrers :: bool
  dl_deletion :: bool
  dl_anchor :: "oci_descriptor option"
  dl_version :: "oci_descriptor option"

definition deep_start :: deep_locals where
  "deep_start = \<lparr>dl_api_version = ''unknown'', dl_push_pull = False, dl_range_read = False, dl_referrers = False,
     dl_deletion = False, dl_anchor = None, dl_version = None\<rparr>"

text \<open>\<open>stream.read()\<close> of an opened blob.\<close>

definition read_all :: "chunk_stream \<Rightarrow> exn + string" where
  "read_all = (\<lambda>(chunks, err). case err of None \<Rightarrow> Inr (concat chunks) | Some e \<Rightarrow> Inl e)"

definition probe_payload :: string where
  "probe_payload = ''meridian-oci-distribution-probe''"

text \<open>The checks on the two published canary manifests.\<close>

definition deep_checks ::
  "'w binding \<Rightarrow> 'w transport \<Rightarrow> string \<Rightarrow> oci_descriptor \<Rightarrow> oci_descriptor \<Rightarrow> oci_descriptor \<Rightarrow> ('w \<times> deep_locals, bool) io" where
  "deep_checks b tr version_reference payload anchor version =
     bnd (inner (tr_get_manifest tr version_reference)) (\<lambda>pulled.
     bnd (assign (dl_push_pull_update (\<lambda>_. md_digest pulled = d_digest version))) (\<lambda>_.
     bnd (inner (tr_open_blob tr (d_digest payload) (Some (1, Some 3)))) (\<lambda>stream.
     bnd (lift (read_all stream)) (\<lambda>content.
     bnd (assign (dl_range_read_update (\<lambda>_. content = take 3 (drop 1 probe_payload)))) (\<lambda>_.
     bnd (inner (tr_get_referrers tr (d_digest anchor) MERIDIAN_OBJECT_ARTIFACT_TYPE)) (\<lambda>discovered.
     let referrers = list_ex (\<lambda>item. d_digest item = d_digest version) discovered
     in bnd (assign (dl_referrers_update (\<lambda>_. referrers))) (\<lambda>_.
        if b_referrers_required b \<and> \<not> referrers
        then raise (exn_of ValueError ''registry does not provide required OCI referrers discovery'')
        else
        bnd (if b_deletion_enabled b then
               bnd (inner (tr_delete_manifest tr (d_digest version))) (\<lambda>first.
               bnd (assign (\<lambda>l. l\<lparr>dl_deletion := first, dl_version := None\<rparr>)) (\<lambda>_.
               bnd (inner (tr_delete_manifest tr (d_digest anchor))) (\<lambda>second.
               assign (\<lambda>l. l\<lparr>dl_deletion := second \<and> first, dl_anchor := None\<rparr>))))
             else ret ()) (\<lambda>_. \<lambda>(w, l).
        (Inr (dl_push_pull l \<and> dl_range_read l \<and> (dl_referrers l \<or> \<not> b_referrers_required b)
              \<and> (b_deletion_enabled b \<longrightarrow> dl_deletion l)), w, l)))))))))"

text \<open>The body of the \<open>try\<close> statement: whether the probe passed.\<close>

definition deep_body :: "'w binding \<Rightarrow> 'w transport \<Rightarrow> ('w, int) io \<Rightarrow> string \<Rightarrow> ('w \<times> deep_locals, bool) io" where
  "deep_body b tr clock token =
     bnd (inner (tr_ping tr)) (\<lambda>result.
     bnd (lift (dict_item result ''apiVersion'')) (\<lambda>api.
     bnd (assign (dl_api_version_update (\<lambda>_. api))) (\<lambda>_.
     bnd (inner (tr_upload_blob_bytes tr probe_payload ''application/octet-stream'')) (\<lambda>payload.
     bnd (inner (tr_upload_blob_bytes tr EMPTY_JSON ''application/vnd.oci.empty.v1+json'')) (\<lambda>_.
     bnd (inner (tr_put_manifest tr (''m-probe-a-'' @ token) (build_anchor_manifest (object_id_hash token)))) (\<lambda>anchor.
     bnd (assign (dl_anchor_update (\<lambda>_. Some anchor))) (\<lambda>_.
     bnd (inner (tr_upload_blob_bytes tr (canonical_json [(''probe'', JBool True)]) MERIDIAN_OBJECT_CONFIG_MEDIA_TYPE)) (\<lambda>config.
     bnd (inner clock) (\<lambda>now.
     bnd (inner (tr_put_manifest tr (''m-probe-v-'' @ token)
            (build_object_manifest anchor config payload (object_id_hash token) (utc_timestamp now) ''immutable''))) (\<lambda>version.
     bnd (assign (dl_version_update (\<lambda>_. Some version))) (\<lambda>_.
     deep_checks b tr (''m-probe-v-'' @ token) payload anchor version)))))))))))"

definition deep :: "'w binding \<Rightarrow> 'w transport \<Rightarrow> (nat \<Rightarrow> ('w, string) io) \<Rightarrow> ('w, int) io \<Rightarrow> ('w, probe_report) io" where
  "deep b tr token_hex clock =
     bnd (token_hex 12) (\<lambda>token. \<lambda>w.
       case deep_body b tr clock token (w, deep_start) of (r, w1, l) \<Rightarrow>
         let report = \<lparr>pb_passed = (case r of Inr passed \<Rightarrow> passed | Inl _ \<Rightarrow> False), pb_mode = ''deep'', pb_api_version = dl_api_version l,
               pb_push_pull = dl_push_pull l, pb_range_read = dl_range_read l, pb_referrers = dl_referrers l, pb_deletion = dl_deletion l,
               pb_manifest = configured_capability_manifest b,
               pb_failure = (case r of Inr _ \<Rightarrow> None | Inl e \<Rightarrow> Some (class_name (exn_kind_of e)))\<rparr>
         in bnd (if b_deletion_enabled b
                 then bnd (delete_safely tr (dl_version l)) (\<lambda>_. delete_safely tr (dl_anchor l))
                 else ret ()) (\<lambda>_. ret report) w1)"

end
