(* ===== verification/Probe_Laws.thy ===== *)
theory Probe_Laws
  imports Probe Registry_Laws
begin

text \<open>
  What the probes guarantee: the authenticated probe only reads; the deep probe reports and never raises,
  passes only when every check it was asked for succeeded, and leaves no canary manifest behind when
  the binding enables deletion. The laws of a registry the deep probe runs against are the locale
  \<open>probed_store\<close>, which the HTTP client over the test registry satisfies.
\<close>

section \<open>What a request keeps\<close>

lemma request_loop_keeps: "(\<And>x. keeps P (once x)) \<Longrightarrow> (\<And>n. keeps P (sleep n)) \<Longrightarrow> keeps P (request_loop once sleep k a)"
  by (induction k arbitrary: a) (auto intro!: keeps_rules split: option.splits)

lemma client_request_keeps:
  assumes "\<And>rq. rq_method rq = method \<Longrightarrow> keeps P (he_send (cl_http cl) rq)" "\<And>n. keeps P (he_sleep (cl_http cl) n)"
    and "keeps P (authorization_header (b_credentials (cl_binding cl)))"
  shows "keeps P (client_request cl method url headers content expected retry maximum)"
  unfolding client_request_def request_once_def catch_http_def client_headers_def
  by (intro request_loop_keeps keeps_rules assms) (auto intro!: keeps_rules assms split: option.splits sum.splits)

lemma ping_keeps:
  assumes "\<And>hs. keeps P (client_request cl ''GET'' (client_url cl ''/v2/'') hs None [200] True DEFAULT_RESPONSE_BYTES)"
  shows "keeps P (ping cl)"
  unfolding ping_def by (intro keeps_rules assms)

lemma list_tags_keeps:
  assumes "\<And>url hs ex m. keeps P (client_request cl ''GET'' url hs None ex True m)"
  shows "keeps P (list_tags cl limit last_tag)"
  unfolding list_tags_def by (intro keeps_rules assms)

lemma get_referrers_keeps:
  assumes "\<And>url hs ex m. keeps P (client_request cl ''GET'' url hs None ex True m)"
  shows "keeps P (get_referrers cl d t)"
  unfolding get_referrers_def by (intro keeps_rules assms) (auto intro!: keeps_rules split: option.splits json.splits)

lemma authenticated_keeps: "keeps P (tr_ping tr) \<Longrightarrow> (\<And>n l. keeps P (tr_list_tags tr n l)) \<Longrightarrow> keeps P (authenticated b tr)"
  unfolding authenticated_def Let_def by (auto intro!: keeps_rules split: sum.splits)

text \<open>A \<open>GET\<close> changes nothing in the test registry but its log.\<close>

lemma fake_handle_get: "rq_method rq = ''GET'' \<Longrightarrow> fake_handle L rq s = (r, s') \<Longrightarrow> s' = logged rq s"
  by (auto simp: fake_handle_def fake_upload_def fake_manifest_def fake_put_manifest_def logged_def Let_def
      split: if_splits option.splits sum.splits json.splits)

definition stays :: "'w binding \<Rightarrow> string option \<Rightarrow> store \<Rightarrow> fake_registry \<Rightarrow> bool" where
  "stays b auth s w \<longleftrightarrow> fake_store b w = s \<and> fake_ok b auth w"

context fake_setup
begin

lemma get_keeps: "keeps (stays b auth s) (client_request (fake_client L b attempts) ''GET'' url hs content ex retry m)"
proof (rule client_request_keeps)
  show "keeps (stays b auth s) (he_send (cl_http (fake_client L b attempts)) rq)" if "rq_method rq = ''GET''" for rq
    using fake_handle_get [OF that] by (fastforce simp: keeps_def stays_def fake_client_def fake_env_def bnd_def ret_def split: prod.splits sum.splits)
  show "keeps (stays b auth s) (he_sleep (cl_http (fake_client L b attempts)) n)" for n
    by (simp add: fake_client_def fake_env_def keeps_pure)
  show "keeps (stays b auth s) (authorization_header (b_credentials (cl_binding (fake_client L b attempts))))"
    using credentials by (simp add: keeps_pure)
qed

lemmas reads_keep = ping_keeps [OF get_keeps] list_tags_keeps [OF get_keeps] get_referrers_keeps [OF get_keeps]

end

section \<open>The deep probe\<close>

text \<open>What a run of the checks that reached the end did, and what it recorded.\<close>

definition checks_done ::
  "'w binding \<Rightarrow> 'w transport \<Rightarrow> string \<Rightarrow> oci_descriptor \<Rightarrow> oci_descriptor \<Rightarrow> oci_descriptor \<Rightarrow> bool" where
  "checks_done b tr reference payload anchor version \<longleftrightarrow>
     (\<exists>doc chunks found v1 v1' v2 v2' v3 v3'. tr_get_manifest tr reference v1 = (Inr doc, v1') \<and> md_digest doc = d_digest version
        \<and> tr_open_blob tr (d_digest payload) (Some (1, Some 3)) v2 = (Inr (chunks, None), v2') \<and> concat chunks = ''eri''
        \<and> tr_get_referrers tr (d_digest anchor) MERIDIAN_OBJECT_ARTIFACT_TYPE v3 = (Inr found, v3')
        \<and> (b_referrers_required b \<longrightarrow> list_ex (\<lambda>d. d_digest d = d_digest version) found))
     \<and> (b_deletion_enabled b \<longrightarrow> (\<exists>v v'. tr_delete_manifest tr (d_digest version) v = (Inr True, v'))
          \<and> (\<exists>v v'. tr_delete_manifest tr (d_digest anchor) v = (Inr True, v')))"

lemma read_all_Inr: "read_all s = Inr c \<longleftrightarrow> snd s = None \<and> c = concat (fst s)"
  by (cases s) (auto simp: read_all_def split: option.splits)

lemma deep_checks_passed:
  assumes "deep_checks b tr reference payload anchor version (w, l) = (Inr True, w', l')"
  shows "checks_done b tr reference payload anchor version
    \<and> dl_push_pull l' \<and> dl_range_read l' \<and> (b_referrers_required b \<longrightarrow> dl_referrers l') \<and> (b_deletion_enabled b \<longrightarrow> dl_deletion l')"
proof -
  have t: "take 3 (drop 1 probe_payload) = ''eri''" by (simp add: probe_payload_def)
  from assms obtain doc v1 chunks err v2 found v3 where
    g: "tr_get_manifest tr reference w = (Inr doc, v1)"
    and o: "tr_open_blob tr (d_digest payload) (Some (1, Some 3)) v1 = (Inr (chunks, err), v2)" and r: "err = None"
    and f: "tr_get_referrers tr (d_digest anchor) MERIDIAN_OBJECT_ARTIFACT_TYPE v2 = (Inr found, v3)"
    and rest: "md_digest doc = d_digest version" "concat chunks = ''eri''"
      "b_referrers_required b \<longrightarrow> list_ex (\<lambda>d. d_digest d = d_digest version) found"
      "b_deletion_enabled b \<longrightarrow> (\<exists>v v'. tr_delete_manifest tr (d_digest version) v = (Inr True, v'))
          \<and> (\<exists>v v'. tr_delete_manifest tr (d_digest anchor) v = (Inr True, v'))"
      "dl_push_pull l'" "dl_range_read l'" "b_referrers_required b \<longrightarrow> dl_referrers l'" "b_deletion_enabled b \<longrightarrow> dl_deletion l'"
    unfolding deep_checks_def t Let_def
    by (elim bnd_SuccE) (auto simp: inner_iff assign_iff read_all_Inr split: if_splits; blast)
  then show ?thesis unfolding checks_done_def by blast
qed

lemma deep_body_passed:
  assumes "deep_body b tr clock token (w, deep_start) = (Inr True, w', l')"
  shows "\<exists>payload anchor config now version v1 v1' v2 v2'.
      tr_put_manifest tr (''m-probe-a-'' @ token) (build_anchor_manifest (object_id_hash token)) v1 = (Inr anchor, v1')
    \<and> tr_put_manifest tr (''m-probe-v-'' @ token)
        (build_object_manifest anchor config payload (object_id_hash token) (utc_timestamp now) ''immutable'') v2 = (Inr version, v2')
    \<and> checks_done b tr (''m-probe-v-'' @ token) payload anchor version
    \<and> dl_push_pull l' \<and> dl_range_read l' \<and> (b_referrers_required b \<longrightarrow> dl_referrers l') \<and> (b_deletion_enabled b \<longrightarrow> dl_deletion l')"
proof -
  from assms obtain payload anchor config now version v1 v1' v2 v2' l where
    "tr_put_manifest tr (''m-probe-a-'' @ token) (build_anchor_manifest (object_id_hash token)) v1 = (Inr anchor, v1')"
    "tr_put_manifest tr (''m-probe-v-'' @ token)
        (build_object_manifest anchor config payload (object_id_hash token) (utc_timestamp now) ''immutable'') v2 = (Inr version, v2')"
    and c: "deep_checks b tr (''m-probe-v-'' @ token) payload anchor version (v2', l) = (Inr True, w', l')"
    unfolding deep_body_def by (elim bnd_SuccE) (auto simp: inner_iff assign_iff)
  with deep_checks_passed [OF c] show ?thesis by blast
qed

lemma delete_safely_total: "\<exists>w'. delete_safely tr d w = (Inr (), w')"
  by (cases d) (auto simp: delete_safely_def try_safely_def ret_def split: prod.splits)

lemma deep_cases:
  assumes "token_hex 12 w = (Inr token, w1)" "deep_body b tr clock token (w1, deep_start) = (r, w2, l)"
  shows "\<exists>rep w'. deep b tr token_hex clock w = (Inr rep, w')
    \<and> pb_passed rep = (r = Inr True) \<and> pb_push_pull rep = dl_push_pull l \<and> pb_range_read rep = dl_range_read l
    \<and> pb_referrers rep = dl_referrers l \<and> pb_deletion rep = dl_deletion l
    \<and> pb_failure rep = (case r of Inr _ \<Rightarrow> None | Inl e \<Rightarrow> Some (class_name (exn_kind_of e)))
    \<and> (if b_deletion_enabled b
       then \<exists>w3. delete_safely tr (dl_version l) w2 = (Inr (), w3) \<and> delete_safely tr (dl_anchor l) w3 = (Inr (), w')
       else w' = w2)"
proof -
  obtain w3 w4 where "delete_safely tr (dl_version l) w2 = (Inr (), w3)" "delete_safely tr (dl_anchor l) w3 = (Inr (), w4)"
    using delete_safely_total by metis
  then show ?thesis using assms by (cases r) (auto simp: deep_def io_simps Let_def)
qed

section \<open>The canaries\<close>

definition canary_config :: string where
  "canary_config = canonical_json [(''probe'', JBool True)]"

definition canary_version :: "string \<Rightarrow> int \<Rightarrow> string" where
  "canary_version token now = build_object_manifest (manifest_descriptor (anchor_body token))
     \<lparr>d_media_type = MERIDIAN_OBJECT_CONFIG_MEDIA_TYPE, d_digest = sha256_digest canary_config, d_size = length canary_config\<rparr>
     \<lparr>d_media_type = ''application/octet-stream'', d_digest = sha256_digest probe_payload, d_size = length probe_payload\<rparr>
     (object_id_hash token) (utc_timestamp now) ''immutable''"

definition canary_contents :: "string \<Rightarrow> int \<Rightarrow> string list" where
  "canary_contents token now = [probe_payload, EMPTY_JSON, canary_config, anchor_body token, canary_version token now]"

text \<open>The registry has no manifest of the probe yet, under its tags or under others, and the two fit.\<close>

definition canaries_new :: "store \<Rightarrow> int \<Rightarrow> string \<Rightarrow> int \<Rightarrow> bool" where
  "canaries_new s max_manifest token now \<longleftrightarrow>
     tag_match (''m-probe-a-'' @ token) \<and> tag_match (''m-probe-v-'' @ token)
     \<and> st_tags s (''m-probe-a-'' @ token) = None \<and> st_tags s (''m-probe-v-'' @ token) = None
     \<and> anchor_body token \<notin> ran (st_tags s) \<and> canary_version token now \<notin> ran (st_tags s)
     \<and> int (length (anchor_body token)) \<le> max_manifest \<and> int (length (canary_version token now)) \<le> max_manifest"

lemma str_int_ascii: "c \<in> set (str_int n) \<Longrightarrow> oct c < 128"
  using str_nat_ascii by (auto simp: str_int_def list_all_iff split: if_splits)

lemma utc_timestamp_utf8: "utf8_ok (utc_timestamp now)"
proof (rule utf8_ok_ascii)
  have "oct c < 128" if "c \<in> set (pad_left k n)" for c k n
    using that str_int_ascii by (auto simp: pad_left_def Let_def)
  then show "list_all (\<lambda>c. oct c < 128) (utc_timestamp now)"
    by (auto simp: utc_timestamp_def Let_def list_all_iff split: prod.splits)
qed

lemma canary_version_parses:
  assumes "int (length (canary_version token now)) \<le> n"
  shows "\<exists>doc. parse_manifest (canary_version token now) None n = Inr doc
    \<and> manifest_descriptors doc = Inr (\<lparr>d_media_type = MERIDIAN_OBJECT_CONFIG_MEDIA_TYPE, d_digest = sha256_digest canary_config, d_size = length canary_config\<rparr>,
        \<lparr>d_media_type = ''application/octet-stream'', d_digest = sha256_digest probe_payload, d_size = length probe_payload\<rparr>,
        manifest_descriptor (anchor_body token))"
  using assms utc_timestamp_utf8 [of now]
  by (intro object_manifest_parses [OF _ _ _ _ _ _ _ _ _ canary_version_def])
    (simp_all add: manifest_descriptor_def object_id_hash_def utf8_ok_ascii)

lemma anchor_not_version: "anchor_body token \<noteq> canary_version token now"
proof
  assume e: "anchor_body token = canary_version token now"
  let ?n = "int (length (anchor_body token))"
  obtain doc where d: "parse_manifest (anchor_body token) None ?n = Inr doc"
    and a: "obj_get (md_value doc) ''artifactType'' = JStr MERIDIAN_OBJECT_ANCHOR_TYPE"
    using anchor_manifest_parses [of "object_id_hash token" ?n] by (auto simp: anchor_body_def object_id_hash_def)
  obtain c p m where "manifest_descriptors doc = Inr (c, p, m)"
    using canary_version_parses [of token now ?n] d e by auto
  with a show False
    by (auto simp: manifest_descriptors_def MERIDIAN_OBJECT_ANCHOR_TYPE_def MERIDIAN_OBJECT_ARTIFACT_TYPE_def Let_def split: if_splits)
qed

section \<open>A registry to probe\<close>

text \<open>Both canaries are tagged.\<close>

definition canaries_tagged :: "('w \<Rightarrow> bool) \<Rightarrow> ('w \<Rightarrow> store) \<Rightarrow> store \<Rightarrow> string \<Rightarrow> int \<Rightarrow> 'w \<Rightarrow> bool" where
  "canaries_tagged ok view s token now w \<longleftrightarrow> ok w \<and> st_tags (view w) = (st_tags s)(''m-probe-a-'' @ token \<mapsto> anchor_body token,
     ''m-probe-v-'' @ token \<mapsto> canary_version token now)"

locale probed_store = registry_store tr inv abs max_manifest
  for tr :: "'w transport" and inv :: "'w \<Rightarrow> bool" and abs :: "'w \<Rightarrow> store" and max_manifest :: int +
  assumes ping_reads: "inv w \<Longrightarrow> tr_ping tr w = (r, w') \<Longrightarrow> abs w' = abs w \<and> inv w'"
    and referrers_reads: "inv w \<Longrightarrow> tr_get_referrers tr d t w = (x, w') \<Longrightarrow> abs w' = abs w \<and> inv w'"
begin

text \<open>Deleting the canaries restores the tags.\<close>

lemma canaries_deleted:
  assumes "canaries_tagged inv abs s token now w" "canaries_new s n token now" "\<not> collides s (canary_contents token now)"
  shows "\<exists>w1 w2. tr_delete_manifest tr (sha256_digest (canary_version token now)) w = (Inr True, w1)
    \<and> tr_delete_manifest tr (sha256_digest (anchor_body token)) w1 = (Inr True, w2) \<and> st_tags (abs w2) = st_tags s \<and> inv w2"
proof -
  let ?a = "''m-probe-a-'' @ token" and ?v = "''m-probe-v-'' @ token"
  have ne: "sha256_digest (anchor_body token) \<noteq> sha256_digest (canary_version token now)"
    using assms(3) anchor_not_version by (auto simp: collides_def canary_contents_def)
  have other: "sha256_digest m \<noteq> sha256_digest (anchor_body token)" "sha256_digest m \<noteq> sha256_digest (canary_version token now)"
    if "st_tags s t = Some m" for t m
  proof -
    have "m \<in> ran (st_tags s)" using that by (auto simp: ran_def)
    moreover from this have "m \<noteq> anchor_body token" "m \<noteq> canary_version token now" using assms(2) by (auto simp: canaries_new_def)
    ultimately show "sha256_digest m \<noteq> sha256_digest (anchor_body token)" "sha256_digest m \<noteq> sha256_digest (canary_version token now)"
      using assms(3) unfolding collides_def canary_contents_def by (metis UnI2 list.set_intros(1,2))+
  qed
  have i: "inv w" and t: "st_tags (abs w) = (st_tags s)(?a \<mapsto> anchor_body token, ?v \<mapsto> canary_version token now)"
    using assms(1) by (simp_all add: canaries_tagged_def)
  from delete_ok [OF i, of ?v "canary_version token now"] t obtain w1 where
    d1: "tr_delete_manifest tr (sha256_digest (canary_version token now)) w = (Inr True, w1)"
    and a1: "abs w1 = store_delete (sha256_digest (canary_version token now)) (abs w)" and i1: "inv w1" by auto
  have t1: "st_tags (abs w1) = (st_tags s)(?a \<mapsto> anchor_body token)"
    using ne other assms(2) by (auto simp: a1 store_delete_def t fun_eq_iff canaries_new_def split: option.splits)
  from delete_ok [OF i1, of ?a "anchor_body token"] t1 obtain w2 where
    d2: "tr_delete_manifest tr (sha256_digest (anchor_body token)) w1 = (Inr True, w2)"
    and a2: "abs w2 = store_delete (sha256_digest (anchor_body token)) (abs w1)" and i2: "inv w2" by auto
  have "st_tags (abs w2) = st_tags s"
    using other assms(2) by (auto simp: a2 store_delete_def t1 fun_eq_iff canaries_new_def split: option.splits)
  with d1 d2 i2 show ?thesis by blast
qed

abbreviation canary_payload :: oci_descriptor where
  "canary_payload \<equiv> \<lparr>d_media_type = ''application/octet-stream'', d_digest = sha256_digest probe_payload, d_size = length probe_payload\<rparr>"

text \<open>After a successful ping the canaries are pushed and the checks begin.\<close>

lemma deep_pushes:
  assumes i: "inv w" and p: "tr_ping tr w = (Inr result, w0)" "dict_item result ''apiVersion'' = Inr api"
    and clk: "\<And>w. inv w \<Longrightarrow> \<exists>w'. clock w = (Inr now, w') \<and> abs w' = abs w \<and> inv w'"
    and new: "canaries_new (abs w) max_manifest token now" and ncl: "\<not> collides (abs w) (canary_contents token now)"
  shows "\<exists>w'. deep_body b tr clock token (w, deep_start) =
      deep_checks b tr (''m-probe-v-'' @ token) canary_payload (manifest_descriptor (anchor_body token)) (manifest_descriptor (canary_version token now))
        (w', deep_start\<lparr>dl_api_version := api, dl_anchor := Some (manifest_descriptor (anchor_body token)),
           dl_version := Some (manifest_descriptor (canary_version token now))\<rparr>)
    \<and> canaries_tagged inv abs (abs w) token now w' \<and> st_blobs (abs w') (sha256_digest probe_payload) = Some probe_payload"
proof -
  let ?vs = "[probe_payload, EMPTY_JSON, canary_config]" and ?ms = "[anchor_body token, canary_version token now]"
  let ?a = "''m-probe-a-'' @ token" and ?v = "''m-probe-v-'' @ token"
  let ?cd = "\<lparr>d_media_type = MERIDIAN_OBJECT_CONFIG_MEDIA_TYPE, d_digest = sha256_digest canary_config, d_size = length canary_config\<rparr>"
  have cf: "collision_free (abs w) ?vs" and mf: "manifests_free (abs w) ?ms"
    using no_collision_facts [OF ncl _ blob_keyed [OF i]] by (simp_all add: canary_contents_def)
  have tm: "tag_match ?a" "tag_match ?v" using new by (simp_all add: canaries_new_def)
  obtain d1 d2 where pa: "parse_manifest (anchor_body token) None max_manifest = Inr d1" and pv: "parse_manifest (canary_version token now) None max_manifest = Inr d2"
    using new anchor_manifest_parses [of "object_id_hash token" max_manifest] canary_version_parses [of token now max_manifest]
    by (auto simp: canaries_new_def anchor_body_def object_id_hash_def)
  have a0: "abs w0 = abs w" "inv w0" using ping_reads [OF i p(1)] by simp_all
  have "no_collision (abs w0) probe_payload" using cf by (simp add: a0 collision_free_def)
  from store_blob_ok [OF a0(2) this, of "''application/octet-stream''"] obtain w1 where
    u1: "tr_upload_blob_bytes tr probe_payload ''application/octet-stream'' w0 = (Inr canary_payload, w1)"
    and b1: "st_blobs (abs w1) = (st_blobs (abs w))(sha256_digest probe_payload \<mapsto> probe_payload)" "st_tags (abs w1) = st_tags (abs w)" "inv w1"
    by (auto simp: a0)
  have cf1: "collision_free (abs w1) ?vs" using collision_free_update [OF cf, of probe_payload "abs w1"] b1 by simp
  then have "no_collision (abs w1) EMPTY_JSON" by (simp add: collision_free_def)
  from store_blob_ok [OF b1(3) this, of "''application/vnd.oci.empty.v1+json''"] obtain d w2 where
    u2: "tr_upload_blob_bytes tr EMPTY_JSON ''application/vnd.oci.empty.v1+json'' w1 = (Inr d, w2)"
    and b2: "st_blobs (abs w2) = (st_blobs (abs w1))(sha256_digest EMPTY_JSON \<mapsto> EMPTY_JSON)" "st_tags (abs w2) = st_tags (abs w)" "inv w2"
    by (auto simp: b1)
  have cf2: "collision_free (abs w2) ?vs" using collision_free_update [OF cf1, of EMPTY_JSON "abs w2"] b2 by simp
  have mf2: "manifests_free (abs w2) ?ms" by (rule manifests_free_same [OF mf b2(2)])
  then have "no_clash (abs w2) (anchor_body token)" by (simp add: manifests_free_def)
  from put_ok [OF b2(3) tm(1) pa this] obtain w3 where
    u3: "tr_put_manifest tr ?a (anchor_body token) w2 = (Inr (manifest_descriptor (anchor_body token)), w3)"
    and b3: "abs w3 = store_put_tag ?a (anchor_body token) (abs w2)" "inv w3"
    by (auto simp: manifest_descriptor_def)
  have "no_collision (abs w3) canary_config" using cf2 by (simp add: b3 collision_free_def no_collision_def)
  from store_blob_ok [OF b3(2) this media_type_slash(3)] obtain w4 where
    u4: "tr_upload_blob_bytes tr canary_config MERIDIAN_OBJECT_CONFIG_MEDIA_TYPE w3 = (Inr ?cd, w4)"
    and b4: "st_blobs (abs w4) = (st_blobs (abs w2))(sha256_digest canary_config \<mapsto> canary_config)"
      "st_tags (abs w4) = (st_tags (abs w))(?a \<mapsto> anchor_body token)" "inv w4"
    by (auto simp: b3 b2)
  obtain w5 where c5: "clock w4 = (Inr now, w5)" "abs w5 = abs w4" "inv w5" using clk [OF b4(3)] by blast
  have "manifests_free (abs w5) ?ms" using manifests_free_update [OF mf2, of "abs w5" ?a "anchor_body token"] by (simp add: c5 b4 b2)
  then have "no_clash (abs w5) (canary_version token now)" by (simp add: manifests_free_def)
  from put_ok [OF c5(3) tm(2) pv this] obtain w6 where
    u6: "tr_put_manifest tr ?v (canary_version token now) w5 = (Inr (manifest_descriptor (canary_version token now)), w6)"
    and b6: "abs w6 = store_put_tag ?v (canary_version token now) (abs w5)" "inv w6"
    by (auto simp: manifest_descriptor_def)
  have "st_blobs (abs w6) (sha256_digest probe_payload) = Some probe_payload"
    using cf by (auto simp: b6 c5 b4 b2 b1 collision_free_def inj_on_def)
  moreover have "canaries_tagged inv abs (abs w) token now w6" by (simp add: canaries_tagged_def b6 c5 b4)
  moreover have "deep_body b tr clock token (w, deep_start) =
      deep_checks b tr ?v canary_payload (manifest_descriptor (anchor_body token)) (manifest_descriptor (canary_version token now))
        (w6, deep_start\<lparr>dl_api_version := api, dl_anchor := Some (manifest_descriptor (anchor_body token)),
           dl_version := Some (manifest_descriptor (canary_version token now))\<rparr>)"
    using p u1 u2 u3 [unfolded anchor_body_def [of token]] u4 [unfolded canary_config_def] c5 u6 [unfolded canary_version_def canary_config_def]
    by (simp add: deep_body_def bnd_def inner_def assign_def lift_def anchor_body_def canary_version_def canary_config_def)
  ultimately show ?thesis by blast
qed

text \<open>The checks then pass and delete the canaries, or raise with the canaries still recorded.\<close>

lemma deep_checks_cleans:
  assumes t: "canaries_tagged inv abs s token now w" and blob: "st_blobs (abs w) (sha256_digest probe_payload) = Some probe_payload"
    and new: "canaries_new s max_manifest token now" and ncl: "\<not> collides s (canary_contents token now)" and del: "b_deletion_enabled b"
    and l: "dl_anchor l = Some (manifest_descriptor (anchor_body token))" "dl_version l = Some (manifest_descriptor (canary_version token now))"
  shows "\<exists>r w' l'. deep_checks b tr (''m-probe-v-'' @ token) canary_payload (manifest_descriptor (anchor_body token))
      (manifest_descriptor (canary_version token now)) (w, l) = (r, w', l')
    \<and> (r = Inr True \<and> st_tags (abs w') = st_tags s \<and> inv w' \<and> dl_anchor l' = None \<and> dl_version l' = None
       \<or> (\<exists>e. r = Inl e) \<and> canaries_tagged inv abs s token now w' \<and> dl_anchor l' = dl_anchor l \<and> dl_version l' = dl_version l)"
proof -
  let ?v = "''m-probe-v-'' @ token" and ?ad = "manifest_descriptor (anchor_body token)" and ?vd = "manifest_descriptor (canary_version token now)"
  have i: "inv w" and tv: "st_tags (abs w) ?v = Some (canary_version token now)" and tm: "tag_match ?v"
    using t new by (simp_all add: canaries_tagged_def canaries_new_def)
  obtain doc where pv: "parse_manifest (canary_version token now) None max_manifest = Inr doc"
    using new canary_version_parses [of token now max_manifest] by (auto simp: canaries_new_def)
  have dg: "md_digest doc = sha256_digest (canary_version token now)" using parse_manifest_sound [OF pv] by simp
  obtain w1 where g: "tr_get_manifest tr ?v w = (Inr doc, w1)" and a1: "abs w1 = abs w" "inv w1"
    using get_ok [OF i tm tv pv] by blast
  have "3 < length probe_payload" by (simp add: probe_payload_def)
  with open_range_ok [OF a1(2), of probe_payload 1 3] blob obtain cs w2 where
    o: "tr_open_blob tr (sha256_digest probe_payload) (Some (1, Some 3)) w1 = (Inr (cs, None), w2)"
    and c: "concat cs = take 3 (drop 1 probe_payload)" and a2: "abs w2 = abs w" "inv w2"
    by (auto simp: a1 numeral_2_eq_2 numeral_3_eq_3)
  obtain f w3 where r: "tr_get_referrers tr (sha256_digest (anchor_body token)) MERIDIAN_OBJECT_ARTIFACT_TYPE w2 = (f, w3)" by fastforce
  from referrers_reads [OF a2(2) r] have t3: "canaries_tagged inv abs s token now w3" using t by (simp add: canaries_tagged_def a2)
  obtain w4 w5 where d: "tr_delete_manifest tr (sha256_digest (canary_version token now)) w3 = (Inr True, w4)"
      "tr_delete_manifest tr (sha256_digest (anchor_body token)) w4 = (Inr True, w5)" "st_tags (abs w5) = st_tags s" "inv w5"
    using canaries_deleted [OF t3 new ncl] by blast
  have di: "d_digest ?ad = sha256_digest (anchor_body token)" "d_digest ?vd = sha256_digest (canary_version token now)"
    by (simp_all add: manifest_descriptor_def)
  note steps = g o c dg r del di
  show ?thesis
  proof (cases f)
    case (Inl e)
    with steps t3 l show ?thesis
      by (simp add: deep_checks_def bnd_def inner_def assign_def lift_def raise_def Let_def read_all_def)
  next
    case (Inr found)
    show ?thesis
    proof (cases "b_referrers_required b \<and> \<not> list_ex (\<lambda>item. d_digest item = sha256_digest (canary_version token now)) found")
      case True
      with steps Inr t3 l show ?thesis
        by (simp add: deep_checks_def bnd_def inner_def assign_def lift_def raise_def Let_def read_all_def)
    next
      case False
      with steps Inr d show ?thesis
        by (auto simp add: deep_checks_def bnd_def inner_def assign_def lift_def raise_def Let_def read_all_def)
    qed
  qed
qed

text \<open>The probe as a whole: it reports, passes or names a failure, and leaves the tags as they were.\<close>

lemma deep_cleans:
  assumes tok: "token_hex 12 w = (Inr token, w1)" "abs w1 = abs w" "inv w1"
    and clk: "\<And>w. inv w \<Longrightarrow> \<exists>w'. clock w = (Inr now, w') \<and> abs w' = abs w \<and> inv w'"
    and new: "canaries_new (abs w) max_manifest token now" and ncl: "\<not> collides (abs w) (canary_contents token now)" and del: "b_deletion_enabled b"
  shows "\<exists>rep w'. deep b tr token_hex clock w = (Inr rep, w') \<and> st_tags (abs w') = st_tags (abs w) \<and> inv w'
    \<and> (pb_passed rep \<or> pb_failure rep \<noteq> None)"
proof -
  obtain p w2 where pg: "tr_ping tr w1 = (p, w2)" by fastforce
  from ping_reads [OF tok(3) pg] tok(2) have a2: "abs w2 = abs w" "inv w2" by simp_all
  let ?body = "deep_body b tr clock token (w1, deep_start)"
  have "\<exists>r w3 l. ?body = (r, w3, l) \<and>
      (r = Inr True \<and> st_tags (abs w3) = st_tags (abs w) \<and> inv w3 \<and> dl_anchor l = None \<and> dl_version l = None
       \<or> (\<exists>e. r = Inl e) \<and> st_tags (abs w3) = st_tags (abs w) \<and> inv w3 \<and> dl_anchor l = None \<and> dl_version l = None
       \<or> (\<exists>e. r = Inl e) \<and> canaries_tagged inv abs (abs w) token now w3
          \<and> dl_anchor l = Some (manifest_descriptor (anchor_body token)) \<and> dl_version l = Some (manifest_descriptor (canary_version token now)))"
  proof (cases "\<exists>result api. p = Inr result \<and> dict_item result ''apiVersion'' = Inr api")
    case True
    then obtain result api where ok: "p = Inr result" "dict_item result ''apiVersion'' = Inr api" by blast
    from deep_pushes [OF tok(3) pg [unfolded ok(1)] ok(2) clk] new ncl tok(2) obtain w3 where
      eq: "?body = deep_checks b tr (''m-probe-v-'' @ token) canary_payload (manifest_descriptor (anchor_body token)) (manifest_descriptor (canary_version token now))
        (w3, deep_start\<lparr>dl_api_version := api, dl_anchor := Some (manifest_descriptor (anchor_body token)),
           dl_version := Some (manifest_descriptor (canary_version token now))\<rparr>)"
      and t3: "canaries_tagged inv abs (abs w) token now w3" "st_blobs (abs w3) (sha256_digest probe_payload) = Some probe_payload"
      by (auto simp: tok(2))
    from deep_checks_cleans [OF t3 new ncl del, of "deep_start\<lparr>dl_api_version := api, dl_anchor := Some (manifest_descriptor (anchor_body token)),
           dl_version := Some (manifest_descriptor (canary_version token now))\<rparr>"] eq
    show ?thesis by auto
  next
    case False
    with pg a2 show ?thesis
      by (cases p; cases "dict_item (projr p) ''apiVersion''") (auto simp: deep_body_def bnd_def inner_def lift_def deep_start_def)
  qed
  then obtain r w3 l where body: "?body = (r, w3, l)" and c:
      "r = Inr True \<and> st_tags (abs w3) = st_tags (abs w) \<and> inv w3 \<and> dl_anchor l = None \<and> dl_version l = None
       \<or> (\<exists>e. r = Inl e) \<and> st_tags (abs w3) = st_tags (abs w) \<and> inv w3 \<and> dl_anchor l = None \<and> dl_version l = None
       \<or> (\<exists>e. r = Inl e) \<and> canaries_tagged inv abs (abs w) token now w3
          \<and> dl_anchor l = Some (manifest_descriptor (anchor_body token)) \<and> dl_version l = Some (manifest_descriptor (canary_version token now))"
    by blast
  from deep_cases [where b = b and token_hex = token_hex, OF tok(1) body] del obtain rep w' w4 where
    d: "deep b tr token_hex clock w = (Inr rep, w')" "pb_passed rep = (r = Inr True)"
      "pb_failure rep = (case r of Inr _ \<Rightarrow> None | Inl e \<Rightarrow> Some (class_name (exn_kind_of e)))"
    and f: "delete_safely tr (dl_version l) w3 = (Inr (), w4)" "delete_safely tr (dl_anchor l) w4 = (Inr (), w')"
    by auto
  have "st_tags (abs w') = st_tags (abs w) \<and> inv w'"
    using c
  proof (elim disjE conjE)
    assume "canaries_tagged inv abs (abs w) token now w3" and l: "dl_anchor l = Some (manifest_descriptor (anchor_body token))"
      "dl_version l = Some (manifest_descriptor (canary_version token now))"
    from canaries_deleted [OF this(1) new ncl] obtain v1 v2 where
      "tr_delete_manifest tr (sha256_digest (canary_version token now)) w3 = (Inr True, v1)"
      "tr_delete_manifest tr (sha256_digest (anchor_body token)) v1 = (Inr True, v2)" "st_tags (abs v2) = st_tags (abs w)" "inv v2" by blast
    with f l show ?thesis by (simp add: delete_safely_def try_safely_def manifest_descriptor_def)
  qed (use f in \<open>simp_all add: delete_safely_def ret_def\<close>)
  with d c show ?thesis by auto
qed

end

sublocale fake_setup \<subseteq> probed: probed_store "http_transport (fake_client L b attempts)" "fake_ok b auth" "fake_store b" "b_max_manifest_bytes b"
proof unfold_locales
  fix w r w' d t x
  show "fake_store b w' = fake_store b w \<and> fake_ok b auth w'"
    if "fake_ok b auth w" "tr_ping (http_transport (fake_client L b attempts)) w = (r, w')"
    using keepsD [OF reads_keep(1), of w r w' "fake_store b w"] that by (simp add: stays_def http_transport_def)
  show "fake_store b w' = fake_store b w \<and> fake_ok b auth w'"
    if "fake_ok b auth w" "tr_get_referrers (http_transport (fake_client L b attempts)) d t w = (x, w')"
    using keepsD [OF reads_keep(3), of d t w x w' "fake_store b w"] that by (simp add: stays_def http_transport_def)
qed

context fake_setup
begin

lemmas probe_facts = probed.deep_cleans

end

end
