(* ===== verification/Probe_Properties.thy ===== *)
theory Probe_Properties
  imports Probe_Laws Adapter_Properties
begin

text \<open>
  The properties of the probes: the authenticated probe changes nothing, a deep probe that passes has
  seen every check it stands for, and it cleans up after itself.
\<close>

section \<open>The authenticated probe\<close>

lemma ping_version: "ping cl w = (Inr result, w') \<Longrightarrow> \<exists>v. dict_item result ''apiVersion'' = Inr v"
  by (auto simp: ping_def dict_item_def)

text \<open>C22. The authenticated probe always reports and only reads: over the HTTP client on the test registry it
  returns a report, which passes exactly when it names no failure, exactly when the version endpoint and a
  one-tag listing both answered; and the blobs, tags and uploads of the registry are what they were.\<close>

theorem authenticated_probe_reads:
  assumes "fake_setup L b auth attempts" "fake_ok b auth w"
  shows "\<exists>rep w'. authenticated b (served_by L b attempts) w = (Inr rep, w') \<and> fake_store b w' = fake_store b w \<and> fake_ok b auth w'
    \<and> pb_passed rep = (pb_failure rep = None)
    \<and> pb_passed rep = (\<exists>result page w1 w2. ping (fake_client L b attempts) w = (Inr result, w1)
         \<and> list_tags (fake_client L b attempts) 1 None w1 = (Inr page, w2))
    \<and> pb_manifest rep = configured_capability_manifest b"
proof -
  let ?cl = "fake_client L b attempts"
  obtain p w1 t w2 where p: "ping ?cl w = (p, w1)" and t: "list_tags ?cl 1 None w1 = (t, w2)" by (meson surj_pair)
  have "\<exists>(rep :: probe_report) w'. authenticated b (http_transport ?cl) w = (Inr rep, w') \<and> pb_passed rep = (pb_failure rep = None)
      \<and> pb_passed rep = ((\<exists>x. p = Inr x) \<and> (\<exists>x. t = Inr x)) \<and> pb_manifest rep = configured_capability_manifest b"
  proof (cases p)
    case (Inr result)
    from ping_version [OF p [unfolded Inr]] obtain v where "dict_item result ''apiVersion'' = Inr v" by blast
    with p t Inr show ?thesis
      by (cases t) (simp_all add: authenticated_def http_transport_def Let_def outcome_def bnd_def ret_def lift_def)
  qed (use p in \<open>simp add: authenticated_def http_transport_def Let_def outcome_def bnd_def ret_def\<close>)
  then obtain rep w' where a: "authenticated b (http_transport ?cl) w = (Inr rep, w')"
    and k: "pb_passed rep = (pb_failure rep = None)" "pb_passed rep = ((\<exists>x. p = Inr x) \<and> (\<exists>x. t = Inr x))"
      "pb_manifest rep = configured_capability_manifest b" by (elim exE conjE) (rule that)
  have "keeps (stays b auth (fake_store b w)) (authenticated b (http_transport ?cl))"
    using fake_setup.reads_keep [OF assms(1)] by (intro authenticated_keeps) (simp_all add: http_transport_def)
  from keepsD [OF this a] assms(2) have "fake_store b w' = fake_store b w" "fake_ok b auth w'" by (simp_all add: stays_def)
  with a k p t show ?thesis by auto
qed

theorem authenticated_probe_reads_witness:
  "\<exists>rep w'. authenticated registry_binding (served_by example_lib registry_binding 3) empty_registry = (Inr rep, w')
     \<and> fake_store registry_binding w' = fake_store registry_binding empty_registry"
  using authenticated_probe_reads [OF example_setup empty_registry_ok] by blast

section \<open>The deep probe\<close>

text \<open>C18. A deep probe that passes is honest, whatever the registry: it names no failure, and it published an
  anchor and a version manifest of its own, pulled the version back under the digest its push was
  given, read the requested range of its payload blob as exactly those octets, found the version among
  the anchor's referrers if the binding requires them, and had both manifests deleted if the binding enables
  deletion.\<close>

theorem deep_probe_honest:
  assumes "deep b tr token_hex clock w = (Inr rep, w')" "pb_passed rep"
  shows "pb_failure rep = None \<and> pb_push_pull rep \<and> pb_range_read rep
    \<and> (\<exists>token payload anchor config now version v1 v1' v2 v2'.
        tr_put_manifest tr (''m-probe-a-'' @ token) (build_anchor_manifest (object_id_hash token)) v1 = (Inr anchor, v1')
      \<and> tr_put_manifest tr (''m-probe-v-'' @ token)
          (build_object_manifest anchor config payload (object_id_hash token) (utc_timestamp now) ''immutable'') v2 = (Inr version, v2')
      \<and> checks_done b tr (''m-probe-v-'' @ token) payload anchor version)
    \<and> (pb_referrers rep \<or> b_referrers_required b = False) \<and> (pb_deletion rep \<or> b_deletion_enabled b = False)"
proof -
  from assms(1) obtain token w1 where t: "token_hex 12 w = (Inr token, w1)" by (auto simp: deep_def)
  obtain r w2 l where body: "deep_body b tr clock token (w1, deep_start) = (r, w2, l)" by (metis prod_cases3)
  from deep_cases [where token_hex = token_hex and b = b, OF t body] assms(1) have k:
    "pb_passed rep = (r = Inr True)" "pb_push_pull rep = dl_push_pull l" "pb_range_read rep = dl_range_read l"
    "pb_referrers rep = dl_referrers l" "pb_deletion rep = dl_deletion l"
    "pb_failure rep = (case r of Inr _ \<Rightarrow> None | Inl e \<Rightarrow> Some (class_name (exn_kind_of e)))"
    by auto
  with assms(2) have r: "r = Inr True" by simp
  from deep_body_passed [OF body [unfolded r]] k r show ?thesis by simp blast
qed

text \<open>A transport that answers every call of the probe as a registry with one fixed manifest would.\<close>

definition agreeable_transport :: "unit transport" where
  "agreeable_transport =
     (let d = \<lparr>d_media_type = ''application/octet-stream'', d_digest = ''d'', d_size = 0\<rparr>
      in \<lparr>tr_ping = ret [(''apiVersion'', ''registry/2.0'')], tr_head_blob = (\<lambda>_. ret None),
          tr_start_upload = raise (bare_exn ObjectUnavailable), tr_patch_upload = (\<lambda>_ _. raise (bare_exn ObjectUnavailable)),
          tr_finish_upload = (\<lambda>_ _. raise (bare_exn ObjectUnavailable)), tr_abort_upload = (\<lambda>_. ret ()),
          tr_upload_status = (\<lambda>_. raise (bare_exn ObjectUnavailable)), tr_upload_blob_bytes = (\<lambda>_ _. ret d),
          tr_get_blob_bytes = (\<lambda>_ _. ret []), tr_open_blob = (\<lambda>_ _. ret ([''er'', ''i''], None)),
          tr_get_manifest = (\<lambda>_. ret \<lparr>md_body = [], md_digest = ''d'', md_media_type = [], md_value = []\<rparr>),
          tr_manifest_exists = (\<lambda>_. ret True), tr_put_manifest = (\<lambda>_ _. ret d), tr_delete_manifest = (\<lambda>_. ret True),
          tr_list_tags = (\<lambda>_ _. ret \<lparr>tp_tags = [], tp_has_more = False\<rparr>), tr_get_referrers = (\<lambda>_ _. ret [d])\<rparr>)"

theorem deep_probe_honest_witness:
  "\<exists>rep w'. deep example_binding agreeable_transport (\<lambda>n. ret ''ab'') (ret 5) () = (Inr rep, w') \<and> pb_passed rep \<and> pb_range_read rep"
proof -
  obtain rep w' where d: "deep example_binding agreeable_transport (\<lambda>n. ret ''ab'') (ret 5) () = (Inr rep, w')" "pb_passed rep"
    by (simp add: deep_def deep_body_def deep_checks_def agreeable_transport_def Let_def bnd_def inner_def assign_def ret_def lift_def
        dict_item_def read_all_def probe_payload_def example_binding_def deep_start_def)
  from deep_probe_honest [OF d] d show ?thesis by blast
qed

text \<open>C14. The deep probe cleans up: on the test registry, with a binding that enables deletion and canaries
  that are new to the registry, it returns a report that passes or names a failure, and afterwards
  every tag of the registry names what it named before, whichever check failed. The only other possibility
  is an explicit SHA-256 collision.\<close>

theorem deep_probe_cleans_up:
  assumes "fake_setup L b auth attempts" "fake_ok b auth w" "b_deletion_enabled b"
    and "canaries_new (fake_store b w) (b_max_manifest_bytes b) token now"
  shows "collides (fake_store b w) (canary_contents token now)
    \<or> (\<exists>rep w'. deep b (served_by L b attempts) (\<lambda>_. ret token) (ret now) w = (Inr rep, w')
        \<and> st_tags (fake_store b w') = st_tags (fake_store b w) \<and> fake_ok b auth w' \<and> (pb_passed rep \<or> pb_failure rep \<noteq> None))"
proof (cases "collides (fake_store b w) (canary_contents token now)")
  case False
  have t: "(\<lambda>_. ret token) 12 w = (Inr token, w)" by simp
  have c: "\<exists>w'. ret now v = (Inr now, w') \<and> fake_store b w' = fake_store b v \<and> fake_ok b auth w'" if "fake_ok b auth v" for v
    using that by simp
  from fake_setup.probe_facts [where token_hex = "\<lambda>_. ret token" and clock = "ret now", OF assms(1) t refl assms(2) c assms(4) False assms(3)]
  show ?thesis by simp
qed simp

definition deleting_binding :: "fake_registry binding" where
  "deleting_binding = registry_binding\<lparr>b_deletion_enabled := True\<rparr>"

lemma deleting_setup: "fake_setup example_lib deleting_binding (Some ''Bearer token'') 3"
  using example_setup unfolding fake_setup_def fake_setup_axioms_def by (simp add: binding_wf_def deleting_binding_def)

lemma epoch_timestamp: "utc_timestamp 5 = ''1970-01-01T00:00:00.000005Z''"
proof -
  have "pad_left 4 1970 = ''1970''" "pad_left 2 1 = ''01''" "pad_left 2 0 = ''00''" "pad_left 6 5 = ''000005''"
    by code_simp+
  then show ?thesis by (simp add: utc_timestamp_def Let_def civil_from_days_examples(1))
qed

lemma canary_version_size: "length (canary_version ''ab'' 5) \<le> 20000"
proof -
  have "length (str_nat (length (anchor_body ''ab''))) \<le> 5" using anchor_body_size [of "''ab''"] by (intro str_nat_length; simp)
  moreover have "length (str_nat (length canary_config)) \<le> 5"
    using length_canonical [of "[(''probe'', JBool True)]"] by (intro str_nat_length) (simp_all add: canary_config_def)
  ultimately have "json_weight (JObj (object_manifest_fields (manifest_descriptor (anchor_body ''ab''))
      \<lparr>d_media_type = MERIDIAN_OBJECT_CONFIG_MEDIA_TYPE, d_digest = sha256_digest canary_config, d_size = length canary_config\<rparr>
      \<lparr>d_media_type = ''application/octet-stream'', d_digest = sha256_digest probe_payload, d_size = length probe_payload\<rparr>
      (object_id_hash ''ab'') (utc_timestamp 5) ''immutable'')) \<le> 20000"
    by (simp add: object_manifest_fields_def OCI_MANIFEST_MEDIA_TYPE_def MERIDIAN_OBJECT_ARTIFACT_TYPE_def MERIDIAN_OBJECT_CONFIG_MEDIA_TYPE_def
        descriptor_to_dict_def manifest_descriptor_def epoch_timestamp probe_payload_def str_int_def [of "int k" for k]
        str_int_def [of "numeral k" for k] str_nat.simps [of 2] str_nat.simps [of 31] str_nat.simps [of 3])
  then show ?thesis
    unfolding canary_version_def build_object_manifest_def by (simp add: order_trans [OF length_canonical] del: json_weight.simps)
qed

theorem deep_probe_cleans_up_witness:
  "collides (fake_store deleting_binding empty_registry) (canary_contents ''ab'' 5)
   \<or> (\<exists>rep w'. deep deleting_binding (served_by example_lib deleting_binding 3) (\<lambda>_. ret ''ab'') (ret 5) empty_registry = (Inr rep, w')
        \<and> st_tags (fake_store deleting_binding w') = Map.empty)"
proof -
  have b: "b_deletion_enabled deleting_binding" "b_max_manifest_bytes deleting_binding = 4194304"
    by (simp_all add: deleting_binding_def registry_binding_def example_binding_def)
  have e: "fake_ok deleting_binding (Some ''Bearer token'') empty_registry"
    using empty_registry_ok by (simp add: fake_ok_def deleting_binding_def)
  have "canaries_new (fake_store deleting_binding empty_registry) (b_max_manifest_bytes deleting_binding) ''ab'' 5"
    using anchor_body_size [of "''ab''"] canary_version_size
    by (simp add: canaries_new_def empty_registry_store b(2) tag_match_def tag_first_def tag_rest_def is_alpha_def is_digit_def)
  from deep_probe_cleans_up [OF deleting_setup e b(1) this] show ?thesis by (auto simp: empty_registry_store)
qed

end
