(* ===== verification/Factory.thy ===== *)
theory Factory
  imports Probe Multipart
begin

text \<open>
  \<^verbatim>\<open>src/src/meridian_storage/adapters/oci/_factory.py\<close>: the bridge from the core's factory interface to
  the adapter: the checks of a deployment binding, the runtime with its lifecycle, and its sessions.

  A runtime is the record of its attributes, carried beside the world. What the core package, \<open>httpx\<close>
  and the file system contribute is the parameter record \<open>runtime_env\<close>: the constructors of the
  interface's result classes, the canonical fingerprint, the HTTP client for a binding, and the
  temporary directory of the CA file.
\<close>

section \<open>Creating a runtime\<close>

text \<open>The context the core supplies, with the secrets it reveals.\<close>

record create_context =
  cc_adapter_id :: string
  cc_endpoint :: "string option"
  cc_adapter_contract :: string
  cc_engine_profile :: string
  cc_engine_version :: string
  cc_settings :: "(string \<times> pyval) list"
  cc_tls_mode :: string
  cc_physical_namespace :: string
  cc_operation_timeout_ms :: int
  cc_identity :: string
  cc_credential :: string
  cc_tls_ca :: "string option"

definition SETTINGS :: "string list" where
  "SETTINGS =
     [''resource'', ''registryRelease'', ''registryImage'', ''chunkSize'', ''maxObjectBytes'', ''maxRangeBytes'',
      ''maxManifestBytes'', ''maxMetadataBytes'', ''maxListPageSize'', ''maxScanTags'', ''maxMultipartParts'',
      ''conditionalCreateMode'', ''deletionEnabled'', ''retentionEnforced'', ''referrersRequired'']"

record adapter_probe =
  apr_manifest :: capability_manifest
  apr_details :: "(string \<times> string) list"

record 'w runtime =
  rn_binding :: "'w binding"
  rn_tls_ca :: "string option"
  rn_ca_directory :: "string option"
  rn_adapter :: "'w adapter option"
  rn_probe :: "adapter_probe option"
  rn_verified :: bool

definition mk_runtime :: "'w binding \<Rightarrow> string option \<Rightarrow> 'w runtime" where
  "mk_runtime b tls_ca =
     \<lparr>rn_binding = b, rn_tls_ca = tls_ca, rn_ca_directory = None, rn_adapter = None, rn_probe = None, rn_verified = False\<rparr>"

text \<open>\<open>bytes.decode("utf-8")\<close>, which unlike the decoding of JSON refuses encoded surrogates, \<open>ED A0..BF\<close>.\<close>

definition utf8_decode :: "string \<Rightarrow> exn + string" where
  "utf8_decode s =
     (if utf8_ok s \<and> list_all (\<lambda>(a, b). \<not> (oct a = 237 \<and> 160 \<le> oct b)) (zip s (tl s)) then Inr s
      else Inl (bare_exn UnicodeDecodeError))"

text \<open>\<open>int.bit_length\<close> of a natural number, and \<open>a / b\<close> for integers with \<open>0 < b\<close>: the quotient to 53
  significant bits, rounded to nearest with ties to even.\<close>

fun bit_length :: "nat \<Rightarrow> nat" where
  "bit_length n = (if n = 0 then 0 else Suc (bit_length (n div 2)))"

declare bit_length.simps [simp del]

definition true_divide :: "int \<Rightarrow> int \<Rightarrow> exn + pyfloat" where
  "true_divide a b =
     (if a = 0 then Inr (Finite_float 0 0)
      else
        let n = nat \<bar>a\<bar>; d = nat b;
            up = 55 + bit_length d - bit_length n; down = bit_length n - (55 + bit_length d);
            num = n * 2 ^ up; den = d * 2 ^ down;
            q = num div den; extra = bit_length q - 53;
            m0 = q div 2 ^ extra; low = q mod 2 ^ extra; half = 2 ^ (extra - 1);
            m = (if half < low \<or> (low = half \<and> (num mod den \<noteq> 0 \<or> odd m0)) then m0 + 1 else m0);
            e = int extra - int up + int down
        in if 1024 < int (bit_length m) + e
           then Inl (exn_of (OtherError ''OverflowError'') ''integer division result too large for a float'')
           else Inr (Finite_float (if a < 0 then - int m else int m) e))"

definition auth_credentials :: "create_context \<Rightarrow> exn + 'w credentials" where
  "auth_credentials c =
     (let auth = (case map_of (cc_settings c) ''authMode'' of None \<Rightarrow> PyStr ''basic'' | Some v \<Rightarrow> v)
      in if auth = PyStr ''anonymous'' then Inr AnonymousCredentials
         else if auth = PyStr ''basic'' then
           bindE (utf8_decode (cc_identity c)) (\<lambda>username.
           bindE (utf8_decode (cc_credential c)) (\<lambda>password. mk_basic_credentials username password))
         else if auth = PyStr ''bearer'' then bindE (utf8_decode (cc_credential c)) mk_bearer_credentials
         else Inl (exn_of ValueError ''unsupported authentication mode''))"

text \<open>The keyword arguments of \<open>OciDistributionBinding\<close>: a setting, or the default of its field.\<close>

definition setting :: "(string \<times> pyval) list \<Rightarrow> string \<Rightarrow> pyval \<Rightarrow> pyval" where
  "setting settings key dflt = (case map_of settings key of None \<Rightarrow> dflt | Some v \<Rightarrow> v)"

definition context_binding_args ::
  "create_context \<Rightarrow> string \<Rightarrow> 'w credentials \<Rightarrow> pyfloat \<Rightarrow> ('w, pyval) binding_args" where
  "context_binding_args c endpoint credentials timeout =
     (let d = default_binding_args (setting (cc_settings c) ''resource'' PyNone) endpoint (cc_physical_namespace c);
          s = setting (cc_settings c)
      in d\<lparr>a_credentials := credentials, a_allow_insecure_http := PyBool (cc_tls_mode c = ''disabled''),
           a_verify_tls := PyBool (cc_tls_mode c \<noteq> ''disabled''), a_timeout_seconds := PyFloat timeout,
           a_registry_release := s ''registryRelease'' (a_registry_release d),
           a_registry_image := s ''registryImage'' (a_registry_image d),
           a_chunk_size := s ''chunkSize'' (a_chunk_size d),
           a_max_object_bytes := s ''maxObjectBytes'' (a_max_object_bytes d),
           a_max_range_bytes := s ''maxRangeBytes'' (a_max_range_bytes d),
           a_max_manifest_bytes := s ''maxManifestBytes'' (a_max_manifest_bytes d),
           a_max_metadata_bytes := s ''maxMetadataBytes'' (a_max_metadata_bytes d),
           a_max_list_page_size := s ''maxListPageSize'' (a_max_list_page_size d),
           a_max_scan_tags := s ''maxScanTags'' (a_max_scan_tags d),
           a_max_multipart_parts := s ''maxMultipartParts'' (a_max_multipart_parts d),
           a_conditional_create_mode := s ''conditionalCreateMode'' (a_conditional_create_mode d),
           a_deletion_enabled := s ''deletionEnabled'' (a_deletion_enabled d),
           a_retention_enforced := s ''retentionEnforced'' (a_retention_enforced d),
           a_referrers_required := s ''referrersRequired'' (a_referrers_required d)\<rparr>)"

text \<open>\<open>OciAdapterFactory.create\<close>; \<open>None\<close> is an argument that is not an \<open>AdapterCreateContext\<close>.\<close>

definition factory_create ::
  "(pyval \<Rightarrow> exn + resource_ref) \<Rightarrow> string \<Rightarrow> create_context option \<Rightarrow> exn + 'w runtime" where
  "factory_create parse_resource token argument =
     (case argument of
        None \<Rightarrow> Inl (exn_of TypeError ''OCI factory requires AdapterCreateContext'')
      | Some c \<Rightarrow>
     (case (if cc_adapter_id c \<noteq> ADAPTER_ID then None else cc_endpoint c) of
        None \<Rightarrow> Inl (exn_of ObjectInvalidRequest ''OCI factory requires an OCI binding with a resolved endpoint'')
      | Some endpoint \<Rightarrow>
        if cc_adapter_contract c \<noteq> ADAPTER_CONTRACT_VERSION
        then Inl (exn_of ObjectCapabilityMismatch ''unsupported OCI Adapter SPI contract'')
        else if cc_engine_profile c \<noteq> ENGINE_PROFILE
        then Inl (exn_of ObjectCapabilityMismatch ''unsupported OCI engine profile'')
        else if cc_engine_version c \<noteq> OCI_DISTRIBUTION_VERSION
        then Inl (exn_of ObjectCapabilityMismatch ''OCI requires Distribution specification 1.1.1'')
        else if \<not> list_all (\<lambda>(k, _). k \<in> set SETTINGS \<or> k = ''authMode'') (cc_settings c) \<or> map_of (cc_settings c) ''resource'' = None
        then Inl (exn_of ObjectInvalidRequest ''OCI binding requires resource and only supported settings'')
        else
        bindE (urlsplit endpoint) (\<lambda>parts.
        if cc_tls_mode c = ''mutual'' \<or> (cc_tls_mode c = ''disabled'' \<and> sr_scheme parts \<noteq> ''http'')
        then Inl (exn_of ObjectInvalidRequest ''OCI binding TLS policy is unsupported for this endpoint'')
        else if cc_tls_mode c \<noteq> ''disabled'' \<and> sr_scheme parts \<noteq> ''https''
        then Inl (exn_of ObjectInvalidRequest ''OCI TLS requires an HTTPS endpoint'')
        else if cc_tls_mode c = ''server'' \<and> cc_tls_ca c = None
        then Inl (exn_of ObjectInvalidRequest ''OCI server TLS requires resolved CA material'')
        else
        bindE (catchE
                 (bindE (auth_credentials c) (\<lambda>credentials.
                  bindE (true_divide (cc_operation_timeout_ms c) 1000) (\<lambda>timeout.
                  mk_binding parse_resource token (context_binding_args c endpoint credentials timeout))))
                 is_type_or_value_error
                 (exn_of ObjectInvalidRequest ''OCI private binding or credential configuration is invalid'')) (\<lambda>config.
        Inr (mk_runtime config (cc_tls_ca c))))))"

section \<open>The runtime\<close>

record physical_resource =
  ph_resource_ref :: resource_ref
  ph_resource_fingerprint :: json
  ph_schema_fingerprint :: json
  ph_profile :: json

record physical_verification =
  pv_fingerprint :: string
  pv_resources :: "(string \<times> string) list"
  pv_details :: "(string \<times> string) list"

record execution_result =
  er_data :: fields
  er_provenance :: fields

record 'w runtime_env =
  re_common :: object_common
  re_multipart :: "'w multipart_common"
  re_clock :: "('w, datetime) io"
  re_payloads :: "'w payload_registry"
  re_http :: "'w binding \<Rightarrow> ('w, 'w http_env) io"
  re_close_transport :: "'w adapter \<Rightarrow> ('w, unit) io"
  re_temp_dir :: "string \<Rightarrow> ('w, string) io"
  re_touch :: "string \<Rightarrow> nat \<Rightarrow> ('w, unit) io"
  re_write_bytes :: "string \<Rightarrow> string \<Rightarrow> ('w, unit) io"
  re_cleanup :: "string \<Rightarrow> ('w, unit) io"
  re_mk_probe :: "adapter_probe \<Rightarrow> exn + adapter_probe"
  re_mk_verification :: "physical_verification \<Rightarrow> exn + physical_verification"
  re_mk_result :: "execution_result \<Rightarrow> exn + execution_result"
  re_fingerprint :: "fields \<Rightarrow> string"

text \<open>\<open>OciDistributionAdapter(binding)\<close>, which builds its own client and its multipart manager.\<close>

definition new_adapter :: "'w runtime_env \<Rightarrow> 'w binding \<Rightarrow> ('w, 'w adapter) io" where
  "new_adapter env b =
     bnd (re_http env b) (\<lambda>http.
     bnd (lift (mk_client b http 3)) (\<lambda>cl.
     bnd (lift (mk_adapter (re_common env) b (http_transport cl) (re_clock env))) (\<lambda>A.
     bnd (lift (mk_manager (re_multipart env) A)) (\<lambda>_.
     ret A))))"

text \<open>\<open>replace(binding, verify_tls=path)\<close>: the constructor checks again, and what an accepted binding
  already passed passes again, so the new field decides.\<close>

definition with_ca_bundle :: "'w binding \<Rightarrow> string \<Rightarrow> exn + 'w binding" where
  "with_ca_bundle b path = bindE (verify_field (PyStr path)) (\<lambda>v. Inr (b\<lparr>b_verify_tls := v\<rparr>))"

definition runtime_close :: "'w runtime_env \<Rightarrow> ('w \<times> 'w runtime, unit) io" where
  "runtime_close env =
     bnd (gets rn_adapter) (\<lambda>adapter.
     bnd (assign (\<lambda>rn. rn\<lparr>rn_adapter := None, rn_probe := None, rn_verified := False\<rparr>)) (\<lambda>_.
     finally_io
       (case adapter of None \<Rightarrow> ret () | Some A \<Rightarrow> inner (re_close_transport env A))
       (bnd (gets rn_ca_directory) (\<lambda>directory. case directory of
          None \<Rightarrow> ret ()
        | Some d \<Rightarrow>
            bnd (inner (re_cleanup env d)) (\<lambda>_.
            assign (rn_ca_directory_update (\<lambda>_. None)))))))"

definition ca_binding :: "'w runtime_env \<Rightarrow> 'w runtime \<Rightarrow> ('w \<times> 'w runtime, 'w binding) io" where
  "ca_binding env rn =
     (case rn_tls_ca rn of
        None \<Rightarrow> ret (rn_binding rn)
      | Some ca \<Rightarrow>
          bnd (inner (re_temp_dir env ''meridian-oci-ca-'')) (\<lambda>d.
          bnd (assign (rn_ca_directory_update (\<lambda>_. Some d))) (\<lambda>_.
          let ca_path = d @ ''/ca.pem''
          in bnd (inner (re_touch env ca_path 384)) (\<lambda>_.
             bnd (inner (re_write_bytes env ca_path ca)) (\<lambda>_.
             lift (with_ca_bundle (rn_binding rn) ca_path))))))"

definition open_try :: "'w runtime_env \<Rightarrow> 'w runtime \<Rightarrow> ('w \<times> 'w runtime, unit) io" where
  "open_try env rn =
     bnd (ca_binding env rn) (\<lambda>b.
     bnd (inner (new_adapter env b)) (\<lambda>A.
     bnd (assign (rn_adapter_update (\<lambda>_. Some A))) (\<lambda>_.
     bnd (inner (authenticated b (ap_transport A))) (\<lambda>report.
     if \<not> pb_passed report then raise (exn_of ObjectUnavailable ''OCI authenticated startup probe failed'')
     else
     bnd (lift (re_mk_probe env
            \<lparr>apr_manifest = pb_manifest report,
             apr_details = [(''authenticated'', ''true''), (''apiVersion'', pb_api_version report),
               (''distributionSpec'', OCI_DISTRIBUTION_VERSION), (''registryReleaseObservation'', ''unavailable'')]\<rparr>)) (\<lambda>p.
     assign (rn_probe_update (\<lambda>_. Some p)))))))"

definition runtime_open :: "'w runtime_env \<Rightarrow> ('w \<times> 'w runtime, unit) io" where
  "runtime_open env =
     bnd (gets id) (\<lambda>rn.
     if rn_adapter rn \<noteq> None then ret ()
     else catch (open_try env rn) (\<lambda>e. bnd (runtime_close env) (\<lambda>_. raise e)))"

definition require_open :: "('w \<times> 'w runtime, 'w adapter) io" where
  "require_open =
     bnd (gets id) (\<lambda>rn. case (rn_adapter rn, rn_probe rn) of
        (Some A, Some _) \<Rightarrow> ret A
      | _ \<Rightarrow> raise (exn_of ObjectInvalidRequest ''OCI runtime is not open''))"

definition runtime_probe :: "('w \<times> 'w runtime, adapter_probe) io" where
  "runtime_probe =
     bnd require_open (\<lambda>_.
     bnd (gets rn_probe) (\<lambda>p. case p of None \<Rightarrow> raise (bare_exn AssertionError) | Some p \<Rightarrow> ret p))"

definition verification_of :: "'w runtime_env \<Rightarrow> 'w binding \<Rightarrow> physical_resource \<Rightarrow> physical_verification" where
  "verification_of env b resource =
     (let name = rr_canonical (ph_resource_ref resource);
          namespace = re_fingerprint env [(''endpoint'', JStr (b_endpoint b)), (''repository'', JStr (b_repository b))];
          fingerprint = re_fingerprint env
            [(''formatVersion'', JStr ''meridian.oci-physical-verification.v1''), (''namespaceFingerprint'', JStr namespace),
             (''resource'', JStr name), (''resourceFingerprint'', ph_resource_fingerprint resource),
             (''schemaFingerprint'', ph_schema_fingerprint resource), (''profile'', ph_profile resource)]
      in \<lparr>pv_fingerprint = fingerprint, pv_resources = [(name, ''oci:'' @ fingerprint)],
          pv_details = [(''authenticated'', ''true''), (''resourceCount'', ''1'')]\<rparr>)"

definition verify_physical :: "'w runtime_env \<Rightarrow> physical_resource list \<Rightarrow> ('w \<times> 'w runtime, physical_verification) io" where
  "verify_physical env resources =
     bnd require_open (\<lambda>A.
     bnd (assign (rn_verified_update (\<lambda>_. False))) (\<lambda>_.
     bnd (gets rn_binding) (\<lambda>b. case resources of
        [resource] \<Rightarrow>
          if ph_resource_ref resource \<noteq> b_resource b
          then raise (exn_of ObjectInvalidRequest ''OCI binding must select its single configured Object Resource'')
          else
          bnd (inner (tr_ping (ap_transport A))) (\<lambda>_.
          bnd (inner (tr_list_tags (ap_transport A) 1 None)) (\<lambda>_.
          bnd (assign (rn_verified_update (\<lambda>_. True))) (\<lambda>_.
          lift (re_mk_verification env (verification_of env b resource)))))
      | _ \<Rightarrow> raise (exn_of ObjectInvalidRequest ''OCI binding must select its single configured Object Resource''))))"

section \<open>Sessions\<close>

text \<open>A session is whether it has been closed; its runtime is the one in the world.\<close>

record adapter_session =
  as_closed :: bool

definition open_session :: "bool \<Rightarrow> ('w \<times> 'w runtime, adapter_session) io" where
  "open_session transactional =
     bnd require_open (\<lambda>_.
     if transactional then raise (exn_of ObjectCapabilityMismatch ''OCI Object Operations are not transactional'')
     else
     bnd (gets rn_verified) (\<lambda>verified.
     if \<not> verified then raise (exn_of ObjectInvalidRequest ''OCI physical binding has not been verified'')
     else ret \<lparr>as_closed = False\<rparr>))"

definition session_require_open :: "adapter_session \<Rightarrow> ('w \<times> 'w runtime, 'w adapter) io" where
  "session_require_open s =
     (if as_closed s then raise (exn_of ObjectInvalidRequest ''OCI session is closed'') else require_open)"

definition execution_provenance :: "object_common \<Rightarrow> 'w binding \<Rightarrow> capability_manifest \<Rightarrow> fields" where
  "execution_provenance oc b manifest =
     [(''adapterId'', JStr ADAPTER_ID), (''adapterVersion'', JStr ''1.1.0''),
      (''capabilityFingerprint'', JStr (oc_manifest_fingerprint oc manifest)), (''engineProfile'', JStr (cm_engine_profile manifest)),
      (''engineVersion'', JStr (cm_engine_version manifest)), (''distributionSpec'', JStr OCI_DISTRIBUTION_VERSION),
      (''registryReleaseObservation'', JStr ''unavailable'')]
     @ (case b_registry_release b of None \<Rightarrow> [] | Some r \<Rightarrow> [(''selectedRegistryRelease'', JStr r)])
     @ (case b_registry_image b of None \<Rightarrow> [] | Some i \<Rightarrow> [(''selectedRegistryImage'', JStr i)])"

text \<open>\<open>None\<close> is a request that is not an \<open>ExecutionRequest\<close>.\<close>

definition session_execute :: "'w runtime_env \<Rightarrow> adapter_session \<Rightarrow> operation option \<Rightarrow> ('w \<times> 'w runtime, execution_result) io" where
  "session_execute env s request =
     bnd (session_require_open s) (\<lambda>A. case request of
        None \<Rightarrow> raise (exn_of TypeError ''OCI session requires ExecutionRequest'')
      | Some operation \<Rightarrow>
          bnd (inner (execute A operation (re_payloads env))) (\<lambda>result.
          bnd runtime_probe (\<lambda>p.
          bnd (gets rn_binding) (\<lambda>b.
          lift (re_mk_result env
            \<lparr>er_data = result, er_provenance = execution_provenance (re_common env) b (apr_manifest p)\<rparr>)))))"

definition session_begin :: "adapter_session \<Rightarrow> ('w \<times> 'w runtime, unit) io" where
  "session_begin s =
     bnd (session_require_open s) (\<lambda>_. raise (exn_of ObjectCapabilityMismatch ''OCI Object Operations are not transactional''))"

definition session_commit :: "adapter_session \<Rightarrow> ('w \<times> 'w runtime, unit) io" where
  "session_commit s = session_begin s"

definition session_rollback :: "adapter_session \<Rightarrow> ('w \<times> 'w runtime, unit) io" where
  "session_rollback s = session_begin s"

definition session_close :: "adapter_session \<Rightarrow> adapter_session" where
  "session_close s = s\<lparr>as_closed := True\<rparr>"

end
