(* ===== verification/Factory_Laws.thy ===== *)
theory Factory_Laws
  imports Factory Probe_Laws
begin

text \<open>
  The lifecycle of a runtime as a transition system: what each call does to the runtime's state, the
  invariant of every state a sequence of calls can reach, and what the temporary directory of the CA file
  goes through.
\<close>

section \<open>What the calls do to the runtime\<close>

lemma keeps_inner: "keeps (\<lambda>(w, s). I s) (inner m)"
  by (rule keepsI) (auto simp: inner_def split: prod.splits)

lemma keeps_assign: "(\<And>s. I s \<Longrightarrow> I (f s)) \<Longrightarrow> keeps (\<lambda>(w, s). I s) (assign f)"
  by (rule keepsI) (auto simp: assign_def)

lemma keeps_gets: "keeps P (gets f)"
  by (rule keepsI) (auto simp: gets_def split: prod.splits)

lemma bnd_run: "m w = (Inr a, w') \<Longrightarrow> bnd m f w = f a w'"
  by (simp add: bnd_def)

lemma inner_run: "m w = (r, w') \<Longrightarrow> inner m (w, s) = (r, w', s)"
  by (simp add: inner_def)

lemma assign_bnd: "bnd (assign f) g (w, s) = g () (w, f s)"
  by (simp add: bnd_def assign_def)

lemmas state_rules = keeps_rules keeps_inner keeps_gets

text \<open>No call changes the binding or the CA material.\<close>

definition configured :: "'w binding \<Rightarrow> string option \<Rightarrow> 'w runtime \<Rightarrow> bool" where
  "configured b ca rn \<longleftrightarrow> rn_binding rn = b \<and> rn_tls_ca rn = ca"

lemma close_configured: "keeps (\<lambda>(w, rn). configured b ca rn) (runtime_close env)"
  unfolding runtime_close_def
  by (intro state_rules keeps_assign) (auto simp: configured_def intro!: state_rules keeps_assign split: option.splits)

lemma open_try_configured: "keeps (\<lambda>(w, rn). configured b ca rn) (open_try env rn)"
  unfolding open_try_def ca_binding_def Let_def
  by (intro state_rules keeps_assign) (auto simp: configured_def intro!: state_rules keeps_assign split: option.splits)

lemma open_configured: "keeps (\<lambda>(w, rn). configured b ca rn) (runtime_open env)"
  unfolding runtime_open_def by (intro state_rules open_try_configured close_configured)

text \<open>Closing: the transport is closed and the CA directory removed, the one even if the other fails; the
  adapter, the probe and the verification are forgotten in any case.\<close>

definition close_transport :: "'w runtime_env \<Rightarrow> 'w adapter option \<Rightarrow> ('w, unit) io" where
  "close_transport env adapter = (case adapter of None \<Rightarrow> ret () | Some A \<Rightarrow> re_close_transport env A)"

definition forget :: "'w runtime \<Rightarrow> 'w runtime" where
  "forget rn = rn\<lparr>rn_adapter := None, rn_probe := None, rn_verified := False\<rparr>"

lemma runtime_close_run:
  assumes "close_transport env (rn_adapter rn) w = (r1, w1)"
  shows "runtime_close env (w, rn) =
    (case rn_ca_directory rn of
       None \<Rightarrow> (r1, w1, forget rn)
     | Some d \<Rightarrow> (case re_cleanup env d w1 of
          (Inl e, w2) \<Rightarrow> (Inl e, w2, forget rn)
        | (Inr _, w2) \<Rightarrow> (r1, w2, (forget rn)\<lparr>rn_ca_directory := None\<rparr>)))"
proof -
  have "(case rn_adapter rn of None \<Rightarrow> ret () | Some A \<Rightarrow> inner (re_close_transport env A)) (w, forget rn) = (r1, w1, forget rn)"
    using assms by (simp add: close_transport_def inner_def ret_def split: option.splits)
  moreover have "rn_ca_directory (forget rn) = rn_ca_directory rn" by (simp add: forget_def)
  ultimately show ?thesis
    by (auto simp add: runtime_close_def bnd_def gets_def assign_def finally_io_def inner_def ret_def forget_def [symmetric]
        split: option.splits prod.splits sum.splits)
qed

lemma runtime_close_effect:
  assumes "runtime_close env (w, rn) = (r, w', rn')"
  shows "rn' = forget rn \<or> rn' = (forget rn)\<lparr>rn_ca_directory := None\<rparr>"
proof -
  obtain r1 w1 where "close_transport env (rn_adapter rn) w = (r1, w1)" by fastforce
  from runtime_close_run [OF this] assms show ?thesis by (auto split: option.splits prod.splits sum.splits)
qed

text \<open>The adapter of an open runtime: the HTTP client of the configured binding, with the CA file if there is
  CA material.\<close>

definition adapter_for :: "'w runtime_env \<Rightarrow> 'w binding \<Rightarrow> string option \<Rightarrow> string option \<Rightarrow> 'w adapter \<Rightarrow> bool" where
  "adapter_for env b ca directory A \<longleftrightarrow>
     ap_common A = re_common env
     \<and> ap_binding A = (case (ca, directory) of (Some _, Some d) \<Rightarrow> b\<lparr>b_verify_tls := CaBundle (d @ ''/ca.pem'')\<rparr> | _ \<Rightarrow> b)
     \<and> (\<exists>cl. ap_transport A = http_transport cl \<and> cl_binding cl = ap_binding A)"

lemma new_adapter_Inr:
  assumes "new_adapter env b w = (Inr A, w')"
  shows "ap_common A = re_common env \<and> ap_binding A = b \<and> ap_manifest A = configured_capability_manifest b
    \<and> (\<exists>cl. ap_transport A = http_transport cl \<and> cl_binding cl = b)"
  using assms unfolding new_adapter_def mk_adapter_def mk_client_def by (force split: if_splits)

lemma authenticated_manifest: "authenticated b tr w = (Inr rep, w') \<Longrightarrow> pb_manifest rep = configured_capability_manifest b"
  unfolding authenticated_def Let_def by (auto split: sum.splits)

lemma manifest_ignores_tls: "configured_capability_manifest (b\<lparr>b_verify_tls := v\<rparr>) = configured_capability_manifest b"
  by (simp add: configured_capability_manifest_def oci_distribution_descriptor_def available_operations_def
      put_guarantees_def selected_registry_def public_fingerprint_def)

lemma ca_binding_Inr:
  assumes "ca_binding env rn (w, rn0) = (Inr b, w', rn')"
  shows "(rn_tls_ca rn = None \<and> b = rn_binding rn \<and> rn' = rn0)
    \<or> (\<exists>d. rn_tls_ca rn \<noteq> None \<and> b = (rn_binding rn)\<lparr>b_verify_tls := CaBundle (d @ ''/ca.pem'')\<rparr> \<and> rn' = rn0\<lparr>rn_ca_directory := Some d\<rparr>)"
  using assms unfolding ca_binding_def with_ca_bundle_def verify_field_def Let_def
  by (cases "rn_tls_ca rn") (auto simp: inner_iff assign_iff)

lemma open_try_Inr:
  assumes "open_try env rn (w, rn) = (Inr (), w', rn')" "rn_adapter rn = None"
    and "\<And>p q. re_mk_probe env p = Inr q \<Longrightarrow> q = p"
  shows "\<exists>A p. rn' = rn\<lparr>rn_ca_directory := rn_ca_directory rn', rn_adapter := Some A, rn_probe := Some p\<rparr>
    \<and> (rn_tls_ca rn = None \<longrightarrow> rn_ca_directory rn' = rn_ca_directory rn) \<and> (rn_tls_ca rn \<noteq> None \<longrightarrow> rn_ca_directory rn' \<noteq> None)
    \<and> adapter_for env (rn_binding rn) (rn_tls_ca rn) (rn_ca_directory rn') A
    \<and> apr_manifest p = configured_capability_manifest (rn_binding rn)"
proof -
  from assms(1) obtain b w1 rn1 A w2 rep w3 p where
    c: "ca_binding env rn (w, rn) = (Inr b, w1, rn1)" and n: "new_adapter env b w1 = (Inr A, w2)"
    and a: "authenticated b (ap_transport A) w2 = (Inr rep, w3)"
    and p: "re_mk_probe env
            \<lparr>apr_manifest = pb_manifest rep,
             apr_details = [(''authenticated'', ''true''), (''apiVersion'', pb_api_version rep),
               (''distributionSpec'', OCI_DISTRIBUTION_VERSION), (''registryReleaseObservation'', ''unavailable'')]\<rparr> = Inr p"
    and rn': "rn' = rn1\<lparr>rn_adapter := Some A, rn_probe := Some p\<rparr>"
    unfolding open_try_def by (elim bnd_SuccE) (auto simp: inner_iff assign_iff split: if_splits)
  have m: "apr_manifest p = configured_capability_manifest b"
    using assms(3) [OF p] authenticated_manifest [OF a] by simp
  from ca_binding_Inr [OF c] show ?thesis
  proof (elim disjE exE conjE)
    assume k: "rn_tls_ca rn = None" "b = rn_binding rn" "rn1 = rn"
    then show ?thesis using new_adapter_Inr [OF n] m rn'
      by (intro exI [of _ A] exI [of _ p]) (auto simp: adapter_for_def)
  next
    fix d
    assume k: "rn_tls_ca rn \<noteq> None" "b = (rn_binding rn)\<lparr>b_verify_tls := CaBundle (d @ ''/ca.pem'')\<rparr>" "rn1 = rn\<lparr>rn_ca_directory := Some d\<rparr>"
    then show ?thesis using new_adapter_Inr [OF n] m rn'
      by (intro exI [of _ A] exI [of _ p]) (auto simp: adapter_for_def manifest_ignores_tls split: option.splits)
  qed
qed

section \<open>The lifecycle\<close>

text \<open>The invariant of a runtime between two calls.\<close>

definition runtime_ok :: "'w runtime_env \<Rightarrow> 'w binding \<Rightarrow> string option \<Rightarrow> 'w runtime \<Rightarrow> bool" where
  "runtime_ok env b ca rn \<longleftrightarrow> configured b ca rn \<and> (ca = None \<longrightarrow> rn_ca_directory rn = None)
     \<and> (case rn_adapter rn of
          None \<Rightarrow> rn_probe rn = None \<and> \<not> rn_verified rn
        | Some A \<Rightarrow> adapter_for env b ca (rn_ca_directory rn) A \<and> (ca \<noteq> None \<longrightarrow> rn_ca_directory rn \<noteq> None)
            \<and> (\<exists>p. rn_probe rn = Some p \<and> apr_manifest p = configured_capability_manifest b))"

abbreviation returned :: "'e + 'a \<Rightarrow> bool" where
  "returned r \<equiv> \<not> isl r"

text \<open>The calls of a runtime, with whether they returned; the events of a run are the latest first.\<close>

datatype runtime_event =
    Opened bool
  | Verified "physical_resource list" bool
  | SessionOpened bool
  | Executed adapter_session bool
  | Closed bool

inductive runtime_run :: "'w runtime_env \<Rightarrow> 'w binding \<Rightarrow> string option \<Rightarrow> runtime_event list \<Rightarrow> 'w \<times> 'w runtime \<Rightarrow> bool"
  for env b ca where
  run_new: "runtime_run env b ca [] (w, mk_runtime b ca)"
| run_open: "runtime_run env b ca es s \<Longrightarrow> runtime_open env s = (r, s') \<Longrightarrow> runtime_run env b ca (Opened (returned r) # es) s'"
| run_verify: "runtime_run env b ca es s \<Longrightarrow> verify_physical env rs s = (r, s') \<Longrightarrow> runtime_run env b ca (Verified rs (returned r) # es) s'"
| run_session: "runtime_run env b ca es s \<Longrightarrow> open_session t s = (r, s') \<Longrightarrow> runtime_run env b ca (SessionOpened (returned r) # es) s'"
| run_execute: "runtime_run env b ca es s \<Longrightarrow> session_execute env x request s = (r, s') \<Longrightarrow> runtime_run env b ca (Executed x (returned r) # es) s'"
| run_close: "runtime_run env b ca es s \<Longrightarrow> runtime_close env s = (r, s') \<Longrightarrow> runtime_run env b ca (Closed (returned r) # es) s'"
| run_world: "runtime_run env b ca es (w, rn) \<Longrightarrow> runtime_run env b ca es (w', rn)"

lemma require_open_iff:
  "require_open (w, rn) = (r, w', rn') \<longleftrightarrow> w' = w \<and> rn' = rn
     \<and> r = (case (rn_adapter rn, rn_probe rn) of (Some A, Some _) \<Rightarrow> Inr A
            | _ \<Rightarrow> Inl (exn_of ObjectInvalidRequest ''OCI runtime is not open''))"
  by (auto simp: require_open_def bnd_def gets_def raise_def ret_def split: option.splits)

lemma open_session_state: "open_session t (w, rn) = (r, w', rn') \<Longrightarrow> w' = w \<and> rn' = rn"
  unfolding open_session_def bnd_def
  by (auto simp: require_open_def bnd_def gets_def raise_def ret_def split: option.splits if_splits)

lemma session_execute_state: "session_execute env x request (w, rn) = (r, w', rn') \<Longrightarrow> rn' = rn"
  unfolding session_execute_def session_require_open_def runtime_probe_def bnd_def
  by (auto simp: require_open_def bnd_def gets_def raise_def ret_def inner_def lift_def split: option.splits if_splits sum.splits prod.splits)

text \<open>A verification leaves the runtime verified exactly when the registry answered for the configured
  resource.\<close>

lemma verify_physical_effect:
  assumes "verify_physical env rs (w, rn) = (r, w', rn')"
  shows "(\<exists>e. r = Inl e) \<and> rn' = rn \<and> (rn_adapter rn = None \<or> rn_probe rn = None)
    \<or> rn_adapter rn \<noteq> None \<and> rn_probe rn \<noteq> None \<and>
       ((\<exists>e. r = Inl e) \<and> rn' = rn\<lparr>rn_verified := False\<rparr>
        \<or> rn' = rn\<lparr>rn_verified := True\<rparr> \<and> (\<exists>res A a w1 p. rs = [res] \<and> ph_resource_ref res = b_resource (rn_binding rn)
            \<and> r = re_mk_verification env (verification_of env (rn_binding rn) res)
            \<and> rn_adapter rn = Some A \<and> tr_ping (ap_transport A) w = (Inr a, w1) \<and> tr_list_tags (ap_transport A) 1 None w1 = (Inr p, w')))"
proof (cases "rn_adapter rn = None \<or> rn_probe rn = None")
  case True
  then show ?thesis using assms
    by (auto simp: verify_physical_def bnd_def require_open_def gets_def raise_def split: option.splits)
next
  case False
  then obtain A p where a: "rn_adapter rn = Some A" "rn_probe rn = Some p" by auto
  then have ro: "require_open (w, rn) = (Inr A, w, rn)" by (simp add: require_open_iff)
  show ?thesis
  proof (cases "\<exists>res. rs = [res] \<and> ph_resource_ref res = b_resource (rn_binding rn)")
    case False
    with a ro assms show ?thesis
      by (auto simp: verify_physical_def bnd_def gets_def assign_def raise_def split: list.splits if_splits)
  next
    case True
    then obtain res where res: "rs = [res]" "ph_resource_ref res = b_resource (rn_binding rn)" by blast
    obtain pg w1 where pg: "tr_ping (ap_transport A) w = (pg, w1)" by fastforce
    obtain lt w2 where lt: "tr_list_tags (ap_transport A) 1 None w1 = (lt, w2)" by fastforce
    from a ro assms res pg lt show ?thesis
      by (cases pg; cases lt) (auto simp: verify_physical_def bnd_def gets_def assign_def raise_def inner_def lift_def)
  qed
qed

section \<open>Reachable states\<close>

lemma mk_runtime_closed: "rn_adapter (mk_runtime b ca) = None"
  by (simp add: mk_runtime_def)

lemma forget_ok:
  assumes "configured b ca rn" "ca = None \<longrightarrow> rn_ca_directory rn = None"
  shows "runtime_ok env b ca (forget rn)" "runtime_ok env b ca ((forget rn)\<lparr>rn_ca_directory := None\<rparr>)"
  using assms by (simp_all add: runtime_ok_def configured_def forget_def)

lemma close_ok:
  assumes "runtime_close env (w, rn) = (r, w', rn')" "configured b ca rn" "ca = None \<longrightarrow> rn_ca_directory rn = None"
  shows "runtime_ok env b ca rn'"
  using runtime_close_effect [OF assms(1)] forget_ok [OF assms(2,3)] by auto

text \<open>An attempt that raised may have stopped anywhere, but it never gave a runtime without CA material a
  directory.\<close>

lemma open_try_directory:
  assumes "rn_tls_ca rn = None"
  shows "keeps (\<lambda>(w, rn'). rn_ca_directory rn' = None) (open_try env rn)"
  unfolding open_try_def ca_binding_def using assms
  by (intro state_rules keeps_assign) (auto intro!: state_rules keeps_assign)

lemma runtime_open_cases:
  assumes "runtime_open env (w, rn) = (r, w', rn')" "rn_adapter rn = None"
  obtains (opened) "open_try env rn (w, rn) = (Inr (), w', rn')" "r = Inr ()"
    | (failed) e w1 rn1 c where "open_try env rn (w, rn) = (Inl e, w1, rn1)" "runtime_close env (w1, rn1) = (c, w', rn')" "\<exists>x. r = Inl x"
proof -
  obtain x w1 rn1 where t: "open_try env rn (w, rn) = (x, w1, rn1)" by (metis prod_cases3)
  obtain c w2 rn2 where c: "runtime_close env (w1, rn1) = (c, w2, rn2)" by (metis prod_cases3)
  from assms t c have k: "catch (open_try env rn) (\<lambda>e. bnd (runtime_close env) (\<lambda>_. raise e)) (w, rn) = (r, w', rn')"
    by (simp add: runtime_open_def bnd_def gets_def)
  show ?thesis
  proof (cases x)
    case (Inr u)
    with k t show ?thesis by (intro opened) (simp_all add: catch_def)
  next
    case (Inl e)
    with k t c have "bnd (runtime_close env) (\<lambda>_. raise e) (w1, rn1) = (r, w', rn')" by (simp add: catch_def)
    with c have "w2 = w'" "rn2 = rn'" "\<exists>x. r = Inl x" by (cases c; simp add: bnd_def raise_def; fastforce)+
    with failed t c Inl show ?thesis by simp
  qed
qed

lemma open_ok:
  assumes "runtime_open env (w, rn) = (r, w', rn')" "runtime_ok env b ca rn" "\<And>p q. re_mk_probe env p = Inr q \<Longrightarrow> q = p"
  shows "runtime_ok env b ca rn'"
proof (cases "rn_adapter rn")
  case None
  have rn: "configured b ca rn" "ca = None \<longrightarrow> rn_ca_directory rn = None" "\<not> rn_verified rn" "rn_tls_ca rn = ca" "rn_binding rn = b"
    using assms(2) None by (auto simp: runtime_ok_def configured_def)
  from assms(1) None show ?thesis
  proof (cases rule: runtime_open_cases)
    case opened
    from open_try_Inr [OF opened(1) None assms(3)] rn show ?thesis
      by (auto simp: runtime_ok_def configured_def) 
  next
    case (failed e w1 rn1 c)
    have "configured b ca rn1" using keepsD [OF open_try_configured failed(1)] rn(1) by simp
    moreover have "ca = None \<longrightarrow> rn_ca_directory rn1 = None" using keepsD [OF open_try_directory failed(1)] rn by simp
    ultimately show ?thesis using failed(2) by (rule close_ok [rotated])
  qed
next
  case (Some A)
  then show ?thesis using assms(1,2) by (simp add: runtime_open_def bnd_def gets_def ret_def)
qed

lemma verify_ok:
  assumes "verify_physical env rs (w, rn) = (r, w', rn')" "runtime_ok env b ca rn"
  shows "runtime_ok env b ca rn'"
  using verify_physical_effect [OF assms(1)] assms(2) by (auto simp: runtime_ok_def configured_def split: option.splits)

lemma runtime_run_ok:
  assumes "runtime_run env b ca es s" "\<And>p q. re_mk_probe env p = Inr q \<Longrightarrow> q = p"
  shows "runtime_ok env b ca (snd s)"
  using assms(1)
proof induction
  case (run_new w)
  show ?case by (simp add: runtime_ok_def mk_runtime_def configured_def)
next
  case (run_open es s r s')
  then show ?case using open_ok [OF _ _ assms(2)] by (cases s; cases s') auto
next
  case (run_verify es s rs r s')
  then show ?case using verify_ok by (cases s; cases s') simp
next
  case (run_session es s t r s')
  then show ?case by (cases s; cases s') (auto dest!: open_session_state)
next
  case (run_execute es s x request r s')
  then show ?case by (cases s; cases s') (auto dest!: session_execute_state)
next
  case (run_close es s r s')
  then have "configured b ca (snd s)" "ca = None \<longrightarrow> rn_ca_directory (snd s) = None" by (auto simp: runtime_ok_def)
  with run_close(2) show ?case using close_ok by (cases s; cases s') simp
qed simp

text \<open>Whether the calls so far leave the runtime verified: the last call that could change that was a successful
  verification of the configured resource.\<close>

fun verified_by :: "resource_ref \<Rightarrow> runtime_event list \<Rightarrow> bool" where
  "verified_by ref [] = False"
| "verified_by ref (Verified rs ok # es) = (ok \<and> map ph_resource_ref rs = [ref])"
| "verified_by ref (Opened ok # es) = (ok \<and> verified_by ref es)"
| "verified_by ref (Closed ok # es) = False"
| "verified_by ref (SessionOpened ok # es) = verified_by ref es"
| "verified_by ref (Executed x ok # es) = verified_by ref es"

lemma open_verified:
  assumes "runtime_open env (w, rn) = (r, w', rn')" "runtime_ok env b ca rn"
  shows "rn_verified rn' = (returned r \<and> rn_verified rn)"
proof (cases "rn_adapter rn")
  case None
  then have v: "\<not> rn_verified rn" using assms(2) by (simp add: runtime_ok_def)
  have "keeps (\<lambda>(w, rn'). \<not> rn_verified rn') (open_try env rn)"
    unfolding open_try_def ca_binding_def Let_def
    by (intro state_rules keeps_assign) (auto intro!: state_rules keeps_assign split: option.splits)
  note k = keepsD [OF this]
  from assms(1) None show ?thesis
  proof (cases rule: runtime_open_cases)
    case opened
    from k [OF opened(1)] v show ?thesis by simp
  next
    case (failed e w1 rn1 c)
    from runtime_close_effect [OF failed(2)] v show ?thesis by (auto simp: forget_def)
  qed
next
  case (Some A)
  then show ?thesis using assms(1) by (auto simp: runtime_open_def bnd_def gets_def ret_def)
qed

lemma verify_verified:
  assumes "verify_physical env rs (w, rn) = (r, w', rn')" "runtime_ok env b ca rn" "\<And>v. \<exists>x. re_mk_verification env v = Inr x"
  shows "rn_verified rn' = (returned r \<and> map ph_resource_ref rs = [b_resource b])"
proof -
  have "rn_verified rn = False" if "rn_adapter rn = None \<or> rn_probe rn = None"
    using assms(2) that by (auto simp: runtime_ok_def split: option.splits)
  moreover have "rn_binding rn = b" using assms(2) by (simp add: runtime_ok_def configured_def)
  ultimately show ?thesis using verify_physical_effect [OF assms(1)] assms(3) by (elim disjE conjE exE) (auto, metis Inr_Inl_False isl_def)
qed

lemma runtime_run_verified:
  assumes "runtime_run env b ca es s" "\<And>p q. re_mk_probe env p = Inr q \<Longrightarrow> q = p" "\<And>v. \<exists>x. re_mk_verification env v = Inr x"
  shows "rn_verified (snd s) = verified_by (b_resource b) es"
  using assms(1)
proof induction
  case (run_new w)
  show ?case by (simp add: mk_runtime_def)
next
  case (run_open es s r s')
  obtain w rn w' rn' where s: "s = (w, rn)" "s' = (w', rn')" by fastforce
  have "runtime_ok env b ca rn" using runtime_run_ok [OF run_open(1) assms(2)] s by simp
  from open_verified [OF run_open(2) [unfolded s] this] run_open(3) s show ?case by simp
next
  case (run_verify es s rs r s')
  obtain w rn w' rn' where s: "s = (w, rn)" "s' = (w', rn')" by fastforce
  have "runtime_ok env b ca rn" using runtime_run_ok [OF run_verify(1) assms(2)] s by simp
  from verify_verified [OF run_verify(2) [unfolded s] this assms(3)] s show ?case by simp
next
  case (run_session es s t r s')
  then show ?case by (cases s; cases s') (auto dest!: open_session_state)
next
  case (run_execute es s x request r s')
  then show ?case by (cases s; cases s') (auto dest!: session_execute_state)
next
  case (run_close es s r s')
  then show ?case by (cases s; cases s') (auto dest!: runtime_close_effect simp: forget_def)
qed simp

lemma open_session_iff:
  assumes "runtime_ok env b ca rn"
  shows "(\<exists>x s'. open_session t (w, rn) = (Inr x, s')) = (\<not> t \<and> rn_verified rn)"
  using assms by (auto simp: runtime_ok_def open_session_def require_open_def bnd_def gets_def raise_def ret_def split: option.splits)

section \<open>The directory of the CA file\<close>

text \<open>What the file system promises, \<open>dirs\<close> being the directories there are: \<open>TemporaryDirectory\<close> makes a new one,
  \<open>cleanup\<close> removes it, and nothing else the runtime calls makes or removes any.\<close>

locale ca_files =
  fixes env :: "'w runtime_env" and dirs :: "'w \<Rightarrow> string set" and b :: "'w binding"
  assumes temp_dir: "re_temp_dir env stem w = (r, w') \<Longrightarrow>
      (case r of Inl _ \<Rightarrow> dirs w' = dirs w | Inr d \<Rightarrow> d \<notin> dirs w \<and> dirs w' = insert d (dirs w))"
    and cleanup: "re_cleanup env d w = (q, w') \<Longrightarrow> q = Inr () \<and> dirs w' = dirs w - {d}"
    and files: "keeps (\<lambda>w. dirs w = D) (re_touch env path mode)" "keeps (\<lambda>w. dirs w = D) (re_write_bytes env path content)"
    and network: "keeps (\<lambda>w. dirs w = D) (re_http env b')" "keeps (\<lambda>w. dirs w = D) (re_close_transport env A)"
      "re_http env b' w = (Inr http, w') \<Longrightarrow> keeps (\<lambda>w. dirs w = D) (he_send http rq)"
      "re_http env b' w = (Inr http, w') \<Longrightarrow> keeps (\<lambda>w. dirs w = D) (he_sleep http n)"
      "keeps (\<lambda>w. dirs w = D) (authorization_header (b_credentials b))"
begin

lemma new_adapter_keeps: "keeps (\<lambda>w. dirs w = D) (new_adapter env b')"
  unfolding new_adapter_def by (intro keeps_rules network(1))

lemma probe_keeps:
  assumes "new_adapter env b' w = (Inr A, w')" "b_credentials b' = b_credentials b"
  shows "keeps (\<lambda>w. dirs w = D) (authenticated b' (ap_transport A))"
proof -
  from assms(1) obtain http cl w1 where h: "re_http env b' w = (Inr http, w1)" and cl: "mk_client b' http 3 = Inr cl"
    and tr: "ap_transport A = http_transport cl"
    unfolding new_adapter_def mk_adapter_def by (auto split: if_splits)
  have k: "cl_http cl = http" "cl_binding cl = b'" using cl by (auto simp: mk_client_def)
  have "keeps (\<lambda>w. dirs w = D) (client_request cl m url hs content ex rt mx)" for m url hs content ex rt mx
    using network(3,4) [OF h] network(5) assms(2) k by (intro client_request_keeps) simp_all
  then show ?thesis unfolding tr http_transport_def by (intro authenticated_keeps) (auto intro: ping_keeps list_tags_keeps)
qed

text \<open>The directories of a state: those there were, and the one the runtime holds.\<close>

definition held :: "string set \<Rightarrow> 'w \<times> 'w runtime \<Rightarrow> bool" where
  "held D = (\<lambda>(w, rn). case rn_ca_directory rn of None \<Rightarrow> dirs w = D | Some d \<Rightarrow> d \<notin> D \<and> dirs w = insert d D)"

lemma held_run:
  assumes "held D (w, rn)" "m w = (r, w')" "\<And>D. keeps (\<lambda>w. dirs w = D) m"
  shows "held D (w', rn)"
proof -
  have "dirs w' = dirs w" using keepsD [OF assms(3) assms(2) refl] .
  with assms(1) show ?thesis by (simp add: held_def split: option.splits)
qed

lemma held_inner: "(\<And>D. keeps (\<lambda>w. dirs w = D) m) \<Longrightarrow> keeps (held D) (inner m)"
  by (rule keepsI) (auto simp: inner_def split: prod.splits intro: held_run)

lemma ca_binding_held:
  assumes "ca_binding env rn (w, rn0) = (r, w', rn')" "rn_ca_directory rn0 = None" "dirs w = D"
  shows "held D (w', rn')"
proof (cases "rn_tls_ca rn")
  case None
  then show ?thesis using assms by (auto simp: ca_binding_def held_def ret_def)
next
  case (Some ca)
  obtain x w1 where t: "re_temp_dir env ''meridian-oci-ca-'' w = (x, w1)" by fastforce
  show ?thesis
  proof (cases x)
    case (Inl e)
    then show ?thesis using assms t Some temp_dir [OF t] by (auto simp: ca_binding_def held_def bnd_def inner_def)
  next
    case (Inr d)
    have k: "keeps (held D) (bnd (inner (re_touch env (d @ ''/ca.pem'') 384)) (\<lambda>_.
        bnd (inner (re_write_bytes env (d @ ''/ca.pem'') ca)) (\<lambda>_. lift (with_ca_bundle (rn_binding rn) (d @ ''/ca.pem'')))))"
      by (intro keeps_rules held_inner files)
    have "held D (w1, rn0\<lparr>rn_ca_directory := Some d\<rparr>)" using temp_dir [OF t] Inr assms(3) by (simp add: held_def)
    moreover have "bnd (inner (re_touch env (d @ ''/ca.pem'') 384)) (\<lambda>_.
        bnd (inner (re_write_bytes env (d @ ''/ca.pem'') ca)) (\<lambda>_. lift (with_ca_bundle (rn_binding rn) (d @ ''/ca.pem''))))
        (w1, rn0\<lparr>rn_ca_directory := Some d\<rparr>) = (r, w', rn')"
      using assms(1) t Some Inr unfolding ca_binding_def Let_def 
      by (simp add: bnd_run [where m = "inner (re_temp_dir env ''meridian-oci-ca-'')", OF inner_run [where m = "re_temp_dir env ''meridian-oci-ca-''"]]
          assign_bnd)
    ultimately show ?thesis using keepsD [OF k] by blast
  qed
qed

lemma ca_binding_credentials:
  "ca_binding env rn (w, rn0) = (Inr b', w', rn') \<Longrightarrow> b_credentials b' = b_credentials (rn_binding rn)"
  by (auto dest!: ca_binding_Inr)

lemma open_try_held:
  assumes "open_try env rn (w, rn) = (r, w', rn')" "rn_ca_directory rn = None" "dirs w = D" "rn_binding rn = b"
  shows "held D (w', rn')"
proof -
  obtain x w1 rn1 where c: "ca_binding env rn (w, rn) = (x, w1, rn1)" by (metis prod_cases3)
  note h1 = ca_binding_held [OF c assms(2,3)]
  show ?thesis
  proof (cases x)
    case (Inl e)
    then show ?thesis using assms(1) c h1 by (simp add: open_try_def bnd_def)
  next
    case (Inr b')
    obtain y w2 where n: "new_adapter env b' w1 = (y, w2)" by fastforce
    have h2: "held D (w2, rn1)" by (rule held_run [OF h1 n new_adapter_keeps])
    show ?thesis
    proof (cases y)
      case (Inl e)
      then show ?thesis using assms(1) c Inr n h2 by (simp add: open_try_def bnd_def inner_def)
    next
      case y: (Inr A)
      have cr: "b_credentials b' = b_credentials b" using ca_binding_credentials [OF c [unfolded Inr]] assms(4) by simp
      define rest where "rest = bnd (inner (authenticated b' (ap_transport A))) (\<lambda>report.
        if \<not> pb_passed report then raise (exn_of ObjectUnavailable ''OCI authenticated startup probe failed'')
        else bnd (lift (re_mk_probe env
            \<lparr>apr_manifest = pb_manifest report,
             apr_details = [(''authenticated'', ''true''), (''apiVersion'', pb_api_version report),
               (''distributionSpec'', OCI_DISTRIBUTION_VERSION), (''registryReleaseObservation'', ''unavailable'')]\<rparr>)) (\<lambda>p.
        assign (rn_probe_update (\<lambda>_. Some p) :: 'w runtime \<Rightarrow> 'w runtime)))"
      have "keeps (held D) (assign (rn_probe_update (\<lambda>_. Some p)))" for p by (rule keepsI) (auto simp: held_def assign_def)
      then have k: "keeps (held D) rest" unfolding rest_def
        by (intro keeps_rules held_inner probe_keeps [OF n [unfolded y] cr])
      have "held D (w2, rn1\<lparr>rn_adapter := Some A\<rparr>)" using h2 by (simp add: held_def)
      moreover have "rest (w2, rn1\<lparr>rn_adapter := Some A\<rparr>) = (r, w', rn')"
        using assms(1) c Inr n y unfolding open_try_def rest_def
        by (simp add: bnd_run [where m = "ca_binding env rn"] assign_bnd
            bnd_run [where m = "inner (new_adapter env b')", OF inner_run [where m = "new_adapter env b'"]])
      ultimately show ?thesis using keepsD [OF k] by blast
    qed
  qed
qed

lemma close_held:
  assumes "runtime_close env (w, rn) = (r, w', rn')" "held D (w, rn)"
  shows "dirs w' = D \<and> rn' = (forget rn)\<lparr>rn_ca_directory := None\<rparr>"
proof -
  obtain r1 w1 where t: "close_transport env (rn_adapter rn) w = (r1, w1)" by fastforce
  have "keeps (\<lambda>w. dirs w = E) (close_transport env (rn_adapter rn))" for E
    unfolding close_transport_def by (cases "rn_adapter rn") (simp_all add: keeps_pure network(2))
  from keepsD [OF this t] have d: "dirs w1 = dirs w" by blast
  show ?thesis
  proof (cases "rn_ca_directory rn")
    case None
    then show ?thesis using runtime_close_run [OF t] assms d by (simp add: held_def forget_def)
  next
    case (Some x)
    obtain c w2 where c: "re_cleanup env x w1 = (c, w2)" by fastforce
    from Some runtime_close_run [OF t] assms d cleanup [OF c] c show ?thesis by (auto simp: held_def)
  qed
qed

text \<open>A runtime that could not be opened, and one that was opened and then closed, is as it was created, and so
  are the directories.\<close>

lemma failed_open_restores:
  assumes "runtime_open env (w, mk_runtime b ca) = (Inl e, w', rn')"
  shows "dirs w' = dirs w \<and> rn' = mk_runtime b ca"
  using assms mk_runtime_closed
proof (cases rule: runtime_open_cases)
  case (failed e1 w1 rn1 c)
  have "held (dirs w) (w1, rn1)" by (rule open_try_held [OF failed(1)]) (simp_all add: mk_runtime_def)
  moreover have "configured b ca rn1" using keepsD [OF open_try_configured failed(1)] by (simp add: configured_def mk_runtime_def)
  ultimately show ?thesis using close_held [OF failed(2)] by (simp add: configured_def forget_def mk_runtime_def)
qed simp_all

lemma open_holds:
  assumes "runtime_open env (w, mk_runtime b ca) = (Inr (), w1, rn1)"
  shows "dirs w1 = dirs w \<union> set_option (rn_ca_directory rn1)"
  using assms mk_runtime_closed
proof (cases rule: runtime_open_cases)
  case opened
  have "held (dirs w) (w1, rn1)" by (rule open_try_held [OF opened(1)]) (simp_all add: mk_runtime_def)
  then show ?thesis by (auto simp: held_def split: option.splits)
qed simp_all

lemma open_close_restores:
  assumes "runtime_open env (w, mk_runtime b ca) = (Inr (), w1, rn1)" "dirs w2 = dirs w1" "runtime_close env (w2, rn1) = (r, w', rn')"
  shows "dirs w' = dirs w \<and> rn' = mk_runtime b ca"
  using assms(1) mk_runtime_closed
proof (cases rule: runtime_open_cases)
  case opened
  have "held (dirs w) (w1, rn1)" by (rule open_try_held [OF opened(1)]) (simp_all add: mk_runtime_def)
  then have "held (dirs w) (w2, rn1)" using assms(2) by (simp add: held_def split: option.splits)
  moreover have "configured b ca rn1" using keepsD [OF open_try_configured opened(1)] by (simp add: configured_def mk_runtime_def)
  ultimately show ?thesis using close_held [OF assms(3)] by (simp add: configured_def forget_def mk_runtime_def)
qed simp_all

end

end
