(* ===== verification/Factory_Properties.thy ===== *)
theory Factory_Properties
  imports Factory_Laws Multipart_Properties
begin

text \<open>
  The properties of the runtime: what the factory accepts, when a session may be opened, what an execution
  reports, and that the CA file does not outlive the runtime.
\<close>

section \<open>What the factory accepts\<close>

lemma context_binding_fields:
  assumes "mk_binding parse_resource token (context_binding_args c endpoint credentials timeout) = Inr b"
  shows "b_credentials b = credentials" "b_allow_insecure_http b = (cc_tls_mode c = ''disabled'')"
    "b_verify_tls b = VerifyBool (cc_tls_mode c \<noteq> ''disabled'')" "b_timeout_seconds b = PyFloat timeout"
  using assms unfolding mk_binding_def context_binding_args_def Let_def default_binding_args_def
  by (auto simp: verify_field_def positive_number_def boolean_field_def split: if_splits)

lemma factory_guards:
  assumes "factory_create parse_resource token (Some c) = Inr rn"
  shows "cc_adapter_id c = ADAPTER_ID \<and> cc_adapter_contract c = ADAPTER_CONTRACT_VERSION \<and> cc_engine_profile c = ENGINE_PROFILE
    \<and> cc_engine_version c = OCI_DISTRIBUTION_VERSION \<and> list_all (\<lambda>(k, _). k \<in> set SETTINGS \<or> k = ''authMode'') (cc_settings c)
    \<and> map_of (cc_settings c) ''resource'' \<noteq> None \<and> cc_tls_mode c \<noteq> ''mutual'' \<and> (cc_tls_mode c \<noteq> ''server'' \<or> cc_tls_ca c \<noteq> None)"
  using assms unfolding factory_create_def by (auto split: option.splits if_splits)

lemma factory_binding:
  assumes "factory_create parse_resource token (Some c) = Inr rn"
  shows "\<exists>endpoint parts credentials timeout. cc_endpoint c = Some endpoint \<and> urlsplit endpoint = Inr parts
    \<and> (sr_scheme parts = ''http'') = (cc_tls_mode c = ''disabled'') \<and> (sr_scheme parts = ''https'') = (cc_tls_mode c \<noteq> ''disabled'')
    \<and> auth_credentials c = Inr credentials \<and> true_divide (cc_operation_timeout_ms c) 1000 = Inr timeout
    \<and> mk_binding parse_resource token (context_binding_args c endpoint credentials timeout) = Inr (rn_binding rn)
    \<and> rn = mk_runtime (rn_binding rn) (cc_tls_ca c)"
  using assms unfolding factory_create_def
  by (auto simp: mk_runtime_def split: option.splits if_splits)

text \<open>C20. A runtime is created only for a binding that says what it is: the context names this adapter, its
  contract, profile and protocol version, has a resource and no setting the adapter does not know; the
  private binding the runtime keeps is well formed; plain HTTP is allowed exactly when TLS is disabled
  and only for an HTTP endpoint, certificates are verified otherwise, mutual TLS is never accepted and
  server TLS comes with CA material; and the runtime is not open yet.\<close>

theorem factory_create_sound:
  assumes "factory_create parse_resource token argument = Inr rn"
  shows "\<exists>c endpoint parts. argument = Some c \<and> cc_endpoint c = Some endpoint \<and> urlsplit endpoint = Inr parts
    \<and> cc_adapter_id c = ADAPTER_ID \<and> cc_adapter_contract c = ADAPTER_CONTRACT_VERSION \<and> cc_engine_profile c = ENGINE_PROFILE
    \<and> cc_engine_version c = OCI_DISTRIBUTION_VERSION
    \<and> set (map fst (cc_settings c)) \<subseteq> insert ''authMode'' (set SETTINGS) \<and> ''resource'' \<in> set (map fst (cc_settings c))
    \<and> binding_wf (rn_binding rn) \<and> b_allow_insecure_http (rn_binding rn) = (cc_tls_mode c = ''disabled'')
    \<and> b_verify_tls (rn_binding rn) = VerifyBool (cc_tls_mode c \<noteq> ''disabled'')
    \<and> sr_scheme parts = (if cc_tls_mode c = ''disabled'' then ''http'' else ''https'')
    \<and> cc_tls_mode c \<noteq> ''mutual'' \<and> (cc_tls_mode c \<noteq> ''server'' \<or> cc_tls_ca c \<noteq> None)
    \<and> rn = mk_runtime (rn_binding rn) (cc_tls_ca c)"
proof -
  from assms obtain c where c: "argument = Some c" by (cases argument) (auto simp: factory_create_def)
  from factory_binding [OF assms [unfolded c]] obtain endpoint parts credentials timeout where
    e: "cc_endpoint c = Some endpoint" "urlsplit endpoint = Inr parts"
      "(sr_scheme parts = ''http'') = (cc_tls_mode c = ''disabled'')" "(sr_scheme parts = ''https'') = (cc_tls_mode c \<noteq> ''disabled'')"
    and b: "mk_binding parse_resource token (context_binding_args c endpoint credentials timeout) = Inr (rn_binding rn)"
    and rn: "rn = mk_runtime (rn_binding rn) (cc_tls_ca c)"
    by blast
  note g = factory_guards [OF assms [unfolded c]]
  have "list_all (\<lambda>(k, _). k \<in> set SETTINGS \<or> k = ''authMode'') (cc_settings c)" "map_of (cc_settings c) ''resource'' \<noteq> None"
    using g by blast+
  then have "set (map fst (cc_settings c)) \<subseteq> insert ''authMode'' (set SETTINGS)" "''resource'' \<in> set (map fst (cc_settings c))"
    unfolding list_all_iff map_of_eq_None_iff by auto
  moreover have "sr_scheme parts = (if cc_tls_mode c = ''disabled'' then ''http'' else ''https'')" using e(3,4) by simp
  ultimately show ?thesis
    using c e(1,2) g rn constructed_binding_wf [OF b] context_binding_fields(2,3) [OF b]
    by (intro exI [of _ c] exI [of _ endpoint] exI [of _ parts] conjI; assumption | simp)
qed

abbreviation example_resource_ref :: resource_ref where
  "example_resource_ref \<equiv> \<lparr>rr_namespace = ''ns'', rr_name = ''media'', rr_canonical = ''object:ns/media''\<rparr>"

definition example_context :: create_context where
  "example_context =
     \<lparr>cc_adapter_id = ''oci-distribution'', cc_endpoint = Some ''https://registry.example:5000/'', cc_adapter_contract = ADAPTER_CONTRACT_VERSION,
      cc_engine_profile = ENGINE_PROFILE, cc_engine_version = OCI_DISTRIBUTION_VERSION,
      cc_settings = [(''resource'', PyStr ''object:ns/media''), (''authMode'', PyStr ''bearer'')], cc_tls_mode = ''server'',
      cc_physical_namespace = ''team/objects'', cc_operation_timeout_ms = 30000, cc_identity = [], cc_credential = ''token'',
      cc_tls_ca = Some ''pem''\<rparr>"

lemma example_timeout: "true_divide 30000 1000 = Inr (Finite_float 8444249301319680 (- 48))"
proof -
  have "bit_length 30000 = 15" "bit_length 1000 = 10" by (simp_all add: bit_length.simps)
  then show ?thesis by (simp add: true_divide_def Let_def) (simp add: bit_length.simps)
qed

definition example_factory_binding :: "'w binding" where
  "example_factory_binding = example_binding\<lparr>b_timeout_seconds := PyFloat (Finite_float 8444249301319680 (- 48))\<rparr>"

lemma example_context_binding:
  "mk_binding (\<lambda>_. Inr example_resource_ref) ''0123456789abcdef''
     (context_binding_args example_context ''https://registry.example:5000/'' (BearerCredentials ''token'') (Finite_float 8444249301319680 (- 48)))
   = Inr example_factory_binding"
  using example_endpoint example_repository
  by (simp add: mk_binding_def context_binding_args_def setting_def example_context_def default_binding_args_def example_binding_def
      example_factory_binding_def repository_field_def verify_field_def positive_number_def bounded_int_def mode_field_def
      boolean_field_def release_field_def image_field_def cursor_key_field_def)

lemma example_create:
  "factory_create (\<lambda>_. Inr example_resource_ref) ''0123456789abcdef'' (Some example_context) = Inr (mk_runtime (example_factory_binding :: 'w binding) (Some ''pem''))"
proof -
  have u: "\<exists>parts. urlsplit ''https://registry.example:5000/'' = Inr parts \<and> sr_scheme parts = ''https''" by (simp add: url_eval)
  have a: "auth_credentials example_context = Inr (BearerCredentials ''token'' :: 'w credentials)"
    by (simp add: auth_credentials_def example_context_def utf8_decode_def utf8_ok_ascii mk_bearer_credentials_def single_line_def)
  have t: "true_divide (cc_operation_timeout_ms example_context) 1000 = Inr (Finite_float 8444249301319680 (- 48))"
    using example_timeout by (simp add: example_context_def)
  have c: "cc_adapter_id example_context = ADAPTER_ID" "cc_endpoint example_context = Some ''https://registry.example:5000/''"
    "cc_adapter_contract example_context = ADAPTER_CONTRACT_VERSION" "cc_engine_profile example_context = ENGINE_PROFILE"
    "cc_engine_version example_context = OCI_DISTRIBUTION_VERSION" "cc_tls_mode example_context = ''server''" "cc_tls_ca example_context = Some ''pem''"
    "cc_settings example_context = [(''resource'', PyStr ''object:ns/media''), (''authMode'', PyStr ''bearer'')]"
    by (simp_all add: example_context_def ADAPTER_ID_def)
  have s: "''resource'' \<in> set SETTINGS" by (simp add: SETTINGS_def)
  from u obtain parts where "urlsplit ''https://registry.example:5000/'' = Inr parts" "sr_scheme parts = ''https''" by blast
  with a t s show ?thesis by (simp add: factory_create_def c example_context_binding)
qed

theorem factory_create_sound_witness:
  "\<exists>rn :: unit runtime. factory_create (\<lambda>_. Inr example_resource_ref) ''0123456789abcdef'' (Some example_context) = Inr rn
     \<and> binding_wf (rn_binding rn) \<and> b_verify_tls (rn_binding rn) = VerifyBool True \<and> rn_adapter rn = None"
proof -
  have m: "cc_tls_mode example_context = ''server''" by (simp add: example_context_def)
  have c: "factory_create (\<lambda>_. Inr example_resource_ref) ''0123456789abcdef'' (Some example_context)
      = Inr (mk_runtime (example_factory_binding :: unit binding) (Some ''pem''))" by (rule example_create)
  from factory_create_sound [OF c] c m show ?thesis
    by (intro exI [of _ "mk_runtime example_factory_binding (Some ''pem'')"]) (auto simp: mk_runtime_def)
qed

text \<open>One defect of a binding is not reported as an object error: an endpoint \<open>urlsplit\<close> rejects.\<close>

lemma malformed_endpoint:
  "\<exists>msg. factory_create parse_resource token (Some (example_context\<lparr>cc_endpoint := Some ''https://[''\<rparr>)) = Inl (Exn ValueError (Some msg) [])"
  by (simp add: factory_create_def example_context_def ADAPTER_ID_def SETTINGS_def url_eval)

section \<open>An example environment\<close>

text \<open>The world is the list of directories. A new directory is given a name longer than all of theirs; the server
  answers the version endpoint and has no tags.\<close>

definition desk_client :: "string list http_env" where
  "desk_client =
     \<lparr>he_send = (\<lambda>rq. ret (example_response (if rq_url rq = ''https://registry.example:5000/v2/'' then 200 else 404) [] [])),
      he_sleep = (\<lambda>n. ret ()), he_rebuild = (\<lambda>hs b. Inr b), he_merge_params = (\<lambda>u ps. Inr u), he_add_param = (\<lambda>u k v. Inr u)\<rparr>"

definition desk_env :: "string list runtime_env" where
  "desk_env =
     \<lparr>re_common = example_common, re_multipart = example_parts, re_clock = ret (AwareTime 5),
      re_payloads = \<lparr>pr_open = (\<lambda>p n. ret ([], None)), pr_register = (\<lambda>m n d. raise (bare_exn ObjectUnavailable))\<rparr>,
      re_http = (\<lambda>b. ret desk_client), re_close_transport = (\<lambda>A. ret ()),
      re_temp_dir = (\<lambda>stem ds. let d = stem @ concat ds @ ''x'' in (Inr d, d # ds)), re_touch = (\<lambda>path mode. ret ()), re_write_bytes = (\<lambda>path content. ret ()),
      re_cleanup = (\<lambda>d ds. (Inr (), removeAll d ds)), re_mk_probe = Inr, re_mk_verification = Inr, re_mk_result = Inr,
      re_fingerprint = (\<lambda>fs. sha256_digest (canonical_json fs))\<rparr>"

lemma longer_than_all: "d \<in> set ds \<Longrightarrow> length d \<le> length (concat ds)"
  by (induction ds) auto

interpretation desk: ca_files desk_env set "example_binding\<lparr>b_verify_tls := v\<rparr>"
proof unfold_locales
  fix stem and w w' :: "string list" and r
  assume "re_temp_dir desk_env stem w = (r, w')"
  moreover have "stem @ concat w @ ''x'' \<notin> set w" using longer_than_all [of "stem @ concat w @ ''x''" w] by auto
  ultimately show "case r of Inl _ \<Rightarrow> set w' = set w | Inr d \<Rightarrow> d \<notin> set w \<and> set w' = insert d (set w)"
    by (auto simp: desk_env_def Let_def)
qed (auto simp: desk_env_def desk_client_def keeps_pure example_binding_def keeps_def)

definition desk_http :: "verify_tls \<Rightarrow> string list client" where
  "desk_http v = \<lparr>cl_binding = example_binding\<lparr>b_verify_tls := v\<rparr>, cl_http = desk_client, cl_max_read_attempts = 3\<rparr>"

lemma desk_wf: "binding_wf (cl_binding (desk_http v))"
proof -
  have "binding_wf (example_binding :: string list binding)" by (rule constructed_binding_wf [OF example_mk_binding])
  then show ?thesis by (simp add: desk_http_def binding_wf_def)
qed

lemma desk_request:
  assumes "same_origin url (b_endpoint (cl_binding (desk_http v))) = Inr True" "200 \<in> set expected" "url = ''https://registry.example:5000/v2/'' \<or> 404 \<in> set expected" "0 \<le> mx"
  shows "client_request (desk_http v) m url hs c expected retry mx w =
    (Inr \<lparr>hr_status = (if url = ''https://registry.example:5000/v2/'' then 200 else 404), hr_headers = [], hr_content = []\<rparr>, w)"
proof -
  let ?n = "if url = ''https://registry.example:5000/v2/'' then 200 else 404"
  obtain h where h: "client_headers (desk_http v) url hs w = (Inr h, w)"
    using assms(1) by (auto simp: client_headers_def desk_http_def example_binding_def)
  have s: "he_send (cl_http (desk_http v)) \<lparr>rq_method = m, rq_url = url, rq_headers = h, rq_content = c\<rparr> w = (Inr (example_response ?n [] []), w)"
    by (simp add: desk_http_def desk_client_def)
  have u: "require_safe_response_url (desk_http v) (example_response ?n [] []) = Inr ()"
    by (simp add: require_safe_response_url_def desk_http_def example_binding_def example_response_def url_eval)
  have b: "bounded_response (desk_http v) (example_response ?n [] []) mx = Inr \<lparr>hr_status = ?n, hr_headers = [], hr_content = []\<rparr>"
    using assms(4) by (simp add: bounded_response_def example_response_def desk_http_def desk_client_def)
  have n: "rs_status (example_response ?n [] []) \<notin> set RETRIABLE_STATUS" "0 < cl_max_read_attempts (desk_http v)"
    by (simp_all add: example_response_def RETRIABLE_STATUS_def desk_http_def)
  from client_request_answered [OF h s u n(1) b n(2), of expected retry] assms(2,3) show ?thesis by (simp split: if_splits)
qed

lemma desk_answers:
  "ping (desk_http v) w = (Inr [(''apiVersion'', ''unknown''), (''status'', ''ok'')], w)"
  "0 \<le> n \<Longrightarrow> list_tags (desk_http v) n None w = (Inr \<lparr>tp_tags = [], tp_has_more = False\<rparr>, w)"
proof -
  have u: "client_url (desk_http v) ''/v2/'' = ''https://registry.example:5000/v2/''" by (simp add: client_url_def desk_http_def example_binding_def)
  have o: "same_origin (client_url (desk_http v) (CHR ''/'' # p)) (b_endpoint (cl_binding (desk_http v))) = Inr True" for p
    using client_url_same_origin [OF desk_wf, of "CHR ''/'' # p"] by simp
  show "ping (desk_http v) w = (Inr [(''apiVersion'', ''unknown''), (''status'', ''ok'')], w)"
    using desk_request [OF o [of "''v2/''"]] by (simp add: ping_def bnd_def u header_or_def header_get_def header_values_def DEFAULT_RESPONSE_BYTES_def)
  have n: "client_url (desk_http v) (''/v2/'' @ client_repository (desk_http v) @ ''/tags/list'') \<noteq> ''https://registry.example:5000/v2/''"
    by (simp add: client_url_def desk_http_def example_binding_def client_repository_def)
  have m: "he_merge_params (cl_http (desk_http v)) = (\<lambda>url ps. Inr url)" by (simp add: desk_http_def desk_client_def)
  assume "0 \<le> n"
  then show "list_tags (desk_http v) n None w = (Inr \<lparr>tp_tags = [], tp_has_more = False\<rparr>, w)"
    using desk_request [OF o [of "''v2/'' @ client_repository (desk_http v) @ ''/tags/list''"]] n
    by (simp add: list_tags_def bnd_def lift_def m DEFAULT_RESPONSE_BYTES_def)
qed

text \<open>So a runtime of the example opens, and verifies its resource.\<close>

definition desk_adapter :: "verify_tls \<Rightarrow> string list adapter" where
  "desk_adapter v =
     \<lparr>ap_binding = example_binding\<lparr>b_verify_tls := v\<rparr>, ap_transport = http_transport (desk_http v), ap_clock = ret (AwareTime 5),
      ap_common = example_common, ap_manifest = configured_capability_manifest ((example_binding :: string list binding)\<lparr>b_verify_tls := v\<rparr>),
      ap_cursor = \<lparr>codec_key = ''0123456789abcdef''\<rparr>\<rparr>"

lemma desk_new_adapter: "new_adapter desk_env (example_binding\<lparr>b_verify_tls := v\<rparr>) w = (Inr (desk_adapter v), w)"
  by (simp add: new_adapter_def desk_env_def mk_client_def mk_adapter_def mk_cursor_codec_def mk_manager_def example_parts_def
      desk_adapter_def desk_http_def example_binding_def)

lemma desk_authenticated:
  "\<exists>rep. authenticated (example_binding\<lparr>b_verify_tls := v\<rparr>) (http_transport (desk_http v)) w = (Inr rep, w) \<and> pb_passed rep"
  using desk_answers(1) [of v w] desk_answers(2) [of 1 v w]
  by (simp add: authenticated_def Let_def http_transport_def outcome_def bnd_def ret_def lift_def dict_item_def)

lemma desk_opens:
  "\<exists>p. runtime_open desk_env ([], mk_runtime example_binding (Some ''pem'')) =
     (Inr (), [''meridian-oci-ca-x''], (mk_runtime example_binding (Some ''pem''))
        \<lparr>rn_ca_directory := Some ''meridian-oci-ca-x'', rn_adapter := Some (desk_adapter (CaBundle ''meridian-oci-ca-x/ca.pem'')), rn_probe := Some p\<rparr>)"
proof -
  let ?v = "CaBundle ''meridian-oci-ca-x/ca.pem''" and ?rn = "mk_runtime example_binding (Some ''pem'') :: string list runtime"
  have c: "ca_binding desk_env ?rn ([], ?rn) = (Inr (example_binding\<lparr>b_verify_tls := ?v\<rparr>), [''meridian-oci-ca-x''], ?rn\<lparr>rn_ca_directory := Some ''meridian-oci-ca-x''\<rparr>)"
    by (simp add: ca_binding_def Let_def mk_runtime_def bnd_def inner_def assign_def desk_env_def lift_def ret_def with_ca_bundle_def verify_field_def)
  obtain rep where a: "authenticated (example_binding\<lparr>b_verify_tls := ?v\<rparr>) (http_transport (desk_http ?v)) [''meridian-oci-ca-x''] = (Inr rep, [''meridian-oci-ca-x''])"
    "pb_passed rep" using desk_authenticated by blast
  have "rn_adapter ?rn = None" "ap_transport (desk_adapter ?v) = http_transport (desk_http ?v)" "re_mk_probe desk_env = Inr"
    by (simp_all add: mk_runtime_def desk_adapter_def desk_env_def)
  with c a desk_new_adapter [of ?v "[''meridian-oci-ca-x'']"] show ?thesis
    by (simp add: runtime_open_def open_try_def bnd_def gets_def catch_def inner_def assign_def lift_def mk_runtime_def)
qed

lemma desk_verifies:
  assumes "rn_adapter rn = Some (desk_adapter v)" "rn_probe rn \<noteq> None" "rn_binding rn = example_binding"
  shows "\<exists>x. verify_physical desk_env [\<lparr>ph_resource_ref = example_resource_ref, ph_resource_fingerprint = JNull, ph_schema_fingerprint = JNull, ph_profile = JNull\<rparr>]
     (w, rn) = (Inr x, w, rn\<lparr>rn_verified := True\<rparr>)"
proof -
  have r: "ap_transport (desk_adapter v) = http_transport (desk_http v)" "re_mk_verification desk_env = Inr"
    "b_resource (example_binding :: string list binding) = example_resource_ref" by (simp_all add: desk_adapter_def desk_env_def example_binding_def)
  obtain p where "rn_probe rn = Some p" using assms(2) by blast
  with assms r desk_answers(1) [of v w] desk_answers(2) [of 1 v w] show ?thesis
    by (simp add: verify_physical_def require_open_def bnd_def gets_def inner_def assign_def lift_def http_transport_def ret_def)
qed

lemma desk_lists: "\<exists>d. execute (desk_adapter v) (example_operation ''meridian.object.list'' example_input) (re_payloads desk_env) w = (Inr d, w)"
proof -
  let ?op = "example_operation ''meridian.object.list'' example_input"
  have "validate_operation (desk_adapter v) ?op = Inr ''list''"
    by (simp add: validate_operation_def desk_adapter_def example_operation_def configured_capability_manifest_def
        available_operations_def rsplit_last_def registry_binding_def example_binding_def)
  moreover have "oc_require_capabilities example_common = (\<lambda>m r. Inr ())" by (simp add: example_common_def)
  moreover have "\<exists>d. adapter_list (desk_adapter v) ?op w = (Inr d, w)"
    using desk_answers(2) [of "b_max_scan_tags (example_binding :: string list binding)" v w]
    by (simp add: adapter_list_def desk_adapter_def http_transport_def io_simps example_operation_def example_input_def example_binding_def)
  ultimately show ?thesis by (simp add: execute_def bnd_def lift_def desk_adapter_def)
qed

section \<open>The lifecycle\<close>

text \<open>C9. A session is opened exactly after a verification: in every state a sequence of calls of a runtime can reach,
  with anything happening to the world in between, a session that is not transactional is opened if and only
  if the last call that could matter was a verification that returned, of the one configured resource;
  closing the runtime, a failed open and every other verification revoke it. The core's \<open>PhysicalVerification\<close> is
  assumed to accept the evidence it is made from: the source sets the flag before it makes it.\<close>

theorem session_after_verification:
  assumes "runtime_run env b ca es (w, rn)" "\<And>p q. re_mk_probe env p = Inr q \<Longrightarrow> q = p" "\<And>v. \<exists>x. re_mk_verification env v = Inr x"
  shows "(\<exists>x s'. open_session transactional (w, rn) = (Inr x, s')) = (\<not> transactional \<and> verified_by (b_resource b) es)"
  using open_session_iff [OF runtime_run_ok [OF assms(1,2), simplified]] runtime_run_verified [OF assms] by simp

theorem session_after_verification_witness:
  "\<exists>es rn x s'. runtime_run desk_env example_binding (Some ''pem'') es ([''meridian-oci-ca-x''], rn)
     \<and> verified_by example_resource_ref es \<and> open_session False ([''meridian-oci-ca-x''], rn) = (Inr x, s')"
proof -
  let ?res = "\<lparr>ph_resource_ref = example_resource_ref, ph_resource_fingerprint = JNull, ph_schema_fingerprint = JNull, ph_profile = JNull\<rparr>"
  let ?w = "[''meridian-oci-ca-x'']"
  obtain p rn where o: "runtime_open desk_env ([], mk_runtime example_binding (Some ''pem'')) = (Inr (), ?w, rn)"
    and rn: "rn = (mk_runtime example_binding (Some ''pem''))\<lparr>rn_ca_directory := Some ''meridian-oci-ca-x'',
      rn_adapter := Some (desk_adapter (CaBundle ''meridian-oci-ca-x/ca.pem'')), rn_probe := Some p\<rparr>" using desk_opens by blast
  from rn obtain x where v: "verify_physical desk_env [?res] (?w, rn) = (Inr x, ?w, rn\<lparr>rn_verified := True\<rparr>)"
    using desk_verifies [of rn "CaBundle ''meridian-oci-ca-x/ca.pem''" ?w] by (auto simp: mk_runtime_def)
  have run: "runtime_run desk_env example_binding (Some ''pem'') [Verified [?res] True, Opened True] (?w, rn\<lparr>rn_verified := True\<rparr>)"
    using run_verify [OF run_open [OF run_new o] v] by simp
  have l: "re_mk_probe desk_env = Inr" "re_mk_verification desk_env = Inr" by (simp_all add: desk_env_def)
  have "verified_by example_resource_ref [Verified [?res] True, Opened True]" by simp
  moreover have "b_resource (example_binding :: string list binding) = example_resource_ref" by (simp add: example_binding_def)
  ultimately obtain x s' where "open_session False (?w, rn\<lparr>rn_verified := True\<rparr>) = (Inr x, s')"
    using session_after_verification [OF run, of False] l by auto
  with run show ?thesis
    by (intro exI [of _ "[Verified [?res] True, Opened True]"] exI [of _ "rn\<lparr>rn_verified := True\<rparr>"] exI [of _ x] exI [of _ s']) simp
qed

text \<open>C21. What an execution reports: in every reachable state of a runtime, an execution that returns ran the
  operation on an adapter of the configured binding (with the CA file, if there is CA material), its data
  is what that adapter returned, and its provenance names the binding's own capability manifest; the
  session was not closed, and the runtime's state is unchanged.\<close>

theorem session_execute_reports:
  assumes "runtime_run env b ca es (w, rn)" "\<And>p q. re_mk_probe env p = Inr q \<Longrightarrow> q = p" "\<And>x y. re_mk_result env x = Inr y \<Longrightarrow> y = x"
    and "session_execute env s request (w, rn) = (Inr result, w', rn')"
  shows "\<exists>A operation. request = Some operation \<and> \<not> as_closed s \<and> rn' = rn \<and> rn_adapter rn = Some A
    \<and> adapter_for env b ca (rn_ca_directory rn) A \<and> execute A operation (re_payloads env) w = (Inr (er_data result), w')
    \<and> er_provenance result = execution_provenance (re_common env) b (configured_capability_manifest b)"
proof -
  have ok: "runtime_ok env b ca rn" using runtime_run_ok [OF assms(1,2)] by simp
  have rn': "rn' = rn" by (rule session_execute_state [OF assms(4)])
  from assms(4) obtain A where A: "rn_adapter rn = Some A" "\<not> as_closed s"
    unfolding session_execute_def session_require_open_def bnd_def require_open_def gets_def
    by (auto simp: raise_def split: if_splits option.splits)
  with ok obtain p where p: "rn_probe rn = Some p" "apr_manifest p = configured_capability_manifest b" "rn_binding rn = b"
    "adapter_for env b ca (rn_ca_directory rn) A"
    by (auto simp: runtime_ok_def configured_def)
  have q: "session_require_open s (w, rn) = (Inr A, w, rn)" "require_open (v, rn) = (Inr A, v, rn)" for v
    using A p by (simp_all add: session_require_open_def require_open_iff)
  obtain operation where o: "request = Some operation" using assms(4) q(1) by (cases request) (auto simp: session_execute_def bnd_def raise_def)
  obtain r w1 where e: "execute A operation (re_payloads env) w = (r, w1)" by fastforce
  show ?thesis
  proof (cases r)
    case (Inl x)
    with assms(4) q e o show ?thesis by (simp add: session_execute_def bnd_def inner_def)
  next
    case (Inr d)
    with assms(4) q e o p A have "w' = w1" "re_mk_result env \<lparr>er_data = d, er_provenance = execution_provenance (re_common env) b (apr_manifest p)\<rparr> = Inr result"
      by (simp_all add: session_execute_def bnd_def inner_def runtime_probe_def gets_def ret_def lift_def)
    with assms(3) Inr e o p A rn' show ?thesis by fastforce
  qed
qed

theorem session_execute_reports_witness:
  "\<exists>es rn result w'. runtime_run desk_env example_binding (Some ''pem'') es ([''meridian-oci-ca-x''], rn)
     \<and> session_execute desk_env \<lparr>as_closed = False\<rparr> (Some (example_operation ''meridian.object.list'' example_input)) ([''meridian-oci-ca-x''], rn)
         = (Inr result, w', rn)
     \<and> er_provenance result = execution_provenance example_common (example_binding :: string list binding)
         (configured_capability_manifest (example_binding :: string list binding))"
proof -
  let ?w = "[''meridian-oci-ca-x'']" and ?v = "CaBundle ''meridian-oci-ca-x/ca.pem''" and ?op = "example_operation ''meridian.object.list'' example_input"
  obtain p rn where o: "runtime_open desk_env ([], mk_runtime example_binding (Some ''pem'')) = (Inr (), ?w, rn)"
    and rn: "rn = (mk_runtime example_binding (Some ''pem''))\<lparr>rn_ca_directory := Some ''meridian-oci-ca-x'',
      rn_adapter := Some (desk_adapter ?v), rn_probe := Some p\<rparr>" using desk_opens by blast
  have run: "runtime_run desk_env example_binding (Some ''pem'') [Opened True] (?w, rn)" using run_open [OF run_new o] by simp
  obtain d where x: "execute (desk_adapter ?v) ?op (re_payloads desk_env) ?w = (Inr d, ?w)" using desk_lists by blast
  have l: "re_mk_probe desk_env = Inr" "re_mk_result desk_env = Inr" "re_common desk_env = example_common" by (simp_all add: desk_env_def)
  have "rn_adapter rn = Some (desk_adapter ?v)" "rn_probe rn = Some p" by (simp_all add: rn)
  with x l(2) obtain result where s: "session_execute desk_env \<lparr>as_closed = False\<rparr> (Some ?op) (?w, rn) = (Inr result, ?w, rn)"
    by (simp add: session_execute_def session_require_open_def require_open_def runtime_probe_def bnd_def gets_def inner_def ret_def lift_def)
  from session_execute_reports [OF run _ _ s] l run s show ?thesis by auto
qed

section \<open>The CA file\<close>

text \<open>C15. The CA file does not outlive the runtime: whatever goes wrong while a new runtime opens, it is left as it
  was created and every directory that was made is removed; and when it opens, it holds at most one
  directory more, and closing it later, with the other directories as they are, removes that and leaves the
  runtime as it was created, even if closing the transport fails.\<close>

theorem ca_material_removed:
  assumes "ca_files env dirs b"
  shows "case runtime_open env (w, mk_runtime b ca) of
      (Inl e, w1, rn1) \<Rightarrow> dirs w1 = dirs w \<and> rn1 = mk_runtime b ca
    | (Inr u, w1, rn1) \<Rightarrow> dirs w1 = dirs w \<union> set_option (rn_ca_directory rn1)
        \<and> (\<forall>w2 r w3 rn3. dirs w2 = dirs w1 \<longrightarrow> runtime_close env (w2, rn1) = (r, w3, rn3) \<longrightarrow> dirs w3 = dirs w \<and> rn3 = mk_runtime b ca)"
proof -
  obtain r w1 rn1 where o: "runtime_open env (w, mk_runtime b ca) = (r, w1, rn1)" by (metis prod_cases3)
  show ?thesis
  proof (cases r)
    case (Inl e)
    from ca_files.failed_open_restores [OF assms o [unfolded Inl]] show ?thesis by (simp add: o Inl)
  next
    case (Inr u)
    then have o': "runtime_open env (w, mk_runtime b ca) = (Inr (), w1, rn1)" using o by simp
    have c: "dirs w3 = dirs w \<and> rn3 = mk_runtime b ca" if "dirs w2 = dirs w1" "runtime_close env (w2, rn1) = (q, w3, rn3)" for w2 q w3 rn3
      by (rule ca_files.open_close_restores [OF assms o' that])
    have "dirs w1 = dirs w \<union> set_option (rn_ca_directory rn1)" by (rule ca_files.open_holds [OF assms o'])
    moreover have "\<forall>w2 r w3 rn3. dirs w2 = dirs w1 \<longrightarrow> runtime_close env (w2, rn1) = (r, w3, rn3) \<longrightarrow> dirs w3 = dirs w \<and> rn3 = mk_runtime b ca"
      using c by blast
    ultimately show ?thesis unfolding o' prod.case sum.case by (rule conjI)
  qed
qed

theorem ca_material_removed_witness:
  "\<exists>w1 rn1 r rn3. runtime_open desk_env ([], mk_runtime example_binding (Some ''pem'')) = (Inr (), w1, rn1) \<and> w1 \<noteq> []
     \<and> runtime_close desk_env (w1, rn1) = (r, [], rn3) \<and> rn3 = mk_runtime example_binding (Some ''pem'')"
proof -
  obtain rn where o: "runtime_open desk_env ([], mk_runtime example_binding (Some ''pem'')) = (Inr (), [''meridian-oci-ca-x''], rn)"
    using desk_opens by blast
  obtain r w3 rn3 where c: "runtime_close desk_env ([''meridian-oci-ca-x''], rn) = (r, w3, rn3)" by (metis prod_cases3)
  have "example_binding\<lparr>b_verify_tls := VerifyBool True\<rparr> = (example_binding :: string list binding)" by (simp add: example_binding_def)
  then have "ca_files desk_env set (example_binding :: string list binding)" using desk.ca_files_axioms [of "VerifyBool True"] by simp
  from ca_material_removed [OF this, of "[]" "Some ''pem''"] have
    "\<forall>w2 r w3 rn3. set w2 = {''meridian-oci-ca-x''} \<longrightarrow> runtime_close desk_env (w2, rn) = (r, w3, rn3)
      \<longrightarrow> set w3 = {} \<and> rn3 = mk_runtime example_binding (Some ''pem'')" by (simp add: o)
  from this [rule_format, OF _ c] have k: "w3 = []" "rn3 = mk_runtime example_binding (Some ''pem'')" by simp_all
  show ?thesis
    by (intro exI [of _ "[''meridian-oci-ca-x'']"] exI [of _ rn] exI [of _ r] exI [of _ rn3]) (use o c k in simp)
qed

end
