(* ===== verification/Migration.thy ===== *)
theory Migration
  imports Adapter
begin

text \<open>
  \<^verbatim>\<open>src/src/meridian_storage/adapters/oci/migration.py\<close>: export of a stored object as a logical object and
  its import through another adapter. \<open>parse_object_reference\<close> on the two kinds of argument it takes, and
  the catalog surface that turns the arguments of a put into a normalized operation, belong to
  object-common and are parameters.
\<close>

record logical_export =
  le_metadata :: object_metadata
  le_payload :: payload_reference
  le_immutability :: immutability_request
  le_retention :: "retention_request option"

definition export_to_dict :: "object_common \<Rightarrow> logical_export \<Rightarrow> fields" where
  "export_to_dict oc x =
     [(''formatVersion'', JStr ''meridian.object-logical-export.v1''),
      (''metadata'', JObj (oc_metadata_to_dict oc (le_metadata x))), (''payload'', JObj (oc_payload_to_dict oc (le_payload x))),
      (''immutability'', JObj (oc_immutability_to_dict oc (le_immutability x))),
      (''retention'', case le_retention x of None \<Rightarrow> JNull | Some r \<Rightarrow> JObj (oc_retention_to_dict oc r))]"

text \<open>The arguments of \<open>surface.put\<close>.\<close>

record put_request =
  pq_resource :: resource_ref
  pq_object_id :: string
  pq_payload :: payload_reference
  pq_media_type :: string
  pq_expected_digest :: "string option"
  pq_expected_length :: "int option"
  pq_user_metadata :: json
  pq_creation_context :: json
  pq_provenance :: fields
  pq_immutability :: immutability_request
  pq_retention :: "retention_request option"
  pq_create_only :: bool

record 'w migration =
  mi_adapter :: "'w adapter"
  mi_parse_reference :: "object_reference + fields \<Rightarrow> exn + object_reference"
  mi_put :: "put_request \<Rightarrow> exn + operation"

definition export_logical ::
  "'w migration \<Rightarrow> object_reference + fields \<Rightarrow> 'w payload_registry \<Rightarrow> ('w, logical_export) io" where
  "export_logical m reference payloads =
     (let A = mi_adapter m
      in bnd (lift (case mi_parse_reference m reference of
                Inr r \<Rightarrow> Inr r
              | Inl e \<Rightarrow>
                  if is_type_or_value_error e
                  then Inl (exn_of ObjectInvalidRequest
                         (''invalid migration Object reference: '' @ (case exn_msg e of None \<Rightarrow> [] | Some msg \<Rightarrow> msg)))
                  else Inl e)) (\<lambda>parsed.
         if or_resource parsed \<noteq> semantic_resource_of A
         then raise (exn_of ObjectInvalidRequest ''migration Object reference does not match the binding'')
         else
         bnd (stored_for_reference A parsed) (\<lambda>resolved.
         bnd (pr_register payloads (tr_open_blob (ap_transport A) (d_digest (ro_payload resolved)) None)
                (int (d_size (ro_payload resolved))) (Some (d_digest (ro_payload resolved)))) (\<lambda>payload.
         ret \<lparr>le_metadata = so_metadata (ro_stored resolved), le_payload = payload,
              le_immutability = so_immutability (ro_stored resolved), le_retention = so_retention (ro_stored resolved)\<rparr>))))"

definition import_request :: "'w adapter \<Rightarrow> logical_export \<Rightarrow> bool \<Rightarrow> put_request" where
  "import_request A exported create_only =
     (let metadata = le_metadata exported
      in \<lparr>pq_resource = b_resource (ap_binding A), pq_object_id = or_object_id (om_ref metadata), pq_payload = le_payload exported,
          pq_media_type = om_media_type metadata, pq_expected_digest = Some (om_digest metadata),
          pq_expected_length = Some (om_byte_length metadata), pq_user_metadata = om_user_metadata metadata,
          pq_creation_context = om_creation_context metadata,
          pq_provenance = filter (\<lambda>(k, _). k \<noteq> ''meridianAdapter'') (om_provenance metadata),
          pq_immutability = le_immutability exported, pq_retention = le_retention exported, pq_create_only = create_only\<rparr>)"

definition import_logical :: "'w migration \<Rightarrow> logical_export \<Rightarrow> 'w payload_registry \<Rightarrow> bool \<Rightarrow> ('w, fields) io" where
  "import_logical m exported payloads create_only =
     bnd (lift (mi_put m (import_request (mi_adapter m) exported create_only))) (\<lambda>operation.
     execute (mi_adapter m) operation payloads)"

end
