(* ===== verification/Migration_Properties.thy ===== *)
theory Migration_Properties
  imports Migration Multipart_Properties
begin

text \<open>
  Moving an object between registries: what an export hands out is verified, and an import that succeeds
  has committed exactly the exported content.
\<close>

section \<open>Exports and puts that succeed\<close>

lemma export_logical_Inr:
  assumes "ap_transport (mi_adapter m) = http_transport cl" "export_logical m reference payloads w = (Inr x, w')"
  shows "\<exists>parsed (r :: resolved_object) w1. mi_parse_reference m reference = Inr parsed
    \<and> resolves_to cl (mi_adapter m) parsed r w w1
    \<and> le_metadata x = so_metadata (ro_stored r) \<and> le_immutability x = so_immutability (ro_stored r) \<and> le_retention x = so_retention (ro_stored r)
    \<and> pr_register payloads (open_blob cl (om_digest (le_metadata x)) None) (om_byte_length (le_metadata x)) (Some (om_digest (le_metadata x))) w1
        = (Inr (le_payload x), w')"
proof -
  let ?A = "mi_adapter m"
  from assms obtain parsed r w1 payload where p: "mi_parse_reference m reference = Inr parsed"
    and s: "stored_for_reference ?A parsed w = (Inr r, w1)"
    and g: "pr_register payloads (tr_open_blob (http_transport cl) (d_digest (ro_payload r)) None) (int (d_size (ro_payload r)))
          (Some (d_digest (ro_payload r))) w1 = (Inr payload, w')"
    and x: "x = \<lparr>le_metadata = so_metadata (ro_stored r), le_payload = payload,
              le_immutability = so_immutability (ro_stored r), le_retention = so_retention (ro_stored r)\<rparr>"
    unfolding export_logical_def Let_def by (auto split: sum.splits if_splits)
  note R = stored_for_reference_resolves [OF assms(1) s]
  from resolves_to_payload [OF R] have "om_digest (le_metadata x) = d_digest (ro_payload r)" "om_byte_length (le_metadata x) = int (d_size (ro_payload r))"
    by (simp_all add: x)
  with g x have "pr_register payloads (open_blob cl (om_digest (le_metadata x)) None) (om_byte_length (le_metadata x))
      (Some (om_digest (le_metadata x))) w1 = (Inr (le_payload x), w')" by (simp add: http_transport_def)
  with p R x show ?thesis by (intro exI [of _ parsed] exI [of _ r] exI [of _ w1]) simp
qed

lemma put_guarded_Inr: "put_guarded oc st phys m w = (Inr a, w') \<Longrightarrow> m w = (Inr a, w')"
  unfolding put_guarded_def catch_def by (cases "m w"; cases "fst (m w)") (auto simp: bnd_def raise_def split: prod.splits sum.splits)

lemma adapter_put_Inr:
  assumes "adapter_put A operation payloads w = (Inr result, w')"
  obtains ps payload immutability retention identity md w1 w2 where
    "in_payload (op_input operation) = JObj ps" "oc_payload_from (ap_common A) ps = Inr payload"
    "put_immutability (ap_common A) (in_immutability (op_input operation)) = Inr immutability"
    "put_retention (ap_common A) (in_retention (op_input operation)) = Inr retention"
    "upload_payload A payload payloads w1 = (Inr identity, w2)"
    "commit_object A (op_input operation) identity immutability retention
       (in_create_only (op_input operation) \<or> im_publish_once immutability) w2 = (Inr md, w')"
    "result = [(''metadata'', JObj (oc_metadata_to_dict (ap_common A) md))]"
  using assms unfolding adapter_put_def Let_def
  by (auto split: json.splits dest!: put_guarded_Inr intro!: that)

section \<open>Migration\<close>

text \<open>What migration relies on of object-common: a registered payload states the digest and the length it was
  registered with, the surface's put carries the payload reference and the object id of its request under the
  put contract, payload references survive serialization, and an identity is what it was made from.\<close>

definition migration_common :: "'w payload_registry \<Rightarrow> 'w migration \<Rightarrow> bool" where
  "migration_common payloads target \<longleftrightarrow>
     (\<forall>source n d v p v'. pr_register payloads source n (Some d) v = (Inr p, v') \<longrightarrow> pl_expected_digest p = Some d \<and> pl_expected_length p = Some n)
     \<and> (\<forall>q operation. mi_put target q = Inr operation \<longrightarrow> op_contract operation = ''meridian.object.put''
          \<and> in_payload (op_input operation) = JObj (oc_payload_to_dict (ap_common (mi_adapter target)) (pq_payload q))
          \<and> in_object_id (op_input operation) = pq_object_id q)
     \<and> (\<forall>p. oc_payload_from (ap_common (mi_adapter target)) (oc_payload_to_dict (ap_common (mi_adapter target)) p) = Inr p)
     \<and> (\<forall>d n i. oc_mk_identity (ap_common (mi_adapter target)) d n = Inr i \<longrightarrow> i = \<lparr>ci_digest = d, ci_byte_length = n\<rparr>)"

lemma import_puts:
  assumes "import_logical target x payloads create_only v = (Inr result, v')" "migration_common payloads0 target"
  shows "\<exists>operation. mi_put target (import_request (mi_adapter target) x create_only) = Inr operation
    \<and> adapter_put (mi_adapter target) operation payloads v = (Inr result, v')"
proof -
  from assms(1) obtain operation where o: "mi_put target (import_request (mi_adapter target) x create_only) = Inr operation"
    and e: "execute (mi_adapter target) operation payloads v = (Inr result, v')"
    unfolding import_logical_def by auto
  have c: "op_contract operation = ''meridian.object.put''" using o assms(2) by (auto simp: migration_common_def)
  from e obtain mtd where m: "validate_operation (mi_adapter target) operation = Inr mtd"
    and k: "execute (mi_adapter target) operation payloads v = (if mtd = ''put'' then adapter_put (mi_adapter target) operation payloads v else (Inr result, v'))"
    unfolding execute_def by (auto simp: bnd_def lift_def split: sum.splits if_splits)
  have "mtd = ''put''" using m c by (auto simp: validate_operation_def rsplit_last_def split: if_splits)
  with k e o show ?thesis by simp
qed

text \<open>C10. Migration preserves content, whatever either server answers: an exported object is one the source server answered
  the parsed reference with in this very run (\<open>resolves_to\<close>: of the source binding's resource, the requested id
  and digest), with its metadata, immutability and retention, and the payload handed out is the blob of the
  digest and length that metadata states; and an import of it that returns read octets with exactly the
  exported digest and length from the payload it was handed, committed that identity under the exported
  object id in the target binding, and returned the metadata of that commit.\<close>

theorem migration_preserves_content:
  assumes "ap_transport (mi_adapter source) = http_transport cl" "ap_transport (mi_adapter target) = http_transport dl"
    and "migration_common payloads target"
    and "export_logical source reference payloads w = (Inr x, w')"
    and "import_logical target x payloads' create_only v = (Inr result, v')"
  shows "\<exists>parsed (r :: resolved_object) w1 chunks (operation :: operation) immutability retention md v1 v2 v3.
      mi_parse_reference source reference = Inr parsed \<and> resolves_to cl (mi_adapter source) parsed r w w1
    \<and> le_metadata x = so_metadata (ro_stored r) \<and> or_resource (om_ref (le_metadata x)) = semantic_resource_of (mi_adapter source)
    \<and> le_immutability x = so_immutability (ro_stored r) \<and> le_retention x = so_retention (ro_stored r)
    \<and> pr_register payloads (open_blob cl (om_digest (le_metadata x)) None) (om_byte_length (le_metadata x)) (Some (om_digest (le_metadata x))) w1
        = (Inr (le_payload x), w')
    \<and> pr_open payloads' (le_payload x) (b_chunk_size (ap_binding (mi_adapter target))) v1 = (Inr (chunks, None), v2)
    \<and> sha256_digest (concat chunks) = om_digest (le_metadata x) \<and> int (length (concat chunks)) = om_byte_length (le_metadata x)
    \<and> in_object_id (op_input operation) = or_object_id (om_ref (le_metadata x))
    \<and> commit_object (mi_adapter target) (op_input operation) \<lparr>ci_digest = om_digest (le_metadata x), ci_byte_length = om_byte_length (le_metadata x)\<rparr>
        immutability retention (in_create_only (op_input operation) \<or> im_publish_once immutability) v3 = (Inr md, v')
    \<and> result = [(''metadata'', JObj (oc_metadata_to_dict (ap_common (mi_adapter target)) md))]"
proof -
  let ?B = "mi_adapter target"
  from export_logical_Inr [OF assms(1,4)] obtain parsed and r :: resolved_object and w1 where
    x: "mi_parse_reference source reference = Inr parsed" "resolves_to cl (mi_adapter source) parsed r w w1"
      "le_metadata x = so_metadata (ro_stored r)" "le_immutability x = so_immutability (ro_stored r)" "le_retention x = so_retention (ro_stored r)"
    and g: "pr_register payloads (open_blob cl (om_digest (le_metadata x)) None) (om_byte_length (le_metadata x)) (Some (om_digest (le_metadata x))) w1
        = (Inr (le_payload x), w')" by blast
  have e: "pl_expected_digest (le_payload x) = Some (om_digest (le_metadata x))" "pl_expected_length (le_payload x) = Some (om_byte_length (le_metadata x))"
    using assms(3) g unfolding migration_common_def by blast+
  from import_puts [OF assms(5,3)] obtain operation where o: "mi_put target (import_request ?B x create_only) = Inr operation"
    and put: "adapter_put ?B operation payloads' v = (Inr result, v')" by blast
  have pq: "pq_payload (import_request ?B x create_only) = le_payload x" "pq_object_id (import_request ?B x create_only) = or_object_id (om_ref (le_metadata x))"
    by (simp_all add: import_request_def Let_def)
  have i: "in_payload (op_input operation) = JObj (oc_payload_to_dict (ap_common ?B) (le_payload x))"
    "in_object_id (op_input operation) = or_object_id (om_ref (le_metadata x))"
    "oc_payload_from (ap_common ?B) (oc_payload_to_dict (ap_common ?B) (le_payload x)) = Inr (le_payload x)"
    using assms(3) o pq unfolding migration_common_def by auto
  from put obtain immutability retention identity md v3 v4 where u: "upload_payload ?B (le_payload x) payloads' v4 = (Inr identity, v3)"
    and c: "commit_object ?B (op_input operation) identity immutability retention
       (in_create_only (op_input operation) \<or> im_publish_once immutability) v3 = (Inr md, v')"
    and res: "result = [(''metadata'', JObj (oc_metadata_to_dict (ap_common ?B) md))]"
    by (rule adapter_put_Inr) (use i in auto)
  from http.upload_payload_Inr [OF assms(2) u] obtain chunks v1 v2 where
    h: "pr_open payloads' (le_payload x) (b_chunk_size (ap_binding ?B)) v1 = (Inr (chunks, None), v2)"
    and id: "oc_mk_identity (ap_common ?B) (sha256_digest (concat chunks)) (int (length (concat chunks))) = Inr identity"
    and ver: "verify_identity (le_payload x) identity = Inr ()" by blast
  have "identity = \<lparr>ci_digest = sha256_digest (concat chunks), ci_byte_length = int (length (concat chunks))\<rparr>"
    using assms(3) id unfolding migration_common_def by blast
  with ver e have k: "sha256_digest (concat chunks) = om_digest (le_metadata x)" "int (length (concat chunks)) = om_byte_length (le_metadata x)"
    "identity = \<lparr>ci_digest = om_digest (le_metadata x), ci_byte_length = om_byte_length (le_metadata x)\<rparr>"
    by (auto simp: verify_identity_def split: if_splits)
  have "or_resource (om_ref (le_metadata x)) = semantic_resource_of (mi_adapter source)" using x(3) resolves_to_payload(4) [OF x(2)] by simp
  with x g h k(1,2) i(2) res c [unfolded k(3)] show ?thesis by blast
qed

text \<open>The surface of the example: a put operation with the members of the request.\<close>

definition example_surface :: "put_request \<Rightarrow> operation" where
  "example_surface q = example_operation ''meridian.object.put''
     (example_input\<lparr>in_object_id := pq_object_id q, in_payload := JObj (oc_payload_to_dict example_common (pq_payload q)),
        in_media_type := JStr (pq_media_type q), in_expected_digest := pq_expected_digest q, in_expected_length := pq_expected_length q,
        in_user_metadata := pq_user_metadata q, in_creation_context := pq_creation_context q, in_provenance := JObj (pq_provenance q),
        in_immutability := JObj (oc_immutability_to_dict example_common (pq_immutability q)),
        in_retention := (case pq_retention q of None \<Rightarrow> JNull | Some r \<Rightarrow> JObj (oc_retention_to_dict example_common r)),
        in_create_only := pq_create_only q\<rparr>)"

definition example_migration :: "fake_registry migration" where
  "example_migration =
     \<lparr>mi_adapter = example_adapter 5, mi_parse_reference = (\<lambda>a. case a of Inl r \<Rightarrow> Inr r | Inr v \<Rightarrow> Inr (fields_reference v)),
      mi_put = (\<lambda>q. Inr (example_surface q))\<rparr>"

lemma example_migration_simps:
  "mi_adapter example_migration = example_adapter 5" "mi_put example_migration q = Inr (example_surface q)"
  "mi_parse_reference example_migration (Inl r) = Inr r"
  by (simp_all add: example_migration_def)

lemma example_migration_common: "migration_common example_payloads example_migration"
proof -
  have "opt_str (json_opt a) = a" "opt_int (json_opt_int b) = b" for a b by (simp_all add: example_readers split: option.splits)
  then have "oc_payload_from example_common (oc_payload_to_dict example_common p) = Inr p" for p
    by (simp add: example_common_def obj_get_def str_of_def)
  then show ?thesis
    by (simp add: migration_common_def example_migration_simps example_payloads_def example_surface_def example_operation_def example_common_calls)
qed

lemma example_imported_ready:
  assumes "le_metadata x = so_metadata (example_envelope 5)" "le_immutability x = so_immutability (example_envelope 5)"
    "le_retention x = so_retention (example_envelope 5)"
    "pl_expected_digest (le_payload x) = Some (sha256_digest ''hello'')" "pl_expected_length (le_payload x) = Some 5"
  shows "put_ready example_transport (fake_ok registry_binding (Some ''Bearer token'')) (fake_store registry_binding)
     (b_max_manifest_bytes registry_binding) (example_adapter 5) (op_input (example_surface (import_request (example_adapter 5) x True)))
     example_payloads [''hello''] 5 (example_envelope 5) empty_registry"
proof -
  let ?v = "op_input (example_surface (import_request (example_adapter 5) x True))"
  have v: "in_object_id ?v = ''o''" "in_payload ?v = JObj (oc_payload_to_dict example_common (le_payload x))"
    "in_immutability ?v = JObj [(''mutability'', JStr ''immutable''), (''publishOnce'', JBool False)]"
    "in_retention ?v = JObj [(''retainUntil'', JInt 7)]" "in_provenance ?v = JObj []" "in_media_type ?v = JStr ''text/plain''"
    "in_creation_context ?v = JNull" "in_user_metadata ?v = JNull" "in_create_only ?v"
    using assms(1-3) example_provenance [of 5]
    by (simp_all add: example_surface_def example_operation_def import_request_def Let_def example_envelope_def example_common_def example_readers)
  have p: "oc_payload_from example_common (oc_payload_to_dict example_common (le_payload x)) = Inr (le_payload x)"
    using example_migration_common by (simp add: migration_common_def example_migration_simps)
  have i: "oc_immutability_from example_common (JObj [(''mutability'', JStr ''immutable''), (''publishOnce'', JBool False)])
      = Inr (so_immutability (example_envelope 5))" by (simp add: example_common_def obj_get_def str_of_def example_envelope_def)
  have "accepts (example_adapter 5) ?v ''hello'' 5 (example_envelope 5)"
    by (simp add: accepts_def v example_envelope_def example_common_calls construct_metadata_def example_resource)
  moreover have "so_retention (example_envelope 5) = Some \<lparr>rt_retain_until = Some 7, rt_terms = []\<rparr>" "\<not> im_publish_once (so_immutability (example_envelope 5))"
    by (simp_all add: example_envelope_def)
  ultimately show ?thesis using example_storable [of 5] assms(4,5)
    unfolding put_ready_def uploadable_def opens_to_def clock_reads_def put_immutability_def put_retention_def v p
    by (simp add: i v p empty_registry_store example_payloads_def example_common_calls(1-5,7)
        registry_limits ret_def example_readers obj_get_def)
qed

theorem migration_preserves_content_witness:
  "collides (fake_store registry_binding empty_registry) (put_contents example_common ''o'' ''hello'' (example_envelope 5))
   \<or> (\<exists>reference w x w' result v' chunks. export_logical example_migration reference example_payloads w = (Inr x, w')
        \<and> import_logical example_migration x example_payloads True empty_registry = (Inr result, v')
        \<and> sha256_digest (concat chunks) = om_digest (le_metadata x))"
proof (cases "collides (fake_store registry_binding empty_registry) (put_contents example_common ''o'' ''hello'' (example_envelope 5))")
  case False
  let ?ref = "\<lparr>or_resource = \<lparr>sem_catalog = CATALOG_OBJECT, sem_namespace = ''ns'', sem_name = ''media''\<rparr>, or_object_id = ''o'', or_digest = None\<rparr>" and ?m = example_migration
  obtain w r w1 where s: "stored_for_reference (example_adapter 5) ?ref w = (Inr r, w1)" and r: "ro_stored r = example_envelope 5"
    using example_runs [OF _ False] by blast
  have A: "ap_transport (mi_adapter ?m) = http_transport (fake_client example_lib registry_binding 3)"
    by (simp add: example_migration_simps example_transport_def)
  define x where "x = \<lparr>le_metadata = so_metadata (ro_stored r), le_payload = \<lparr>pl_handle = ''h'', pl_replayable = True,
      pl_expected_digest = Some (d_digest (ro_payload r)), pl_expected_length = Some (int (d_size (ro_payload r)))\<rparr>,
      le_immutability = so_immutability (ro_stored r), le_retention = so_retention (ro_stored r)\<rparr>"
  have e: "export_logical ?m (Inl ?ref) example_payloads w = (Inr x, w1)"
    using s by (simp add: export_logical_def Let_def example_migration_simps example_resource io_simps example_payloads_def x_def)
  from resolves_to_payload(1,2) [OF stored_for_reference_resolves [OF A [unfolded example_migration_simps(1)] s]]
  have "d_digest (ro_payload r) = sha256_digest ''hello''" "int (d_size (ro_payload r)) = 5"
    using r by (simp_all add: example_envelope_def)
  then have ready: "put_ready example_transport (fake_ok registry_binding (Some ''Bearer token'')) (fake_store registry_binding)
     (b_max_manifest_bytes registry_binding) (example_adapter 5) (op_input (example_surface (import_request (example_adapter 5) x True)))
     example_payloads [''hello''] 5 (example_envelope 5) empty_registry"
    using r by (intro example_imported_ready) (simp_all add: x_def)
  let ?op = "example_surface (import_request (example_adapter 5) x True)"
  have oid: "in_object_id (op_input ?op) = ''o''"
    using r by (simp add: x_def example_surface_def example_operation_def import_request_def example_envelope_def)
  obtain v' where put: "adapter_put (example_adapter 5) ?op example_payloads empty_registry
      = (Inr [(''metadata'', JObj (oc_metadata_to_dict example_common (so_metadata (example_envelope 5))))], v')"
    using fake_setup.store_facts(1) [OF example_setup, of "example_adapter 5" empty_registry ?op example_payloads "[''hello'']" 5 "example_envelope 5"]
      empty_registry_ok ready False oid by (auto simp: example_transport_def)
  have val: "validate_operation (example_adapter 5) ?op = Inr ''put''"
    by (simp add: validate_operation_def example_surface_def example_operation_def example_adapter_def configured_capability_manifest_def
        available_operations_def rsplit_last_def)
  have "oc_require_capabilities example_common = (\<lambda>m r. Inr ())" by (simp add: example_common_def)
  with put val have i: "import_logical ?m x example_payloads True empty_registry
      = (Inr [(''metadata'', JObj (oc_metadata_to_dict example_common (so_metadata (example_envelope 5))))], v')"
    by (simp add: import_logical_def example_migration_simps execute_def io_simps)
  from migration_preserves_content [OF A A example_migration_common e i] e i show ?thesis by blast
qed simp

end
