(* ===== verification/Client_Retry.thy ===== *)
theory Client_Retry
  imports Client_Laws
begin

text \<open>
  Progress of the HTTP client: a read recovers from transient failures, as many as its budget has
  rounds to spare, and a request that is not retried stops at the first.
\<close>

text \<open>A round that failed in a way that may pass: the network raised \<open>httpx.HTTPError\<close>, or a server behind a safe
  URL answered with one of the retriable statuses; after it the client slept.\<close>

definition transient_failure :: "'w client \<Rightarrow> http_request \<Rightarrow> headers \<Rightarrow> 'w \<Rightarrow> 'w \<Rightarrow> bool" where
  "transient_failure cl rq headers w w' \<longleftrightarrow>
     (\<exists>hs w1 r. client_headers cl (rq_url rq) headers w = (Inr hs, w1) \<and> he_send (cl_http cl) (rq\<lparr>rq_headers := hs\<rparr>) w1 = (r, w')
        \<and> (case r of
             Inl e \<Rightarrow> exn_kind_of e = HTTPError
           | Inr response \<Rightarrow> rs_status response \<in> set RETRIABLE_STATUS \<and> require_safe_response_url cl response = Inr ()))"

primrec transient_rounds :: "'w client \<Rightarrow> http_request \<Rightarrow> headers \<Rightarrow> nat \<Rightarrow> nat \<Rightarrow> 'w \<Rightarrow> 'w \<Rightarrow> bool" where
  "transient_rounds cl rq headers 0 attempt w w' = (w' = w)"
| "transient_rounds cl rq headers (Suc n) attempt w w' =
     (\<exists>w1 w2. transient_failure cl rq headers w w1 \<and> he_sleep (cl_http cl) attempt w1 = (Inr (), w2)
        \<and> transient_rounds cl rq headers n (Suc attempt) w2 w')"

lemma transient_once:
  assumes "transient_failure cl \<lparr>rq_method = method, rq_url = url, rq_headers = [], rq_content = content\<rparr> headers w w'"
  shows "request_once cl method url headers content expected maximum False w = (Inr None, w')"
proof -
  from assms obtain hs w1 r where h: "client_headers cl url headers w = (Inr hs, w1)"
    and s: "he_send (cl_http cl) \<lparr>rq_method = method, rq_url = url, rq_headers = hs, rq_content = content\<rparr> w1 = (r, w')"
    and r: "case r of Inl e \<Rightarrow> exn_kind_of e = HTTPError
        | Inr response \<Rightarrow> rs_status response \<in> set RETRIABLE_STATUS \<and> require_safe_response_url cl response = Inr ()"
    unfolding transient_failure_def by auto
  have c: "catch_http (bnd (client_headers cl url headers) (\<lambda>hs.
      he_send (cl_http cl) \<lparr>rq_method = method, rq_url = url, rq_headers = hs, rq_content = content\<rparr>)) w
    = (Inr (case r of Inl e \<Rightarrow> None | Inr response \<Rightarrow> Some response), w')"
    using h s r by (cases r) (simp_all add: catch_http_def catch_def bnd_def ret_def)
  show ?thesis
    using r by (cases r) (simp_all add: request_once_def bnd_def [of "catch_http m" for m] c ret_def)
qed

lemma request_loop_rounds:
  assumes "transient_rounds cl \<lparr>rq_method = method, rq_url = url, rq_headers = [], rq_content = content\<rparr> headers n attempt w w'" "n < k"
  shows "request_loop (request_once cl method url headers content expected maximum) (he_sleep (cl_http cl)) k attempt w
    = request_loop (request_once cl method url headers content expected maximum) (he_sleep (cl_http cl)) (k - n) (attempt + n) w'"
  using assms
proof (induction n arbitrary: k attempt w)
  case (Suc n)
  then obtain w1 w2 where t: "transient_failure cl \<lparr>rq_method = method, rq_url = url, rq_headers = [], rq_content = content\<rparr> headers w w1"
    and s: "he_sleep (cl_http cl) attempt w1 = (Inr (), w2)"
    and r: "transient_rounds cl \<lparr>rq_method = method, rq_url = url, rq_headers = [], rq_content = content\<rparr> headers n (Suc attempt) w2 w'"
    by auto
  obtain j where k: "k = Suc j" "n < j" using Suc.prems(2) by (cases k) auto
  have "request_loop (request_once cl method url headers content expected maximum) (he_sleep (cl_http cl)) k attempt w
      = request_loop (request_once cl method url headers content expected maximum) (he_sleep (cl_http cl)) j (Suc attempt) w2"
    using transient_once [OF t, of expected maximum] s k by (simp add: bnd_def)
  with Suc.IH [OF r k(2)] k show ?case by simp
qed simp

text \<open>C16. A read recovers: when at most all but one of its rounds fail transiently, by a network error or by a
  retriable status, and the next round is answered completely, within the bound and from a safe URL,
  the request returns that answer if its status is expected and the error of that answer otherwise; it
  does not give up earlier and asks no further.\<close>

theorem client_request_recovers:
  assumes "transient_rounds cl \<lparr>rq_method = method, rq_url = url, rq_headers = [], rq_content = content\<rparr> headers n 0 w w1"
    and "n < cl_max_read_attempts cl"
    and "client_headers cl url headers w1 = (Inr hs, w2)"
    and "he_send (cl_http cl) \<lparr>rq_method = method, rq_url = url, rq_headers = hs, rq_content = content\<rparr> w2 = (Inr rs, w3)"
    and "require_safe_response_url cl rs = Inr ()" "rs_status rs \<notin> set RETRIABLE_STATUS"
    and "bounded_response cl rs maximum = Inr x"
  shows "client_request cl method url headers content expected True maximum w =
    (if hr_status x \<in> set expected then (Inr x, w3) else (Inl (response_error (hr_status x) (hr_content x)), w3))"
proof -
  obtain j where j: "cl_max_read_attempts cl - n = Suc j" using assms(2) by (cases "cl_max_read_attempts cl - n") auto
  have "client_request cl method url headers content expected True maximum w =
      request_loop (request_once cl method url headers content expected maximum) (he_sleep (cl_http cl)) (Suc j) n w1"
    using request_loop_rounds [OF assms(1,2), of expected maximum] by (simp add: client_request_def j)
  then show ?thesis
    using request_once_answered [OF assms(3-7), of expected "j = 0"] by (auto simp: bnd_def ret_def)
qed

text \<open>A network that fails before it answers: the world is the number of failures left.\<close>

definition flaky_client :: "http_response \<Rightarrow> nat client" where
  "flaky_client rs = \<lparr>cl_binding = example_binding,
     cl_http = \<lparr>he_send = (\<lambda>rq n. if n = 0 then (Inr rs, 0) else (Inl (bare_exn HTTPError), n - 1)), he_sleep = (\<lambda>k. ret ()),
       he_rebuild = (\<lambda>hs b. Inr b), he_merge_params = (\<lambda>u ps. Inr u), he_add_param = (\<lambda>u k v. Inr u)\<rparr>,
     cl_max_read_attempts = 3\<rparr>"

theorem client_request_recovers_witness:
  "client_request (flaky_client (example_response 200 [] ''x'')) ''GET'' ''https://registry.example:5000/v2/'' [] None [200] True 10 2
     = (Inr \<lparr>hr_status = 200, hr_headers = [], hr_content = ''x''\<rparr>, 0)"
proof -
  let ?cl = "flaky_client (example_response 200 [] ''x'')" and ?url = "''https://registry.example:5000/v2/''"
    and ?rq = "\<lparr>rq_method = ''GET'', rq_url = ''https://registry.example:5000/v2/'', rq_headers = [], rq_content = None\<rparr>"
  have wf: "binding_wf (cl_binding ?cl)" using constructed_binding_wf [OF example_mk_binding] by (simp add: flaky_client_def)
  have "client_url ?cl ''/v2/'' = ?url" by (simp add: client_url_def flaky_client_def example_binding_def)
  with client_url_same_origin [OF wf, of "''/v2/''"] have "same_origin ?url (b_endpoint (cl_binding ?cl)) = Inr True" by simp
  then have h: "\<exists>hs. client_headers ?cl ?url [] w = (Inr hs, w)" for w
    by (simp add: client_headers_def flaky_client_def example_binding_def)
  have f: "transient_failure ?cl ?rq [] (Suc n) n" for n
  proof -
    have s: "he_send (cl_http ?cl) rq (Suc n) = (Inl (bare_exn HTTPError), n)" for rq by (simp add: flaky_client_def)
    obtain hs where "client_headers ?cl ?url [] (Suc n) = (Inr hs, Suc n)" using h by blast
    then show ?thesis unfolding transient_failure_def by (intro exI [of _ hs] exI [of _ "Suc n"] exI [of _ "Inl (bare_exn HTTPError)"]) (simp add: s)
  qed
  have r: "transient_rounds ?cl ?rq [] 2 0 2 0"
  proof -
    have z: "he_sleep (cl_http ?cl) k n = (Inr (), n)" for k n by (simp add: flaky_client_def)
    have "\<exists>w1 w2. transient_failure ?cl ?rq [] 2 w1 \<and> he_sleep (cl_http ?cl) 0 w1 = (Inr (), w2)
        \<and> (\<exists>w3 w4. transient_failure ?cl ?rq [] w2 w3 \<and> he_sleep (cl_http ?cl) 1 w3 = (Inr (), w4) \<and> 0 = w4)"
      by (intro exI [of _ 1] exI [of _ 0] conjI z refl) (use f [of 0] f [of 1] in \<open>simp_all add: numeral_2_eq_2\<close>)
    then show ?thesis by (simp add: numeral_2_eq_2)
  qed
  obtain hs where h0: "client_headers ?cl ?url [] 0 = (Inr hs, 0)" using h by blast
  have b: "bounded_response ?cl (example_response 200 [] ''x'') 10 = Inr \<lparr>hr_status = 200, hr_headers = [], hr_content = ''x''\<rparr>"
    by (simp add: bounded_response_def example_response_def flaky_client_def)
  have s: "he_send (cl_http ?cl) rq 0 = (Inr (example_response 200 [] ''x''), 0)" for rq by (simp add: flaky_client_def)
  have u: "require_safe_response_url ?cl (example_response 200 [] ''x'') = Inr ()"
    by (simp add: require_safe_response_url_def flaky_client_def example_binding_def example_response_def url_eval)
  have n: "2 < cl_max_read_attempts ?cl" "rs_status (example_response 200 [] ''x'') \<notin> set RETRIABLE_STATUS"
    by (simp_all add: flaky_client_def example_response_def RETRIABLE_STATUS_def)
  from client_request_recovers [OF r n(1) h0 s u n(2) b, of "[200]"] show ?thesis by simp
qed

end
