(* ===== verification/Stream.thy ===== *)
theory Stream
  imports Object_Common
begin

text \<open>
  \<^verbatim>\<open>src/src/meridian_storage/adapters/oci/transport/stream.py\<close>: \<open>IteratorReader\<close>, the buffered
  reader over the chunks of a response body. The reader's promise to its consumers is the locale
  \<open>byte_reader\<close>; draining it in blocks of any positive size is proved there once, and the
  interpretation discharges the laws for the reader of the source.
\<close>

section \<open>The reader\<close>

text \<open>\<open>rd_error\<close> is what the chunk iterator raises after its last chunk; an iterator that has raised
  is exhausted.\<close>

record iterator_reader =
  rd_chunks :: "string list"
  rd_error :: "exn option"
  rd_buffer :: string
  rd_ended :: bool
  rd_closed :: bool

definition mk_reader :: "chunk_stream \<Rightarrow> iterator_reader" where
  "mk_reader s = \<lparr>rd_chunks = fst s, rd_error = snd s, rd_buffer = [], rd_ended = False, rd_closed = False\<rparr>"

definition reader_close :: "iterator_reader \<Rightarrow> iterator_reader" where
  "reader_close r = r\<lparr>rd_closed := True\<rparr>"

text \<open>\<open>for chunk in self._chunks: self._buffer.extend(chunk)\<close>.\<close>

definition fill_all :: "iterator_reader \<Rightarrow> (exn + unit) \<times> iterator_reader" where
  "fill_all r =
     (let r' = r\<lparr>rd_buffer := rd_buffer r @ concat (rd_chunks r), rd_chunks := [], rd_error := None\<rparr>
      in case rd_error r of None \<Rightarrow> (Inr (), r') | Some e \<Rightarrow> (Inl e, r'))"

text \<open>The loop \<open>while len(self._buffer) < size and not self._ended\<close>, by recursion on the chunks
  left.\<close>

fun fill_loop :: "nat \<Rightarrow> string list \<Rightarrow> iterator_reader \<Rightarrow> (exn + unit) \<times> iterator_reader" where
  "fill_loop n [] r =
     (if length (rd_buffer r) < n \<and> \<not> rd_ended r
      then (case rd_error r of
              Some e \<Rightarrow> (Inl e, r\<lparr>rd_chunks := [], rd_error := None\<rparr>)
            | None \<Rightarrow> (Inr (), r\<lparr>rd_chunks := [], rd_ended := True\<rparr>))
      else (Inr (), r\<lparr>rd_chunks := []\<rparr>))"
| "fill_loop n (c # cs) r =
     (if length (rd_buffer r) < n \<and> \<not> rd_ended r
      then fill_loop n cs (r\<lparr>rd_buffer := rd_buffer r @ c\<rparr>)
      else (Inr (), r\<lparr>rd_chunks := c # cs\<rparr>))"

definition reader_read :: "int \<Rightarrow> iterator_reader \<Rightarrow> (exn + string) \<times> iterator_reader" where
  "reader_read sz r =
     (if rd_closed r then (Inl (exn_of ValueError ''I/O operation on closed registry stream''), r)
      else if sz = 0 then (Inr [], r)
      else if sz < 0 then
        (case fill_all r of
           (Inl e, r') \<Rightarrow> (Inl e, r')
         | (Inr _, r') \<Rightarrow> (Inr (rd_buffer r'), r'\<lparr>rd_ended := True, rd_buffer := []\<rparr>))
      else
        (case fill_loop (nat sz) (rd_chunks r) r of
           (Inl e, r') \<Rightarrow> (Inl e, r')
         | (Inr _, r') \<Rightarrow> (Inr (take (nat sz) (rd_buffer r')), r'\<lparr>rd_buffer := drop (nat sz) (rd_buffer r')\<rparr>)))"

section \<open>The contract of a byte reader\<close>

locale byte_reader =
  fixes read :: "int \<Rightarrow> 'r \<Rightarrow> (exn + string) \<times> 'r"
    and content :: "'r \<Rightarrow> string"
    and inv :: "'r \<Rightarrow> bool"
  assumes read_some: "inv r \<Longrightarrow> 0 < n \<Longrightarrow>
      \<exists>r'. read n r = (Inr (take (nat n) (content r)), r') \<and> content r' = drop (nat n) (content r) \<and> inv r'"
    and read_rest: "inv r \<Longrightarrow> n < 0 \<Longrightarrow> \<exists>r'. read n r = (Inr (content r), r') \<and> content r' = [] \<and> inv r'"
begin

text \<open>The consumer's loop \<open>while block := stream.read(n)\<close>, with fuel.\<close>

fun drain :: "nat \<Rightarrow> int \<Rightarrow> 'r \<Rightarrow> (exn + string list) \<times> 'r" where
  "drain 0 n r = (Inr [], r)"
| "drain (Suc k) n r =
     (case read n r of
        (Inl e, r') \<Rightarrow> (Inl e, r')
      | (Inr b, r') \<Rightarrow> if b = [] then (Inr [], r')
          else (case drain k n r' of (Inl e, r'') \<Rightarrow> (Inl e, r'') | (Inr bs, r'') \<Rightarrow> (Inr (b # bs), r'')))"

lemma drain_content:
  assumes "inv r" "0 < n" "length (content r) < k"
  shows "\<exists>bs r'. drain k n r = (Inr bs, r') \<and> concat bs = content r \<and> content r' = [] \<and> inv r'
      \<and> list_all (\<lambda>b. b \<noteq> [] \<and> length b \<le> nat n) bs"
  using assms
proof (induction k arbitrary: r)
  case (Suc k)
  obtain r1 where r1: "read n r = (Inr (take (nat n) (content r)), r1)"
    "content r1 = drop (nat n) (content r)" "inv r1"
    using read_some [OF Suc.prems(1,2)] by blast
  show ?case
  proof (cases "content r = []")
    case False
    then have "length (content r1) < k" "take (nat n) (content r) \<noteq> []"
      using r1(2) Suc.prems by (cases "content r"; cases "nat n"; auto)+
    with Suc.IH [OF r1(3) Suc.prems(2)] obtain bs r2 where
      "drain k n r1 = (Inr bs, r2)" "concat bs = content r1" "content r2 = []" "inv r2"
      "list_all (\<lambda>b. b \<noteq> [] \<and> length b \<le> nat n) bs" by blast
    moreover from this(2) r1(2) have "take (nat n) (content r) @ concat bs = content r" by simp
    ultimately show ?thesis
      using r1(1) \<open>take (nat n) (content r) \<noteq> []\<close> by simp
  qed (use r1 in auto)
qed simp

end

section \<open>The reader keeps the contract\<close>

text \<open>What is still to be read.\<close>

definition reader_content :: "iterator_reader \<Rightarrow> string" where
  "reader_content r = rd_buffer r @ concat (rd_chunks r)"

definition reader_inv :: "iterator_reader \<Rightarrow> bool" where
  "reader_inv r \<longleftrightarrow> \<not> rd_closed r \<and> rd_error r = None \<and> (rd_ended r \<longrightarrow> rd_chunks r = [])"

lemma fill_loop_ok:
  assumes "rd_error r = None" "rd_ended r \<longrightarrow> cs = []"
  shows "\<exists>r'. fill_loop n cs r = (Inr (), r') \<and> reader_content r' = rd_buffer r @ concat cs
     \<and> (n \<le> length (rd_buffer r') \<or> rd_chunks r' = []) \<and> rd_error r' = None \<and> rd_closed r' = rd_closed r
     \<and> (rd_ended r' \<longrightarrow> rd_chunks r' = [])"
  using assms by (induction n cs r rule: fill_loop.induct) (auto simp: reader_content_def)

lemma take_drop_buffer:
  assumes "n \<le> length b \<or> cs = []"
  shows "take n b = take n (b @ concat cs)" "drop n b @ concat cs = drop n (b @ concat cs)"
  using assms by auto

lemma reader_read_some:
  assumes "reader_inv r" "0 < n"
  shows "\<exists>r'. reader_read n r = (Inr (take (nat n) (reader_content r)), r')
     \<and> reader_content r' = drop (nat n) (reader_content r) \<and> reader_inv r'"
proof -
  obtain r1 where r1: "fill_loop (nat n) (rd_chunks r) r = (Inr (), r1)" "reader_content r1 = reader_content r"
    "nat n \<le> length (rd_buffer r1) \<or> rd_chunks r1 = []" "rd_error r1 = None" "rd_closed r1 = rd_closed r"
    "rd_ended r1 \<longrightarrow> rd_chunks r1 = []"
    using fill_loop_ok [of r "rd_chunks r" "nat n"] assms(1) by (auto simp: reader_inv_def reader_content_def)
  let ?c = "rd_buffer r1 @ concat (rd_chunks r1)"
  have "take (nat n) (rd_buffer r1) = take (nat n) ?c"
    "drop (nat n) (rd_buffer r1) @ concat (rd_chunks r1) = drop (nat n) ?c"
    using take_drop_buffer [OF r1(3)] by blast+
  moreover have "?c = reader_content r" using r1(2) by (simp add: reader_content_def)
  ultimately have "take (nat n) (rd_buffer r1) = take (nat n) (reader_content r)"
    "drop (nat n) (rd_buffer r1) @ concat (rd_chunks r1) = drop (nat n) (reader_content r)" by simp_all
  with assms r1 show ?thesis
    by (simp add: reader_read_def reader_inv_def reader_content_def [of "r1\<lparr>rd_buffer := b\<rparr>" for b])
qed

lemma reader_read_rest:
  assumes "reader_inv r" "n < 0"
  shows "\<exists>r'. reader_read n r = (Inr (reader_content r), r') \<and> reader_content r' = [] \<and> reader_inv r'"
  using assms by (auto simp: reader_read_def fill_all_def reader_inv_def reader_content_def)

interpretation ir: byte_reader reader_read reader_content reader_inv
  by unfold_locales (rule reader_read_some reader_read_rest; assumption)+

lemma mk_reader_inv: "reader_inv (mk_reader (cs, None))" "reader_content (mk_reader (cs, None)) = concat cs"
  by (simp_all add: reader_inv_def reader_content_def mk_reader_def)

text \<open>C37. Reading a response body in blocks of any positive size delivers exactly the concatenation
  of its chunks, in non-empty blocks no longer than asked for, and needs at most one read more than
  there are bytes.\<close>

theorem reader_drain:
  assumes "0 < n"
  shows "\<exists>bs r'. ir.drain (Suc (length (concat cs))) n (mk_reader (cs, None)) = (Inr bs, r') \<and> concat bs = concat cs
     \<and> list_all (\<lambda>b. b \<noteq> [] \<and> length b \<le> nat n) bs \<and> reader_content r' = []"
  using ir.drain_content [OF mk_reader_inv(1) assms, of cs "Suc (length (concat cs))"] mk_reader_inv(2) [of cs]
  by auto

theorem reader_drain_witness:
  "\<exists>bs r'. ir.drain 6 2 (mk_reader ([''abc'', '''', ''de''], None)) = (Inr bs, r') \<and> concat bs = ''abcde''
     \<and> list_all (\<lambda>b. b \<noteq> [] \<and> length b \<le> 2) bs \<and> reader_content r' = []"
  using reader_drain [of 2 "[''abc'', '''', ''de'']"] by (simp add: numeral_eq_Suc del: ir.drain.simps)

lemma fill_loop_error:
  assumes "rd_error r = Some e" "\<not> rd_ended r" "length (rd_buffer r @ concat cs) < n"
  shows "\<exists>r'. fill_loop n cs r = (Inl e, r') \<and> rd_buffer r' = rd_buffer r @ concat cs \<and> rd_chunks r' = []"
  using assms
proof (induction cs arbitrary: r)
  case (Cons c cs)
  then show ?case using Cons.IH [of "r\<lparr>rd_buffer := rd_buffer r @ c\<rparr>"] by simp
qed simp

text \<open>A failing body is never passed off as complete: when the chunk iterator ends with an
  exception, a read that asks for everything or for more than was delivered raises that exception, and
  the delivered bytes stay in the reader.\<close>

lemma reader_read_error:
  assumes "\<not> rd_closed r" "\<not> rd_ended r" "rd_error r = Some e" "n < 0 \<or> int (length (reader_content r)) < n"
  shows "\<exists>r'. reader_read n r = (Inl e, r') \<and> reader_content r' = reader_content r"
proof (cases "n < 0")
  case True
  with assms show ?thesis by (auto simp: reader_read_def fill_all_def reader_content_def)
next
  case False
  then have n: "0 < n" "length (rd_buffer r @ concat (rd_chunks r)) < nat n"
    using assms(4) by (auto simp: reader_content_def)
  from fill_loop_error [OF assms(3,2) n(2)] obtain r' where
    "fill_loop (nat n) (rd_chunks r) r = (Inl e, r')" "rd_buffer r' = rd_buffer r @ concat (rd_chunks r)"
    "rd_chunks r' = []" by blast
  with n(1) assms(1) show ?thesis by (auto simp: reader_read_def reader_content_def)
qed

lemma reader_read_error_witness:
  "\<exists>r'. reader_read 9 (mk_reader ([''ab'', ''c''], Some (bare_exn HTTPError))) = (Inl (bare_exn HTTPError), r')
     \<and> reader_content r' = reader_content (mk_reader ([''ab'', ''c''], Some (bare_exn HTTPError)))"
  by (rule reader_read_error) (simp_all add: mk_reader_def reader_content_def)

end
