(* ===== verification/Lifetime.thy ===== *)
theory Lifetime
  imports Adapter
begin

text \<open>
  Who closes the connection: the \<open>close\<close> methods and context managers of the adapter
  (\<^verbatim>\<open>src/src/meridian_storage/adapters/oci/adapter.py\<close>) and of the HTTP client
  (\<^verbatim>\<open>src/src/meridian_storage/adapters/oci/transport/client.py\<close>). Each closes what it was built on only if it built
  it itself. An \<open>httpx.Client\<close> is its network operations and its own \<open>close\<close>; making one is the parameter \<open>mk\<close>.
\<close>

section \<open>Ownership\<close>

record 'w httpx_client =
  hx_http :: "'w http_env"
  hx_close :: "('w, unit) io"

record 'w owned_client =
  ow_client :: "'w client"
  ow_owns_client :: bool
  ow_httpx :: "'w httpx_client"

definition new_client :: "('w binding \<Rightarrow> ('w, 'w httpx_client) io) \<Rightarrow> 'w binding \<Rightarrow> 'w httpx_client option \<Rightarrow> int \<Rightarrow> ('w, 'w owned_client) io" where
  "new_client mk b given attempts =
     bnd (lift (guardE (1 \<le> attempts) (exn_of ValueError ''max_read_attempts must be positive''))) (\<lambda>_.
     bnd (case given of None \<Rightarrow> mk b | Some c \<Rightarrow> ret c) (\<lambda>c.
     bnd (lift (mk_client b (hx_http c) attempts)) (\<lambda>cl.
     ret \<lparr>ow_client = cl, ow_owns_client = Option.is_none given, ow_httpx = c\<rparr>)))"

definition client_close :: "'w owned_client \<Rightarrow> ('w, unit) io" where
  "client_close C = (if ow_owns_client C then hx_close (ow_httpx C) else ret ())"

text \<open>The transport of an adapter, with its \<open>close\<close>.\<close>

record 'w owned_adapter =
  oa_adapter :: "'w adapter"
  oa_owns_transport :: bool
  oa_close_transport :: "('w, unit) io"

definition new_owned_adapter ::
  "object_common \<Rightarrow> ('w binding \<Rightarrow> ('w, 'w httpx_client) io) \<Rightarrow> 'w binding \<Rightarrow> ('w transport \<times> ('w, unit) io) option
   \<Rightarrow> ('w, datetime) io \<Rightarrow> ('w, 'w owned_adapter) io" where
  "new_owned_adapter oc mk b given clock =
     bnd (case given of
            Some t \<Rightarrow> ret t
          | None \<Rightarrow> bnd (new_client mk b None 3) (\<lambda>C. ret (http_transport (ow_client C), client_close C))) (\<lambda>(transport, close).
     bnd (lift (mk_adapter oc b transport clock)) (\<lambda>A.
     ret \<lparr>oa_adapter = A, oa_owns_transport = Option.is_none given, oa_close_transport = close\<rparr>))"

definition adapter_close :: "'w owned_adapter \<Rightarrow> ('w, unit) io" where
  "adapter_close A = (if oa_owns_transport A then oa_close_transport A else ret ())"

text \<open>\<open>with adapter: body\<close> and \<open>with client: body\<close>: the exit closes, however the body ended.\<close>

definition with_adapter :: "'w owned_adapter \<Rightarrow> ('w adapter \<Rightarrow> ('w, 'a) io) \<Rightarrow> ('w, 'a) io" where
  "with_adapter A body = finally_io (body (oa_adapter A)) (adapter_close A)"

definition with_client :: "'w owned_client \<Rightarrow> ('w client \<Rightarrow> ('w, 'a) io) \<Rightarrow> ('w, 'a) io" where
  "with_client C body = finally_io (body (ow_client C)) (client_close C)"

section \<open>What is closed\<close>

lemma new_client_owner:
  assumes "new_client mk b given attempts w = (Inr C, w')"
  shows "case given of None \<Rightarrow> mk b w = (Inr (ow_httpx C), w') \<and> client_close C = hx_close (ow_httpx C)
     | Some c \<Rightarrow> w' = w \<and> ow_httpx C = c \<and> client_close C = ret ()"
  using assms by (auto simp: new_client_def client_close_def bnd_def lift_def ret_def split: option.splits prod.splits sum.splits)

text \<open>An adapter that was given a transport leaves it alone: using it in a \<open>with\<close> block is running the body. One that
  was not given a transport closes the very \<open>httpx.Client\<close> that was made for its binding, after the body and however the
  body ended.\<close>

theorem adapter_closes_what_it_made:
  assumes "new_owned_adapter oc mk b given clock w = (Inr A, w')"
  shows "case given of
       Some (transport, _) \<Rightarrow> ap_transport (oa_adapter A) = transport \<and> w' = w \<and> with_adapter A body w1 = body (oa_adapter A) w1
     | None \<Rightarrow> \<exists>c. mk b w = (Inr c, w')
         \<and> (\<forall>r w2. body (oa_adapter A) w1 = (r, w2) \<longrightarrow> snd (with_adapter A body w1) = snd (hx_close c w2))"
proof (cases given)
  case None
  with assms obtain C where C: "new_client mk b None 3 w = (Inr C, w')" "adapter_close A = client_close C"
    by (auto simp: new_owned_adapter_def adapter_close_def bnd_def lift_def ret_def split: prod.splits sum.splits)
  from new_client_owner [OF C(1)] C(2) None show ?thesis
    by (auto simp: with_adapter_def finally_io_def split: prod.splits sum.splits)
next
  case (Some t)
  with assms show ?thesis
    by (auto simp: new_owned_adapter_def adapter_close_def mk_adapter_def with_adapter_def finally_io_def bnd_def lift_def ret_def
        bindE_Inr_iff split: prod.splits sum.splits)
qed

end
