(* ===== verification/Sbom.thy ===== *)
theory Sbom
  imports Codecs Object_Common "HOL-Library.Product_Lexorder" "HOL-Library.While_Combinator"
begin

text \<open>
  \<^verbatim>\<open>src/scripts/generate_sbom.py\<close>: the software bill of materials of the locked runtime closure. The lock file is what
  \<open>tomllib\<close> returns for it: a package is the record of the members the script reads, with the types the
  format gives them. The creation time, which comes from the environment, is an argument.
\<close>

section \<open>The locked runtime closure\<close>

record locked_package =
  lp_name :: string
  lp_version :: "string option"
  lp_dependencies :: "string list"
  lp_sdist_hash :: "string option"

definition ROOT_PACKAGE :: string where
  "ROOT_PACKAGE = ''meridian-storage-oci''"

text \<open>\<open>{item["name"]: item for item in lock["package"]}\<close>: a later item of the same name replaces an earlier one.\<close>

definition indexed :: "locked_package list \<Rightarrow> string \<Rightarrow> locked_package option" where
  "indexed lock = map_of (rev (map (\<lambda>p. (lp_name p, p)) lock))"

lemma indexed_name: "indexed lock n = Some p \<Longrightarrow> p \<in> set lock \<and> lp_name p = n"
  unfolding indexed_def by (drule map_of_SomeD) auto

text \<open>The loop \<open>while pending\<close>. A round takes the first pending name off and, unless it was selected already, selects
  its package, records its dependencies and appends them. The state is the names pending, the packages selected
  and the relationships, or the exception that ended the loop; a loop that never ends would be \<open>None\<close>.\<close>

type_synonym closure_state = "string list \<times> (string \<times> locked_package) list \<times> (string \<times> string) list"

fun close_running :: "exn + closure_state \<Rightarrow> bool" where
  "close_running (Inl e) = False"
| "close_running (Inr (pending, selected, relationships)) = (pending \<noteq> [])"

fun close_round :: "locked_package list \<Rightarrow> exn + closure_state \<Rightarrow> exn + closure_state" where
  "close_round lock (Inr (name # pending, selected, relationships)) =
     (if map_of selected name \<noteq> None then Inr (pending, selected, relationships)
      else (case indexed lock name of
              None \<Rightarrow> Inl (exn_of KeyError name)
            | Some package \<Rightarrow>
                Inr (pending @ lp_dependencies package, selected @ [(name, package)],
                  relationships @ map (\<lambda>d. (name, d)) (lp_dependencies package))))"
| "close_round lock state = state"

definition close_runtime :: "locked_package list \<Rightarrow> (exn + closure_state) option" where
  "close_runtime lock = while_option close_running (close_round lock) (Inr ([ROOT_PACKAGE], [], []))"

text \<open>The relationships are a set in the source, sorted at the end; so are the names.\<close>

definition locked_runtime_packages :: "locked_package list \<Rightarrow> (exn + locked_package list \<times> (string \<times> string) list) option" where
  "locked_runtime_packages lock =
     map_option (\<lambda>r. bindE r (\<lambda>(_, selected, relationships).
       Inr (map (\<lambda>name. the (map_of selected name)) (sort (map fst selected)), sort (remdups relationships))))
       (close_runtime lock)"

section \<open>The document\<close>

text \<open>\<open>re.sub(r"[^A-Za-z0-9.-]", "-", name)\<close>: every other character becomes one dash, however many octets it has.\<close>

definition spdx_char :: "char \<Rightarrow> bool" where
  "spdx_char c \<longleftrightarrow> (CHR ''A'' \<le> c \<and> c \<le> CHR ''Z'') \<or> (CHR ''a'' \<le> c \<and> c \<le> CHR ''z'') \<or> is_digit c \<or> c = CHR ''.'' \<or> c = CHR ''-''"

definition spdx_id :: "string \<Rightarrow> string" where
  "spdx_id name = ''SPDXRef-Package-'' @ map (\<lambda>c. if spdx_char c then c else CHR ''-'') (filter (\<lambda>c. \<not> cont_byte c) name)"

text \<open>\<open>item["version"]\<close>, and the checksum of an sdist: \<open>hash.split(":", 1)\<close> must give two parts.\<close>

definition package_version :: "locked_package \<Rightarrow> exn + string" where
  "package_version p = (case lp_version p of None \<Rightarrow> Inl (exn_of KeyError ''version'') | Some v \<Rightarrow> Inr v)"

definition sdist_checksums :: "locked_package \<Rightarrow> exn + fields" where
  "sdist_checksums p =
     (case lp_sdist_hash p of
        None \<Rightarrow> Inr []
      | Some h \<Rightarrow>
          if CHR '':'' \<notin> set h then Inl (exn_of ValueError ''not enough values to unpack (expected 2, got 1)'')
          else if before (CHR '':'') h = ''sha256''
          then Inr [(''checksums'', JArr [JObj [(''algorithm'', JStr ''SHA256''), (''checksumValue'', JStr (after (CHR '':'') h))]])]
          else Inr [])"

definition sbom_package :: "locked_package \<Rightarrow> exn + json" where
  "sbom_package p =
     bindE (package_version p) (\<lambda>version.
     bindE (sdist_checksums p) (\<lambda>checksums.
     Inr (JObj
       ([(''SPDXID'', JStr (spdx_id (lp_name p))), (''name'', JStr (lp_name p)), (''versionInfo'', JStr version),
         (''downloadLocation'', JStr (if lp_name p = ROOT_PACKAGE then ''NOASSERTION''
            else ''https://pypi.org/project/'' @ lp_name p @ ''/'' @ version @ ''/'')),
         (''filesAnalyzed'', JBool False), (''licenseConcluded'', JStr ''NOASSERTION''),
         (''licenseDeclared'', JStr (if startswith (lp_name p) ''meridian-storage-'' then ''Apache-2.0'' else ''NOASSERTION'')),
         (''copyrightText'', JStr ''NOASSERTION''),
         (''externalRefs'', JArr [JObj [(''referenceCategory'', JStr ''PACKAGE-MANAGER''), (''referenceType'', JStr ''purl''),
            (''referenceLocator'', JStr (''pkg:pypi/'' @ lp_name p @ ''@'' @ version))]])]
        @ checksums))))"

fun sbom_packages :: "locked_package list \<Rightarrow> exn + json list" where
  "sbom_packages [] = Inr []"
| "sbom_packages (p # ps) = bindE (sbom_package p) (\<lambda>j. bindE (sbom_packages ps) (\<lambda>js. Inr (j # js)))"

definition sbom_relationship :: "string \<Rightarrow> string \<Rightarrow> string \<Rightarrow> json" where
  "sbom_relationship source kind target =
     JObj [(''spdxElementId'', JStr source), (''relationshipType'', JStr kind), (''relatedSpdxElement'', JStr target)]"

text \<open>\<open>json.dumps([(name, version), ...], separators=(",", ":"))\<close> of the closure, hashed.\<close>

fun package_identity :: "locked_package list \<Rightarrow> exn + json list" where
  "package_identity [] = Inr []"
| "package_identity (p # ps) =
     bindE (package_version p) (\<lambda>v. bindE (package_identity ps) (\<lambda>js. Inr (JArr [JStr (lp_name p), JStr v] # js)))"

definition generate_sbom :: "string \<Rightarrow> locked_package list \<Rightarrow> (exn + json) option" where
  "generate_sbom created lock =
     map_option (\<lambda>r. bindE r (\<lambda>(locked, dependencies).
     bindE (package_identity locked) (\<lambda>identity.
     bindE (sbom_packages locked) (\<lambda>packages.
     Inr (JObj
       [(''spdxVersion'', JStr ''SPDX-2.3''), (''dataLicense'', JStr ''CC0-1.0''), (''SPDXID'', JStr ''SPDXRef-DOCUMENT''),
        (''name'', JStr ''meridian-storage-oci-1.1.0-runtime''),
        (''documentNamespace'', JStr (''https://github.com/zephytiju/MeridianOCIAdapter/sbom/'' @ hexdigest (dumps_ascii (JArr identity)))),
        (''creationInfo'', JObj
           [(''created'', JStr created), (''creators'', JArr [JStr ''Tool: meridian-storage-oci/scripts/generate_sbom.py'']),
            (''licenseListVersion'', JStr ''3.27.0'')]),
        (''packages'', JArr packages),
        (''relationships'', JArr (sbom_relationship ''SPDXRef-DOCUMENT'' ''DESCRIBES'' (spdx_id ROOT_PACKAGE)
           # map (\<lambda>(source, target). sbom_relationship (spdx_id source) ''DEPENDS_ON'' (spdx_id target)) dependencies))]))))) (locked_runtime_packages lock)"

end
