(* ===== verification/Sbom_Laws.thy ===== *)
theory Sbom_Laws
  imports Sbom
begin

text \<open>
  The bill of materials: the loop of the script ends on every lock file, cyclic or not, and selects exactly the
  packages the root package needs; the document it writes is closed and names every one of them once.
\<close>

section \<open>What the root package needs\<close>

inductive needed :: "locked_package list \<Rightarrow> string \<Rightarrow> bool" for lock where
  needed_root: "needed lock ROOT_PACKAGE"
| needed_dependency: "needed lock a \<Longrightarrow> indexed lock a = Some p \<Longrightarrow> b \<in> set (lp_dependencies p) \<Longrightarrow> needed lock b"

definition runtime_edges :: "locked_package list \<Rightarrow> (string \<times> string) set" where
  "runtime_edges lock = {(a, b). \<exists>p. needed lock a \<and> indexed lock a = Some p \<and> b \<in> set (lp_dependencies p)}"

section \<open>The loop\<close>

text \<open>The invariant: what is selected or pending is needed, selected packages are the lock's, each once, and what they
  depend on is selected or pending.\<close>

fun closing :: "locked_package list \<Rightarrow> exn + closure_state \<Rightarrow> bool" where
  "closing lock (Inl e) = (\<exists>n. needed lock n \<and> indexed lock n = None \<and> e = exn_of KeyError n)"
| "closing lock (Inr (pending, selected, relationships)) =
     (distinct (map fst selected) \<and> (\<forall>(n, p) \<in> set selected. indexed lock n = Some p \<and> needed lock n)
      \<and> (\<forall>n \<in> set pending. needed lock n) \<and> ROOT_PACKAGE \<in> fst ` set selected \<union> set pending
      \<and> (\<forall>(n, p) \<in> set selected. set (lp_dependencies p) \<subseteq> fst ` set selected \<union> set pending)
      \<and> set relationships = {(a, b). \<exists>p. (a, p) \<in> set selected \<and> b \<in> set (lp_dependencies p)})"

lemma closing_start: "closing lock (Inr ([ROOT_PACKAGE], [], []))"
  by (simp add: needed_root)

lemma closing_round:
  assumes "closing lock s" "close_running s"
  shows "closing lock (close_round lock s)"
proof -
  obtain name pending selected relationships where s: "s = Inr (name # pending, selected, relationships)"
    using assms(2) by (cases s rule: close_running.cases) (auto simp: neq_Nil_conv)
  show ?thesis
  proof (cases "map_of selected name")
    case (Some p)
    then have "name \<in> fst ` set selected" by (force dest: map_of_SomeD)
    then have "fst ` set selected \<union> set (name # pending) = fst ` set selected \<union> set pending" by auto
    moreover have "\<forall>n \<in> set pending. needed lock n" "close_round lock s = Inr (pending, selected, relationships)"
      using assms(1) Some by (simp_all add: s)
    ultimately show ?thesis using assms(1) unfolding s by (simp only: closing.simps) blast
  next
    case None
    then have new: "name \<notin> fst ` set selected" by (simp add: map_of_eq_None_iff)
    show ?thesis
    proof (cases "indexed lock name")
      case None
      with \<open>map_of selected name = None\<close> assms(1) show ?thesis by (auto simp: s)
    next
      case (Some p)
      have "needed lock name" using assms(1) by (simp add: s)
      then have "\<forall>n \<in> set (lp_dependencies p). needed lock n" using Some by (blast intro: needed_dependency)
      with new None Some assms(1) show ?thesis by (auto simp: s)
    qed
  qed
qed

text \<open>A round selects a package of the lock that was not selected before, or leaves fewer names pending.\<close>

fun closing_size :: "locked_package list \<Rightarrow> exn + closure_state \<Rightarrow> nat \<times> nat" where
  "closing_size lock (Inl e) = (0, 0)"
| "closing_size lock (Inr (pending, selected, relationships)) =
     (Suc (card (lp_name ` set lock - fst ` set selected)), length pending)"

lemma closing_decreases:
  assumes "close_running s"
  shows "(closing_size lock (close_round lock s), closing_size lock s) \<in> less_than <*lex*> less_than"
proof -
  obtain name pending selected relationships where s: "s = Inr (name # pending, selected, relationships)"
    using assms by (cases s rule: close_running.cases) (auto simp: neq_Nil_conv)
  have "card (lp_name ` set lock - insert name (fst ` set selected)) < card (lp_name ` set lock - fst ` set selected)"
    if "map_of selected name = None" "indexed lock name = Some p" for p
    using that indexed_name [OF that(2)] by (intro psubset_card_mono) (auto simp: map_of_eq_None_iff)
  then show ?thesis by (auto simp: s split: option.splits)
qed

lemma close_runtime_ends: "\<exists>r. close_runtime lock = Some r \<and> closing lock r \<and> \<not> close_running r"
proof -
  have wf: "wf {(t, s). (closing lock s \<and> close_running s) \<and> t = close_round lock s}"
    by (rule wf_subset [OF wf_inv_image [OF wf_lex_prod [OF wf_less_than wf_less_than], of "closing_size lock"]])
      (use closing_decreases in \<open>auto simp: inv_image_def\<close>)
  from wf_while_option_Some [OF wf, of "Inr ([ROOT_PACKAGE], [], [])"] closing_round closing_start
  obtain r where r: "close_runtime lock = Some r" unfolding close_runtime_def by blast
  have "closing lock r"
    using while_option_rule [where P = "closing lock", OF closing_round r [unfolded close_runtime_def] closing_start] .
  with r while_option_stop [OF r [unfolded close_runtime_def]] show ?thesis by blast
qed

lemma closure_result:
  "\<exists>r. locked_runtime_packages lock = Some r \<and> (case r of
      Inl e \<Rightarrow> \<exists>n. needed lock n \<and> indexed lock n = None \<and> e = exn_of KeyError n
    | Inr (packages, relationships) \<Rightarrow>
        map (\<lambda>p. indexed lock (lp_name p)) packages = map Some packages
        \<and> sorted_wrt (<) (map lp_name packages) \<and> set (map lp_name packages) = {n. needed lock n}
        \<and> sorted_wrt (<) relationships \<and> set relationships = runtime_edges lock)"
proof -
  obtain r where r: "close_runtime lock = Some r" "closing lock r" "\<not> close_running r" using close_runtime_ends by blast
  show ?thesis
  proof (cases r)
    case (Inl e)
    with r(1,2) show ?thesis by (simp add: locked_runtime_packages_def)
  next
    case (Inr st)
    obtain selected relationships where st: "st = ([], selected, relationships)"
      using r(3) Inr by (cases st rule: prod_cases3) auto
    note inv = r(2) [unfolded Inr st closing.simps]
    let ?names = "sort (map fst selected)" and ?get = "\<lambda>n. the (map_of selected n)"
    have get: "indexed lock n = Some (?get n) \<and> lp_name (?get n) = n" if "n \<in> set (map fst selected)" for n
    proof -
      from that obtain p where "map_of selected n = Some p" by (metis domIff dom_map_of_conv_image_fst image_set not_None_eq)
      moreover from this have "indexed lock n = Some p" using inv by (auto dest: map_of_SomeD)
      ultimately show ?thesis using indexed_name by simp
    qed
    have n: "map lp_name (map ?get ?names) = ?names" "map (\<lambda>p. indexed lock (lp_name p)) (map ?get ?names) = map Some (map ?get ?names)"
      using get by (auto intro!: map_idI simp: comp_def)
    have all: "n \<in> fst ` set selected" if "needed lock n" for n
      using that
    proof induction
      case needed_root
      then show ?case using inv by simp
    next
      case (needed_dependency a p b)
      then obtain q where "(a, q) \<in> set selected" by auto
      with inv needed_dependency show ?case by fastforce
    qed
    then have names: "set ?names = {n. needed lock n}" using inv by auto
    have edges: "set relationships = runtime_edges lock"
    proof -
      have i: "\<forall>(n, p) \<in> set selected. indexed lock n = Some p \<and> needed lock n" using inv by (elim conjE)
      have "(a, p) \<in> set selected \<longleftrightarrow> needed lock a \<and> indexed lock a = Some p" for a p
      proof
        assume a: "needed lock a \<and> indexed lock a = Some p"
        with all obtain q where "(a, q) \<in> set selected" by (metis imageE prod.collapse)
        with i a show "(a, p) \<in> set selected" by auto
      qed (use i in auto)
      moreover have "set relationships = {(a, b). \<exists>p. (a, p) \<in> set selected \<and> b \<in> set (lp_dependencies p)}"
        using inv by (elim conjE)
      ultimately show ?thesis by (simp add: runtime_edges_def conj_assoc)
    qed
    then have rels: "set (sort (remdups relationships)) = runtime_edges lock" by simp
    have "locked_runtime_packages lock = Some (Inr (map ?get ?names, sort (remdups relationships)))"
      using r(1) by (simp add: locked_runtime_packages_def Inr st)
    moreover have "sorted_wrt (<) ?names" "sorted_wrt (<) (sort (remdups relationships))"
      using inv by (simp_all add: strict_sorted_iff)
    ultimately show ?thesis
      by (intro exI [of _ "Inr (map ?get ?names, sort (remdups relationships))"]) (simp only: sum.case prod.case n names edges rels simp_thms)
  qed
qed

lemma closure_Inr:
  assumes "locked_runtime_packages lock = Some (Inr (packages, relationships))"
  shows "map (\<lambda>p. indexed lock (lp_name p)) packages = map Some packages
        \<and> sorted_wrt (<) (map lp_name packages) \<and> set (map lp_name packages) = {n. needed lock n}
        \<and> sorted_wrt (<) relationships \<and> set relationships = runtime_edges lock"
  using closure_result [of lock] assms by simp

text \<open>C29. The dependency closure of the bill of materials always ends, also when packages depend on each other in a
  cycle: either some package the root needs, directly or through others, is not in the lock, and the script
  stops with the \<open>KeyError\<close> of one; or it returns exactly the needed packages, each once and in the order of
  their names, as the lock has them, and exactly the dependencies between them, each once and in order.\<close>

theorem runtime_closure_ends:
  "\<exists>r. locked_runtime_packages lock = Some r \<and> (case r of
      Inl e \<Rightarrow> \<exists>n. needed lock n \<and> indexed lock n = None \<and> e = exn_of KeyError n
    | Inr (packages, relationships) \<Rightarrow>
        map (\<lambda>p. indexed lock (lp_name p)) packages = map Some packages
        \<and> sorted_wrt (<) (map lp_name packages) \<and> set (map lp_name packages) = {n. needed lock n}
        \<and> sorted_wrt (<) relationships \<and> set relationships = runtime_edges lock)"
  by (rule closure_result)

section \<open>The document\<close>

lemma sbom_package_fields:
  assumes "sbom_package p = Inr j"
  shows "obj_get (fields_of j) ''name'' = JStr (lp_name p)" "obj_get (fields_of j) ''SPDXID'' = JStr (spdx_id (lp_name p))"
    "\<exists>v. lp_version p = Some v \<and> obj_get (fields_of j) ''versionInfo'' = JStr v"
  using assms by (auto simp: sbom_package_def package_version_def obj_get_def split: option.splits)

lemma sbom_packages_fields:
  "sbom_packages ps = Inr js \<Longrightarrow>
     map (\<lambda>j. obj_get (fields_of j) ''name'') js = map (\<lambda>p. JStr (lp_name p)) ps
     \<and> map (\<lambda>j. obj_get (fields_of j) ''SPDXID'') js = map (\<lambda>p. JStr (spdx_id (lp_name p))) ps
     \<and> map (\<lambda>j. obj_get (fields_of j) ''versionInfo'') js = map (\<lambda>p. JStr (the (lp_version p))) ps"
proof (induction ps arbitrary: js)
  case (Cons p ps)
  then obtain j ks where "sbom_package p = Inr j" "sbom_packages ps = Inr ks" "js = j # ks" by auto
  with Cons.IH [of ks] sbom_package_fields [of p j] show ?case by auto
qed simp

lemma spdx_id_plain: "list_all spdx_char n \<Longrightarrow> spdx_id n = ''SPDXRef-Package-'' @ n"
proof -
  have "\<not> cont_byte c" if "spdx_char c" for c using that unfolding spdx_char_def is_digit_def cont_byte_def by (auto simp: less_eq_char_def)
  then show "list_all spdx_char n \<Longrightarrow> spdx_id n = ''SPDXRef-Package-'' @ n"
    by (simp add: spdx_id_def list_all_iff filter_id_conv map_idI)
qed

lemma generate_sbom_Inr:
  assumes "generate_sbom created lock = Some (Inr (JObj fs))"
  obtains locked dependencies packages where
    "locked_runtime_packages lock = Some (Inr (locked, dependencies))" "sbom_packages locked = Inr packages"
    "obj_get fs ''packages'' = JArr packages"
    "obj_get fs ''relationships'' = JArr (sbom_relationship ''SPDXRef-DOCUMENT'' ''DESCRIBES'' (spdx_id ROOT_PACKAGE)
           # map (\<lambda>(source, target). sbom_relationship (spdx_id source) ''DEPENDS_ON'' (spdx_id target)) dependencies)"
proof -
  from assms obtain r where r: "locked_runtime_packages lock = Some r" by (auto simp: generate_sbom_def)
  with assms obtain locked dependencies where "r = Inr (locked, dependencies)" by (cases r) (auto simp: generate_sbom_def)
  with r assms that show thesis by (auto simp: generate_sbom_def obj_get_def)
qed

text \<open>C30. The bill of materials is closed and complete: a document that is written lists exactly the packages the root
  needs, by name in order and with the locked version; every relationship is between the document or listed
  packages, the document describes the root package, and the dependencies are exactly those of the
  lock; and if no two needed names collapse to one identifier (plain names never do), the identifiers are
  distinct.\<close>

theorem sbom_closed:
  assumes "generate_sbom created lock = Some (Inr (JObj fs))"
  shows "\<exists>packages relationships. obj_get fs ''packages'' = JArr packages
    \<and> obj_get fs ''relationships'' = JArr (sbom_relationship ''SPDXRef-DOCUMENT'' ''DESCRIBES'' (spdx_id ROOT_PACKAGE) # relationships)
    \<and> (\<exists>names. sorted_wrt (<) names \<and> set names = {n. needed lock n} \<and> map (\<lambda>j. obj_get (fields_of j) ''name'') packages = map JStr names
         \<and> map (\<lambda>j. obj_get (fields_of j) ''SPDXID'') packages = map (\<lambda>n. JStr (spdx_id n)) names
         \<and> map (\<lambda>j. obj_get (fields_of j) ''versionInfo'') packages = map (\<lambda>n. JStr (the (lp_version (the (indexed lock n))))) names
         \<and> (inj_on spdx_id (set names) \<longrightarrow> distinct (map (\<lambda>j. obj_get (fields_of j) ''SPDXID'') packages)))
    \<and> set relationships = (\<lambda>(a, b). sbom_relationship (spdx_id a) ''DEPENDS_ON'' (spdx_id b)) ` runtime_edges lock
    \<and> runtime_edges lock \<subseteq> {n. needed lock n} \<times> {n. needed lock n} \<and> needed lock ROOT_PACKAGE
    \<and> inj_on spdx_id {n. list_all spdx_char n}"
proof -
  from assms obtain locked dependencies packages where
    l: "locked_runtime_packages lock = Some (Inr (locked, dependencies))" and p: "sbom_packages locked = Inr packages"
    and d: "obj_get fs ''packages'' = JArr packages"
      "obj_get fs ''relationships'' = JArr (sbom_relationship ''SPDXRef-DOCUMENT'' ''DESCRIBES'' (spdx_id ROOT_PACKAGE)
           # map (\<lambda>(source, target). sbom_relationship (spdx_id source) ''DEPENDS_ON'' (spdx_id target)) dependencies)"
    by (rule generate_sbom_Inr)
  from closure_Inr [OF l] have c: "map (\<lambda>p. indexed lock (lp_name p)) locked = map Some locked" "sorted_wrt (<) (map lp_name locked)"
    "set (map lp_name locked) = {n. needed lock n}" "set dependencies = runtime_edges lock" by blast+
  have v: "map (\<lambda>p. JStr (the (lp_version p))) locked = map (\<lambda>n. JStr (the (lp_version (the (indexed lock n))))) (map lp_name locked)"
    using c(1) by (auto simp: map_eq_conv)
  have "distinct (map lp_name locked)" using c(2) strict_sorted_iff by blast
  then have "inj_on spdx_id (set (map lp_name locked)) \<longrightarrow> distinct (map (\<lambda>n. JStr (spdx_id n)) (map lp_name locked))"
    by (auto simp: distinct_map inj_on_def)
  moreover have "runtime_edges lock \<subseteq> {n. needed lock n} \<times> {n. needed lock n}"
    unfolding runtime_edges_def by (auto intro: needed_dependency)
  moreover have "inj_on spdx_id {n. list_all spdx_char n}" by (rule inj_onI) (simp add: spdx_id_plain)
  moreover have "set (map (\<lambda>(source, target). sbom_relationship (spdx_id source) ''DEPENDS_ON'' (spdx_id target)) dependencies)
      = (\<lambda>(a, b). sbom_relationship (spdx_id a) ''DEPENDS_ON'' (spdx_id b)) ` runtime_edges lock" by (simp add: c(4))
  moreover note sbom_packages_fields [OF p]
  ultimately show ?thesis using d c(2,3) v
    by (intro exI [of _ packages] exI [of _ "map (\<lambda>(source, target). sbom_relationship (spdx_id source) ''DEPENDS_ON'' (spdx_id target)) dependencies"]
        conjI exI [of _ "map lp_name locked"] needed_root) (simp_all add: comp_def)
qed

text \<open>A lock with a cycle and a package the root does not need.\<close>

definition cyclic_lock :: "locked_package list" where
  "cyclic_lock =
     [\<lparr>lp_name = ''idna'', lp_version = Some ''3.10'', lp_dependencies = [ROOT_PACKAGE], lp_sdist_hash = Some ''sha256:00''\<rparr>,
      \<lparr>lp_name = ROOT_PACKAGE, lp_version = Some ''1.1.0'', lp_dependencies = [''idna''], lp_sdist_hash = None\<rparr>,
      \<lparr>lp_name = ''ruff'', lp_version = None, lp_dependencies = [], lp_sdist_hash = None\<rparr>]"

lemma cyclic_closure:
  "locked_runtime_packages cyclic_lock = Some (Inr
     ([\<lparr>lp_name = ''idna'', lp_version = Some ''3.10'', lp_dependencies = [ROOT_PACKAGE], lp_sdist_hash = Some ''sha256:00''\<rparr>,
       \<lparr>lp_name = ROOT_PACKAGE, lp_version = Some ''1.1.0'', lp_dependencies = [''idna''], lp_sdist_hash = None\<rparr>],
      [(''idna'', ROOT_PACKAGE), (ROOT_PACKAGE, ''idna'')]))"
  by (simp add: locked_runtime_packages_def close_runtime_def while_option_unfold cyclic_lock_def indexed_def ROOT_PACKAGE_def
      insort_key.simps less_char_def less_eq_char_def)

theorem sbom_closed_witness:
  "\<exists>fs. generate_sbom ''1970-01-01T00:00:00Z'' cyclic_lock = Some (Inr (JObj fs))
     \<and> (\<exists>packages. obj_get fs ''packages'' = JArr packages \<and> map (\<lambda>j. obj_get (fields_of j) ''name'') packages = [JStr ''idna'', JStr ROOT_PACKAGE])"
proof -
  obtain fs where g: "generate_sbom ''1970-01-01T00:00:00Z'' cyclic_lock = Some (Inr (JObj fs))"
    by (simp add: generate_sbom_def cyclic_closure package_version_def sbom_package_def sdist_checksums_def before_def after_def)
  obtain locked dependencies packages where l: "locked_runtime_packages cyclic_lock = Some (Inr (locked, dependencies))"
    and p: "sbom_packages locked = Inr packages" "obj_get fs ''packages'' = JArr packages"
    by (rule generate_sbom_Inr [OF g])
  have "map lp_name locked = [''idna'', ROOT_PACKAGE]" using l cyclic_closure by auto
  moreover have "map (\<lambda>j. obj_get (fields_of j) ''name'') packages = map JStr (map lp_name locked)"
    using sbom_packages_fields [OF p(1)] by (simp add: comp_def)
  ultimately have n: "map (\<lambda>j. obj_get (fields_of j) ''name'') packages = [JStr ''idna'', JStr ROOT_PACKAGE]" by simp
  from sbom_closed [OF g] obtain packages' where "obj_get fs ''packages'' = JArr packages'" by (elim exE conjE) (rule that)
  with p(2) n g show ?thesis by (intro exI [of _ fs] conjI exI [of _ packages']) simp_all
qed

end
