(* ===== verification/Artifacts.thy ===== *)
theory Artifacts
  imports Client Url_Laws
begin

text \<open>
  \<^verbatim>\<open>src/scripts/verify_artifacts.py\<close>: the checks of the built wheel and source distribution. An archive is its file
  name, its octets and what the archive modules list of it; the metadata member of a wheel is the header lines
  the e-mail parser reads. A failed assertion is the \<open>AssertionError\<close> it raises.
\<close>

section \<open>The checks\<close>

definition EXPECTED_NAME :: string where
  "EXPECTED_NAME = ''meridian-storage-oci''"

definition EXPECTED_VERSION :: string where
  "EXPECTED_VERSION = ''1.1.0''"

definition PACKAGE_PATH :: string where
  "PACKAGE_PATH = ''meridian_storage/adapters/oci/''"

record wheel_archive =
  wh_filename :: string
  wh_bytes :: string
  wh_names :: "string list"
  wh_metadata :: "string \<Rightarrow> headers"

record sdist_archive =
  sd_filename :: string
  sd_bytes :: string
  sd_names :: "string list"

text \<open>\<open>message[name]\<close>: the first header of that name, in any case, or \<open>None\<close>.\<close>

definition message_get :: "headers \<Rightarrow> string \<Rightarrow> string option" where
  "message_get hs name = (case header_values hs name of [] \<Rightarrow> None | v # _ \<Rightarrow> Some v)"

abbreviation py_assert :: "bool \<Rightarrow> exn + unit" where
  "py_assert c \<equiv> guardE c (bare_exn AssertionError)"

definition metadata_names :: "string list \<Rightarrow> string list" where
  "metadata_names names = filter (\<lambda>n. suffix ''.dist-info/METADATA'' n) (remdups names)"

definition python_roots :: "string list \<Rightarrow> string set" where
  "python_roots names = set (map (before (CHR ''/'')) (filter (\<lambda>n. suffix ''.py'' n \<and> \<not> contains n ''.dist-info/'') names))"

definition check_wheel :: "wheel_archive \<Rightarrow> exn + unit" where
  "check_wheel w =
     (let names = wh_names w
      in case metadata_names names of
           [member] \<Rightarrow>
             (let parsed = wh_metadata w member
              in bindE (py_assert (message_get parsed ''Name'' = Some EXPECTED_NAME)) (\<lambda>_.
                 bindE (py_assert (message_get parsed ''Version'' = Some EXPECTED_VERSION)) (\<lambda>_.
                 bindE (py_assert (message_get parsed ''License-Expression'' = Some ''Apache-2.0'')) (\<lambda>_.
                 bindE (py_assert (PACKAGE_PATH @ ''py.typed'' \<in> set names)) (\<lambda>_.
                 bindE (py_assert (PACKAGE_PATH @ ''compatibility.json'' \<in> set names)) (\<lambda>_.
                 bindE (py_assert (list_ex (\<lambda>n. suffix ''.dist-info/licenses/LICENSE'' n) names)) (\<lambda>_.
                 bindE (py_assert (list_ex (\<lambda>n. suffix ''.dist-info/licenses/NOTICE'' n) names)) (\<lambda>_.
                 py_assert (python_roots names = {''meridian_storage''})))))))))
         | _ \<Rightarrow> Inl (bare_exn AssertionError))"

definition check_sdist :: "sdist_archive \<Rightarrow> exn + unit" where
  "check_sdist s =
     (let names = sd_names s; pfx = ''meridian_storage_oci-'' @ EXPECTED_VERSION @ ''/''
      in bindE (py_assert (pfx @ ''LICENSE'' \<in> set names)) (\<lambda>_.
         bindE (py_assert (pfx @ ''NOTICE'' \<in> set names)) (\<lambda>_.
         bindE (py_assert (pfx @ ''pyproject.toml'' \<in> set names)) (\<lambda>_.
         bindE (py_assert (pfx @ ''src/'' @ PACKAGE_PATH @ ''compatibility.json'' \<in> set names)) (\<lambda>_.
         py_assert (\<not> list_ex (\<lambda>n. contains n ''../'' \<or> startswith n ''/'') names))))))"

text \<open>\<open>verify(directory)\<close> on the wheels and source distributions the directory holds, sorted.\<close>

definition verify_artifacts :: "wheel_archive list \<Rightarrow> sdist_archive list \<Rightarrow> exn + fields" where
  "verify_artifacts wheels sdists =
     (case wheels of
        [wheel] \<Rightarrow>
          (case sdists of
             [sdist] \<Rightarrow>
               bindE (check_wheel wheel) (\<lambda>_.
               bindE (check_sdist sdist) (\<lambda>_.
               Inr [(''formatVersion'', JStr ''meridian-storage-oci-artifacts.v1''), (''name'', JStr EXPECTED_NAME),
                    (''version'', JStr EXPECTED_VERSION),
                    (''artifacts'', JArr
                       [JObj [(''filename'', JStr (wh_filename wheel)), (''sha256'', JStr (hexdigest (wh_bytes wheel)))],
                        JObj [(''filename'', JStr (sd_filename sdist)), (''sha256'', JStr (hexdigest (sd_bytes sdist)))]]),
                    (''status'', JStr ''passed'')]))
           | _ \<Rightarrow> Inl (exn_of AssertionError ''exactly one meridian-storage-oci sdist is required''))
      | _ \<Rightarrow> Inl (exn_of AssertionError ''exactly one meridian-storage-oci wheel is required''))"

section \<open>What an accepted build is\<close>

text \<open>A component of a path that is not its last one is followed by a slash in it.\<close>

lemma split_component:
  "x \<in> set (butlast (split_char c s)) \<Longrightarrow> \<exists>a b. s = a @ x @ c # b"
proof (induction s arbitrary: x)
  case (Cons d s)
  show ?case
  proof (cases "d = c")
    case True
    then have "x = [] \<or> x \<in> set (butlast (split_char c s))" using Cons.prems by auto
    then show ?thesis
    proof
      assume "x \<in> set (butlast (split_char c s))"
      from Cons.IH [OF this] obtain a b where "s = a @ x @ c # b" by blast
      then have "d # s = (d # a) @ x @ c # b" by simp
      then show ?thesis by blast
    qed (use True in \<open>auto intro: exI [of _ "[]"]\<close>)
  next
    case False
    obtain p ps where s: "split_char c s = p # ps" by (cases "split_char c s") auto
    with False Cons.prems have x: "x \<in> set (butlast ((d # p) # ps))" by simp
    then consider "ps \<noteq> []" "x = d # p" | "x \<in> set (butlast ps)" "ps \<noteq> []" by (cases ps) auto
    then show ?thesis
    proof cases
      case 1
      then obtain q qs where "ps = q # qs" by (cases ps) auto
      then have "s = p @ c # join [c] ps" using s join_split_char [of c s] by simp
      then have "d # s = [] @ x @ c # join [c] ps" using 1 by simp
      then show ?thesis by blast
    next
      case 2
      then have "x \<in> set (butlast (split_char c s))" using s by simp
      from Cons.IH [OF this] obtain a b where "s = a @ x @ c # b" by blast
      then have "d # s = (d # a) @ x @ c # b" by simp
      then show ?thesis by blast
    qed
  qed
qed simp

lemma no_parent_component:
  assumes "\<not> contains n ''../''"
  shows "''..'' \<notin> set (butlast (split_char (CHR ''/'') n))"
proof
  assume "''..'' \<in> set (butlast (split_char (CHR ''/'') n))"
  from split_component [OF this] obtain a b where "n = a @ ''..'' @ CHR ''/'' # b" by blast
  then have "n = a @ ''../'' @ b" by simp
  with assms show False unfolding sublist_def by blast
qed

lemma check_wheel_Inr:
  assumes "check_wheel w = Inr ()"
  obtains member where "metadata_names (wh_names w) = [member]"
    "message_get (wh_metadata w member) ''Name'' = Some EXPECTED_NAME" "message_get (wh_metadata w member) ''Version'' = Some EXPECTED_VERSION"
    "message_get (wh_metadata w member) ''License-Expression'' = Some ''Apache-2.0''"
    "{PACKAGE_PATH @ ''py.typed'', PACKAGE_PATH @ ''compatibility.json''} \<subseteq> set (wh_names w)"
    "\<exists>n \<in> set (wh_names w). suffix ''.dist-info/licenses/LICENSE'' n" "\<exists>n \<in> set (wh_names w). suffix ''.dist-info/licenses/NOTICE'' n"
    "python_roots (wh_names w) = {''meridian_storage''}"
  using assms unfolding check_wheel_def Let_def guardE_def by (auto simp: list_ex_iff split: list.splits if_splits)

lemma check_sdist_Inr:
  assumes "check_sdist s = Inr ()"
  shows "{''meridian_storage_oci-'' @ EXPECTED_VERSION @ ''/'' @ n |n. n \<in> {''LICENSE'', ''NOTICE'', ''pyproject.toml'', ''src/'' @ PACKAGE_PATH @ ''compatibility.json''}}
      \<subseteq> set (sd_names s)"
    "\<forall>n \<in> set (sd_names s). \<not> startswith n ''/'' \<and> ''..'' \<notin> set (butlast (split_char (CHR ''/'') n))"
proof -
  have "list_all (\<lambda>n. \<not> contains n ''../'' \<and> \<not> startswith n ''/'') (sd_names s)"
    using assms unfolding check_sdist_def Let_def guardE_def by (auto simp: list_ex_iff list_all_iff split: if_splits)
  then show "\<forall>n \<in> set (sd_names s). \<not> startswith n ''/'' \<and> ''..'' \<notin> set (butlast (split_char (CHR ''/'') n))"
    using no_parent_component unfolding list_all_iff by blast
qed (use assms in \<open>auto simp: check_sdist_def guardE_def Let_def split: if_splits\<close>)

text \<open>C39. An accepted build is what it says: there is one wheel and one source distribution; the wheel's single
  metadata member names the distribution, its version and its licence; the wheel holds the package's \<open>py.typed\<close>
  and \<open>compatibility.json\<close>, a LICENSE and a NOTICE among its metadata, and at least one module, all of them
  outside the metadata under the one top-level package; the source distribution holds, under its versioned
  directory, LICENSE, NOTICE, \<open>pyproject.toml\<close> and the package's \<open>compatibility.json\<close>, and no member of it is an
  absolute path or steps to a parent directory on the way to its last component; and the report names the
  distribution and its version and carries the SHA-256 of exactly these two files.\<close>

theorem verify_artifacts_sound:
  assumes "verify_artifacts wheels sdists = Inr report"
  shows "\<exists>w s member. wheels = [w] \<and> sdists = [s] \<and> {n \<in> set (wh_names w). suffix ''.dist-info/METADATA'' n} = {member}
    \<and> message_get (wh_metadata w member) ''Name'' = Some ''meridian-storage-oci'' \<and> message_get (wh_metadata w member) ''Version'' = Some ''1.1.0''
    \<and> message_get (wh_metadata w member) ''License-Expression'' = Some ''Apache-2.0''
    \<and> {''meridian_storage/adapters/oci/py.typed'', ''meridian_storage/adapters/oci/compatibility.json''} \<subseteq> set (wh_names w)
    \<and> (\<exists>n \<in> set (wh_names w). suffix ''.dist-info/licenses/LICENSE'' n) \<and> (\<exists>n \<in> set (wh_names w). suffix ''.dist-info/licenses/NOTICE'' n)
    \<and> (\<exists>n \<in> set (wh_names w). suffix ''.py'' n \<and> \<not> contains n ''.dist-info/'')
    \<and> (\<forall>n \<in> set (wh_names w). suffix ''.py'' n \<longrightarrow> contains n ''.dist-info/'' \<or> before (CHR ''/'') n = ''meridian_storage'')
    \<and> {''meridian_storage_oci-1.1.0/LICENSE'', ''meridian_storage_oci-1.1.0/NOTICE'', ''meridian_storage_oci-1.1.0/pyproject.toml'',
        ''meridian_storage_oci-1.1.0/src/meridian_storage/adapters/oci/compatibility.json''} \<subseteq> set (sd_names s)
    \<and> (\<forall>n \<in> set (sd_names s). \<not> startswith n ''/'' \<and> ''..'' \<notin> set (butlast (split_char (CHR ''/'') n)))
    \<and> report = [(''formatVersion'', JStr ''meridian-storage-oci-artifacts.v1''), (''name'', JStr ''meridian-storage-oci''),
        (''version'', JStr ''1.1.0''), (''artifacts'', JArr
          [JObj [(''filename'', JStr (wh_filename w)), (''sha256'', JStr (hexdigest (wh_bytes w)))],
           JObj [(''filename'', JStr (sd_filename s)), (''sha256'', JStr (hexdigest (sd_bytes s)))]]), (''status'', JStr ''passed'')]"
proof -
  from assms obtain w s where a: "wheels = [w]" "sdists = [s]" "check_wheel w = Inr ()" "check_sdist s = Inr ()"
    and r: "report = [(''formatVersion'', JStr ''meridian-storage-oci-artifacts.v1''), (''name'', JStr EXPECTED_NAME),
        (''version'', JStr EXPECTED_VERSION), (''artifacts'', JArr
          [JObj [(''filename'', JStr (wh_filename w)), (''sha256'', JStr (hexdigest (wh_bytes w)))],
           JObj [(''filename'', JStr (sd_filename s)), (''sha256'', JStr (hexdigest (sd_bytes s)))]]), (''status'', JStr ''passed'')]"
    unfolding verify_artifacts_def by (auto split: list.splits)
  from a(3) obtain member where m: "metadata_names (wh_names w) = [member]"
    "message_get (wh_metadata w member) ''Name'' = Some EXPECTED_NAME" "message_get (wh_metadata w member) ''Version'' = Some EXPECTED_VERSION"
    "message_get (wh_metadata w member) ''License-Expression'' = Some ''Apache-2.0''"
    "{PACKAGE_PATH @ ''py.typed'', PACKAGE_PATH @ ''compatibility.json''} \<subseteq> set (wh_names w)"
    "\<exists>n \<in> set (wh_names w). suffix ''.dist-info/licenses/LICENSE'' n" "\<exists>n \<in> set (wh_names w). suffix ''.dist-info/licenses/NOTICE'' n"
    "python_roots (wh_names w) = {''meridian_storage''}" by (rule check_wheel_Inr)
  have "set (metadata_names (wh_names w)) = {n \<in> set (wh_names w). suffix ''.dist-info/METADATA'' n}" by (simp add: metadata_names_def)
  then have "{n \<in> set (wh_names w). suffix ''.dist-info/METADATA'' n} = {member}" using m(1) by simp
  moreover
  have root: "''meridian_storage'' \<in> python_roots (wh_names w)" "x \<in> python_roots (wh_names w) \<Longrightarrow> x = ''meridian_storage''" for x
    using m(8) by simp_all
  have "\<exists>n \<in> set (wh_names w). suffix ''.py'' n \<and> \<not> contains n ''.dist-info/''" using root(1) unfolding python_roots_def by auto
  moreover have "contains n ''.dist-info/'' \<or> before (CHR ''/'') n = ''meridian_storage''" if "n \<in> set (wh_names w)" "suffix ''.py'' n" for n
    using root(2) [of "before (CHR ''/'') n"] that unfolding python_roots_def by auto
  then have "\<forall>n \<in> set (wh_names w). suffix ''.py'' n \<longrightarrow> contains n ''.dist-info/'' \<or> before (CHR ''/'') n = ''meridian_storage''" by blast
  moreover have "{''meridian_storage_oci-1.1.0/LICENSE'', ''meridian_storage_oci-1.1.0/NOTICE'', ''meridian_storage_oci-1.1.0/pyproject.toml'',
      ''meridian_storage_oci-1.1.0/src/meridian_storage/adapters/oci/compatibility.json''} \<subseteq> set (sd_names s)"
    using check_sdist_Inr(1) [OF a(4)] unfolding EXPECTED_VERSION_def PACKAGE_PATH_def by auto
  moreover have "{''meridian_storage/adapters/oci/py.typed'', ''meridian_storage/adapters/oci/compatibility.json''} \<subseteq> set (wh_names w)"
    using m(5) by (simp add: PACKAGE_PATH_def)
  ultimately show ?thesis
    using a(1,2) m(2-4) [unfolded EXPECTED_NAME_def EXPECTED_VERSION_def] m(6,7) r [unfolded EXPECTED_NAME_def EXPECTED_VERSION_def]
      check_sdist_Inr(2) [OF a(4)]
    by (intro exI [of _ w] exI [of _ s] exI [of _ member] conjI) assumption+
qed

definition example_wheel :: wheel_archive where
  "example_wheel =
     \<lparr>wh_filename = ''meridian_storage_oci-1.1.0-py3-none-any.whl'', wh_bytes = ''wheel'',
      wh_names = [PACKAGE_PATH @ ''adapter.py'', PACKAGE_PATH @ ''py.typed'', PACKAGE_PATH @ ''compatibility.json'', ''m.dist-info/METADATA'',
        ''m.dist-info/licenses/LICENSE'', ''m.dist-info/licenses/NOTICE''],
      wh_metadata = (\<lambda>_. [(''Name'', ''meridian-storage-oci''), (''Version'', ''1.1.0''), (''License-Expression'', ''Apache-2.0'')])\<rparr>"

definition example_sdist :: sdist_archive where
  "example_sdist =
     \<lparr>sd_filename = ''meridian_storage_oci-1.1.0.tar.gz'', sd_bytes = ''sdist'',
      sd_names = map (\<lambda>n. ''meridian_storage_oci-1.1.0/'' @ n) [''LICENSE'', ''NOTICE'', ''pyproject.toml'', ''src/meridian_storage/adapters/oci/compatibility.json'']\<rparr>"

lemma example_wheel_ok: "check_wheel example_wheel = Inr ()"
proof -
  have "metadata_names (wh_names example_wheel) = [''m.dist-info/METADATA'']" by code_simp
  moreover have "python_roots (wh_names example_wheel) = {''meridian_storage''}"
  proof -
    have "filter (\<lambda>n. suffix ''.py'' n \<and> \<not> contains n ''.dist-info/'') (wh_names example_wheel) = [PACKAGE_PATH @ ''adapter.py'']" by code_simp
    then show ?thesis by (simp add: python_roots_def before_def PACKAGE_PATH_def)
  qed
  moreover have "list_ex (\<lambda>n. suffix ''.dist-info/licenses/LICENSE'' n) (wh_names example_wheel)"
    "list_ex (\<lambda>n. suffix ''.dist-info/licenses/NOTICE'' n) (wh_names example_wheel)" by code_simp+
  moreover have "message_get (wh_metadata example_wheel m) k = message_get [(''Name'', ''meridian-storage-oci''), (''Version'', ''1.1.0''), (''License-Expression'', ''Apache-2.0'')] k" for m k
    by (simp add: example_wheel_def)
  moreover have "message_get [(''Name'', ''meridian-storage-oci''), (''Version'', ''1.1.0''), (''License-Expression'', ''Apache-2.0'')] ''Name'' = Some EXPECTED_NAME"
    "message_get [(''Name'', ''meridian-storage-oci''), (''Version'', ''1.1.0''), (''License-Expression'', ''Apache-2.0'')] ''Version'' = Some EXPECTED_VERSION"
    "message_get [(''Name'', ''meridian-storage-oci''), (''Version'', ''1.1.0''), (''License-Expression'', ''Apache-2.0'')] ''License-Expression'' = Some ''Apache-2.0''"
    by code_simp+
  moreover have "PACKAGE_PATH @ ''py.typed'' \<in> set (wh_names example_wheel)" "PACKAGE_PATH @ ''compatibility.json'' \<in> set (wh_names example_wheel)"
    by (simp_all add: example_wheel_def)
  ultimately show ?thesis by (simp add: check_wheel_def guardE_def)
qed

lemma example_sdist_ok: "check_sdist example_sdist = Inr ()"
proof -
  have "\<not> list_ex (\<lambda>n. contains n ''../'' \<or> startswith n ''/'') (sd_names example_sdist)" by code_simp
  then show ?thesis by (simp add: check_sdist_def example_sdist_def guardE_def EXPECTED_VERSION_def PACKAGE_PATH_def)
qed

theorem verify_artifacts_sound_witness:
  "\<exists>report. verify_artifacts [example_wheel] [example_sdist] = Inr report
     \<and> (\<forall>n \<in> set (sd_names example_sdist). ''..'' \<notin> set (butlast (split_char (CHR ''/'') n)))"
proof -
  obtain report where r: "verify_artifacts [example_wheel] [example_sdist] = Inr report"
    by (simp add: verify_artifacts_def example_wheel_ok example_sdist_ok)
  from verify_artifacts_sound [OF r] r show ?thesis by auto
qed

end
