(* ===== verification/Contracts.thy ===== *)
theory Contracts
  imports Sbom Factory
begin

text \<open>
  \<^verbatim>\<open>src/scripts/verify_contracts.py\<close> and \<^verbatim>\<open>documents.py\<close>: the checks that the packaged documents, the project file, the
  lock, the installed distributions and the capability manifest agree. What the script reads of the file system
  and of the environment is the record \<open>checkout\<close>; the two documents it parses itself are octets.
\<close>

section \<open>Equality of parsed values\<close>

text \<open>The binary64 number nearest to \<open>num / den\<close>, ties to even: a mantissa of at most 53 bits and an exponent of at
  least -1074; from \<open>2 ^ 1024\<close> on it is infinite.\<close>

definition nearest_float :: "bool \<Rightarrow> nat \<Rightarrow> nat \<Rightarrow> pyfloat" where
  "nearest_float neg num den =
     (if num = 0 then Finite_float 0 0
      else
        let e0 = int (bit_length num) - int (bit_length den) - 53;
            e1 = (if den * 2 ^ 53 * 2 ^ nat e0 \<le> num * 2 ^ nat (- e0) then e0 + 1 else e0);
            e = max e1 (- 1074);
            n = num * 2 ^ nat (- e); d = den * 2 ^ nat e;
            q = n div d; r = 2 * (n mod d);
            m = (if d < r \<or> (r = d \<and> odd q) then q + 1 else q)
        in if 2 ^ 1024 \<le> m * 2 ^ nat e div 2 ^ nat (- e) then Infinite neg
           else Finite_float (if neg then - int m else int m) e)"

definition float_of_text :: "string \<Rightarrow> pyfloat" where
  "float_of_text s =
     (if s = ''NaN'' then NaN else if s = ''Infinity'' then Infinite False else if s = ''-Infinity'' then Infinite True
      else (case decimal_parts s of (neg, m, e) \<Rightarrow> nearest_float neg (m * 10 ^ nat e) (10 ^ nat (- e))))"

text \<open>Numbers and booleans compare by value, exactly.\<close>

fun json_number :: "json \<Rightarrow> pyfloat option" where
  "json_number (JBool b) = Some (Finite_float (if b then 1 else 0) 0)"
| "json_number (JInt i) = Some (Finite_float i 0)"
| "json_number (JFloat s) = Some (float_of_text s)"
| "json_number _ = None"

fun float_same :: "pyfloat \<Rightarrow> pyfloat \<Rightarrow> bool" where
  "float_same (Finite_float m e) (Finite_float n f) = (m * 2 ^ nat (e - f) = n * 2 ^ nat (f - e))"
| "float_same (Infinite a) (Infinite b) = (a = b)"
| "float_same _ _ = False"

definition number_same :: "json \<Rightarrow> json \<Rightarrow> bool" where
  "number_same v w = (case (json_number v, json_number w) of (Some x, Some y) \<Rightarrow> float_same x y | _ \<Rightarrow> False)"

text \<open>\<open>v == w\<close>: dicts compare regardless of order, their keys being distinct.\<close>

primrec json_same :: "json \<Rightarrow> json \<Rightarrow> bool" where
  "json_same JNull = (\<lambda>w. w = JNull)"
| "json_same (JBool b) = number_same (JBool b)"
| "json_same (JInt i) = number_same (JInt i)"
| "json_same (JFloat s) = number_same (JFloat s)"
| "json_same (JStr s) = (\<lambda>w. w = JStr s)"
| "json_same (JArr vs) = (\<lambda>w. case w of
     JArr ws \<Rightarrow> length vs = length ws \<and> list_all (\<lambda>(f, x). f x) (zip (map json_same vs) ws) | _ \<Rightarrow> False)"
| "json_same (JObj ps) = (\<lambda>w. case w of
     JObj qs \<Rightarrow> length ps = length qs
       \<and> list_all (\<lambda>(k, f). case map_of qs k of None \<Rightarrow> False | Some x \<Rightarrow> f x) (map (map_prod id json_same) ps)
   | _ \<Rightarrow> False)"

section \<open>Reading documents\<close>

text \<open>\<open>v[key]\<close>: a missing key, or a value that is not a dict.\<close>

definition json_item :: "json \<Rightarrow> string \<Rightarrow> exn + json" where
  "json_item v key =
     (case v of
        JObj ps \<Rightarrow> (case map_of ps key of None \<Rightarrow> Inl (exn_of KeyError key) | Some x \<Rightarrow> Inr x)
      | _ \<Rightarrow> Inl (bare_exn TypeError))"

text \<open>\<open>compatibility_document\<close> on the octets of the packaged file: decoded, then \<open>json.loads\<close> of the text.\<close>

definition compatibility_document :: "string \<Rightarrow> exn + json" where
  "compatibility_document octets =
     bindE (utf8_decode octets) (\<lambda>text.
     case loads_text text of None \<Rightarrow> Inl (bare_exn JSONDecodeError) | Some v \<Rightarrow> Inr v)"

text \<open>\<open>dict(v)\<close>: of a dict itself, of an iterable the pairs its elements give, in order. A dict with a key that is not a
  \<open>str\<close>, which equals no JSON object, is \<open>JNull\<close> here.\<close>

fun dict_pair :: "json \<Rightarrow> exn + json \<times> json" where
  "dict_pair (JArr [k, v]) = (case k of JArr _ \<Rightarrow> Inl (bare_exn TypeError) | JObj _ \<Rightarrow> Inl (bare_exn TypeError) | _ \<Rightarrow> Inr (k, v))"
| "dict_pair (JObj [(k, _), (l, _)]) = Inr (JStr k, JStr l)"
| "dict_pair (JStr s) =
     (if py_len s = 2 then (let k = hd s # takeWhile cont_byte (tl s) in Inr (JStr k, JStr (drop (length k) s)))
      else Inl (bare_exn ValueError))"
| "dict_pair (JArr _) = Inl (bare_exn ValueError)"
| "dict_pair (JObj _) = Inl (bare_exn ValueError)"
| "dict_pair _ = Inl (bare_exn TypeError)"

fun dict_pairs :: "json list \<Rightarrow> exn + (json \<times> json) list" where
  "dict_pairs [] = Inr []"
| "dict_pairs (v # vs) = bindE (dict_pair v) (\<lambda>p. bindE (dict_pairs vs) (\<lambda>ps. Inr (p # ps)))"

fun dict_of_json :: "json \<Rightarrow> exn + json" where
  "dict_of_json (JObj ps) = Inr (JObj ps)"
| "dict_of_json (JStr s) = (if s = [] then Inr (JObj []) else Inl (bare_exn ValueError))"
| "dict_of_json (JArr vs) =
     bindE (dict_pairs vs) (\<lambda>ps.
     Inr (if list_all (\<lambda>(k, _). is_str k) ps
          then JObj (foldl (\<lambda>d (k, v). case k of JStr key \<Rightarrow> AList.update key v d | _ \<Rightarrow> d) [] ps) else JNull))"
| "dict_of_json _ = Inl (bare_exn TypeError)"

definition load_object :: "string \<Rightarrow> string \<Rightarrow> exn + json" where
  "load_object path octets =
     bindE (json_loads octets) (\<lambda>v.
     if is_obj v then Inr v else Inl (exn_of AssertionError (path @ '' must contain a JSON object'')))"

text \<open>\<open>str.splitlines()\<close>: the line boundaries of \<open>str\<close>, the last three outside ASCII.\<close>

definition line_break :: "string \<Rightarrow> nat" where
  "line_break s =
     (if startswith s [CHR 0x0D, CHR 0x0A] then 2
      else if s \<noteq> [] \<and> hd s \<in> {CHR 0x0A, CHR 0x0B, CHR 0x0C, CHR 0x0D, CHR 0x1C, CHR 0x1D, CHR 0x1E} then 1
      else if startswith s [CHR 0xC2, CHR 0x85] then 2
      else if startswith s [CHR 0xE2, CHR 0x80, CHR 0xA8] \<or> startswith s [CHR 0xE2, CHR 0x80, CHR 0xA9] then 3
      else 0)"

function split_lines :: "string \<Rightarrow> string \<Rightarrow> string list" where
  "split_lines line s =
     (if s = [] then (if line = [] then [] else [line])
      else if line_break s \<noteq> 0 then line # split_lines [] (drop (line_break s) s)
      else split_lines (line @ [hd s]) (tl s))"
  by pat_completeness auto
termination by (relation "measure (\<lambda>(line, s). length s)") auto

declare split_lines.simps [simp del]

definition has_license :: "string \<Rightarrow> exn + bool" where
  "has_license octets =
     bindE (utf8_decode octets) (\<lambda>text.
     Inr (list_ex (\<lambda>line. contains line ''SPDX-License-Identifier: Apache-2.0'') (take 3 (split_lines [] text))))"

section \<open>The evidence bindings\<close>

definition evidence_binding :: "(pyval \<Rightarrow> exn + resource_ref) \<Rightarrow> bool \<Rightarrow> exn + 'w binding" where
  "evidence_binding parse_resource managed =
     (let a = default_binding_args (PyStr ''object:evidence.objects'') ''https://registry.invalid'' ''meridian/evidence''
      in mk_binding parse_resource []
           (a\<lparr>a_cursor_signing_key := PyBytes ''deterministic-evidence-key'',
              a_deletion_enabled := if managed then PyBool True else a_deletion_enabled a,
              a_retention_enforced := if managed then PyBool True else a_retention_enforced a,
              a_referrers_required := if managed then PyBool True else a_referrers_required a\<rparr>))"

section \<open>Verification\<close>

definition VERSION :: string where
  "VERSION = ''1.1.0''"

definition EXPECTED_COMMON_WHEEL :: string where
  "EXPECTED_COMMON_WHEEL = ''089012bebb00870a38b615e41c907454d418e7ddaffaf3d0f13db8bf1ea3e4a1''"

definition EXPECTED_COMMON_SDIST :: string where
  "EXPECTED_COMMON_SDIST = ''3f88a725cd006a4cb61e1d47383f470e180935bdd62c6fefe5ff290522b3bec8''"

text \<open>What the script finds: the parsed project file, the paths of the project files below the root and the
  directories of the adapter root, the two compatibility documents and the contract, the entry points of the
  adapter group (name, value and whether the loaded factory is an \<open>AdapterFactory\<close>), the versions of the installed
  distributions, the lock, and the Python files of the three trees.\<close>

record checkout =
  co_root :: string
  co_pyproject :: json
  co_manifests :: "string list list"
  co_adapter_roots :: "string list"
  co_compatibility :: string
  co_packaged :: string
  co_contract :: string
  co_entry_points :: "(string \<times> string \<times> bool) list"
  co_installed :: "string \<Rightarrow> string option"
  co_lock :: "locked_package list"
  co_sources :: "string list"
  co_tests :: "string list"
  co_scripts :: "string list"

definition installed_version :: "checkout \<Rightarrow> string \<Rightarrow> exn + string" where
  "installed_version co name =
     (case co_installed co name of None \<Rightarrow> Inl (exn_of (OtherError ''PackageNotFoundError'') name) | Some v \<Rightarrow> Inr v)"

abbreviation item_is :: "json \<Rightarrow> string \<Rightarrow> json \<Rightarrow> exn + unit" where
  "item_is v key w \<equiv> bindE (json_item v key) (\<lambda>x. guardE (json_same x w) (bare_exn AssertionError))"

abbreviation asserting :: "bool \<Rightarrow> exn + unit" where
  "asserting c \<equiv> guardE c (bare_exn AssertionError)"

definition check_project :: "checkout \<Rightarrow> json \<Rightarrow> exn + unit" where
  "check_project co project =
     bindE (item_is project ''name'' (JStr ''meridian-storage-oci'')) (\<lambda>_.
     bindE (item_is project ''version'' (JStr VERSION)) (\<lambda>_.
     bindE (item_is project ''license'' (JStr ''Apache-2.0'')) (\<lambda>_.
     bindE (item_is project ''dependencies''
              (JArr [JStr ''httpx>=0.28.1,<0.29'', JStr ''meridian-storage-core>=1.1,<2'', JStr ''meridian-storage-object-common>=1.0.3,<2''])) (\<lambda>_.
     bindE (asserting (filter (\<lambda>path. ''.venv'' \<notin> set path) (co_manifests co) = [[''pyproject.toml'']])) (\<lambda>_.
     asserting (co_adapter_roots co = [''oci'']))))))"

definition check_compatibility :: "json \<Rightarrow> json \<Rightarrow> exn + unit" where
  "check_compatibility root packaged =
     bindE (asserting (json_same root packaged)) (\<lambda>_.
     bindE (item_is root ''adapterId'' (JStr ADAPTER_ID)) (\<lambda>_.
     bindE (item_is root ''adapterContractVersion'' (JStr ADAPTER_CONTRACT_VERSION)) (\<lambda>_.
     bindE (item_is root ''version'' (JStr VERSION)) (\<lambda>_.
     bindE (item_is root ''design''
              (JObj [(''catalogsRevision'', JInt 70), (''hldRevision'', JInt 56), (''objectLldRevision'', JInt 12)])) (\<lambda>_.
     bindE (item_is root ''objectCommon''
              (JObj [(''distribution'', JStr ''meridian-storage-object-common''), (''sdistSha256'', JStr EXPECTED_COMMON_SDIST),
                 (''version'', JStr ''1.0.3''), (''wheelSha256'', JStr EXPECTED_COMMON_WHEEL)])) (\<lambda>_.
     item_is root ''standards'' (JObj [(''ociDistribution'', JStr OCI_DISTRIBUTION_VERSION), (''ociImage'', JStr ''1.1.1'')])))))))"

definition check_contract :: "json \<Rightarrow> json \<Rightarrow> exn + unit" where
  "check_contract project contract =
     bindE (json_item contract ''distribution'') (\<lambda>d.
     bindE (item_is project ''name'' d) (\<lambda>_.
     bindE (json_item contract ''version'') (\<lambda>v.
     bindE (item_is project ''version'' v) (\<lambda>_.
     bindE (item_is contract ''adapterId'' (JStr ADAPTER_ID)) (\<lambda>_.
     bindE (item_is contract ''objectCommon'' (JStr ''1.0.3'')) (\<lambda>_.
     item_is contract ''operations''
       (JArr [JStr ''delete'', JStr ''get'', JStr ''list'', JStr ''put'', JStr ''read_range'', JStr ''stat''])))))))"

definition check_installation :: "checkout \<Rightarrow> exn + unit" where
  "check_installation co =
     (case filter (\<lambda>(name, _). name = ADAPTER_ID) (co_entry_points co) of
        [(_, target, is_factory)] \<Rightarrow>
          bindE (asserting (target = ''meridian_storage.adapters.oci._factory:OciAdapterFactory'')) (\<lambda>_.
          bindE (asserting is_factory) (\<lambda>_.
          bindE (installed_version co ''meridian-storage-oci'') (\<lambda>v. asserting (v = VERSION))))
      | _ \<Rightarrow> Inl (bare_exn AssertionError))"

fun check_lock :: "checkout \<Rightarrow> locked_package list \<Rightarrow> exn + unit" where
  "check_lock co [] = Inr ()"
| "check_lock co (p # ps) =
     bindE (if startswith (lp_name p) ''meridian-''
            then bindE (installed_version co (lp_name p)) (\<lambda>v. bindE (package_version p) (\<lambda>w. asserting (v = w)))
            else Inr ()) (\<lambda>_.
     check_lock co ps)"

fun check_licenses :: "string list \<Rightarrow> exn + unit" where
  "check_licenses [] = Inr ()"
| "check_licenses (text # texts) = bindE (has_license text) (\<lambda>ok. bindE (asserting ok) (\<lambda>_. check_licenses texts))"

definition verify_contracts :: "(pyval \<Rightarrow> exn + resource_ref) \<Rightarrow> object_common \<Rightarrow> checkout \<Rightarrow> exn + fields" where
  "verify_contracts parse_resource oc co =
     bindE (json_item (co_pyproject co) ''project'') (\<lambda>project.
     bindE (check_project co project) (\<lambda>_.
     bindE (load_object (co_root co @ ''/compatibility.json'') (co_compatibility co)) (\<lambda>root.
     bindE (compatibility_document (co_packaged co)) (\<lambda>document.
     bindE (dict_of_json document) (\<lambda>packaged.
     bindE (check_compatibility root packaged) (\<lambda>_.
     bindE (load_object (co_root co @ ''/contracts/meridian-storage-oci.v1.json'') (co_contract co)) (\<lambda>contract.
     bindE (check_contract project contract) (\<lambda>_.
     bindE (check_installation co) (\<lambda>_.
     bindE (check_lock co (co_lock co)) (\<lambda>_.
     bindE (check_licenses (co_sources co @ co_tests co @ co_scripts co)) (\<lambda>_.
     bindE (evidence_binding parse_resource False :: exn + unit binding) (\<lambda>b.
     bindE (evidence_binding parse_resource True :: exn + unit binding) (\<lambda>c.
     let restricted = configured_capability_manifest b; managed = configured_capability_manifest c
     in bindE (asserting (''meridian.object.delete'' \<notin> set (cm_available restricted))) (\<lambda>_.
        bindE (asserting (''meridian.object.delete'' \<in> set (cm_available managed))) (\<lambda>_.
        Inr [(''formatVersion'', JStr ''meridian-storage-oci-verification.v1''), (''adapterId'', JStr ADAPTER_ID),
             (''version'', JStr VERSION), (''contractSha256'', JStr (hexdigest (co_contract co))),
             (''compatibilitySha256'', JStr (hexdigest (co_compatibility co))),
             (''restrictedCapabilityFingerprint'', JStr (oc_manifest_fingerprint oc restricted)),
             (''managedCapabilityFingerprint'', JStr (oc_manifest_fingerprint oc managed)),
             (''sourceFileCount'', JInt (int (length (co_sources co)))), (''testFileCount'', JInt (int (length (co_tests co)))),
             (''status'', JStr ''passed'')])))))))))))))))"

end
