(* ===== verification/Contracts_Laws.thy ===== *)
theory Contracts_Laws
  imports Contracts Json_Laws Example_Common
begin

text \<open>
  What a passed verification of the release documents says, that the capability checks at its end can never fail,
  and what the script does with the project file of the repository.
\<close>

section \<open>The evidence bindings\<close>

lemma evidence_repository: "repository_match ''meridian/evidence''"
  by (simp add: repository_match_def repo_component.simps lower_alnum_def is_digit_def)

lemma evidence_endpoint: "endpoint_checked (PyStr ''https://registry.invalid'') False = Inr ''https://registry.invalid''"
  by (simp add: endpoint_checked_def url_eval)

lemma evidence_binding_exists:
  assumes "parse_resource (PyStr ''object:evidence.objects'') = Inr r"
  shows "\<exists>b :: 'w binding. evidence_binding parse_resource managed = Inr b \<and> b_deletion_enabled b = managed"
  using assms evidence_repository evidence_endpoint
  by (cases managed) (simp_all add: evidence_binding_def mk_binding_def default_binding_args_def repository_field_def verify_field_def
      positive_number_def bounded_int_def mode_field_def boolean_field_def release_field_def image_field_def cursor_key_field_def)

lemma evidence_binding_deletes:
  assumes "evidence_binding parse_resource managed = Inr (b :: 'w binding)"
  shows "(''meridian.object.delete'' \<in> set (cm_available (configured_capability_manifest b))) = managed"
proof -
  from assms obtain r where "parse_resource (PyStr ''object:evidence.objects'') = Inr r"
    unfolding evidence_binding_def mk_binding_def Let_def default_binding_args_def by auto
  from evidence_binding_exists [where parse_resource = parse_resource and r = r and managed = managed and 'w = 'w, OF this] assms
  have "b_deletion_enabled b = managed" by auto
  then show ?thesis by (simp add: configured_capability_manifest_def available_operations_def)
qed

section \<open>What a passed verification says\<close>

lemma item_is_Inr: "item_is v key w = Inr u \<Longrightarrow> \<exists>x. json_item v key = Inr x \<and> json_same x w"
  by (auto simp: bindE_Inr_iff)

lemma check_lock_Inr:
  "check_lock co ps = Inr () \<Longrightarrow> p \<in> set ps \<Longrightarrow> startswith (lp_name p) ''meridian-''
   \<Longrightarrow> lp_version p \<noteq> None \<and> co_installed co (lp_name p) = lp_version p"
  by (induction co ps rule: check_lock.induct)
     (auto simp: bindE_Inr_iff installed_version_def package_version_def split: if_splits option.splits)

lemma check_licenses_Inr: "check_licenses texts = Inr () \<Longrightarrow> t \<in> set texts \<Longrightarrow> has_license t = Inr True"
  by (induction texts rule: check_licenses.induct) (auto simp: bindE_Inr_iff)

lemma load_object_Inr: "load_object path octets = Inr v \<Longrightarrow> json_loads octets = Inr v \<and> is_obj v"
  by (auto simp: load_object_def bindE_Inr_iff split: if_splits)

lemma json_same_str [simp]: "json_same x (JStr s) \<longleftrightarrow> x = JStr s"
  by (cases x) (auto simp: number_same_def split: option.splits)

lemma item_is_str: "item_is v key (JStr s) = Inr u \<longleftrightarrow> json_item v key = Inr (JStr s)"
  by (auto simp: bindE_Inr_iff)

text \<open>C31. What a passed verification says of a release: the project file, both compatibility documents and the public
  contract agree on its name, version and adapter identifier, the packaged document is the one at the root, the
  project declares exactly the expected dependencies and is the only project and the only adapter of the checkout, the
  one entry point of the adapter is its factory, the installed distribution has that version, every Meridian package of the lock is installed at the locked
  version, every Python file carries its licence line, and the report binds the two documents by digest.\<close>

theorem verify_contracts_sound:
  assumes "verify_contracts parse_resource oc co = Inr report"
  shows "\<exists>project root packaged contract. json_item (co_pyproject co) ''project'' = Inr project
    \<and> json_loads (co_compatibility co) = Inr root \<and> bindE (compatibility_document (co_packaged co)) dict_of_json = Inr packaged
    \<and> json_same root packaged \<and> json_loads (co_contract co) = Inr contract
    \<and> json_item project ''name'' = Inr (JStr ''meridian-storage-oci'') \<and> json_item contract ''distribution'' = json_item project ''name''
    \<and> (\<forall>document\<in>{project, root, contract}. json_item document ''version'' = Inr (JStr VERSION))
    \<and> (\<forall>document\<in>{root, contract}. json_item document ''adapterId'' = Inr (JStr ADAPTER_ID))
    \<and> (\<exists>dependencies. json_item project ''dependencies'' = Inr dependencies \<and> json_same dependencies
         (JArr [JStr ''httpx>=0.28.1,<0.29'', JStr ''meridian-storage-core>=1.1,<2'', JStr ''meridian-storage-object-common>=1.0.3,<2'']))
    \<and> filter (\<lambda>path. ''.venv'' \<notin> set path) (co_manifests co) = [[''pyproject.toml'']] \<and> co_adapter_roots co = [''oci'']
    \<and> filter (\<lambda>(name, _). name = ADAPTER_ID) (co_entry_points co)
        = [(ADAPTER_ID, ''meridian_storage.adapters.oci._factory:OciAdapterFactory'', True)]
    \<and> co_installed co ''meridian-storage-oci'' = Some VERSION
    \<and> (\<forall>p\<in>{p \<in> set (co_lock co). startswith (lp_name p) ''meridian-''}. lp_version p \<noteq> None \<and> co_installed co (lp_name p) = lp_version p)
    \<and> (\<forall>text\<in>set (co_sources co @ co_tests co @ co_scripts co). has_license text = Inr True)
    \<and> obj_get report ''contractSha256'' = JStr (hexdigest (co_contract co))
    \<and> obj_get report ''compatibilitySha256'' = JStr (hexdigest (co_compatibility co)) \<and> obj_get report ''status'' = JStr ''passed''"
proof -
  from assms obtain project root document packaged contract where p: "json_item (co_pyproject co) ''project'' = Inr project" "check_project co project = Inr ()"
    and r: "load_object (co_root co @ ''/compatibility.json'') (co_compatibility co) = Inr root"
    and d: "compatibility_document (co_packaged co) = Inr document" "dict_of_json document = Inr packaged"
    and k: "check_compatibility root packaged = Inr ()"
    and c: "load_object (co_root co @ ''/contracts/meridian-storage-oci.v1.json'') (co_contract co) = Inr contract" "check_contract project contract = Inr ()"
    and i: "check_installation co = Inr ()" "check_lock co (co_lock co) = Inr ()" "check_licenses (co_sources co @ co_tests co @ co_scripts co) = Inr ()"
    and o: "obj_get report ''contractSha256'' = JStr (hexdigest (co_contract co))"
      "obj_get report ''compatibilitySha256'' = JStr (hexdigest (co_compatibility co))" "obj_get report ''status'' = JStr ''passed''"
    unfolding verify_contracts_def by (auto simp: bindE_Inr_iff Let_def obj_get_def)
  have project: "json_item project ''name'' = Inr (JStr ''meridian-storage-oci'')" "json_item project ''version'' = Inr (JStr VERSION)"
    and only: "filter (\<lambda>path. ''.venv'' \<notin> set path) (co_manifests co) = [[''pyproject.toml'']]" "co_adapter_roots co = [''oci'']"
    using p(2) unfolding check_project_def by (auto simp: bindE_Inr_iff)
  have dependencies: "\<exists>x. json_item project ''dependencies'' = Inr x \<and> json_same x
      (JArr [JStr ''httpx>=0.28.1,<0.29'', JStr ''meridian-storage-core>=1.1,<2'', JStr ''meridian-storage-object-common>=1.0.3,<2''])"
    using p(2) unfolding check_project_def by (auto simp: bindE_Inr_iff simp del: json_same.simps)
  have root: "json_same root packaged" "json_item root ''adapterId'' = Inr (JStr ADAPTER_ID)" "json_item root ''version'' = Inr (JStr VERSION)"
    using k unfolding check_compatibility_def by (auto simp: bindE_Inr_iff)
  have contract: "json_item contract ''distribution'' = json_item project ''name''" "json_item contract ''version'' = Inr (JStr VERSION)"
    "json_item contract ''adapterId'' = Inr (JStr ADAPTER_ID)"
    using c(2) project unfolding check_contract_def by (auto simp: bindE_Inr_iff)
  from i(1) obtain x where e: "filter (\<lambda>(name, _). name = ADAPTER_ID) (co_entry_points co)
      = [(x, ''meridian_storage.adapters.oci._factory:OciAdapterFactory'', True)]"
    unfolding check_installation_def by (auto simp: bindE_Inr_iff split: list.splits prod.splits)
  from arg_cong [OF e, of set] have "x = ADAPTER_ID" by auto
  note entry = e [unfolded this]
  have "co_installed co ''meridian-storage-oci'' = Some VERSION"
    using i(1) unfolding check_installation_def
    by (auto simp: bindE_Inr_iff installed_version_def split: list.splits prod.splits option.splits)
  moreover have "\<forall>document\<in>{project, root, contract}. json_item document ''version'' = Inr (JStr VERSION)"
    "\<forall>document\<in>{root, contract}. json_item document ''adapterId'' = Inr (JStr ADAPTER_ID)" using project root contract by simp_all
  moreover have "bindE (compatibility_document (co_packaged co)) dict_of_json = Inr packaged" using d by simp
  moreover have "\<forall>p\<in>{p \<in> set (co_lock co). startswith (lp_name p) ''meridian-''}. lp_version p \<noteq> None \<and> co_installed co (lp_name p) = lp_version p"
    "\<forall>text\<in>set (co_sources co @ co_tests co @ co_scripts co). has_license text = Inr True"
    using check_lock_Inr [OF i(2)] check_licenses_Inr [OF i(3)] by blast+
  moreover note load_object_Inr [OF r, THEN conjunct1] load_object_Inr [OF c(1), THEN conjunct1]
  ultimately show ?thesis using p(1) project(1) root(1) contract(1) only dependencies entry o
    by - (rule exI [of _ project], rule exI [of _ root], rule exI [of _ packaged], rule exI [of _ contract], intro conjI, assumption+)
qed

section \<open>The project file of the repository\<close>

text \<open>The table \<open>[project]\<close> of \<^verbatim>\<open>src/pyproject.toml\<close>; \<open>tables\<close> are its sub-tables.\<close>

definition repository_project :: "(string \<times> json) list \<Rightarrow> json" where
  "repository_project tables = JObj
     ([(''name'', JStr ''meridian-storage-oci''), (''version'', JStr ''1.1.0''),
       (''description'', JStr ''OCI Distribution object adapter for Meridian''), (''readme'', JStr ''README.md''),
       (''requires-python'', JStr ''>=3.12''), (''license'', JStr ''Apache-2.0''),
       (''license-files'', JArr [JStr ''LICENSE'', JStr ''NOTICE'']),
       (''authors'', JArr [JObj [(''name'', JStr ''Meridian contributors'')]]),
       (''classifiers'', JArr (map JStr
          [''Development Status :: 5 - Production/Stable'', ''Intended Audience :: Developers'',
           ''License :: OSI Approved :: Apache Software License'', ''Operating System :: OS Independent'',
           ''Programming Language :: Python :: 3'', ''Programming Language :: Python :: 3.12'',
           ''Programming Language :: Python :: 3.13'', ''Programming Language :: Python :: 3.14'', ''Typing :: Typed''])),
       (''dependencies'', JArr (map JStr
          [''httpx>=0.28.1,<0.29'', ''meridian-storage-core>=1,<2'', ''meridian-storage-object-common>=1,<2'']))] @ tables)"

text \<open>The script rejects the repository it is part of: whatever else it finds in the checkout and in the environment,
  with the project file as it is in the repository it ends in an \<open>AssertionError\<close>, because the dependencies
  it expects are not the ones the project declares.\<close>

lemma verify_contracts_rejects_repository:
  "verify_contracts parse_resource oc (co\<lparr>co_pyproject := JObj ([(''build-system'', build), (''project'', repository_project tables)] @ tools)\<rparr>)
     = Inl (bare_exn AssertionError)"
  by (simp add: verify_contracts_def json_item_def check_project_def repository_project_def VERSION_def)

section \<open>A checkout that passes\<close>

definition example_compatibility :: json where
  "example_compatibility = JObj
     [(''adapterContractVersion'', JStr ADAPTER_CONTRACT_VERSION), (''adapterId'', JStr ADAPTER_ID),
      (''design'', JObj [(''catalogsRevision'', JInt 70), (''hldRevision'', JInt 56), (''objectLldRevision'', JInt 12)]),
      (''objectCommon'', JObj [(''distribution'', JStr ''meridian-storage-object-common''), (''sdistSha256'', JStr EXPECTED_COMMON_SDIST),
         (''version'', JStr ''1.0.3''), (''wheelSha256'', JStr EXPECTED_COMMON_WHEEL)]),
      (''standards'', JObj [(''ociDistribution'', JStr OCI_DISTRIBUTION_VERSION), (''ociImage'', JStr ''1.1.1'')]),
      (''version'', JStr VERSION)]"

definition example_contract :: json where
  "example_contract = JObj
     [(''adapterId'', JStr ADAPTER_ID), (''distribution'', JStr ''meridian-storage-oci''), (''objectCommon'', JStr ''1.0.3''),
      (''operations'', JArr (map JStr [''delete'', ''get'', ''list'', ''put'', ''read_range'', ''stat''])), (''version'', JStr VERSION)]"

definition example_table :: json where
  "example_table = JObj
     [(''name'', JStr ''meridian-storage-oci''), (''version'', JStr VERSION), (''license'', JStr ''Apache-2.0''),
      (''dependencies'', JArr (map JStr [''httpx>=0.28.1,<0.29'', ''meridian-storage-core>=1.1,<2'', ''meridian-storage-object-common>=1.0.3,<2'']))]"

definition example_checkout :: checkout where
  "example_checkout =
     \<lparr>co_root = ''/w'',
      co_pyproject = JObj [(''project'', example_table)],
      co_manifests = [[''pyproject.toml''], [''.venv'', ''pyproject.toml'']], co_adapter_roots = [''oci''],
      co_compatibility = write_json example_compatibility, co_packaged = write_json example_compatibility,
      co_contract = write_json example_contract,
      co_entry_points = [(''other'', ''x:y'', False), (ADAPTER_ID, ''meridian_storage.adapters.oci._factory:OciAdapterFactory'', True)],
      co_installed = (\<lambda>name. if name = ''meridian-storage-oci'' then Some VERSION else None),
      co_lock = [\<lparr>lp_name = ''meridian-storage-oci'', lp_version = Some VERSION, lp_dependencies = [], lp_sdist_hash = None\<rparr>],
      co_sources = [''# SPDX-License-Identifier: Apache-2.0''], co_tests = [], co_scripts = []\<rparr>"

lemmas release_constants = VERSION_def ADAPTER_ID_def ADAPTER_CONTRACT_VERSION_def OCI_DISTRIBUTION_VERSION_def
  EXPECTED_COMMON_WHEEL_def EXPECTED_COMMON_SDIST_def

lemma example_documents_wf: "json_wf example_compatibility" "json_wf example_contract"
  by (simp_all add: example_compatibility_def example_contract_def release_constants)

lemma json_loads_object: "json_wf (JObj ps) \<Longrightarrow> json_loads (write_json (JObj ps)) = Inr (JObj ps)"
proof -
  assume wf: "json_wf (JObj ps)"
  obtain c t where ct: "write_json (JObj ps) = CHR ''{'' # c # t" and c: "oct c \<noteq> 0"
    by (cases ps; cases "tl ps") (auto simp: quote_str_def split: prod.splits)
  show ?thesis using loads_text_write [OF wf] decode_utf8_object [OF utf8_ok_write [OF wf] ct c] by (simp add: json_loads_def)
qed

lemma example_loads:
  "json_loads (write_json example_compatibility) = Inr example_compatibility"
  "json_loads (write_json example_contract) = Inr example_contract"
  using json_loads_object example_documents_wf unfolding example_compatibility_def example_contract_def by blast+

lemma example_packaged: "bindE (compatibility_document (write_json example_compatibility)) dict_of_json = Inr example_compatibility"
proof -
  have "list_all (\<lambda>c. oct c < 128) (write_json example_compatibility)"
    by (simp add: example_compatibility_def release_constants quote_str_def escape_char_def str_int_def str_nat.simps digit_char_def)
  then have "\<forall>c\<in>set (write_json example_compatibility). oct c < 128" by (simp add: list_all_iff)
  then have "list_all (\<lambda>(a, b). \<not> (oct a = 237 \<and> 160 \<le> oct b)) (zip (write_json example_compatibility) (tl (write_json example_compatibility)))"
    by (fastforce simp: list_all_iff dest: set_zip_leftD)
  then show ?thesis using loads_text_write [OF example_documents_wf(1)] utf8_ok_write [OF example_documents_wf(1)]
    by (simp add: compatibility_document_def utf8_decode_def example_compatibility_def)
qed

lemma json_same_text: "json_same (JStr s) = (\<lambda>w. w = JStr s)" "number_same (JInt i) (JInt i)"
  by (simp_all add: number_same_def)

lemma example_compatible: "check_compatibility example_compatibility example_compatibility = Inr ()"
proof -
  have "json_same example_compatibility example_compatibility"
    by (simp add: example_compatibility_def json_same_text)
  then show ?thesis
    by (simp add: check_compatibility_def) (simp add: example_compatibility_def json_item_def json_same_text)
qed

lemmas example_parts = example_checkout_def checkout.select_convs

lemma example_installed: "check_installation example_checkout = Inr ()" "check_lock example_checkout (co_lock example_checkout) = Inr ()"
proof -
  have e: "co_entry_points example_checkout = [(''other'', ''x:y'', False), (ADAPTER_ID, ''meridian_storage.adapters.oci._factory:OciAdapterFactory'', True)]"
    "co_installed example_checkout = (\<lambda>name. if name = ''meridian-storage-oci'' then Some VERSION else None)"
    "co_lock example_checkout = [\<lparr>lp_name = ''meridian-storage-oci'', lp_version = Some VERSION, lp_dependencies = [], lp_sdist_hash = None\<rparr>]"
    by (simp_all only: example_parts)
  show "check_installation example_checkout = Inr ()" by (simp add: check_installation_def e installed_version_def ADAPTER_ID_def)
  show "check_lock example_checkout (co_lock example_checkout) = Inr ()" by (simp add: e installed_version_def package_version_def)
qed

lemma example_project:
  "json_item (co_pyproject example_checkout) ''project'' = Inr example_table"
  "check_project example_checkout example_table = Inr ()" "check_contract example_table example_contract = Inr ()"
proof -
  have p: "co_pyproject example_checkout = JObj [(''project'', example_table)]" "co_adapter_roots example_checkout = [''oci'']"
    "co_manifests example_checkout = [[''pyproject.toml''], [''.venv'', ''pyproject.toml'']]"
    by (simp_all only: example_parts)
  show "json_item (co_pyproject example_checkout) ''project'' = Inr example_table" by (simp add: p json_item_def)
  show "check_project example_checkout example_table = Inr ()"
    unfolding check_project_def p by (simp add: json_item_def example_table_def json_same_text)
  show "check_contract example_table example_contract = Inr ()"
    by (simp add: check_contract_def json_item_def example_table_def example_contract_def json_same_text)
qed

lemma line_break_plain: "32 \<le> oct c \<Longrightarrow> oct c < 128 \<Longrightarrow> line_break (c # s) = 0"
proof -
  assume a: "32 \<le> oct c" "oct c < 128"
  have "d \<noteq> c" if "oct d < 32 \<or> 128 \<le> oct d" for d using a that by (metis not_le)
  from this [of "CHR 0x0A"] this [of "CHR 0x0B"] this [of "CHR 0x0C"] this [of "CHR 0x0D"] this [of "CHR 0x1C"] this [of "CHR 0x1D"]
    this [of "CHR 0x1E"] this [of "CHR 0xC2"] this [of "CHR 0xE2"]
  have "c \<noteq> CHR 0x0A" "c \<noteq> CHR 0x0B" "c \<noteq> CHR 0x0C" "c \<noteq> CHR 0x0D" "c \<noteq> CHR 0x1C" "c \<noteq> CHR 0x1D" "c \<noteq> CHR 0x1E"
    "c \<noteq> CHR 0xC2" "c \<noteq> CHR 0xE2" by simp_all
  then show ?thesis by (simp add: line_break_def)
qed

lemma split_lines_plain:
  "list_all (\<lambda>c. 32 \<le> oct c \<and> oct c < 128) s \<Longrightarrow> line @ s \<noteq> [] \<Longrightarrow> split_lines line s = [line @ s]"
proof (induction s arbitrary: line)
  case Nil
  then show ?case by (simp add: split_lines.simps)
next
  case (Cons c s)
  then have "split_lines line (c # s) = split_lines (line @ [c]) s"
    using line_break_plain [of c s] by (subst split_lines.simps) simp
  with Cons show ?case by simp
qed

definition license_line :: string where
  "license_line = ''SPDX-License-Identifier: Apache-2.0''"

lemma license_line_plain: "list_all (\<lambda>c. 32 \<le> oct c \<and> oct c < 128 \<and> oct c \<noteq> 237) (''# '' @ license_line)"
  by (simp add: license_line_def)

lemma license_line_found: "has_license (''# '' @ license_line) = Inr True"
proof -
  let ?s = "''# '' @ license_line"
  have a: "\<forall>c\<in>set ?s. 32 \<le> oct c \<and> oct c < 128 \<and> oct c \<noteq> 237" using license_line_plain by (simp only: list_all_iff)
  then have "split_lines [] ?s = [?s]" using split_lines_plain [of ?s "[]"] by (simp add: list_all_iff)
  moreover have "utf8_ok ?s" using a by (intro utf8_ok_ascii) (auto simp: list_all_iff)
  moreover have "list_all (\<lambda>(a, b). \<not> (oct a = 237 \<and> 160 \<le> oct b)) (zip ?s (tl ?s))" using a by (fastforce simp: list_all_iff dest: set_zip_leftD)
  moreover have "contains ?s license_line" using sublist_appendI [of license_line "''# ''" "[]"] by simp
  ultimately show ?thesis unfolding has_license_def utf8_decode_def license_line_def [symmetric] by simp
qed

lemma example_license: "check_licenses (co_sources example_checkout @ co_tests example_checkout @ co_scripts example_checkout) = Inr ()"
  using license_line_found by (simp add: example_checkout_def license_line_def)

lemma example_verified: "\<exists>report. verify_contracts (\<lambda>_. Inr r) oc example_checkout = Inr report"
proof -
  have d: "load_object path (co_compatibility example_checkout) = Inr example_compatibility"
    "load_object path (co_contract example_checkout) = Inr example_contract" for path
    using example_loads by (simp_all add: load_object_def example_checkout_def example_compatibility_def example_contract_def)
  obtain document where k: "compatibility_document (co_packaged example_checkout) = Inr document" "dict_of_json document = Inr example_compatibility"
    using example_packaged by (auto simp: example_checkout_def bindE_Inr_iff)
  obtain b c :: "unit binding" where e: "evidence_binding (\<lambda>_. Inr r) False = Inr b" "evidence_binding (\<lambda>_. Inr r) True = Inr c"
    using evidence_binding_exists [where parse_resource = "\<lambda>_. Inr r" and r = r and 'w = unit] by blast
  show ?thesis using example_project d k e evidence_binding_deletes [OF e(1)] evidence_binding_deletes [OF e(2)] example_compatible example_installed example_license
    by (simp add: verify_contracts_def Let_def)
qed

theorem verify_contracts_sound_witness:
  "\<exists>report. verify_contracts (\<lambda>_. Inr \<lparr>rr_namespace = ''evidence'', rr_name = ''objects'', rr_canonical = ''object:evidence.objects''\<rparr>) example_common example_checkout = Inr report
     \<and> obj_get report ''status'' = JStr ''passed'' \<and> co_installed example_checkout ''meridian-storage-oci'' = Some ''1.1.0''"
proof -
  obtain report where v: "verify_contracts (\<lambda>_. Inr \<lparr>rr_namespace = ''evidence'', rr_name = ''objects'', rr_canonical = ''object:evidence.objects''\<rparr>) example_common example_checkout = Inr report" using example_verified by blast
  from verify_contracts_sound [OF v] have "obj_get report ''status'' = JStr ''passed'' \<and> co_installed example_checkout ''meridian-storage-oci'' = Some VERSION"
    by (elim exE conjE) (intro conjI)
  with v show ?thesis unfolding VERSION_def by blast
qed

end
