(* ===== verification/Release.thy ===== *)
theory Release
  imports Sbom_Laws Artifacts Contracts_Laws Timestamps
begin

text \<open>
  The entry points of \<^verbatim>\<open>src/scripts\<close>: the document each script makes, as indented JSON, and where it goes. The terminal
  and the output file are the record \<open>console\<close>; the arguments are those \<open>argparse\<close> has parsed.
\<close>

section \<open>Indented JSON\<close>

text \<open>\<open>json.dumps(v, indent=2, sort_keys=True)\<close>; the number is the depth of indentation.\<close>

definition indent_line :: "nat \<Rightarrow> string" where
  "indent_line n = CHR 0x0A # replicate n (CHR '' '')"

fun enclosed :: "string \<Rightarrow> string \<Rightarrow> nat \<Rightarrow> string list \<Rightarrow> string" where
  "enclosed opening closer n [] = opening @ closer"
| "enclosed opening closer n (t # ts) = opening @ indent_line (n + 2) @ join ('','' @ indent_line (n + 2)) (t # ts) @ indent_line n @ closer"

primrec write_indented :: "json \<Rightarrow> nat \<Rightarrow> string" where
  "write_indented JNull = (\<lambda>n. ''null'')"
| "write_indented (JBool b) = (\<lambda>n. if b then ''true'' else ''false'')"
| "write_indented (JInt i) = (\<lambda>n. str_int i)"
| "write_indented (JFloat s) = (\<lambda>n. s)"
| "write_indented (JStr s) = (\<lambda>n. quote_str s)"
| "write_indented (JArr xs) = (\<lambda>n. enclosed ''['' '']'' n (map (\<lambda>f. f (n + 2)) (map write_indented xs)))"
| "write_indented (JObj ps) =
     (\<lambda>n. enclosed ''{'' ''}'' n (map (\<lambda>(k, f). quote_str k @ '': '' @ f (n + 2)) (map (map_prod id write_indented) ps)))"

definition dumps_indented :: "json \<Rightarrow> string" where
  "dumps_indented v = ascii_text (write_indented (sort_json v) 0)"

section \<open>The entry points\<close>

record 'w console =
  cs_print :: "string \<Rightarrow> ('w, unit) io"
  cs_mkdir_parent :: "string \<Rightarrow> ('w, unit) io"
  cs_write_text :: "string \<Rightarrow> string \<Rightarrow> ('w, unit) io"

text \<open>\<open>_created\<close>, of the integer in \<open>SOURCE_DATE_EPOCH\<close> (0 if unset); \<open>out_of_range\<close> is what \<open>datetime\<close> raises for an
  instant outside the years 1 to 9999.\<close>

definition sbom_created :: "(int \<Rightarrow> exn) \<Rightarrow> int option \<Rightarrow> exn + string" where
  "sbom_created out_of_range variable =
     (let epoch = (case variable of None \<Rightarrow> 0 | Some n \<Rightarrow> n)
      in if epoch < - 62135596800 \<or> datetime_max \<le> epoch * 1000000 then Inl (out_of_range epoch)
         else (case civil_from_days (epoch div 86400) of (y, m, d) \<Rightarrow>
           Inr (pad_left 4 y @ ''-'' @ pad_left 2 m @ ''-'' @ pad_left 2 d @ ''T'' @ pad_left 2 (epoch mod 86400 div 3600) @ '':''
             @ pad_left 2 (epoch mod 3600 div 60) @ '':'' @ pad_left 2 (epoch mod 60) @ ''Z'')))"

text \<open>The creation time is the last thing the document needs, so an earlier failure comes first.\<close>

definition created_sbom :: "exn + string \<Rightarrow> locked_package list \<Rightarrow> (exn + json) option" where
  "created_sbom created lock =
     (case created of
        Inr stamp \<Rightarrow> generate_sbom stamp lock
      | Inl e \<Rightarrow> map_option (\<lambda>r. bindE r (\<lambda>_. Inl e)) (generate_sbom [] lock))"

definition sbom_main :: "'w console \<Rightarrow> exn + string \<Rightarrow> locked_package list \<Rightarrow> string option \<Rightarrow> ('w, unit) io option" where
  "sbom_main cs created lock output =
     map_option (\<lambda>r. bnd (lift r) (\<lambda>document.
       let encoded = dumps_indented document @ [CHR 0x0A]
       in case output of
            None \<Rightarrow> cs_print cs encoded
          | Some path \<Rightarrow> bnd (cs_mkdir_parent cs path) (\<lambda>_. cs_write_text cs path encoded)))
       (created_sbom created lock)"

definition artifacts_main :: "'w console \<Rightarrow> wheel_archive list \<Rightarrow> sdist_archive list \<Rightarrow> ('w, unit) io" where
  "artifacts_main cs wheels sdists =
     bnd (lift (verify_artifacts wheels sdists)) (\<lambda>report. cs_print cs (dumps_indented (JObj report) @ [CHR 0x0A]))"

definition contracts_main :: "'w console \<Rightarrow> (pyval \<Rightarrow> exn + resource_ref) \<Rightarrow> object_common \<Rightarrow> checkout \<Rightarrow> ('w, unit) io" where
  "contracts_main cs parse_resource oc co =
     bnd (lift (verify_contracts parse_resource oc co)) (\<lambda>report. cs_print cs (dumps_indented (JObj report) @ [CHR 0x0A]))"

lemma sbom_created_default: "sbom_created f None = Inr ''1970-01-01T00:00:00Z''"
  by code_simp

lemma created_sbom_ends: "\<exists>r. created_sbom created lock = Some r"
proof -
  have "\<exists>r. generate_sbom stamp lock = Some r" for stamp
    using close_runtime_ends [of lock] by (auto simp: generate_sbom_def locked_runtime_packages_def)
  then show ?thesis unfolding created_sbom_def by (cases created) auto
qed

text \<open>Every run of the generator ends; what it prints or writes is one document with the closure of the lock, and a run that
  cannot make it raises before it prints or writes anything.\<close>

theorem sbom_main_outcome:
  "\<exists>run. sbom_main cs created lock output = Some run
     \<and> ((\<exists>e. run w = (Inl e, w))
        \<or> (\<exists>stamp fs. created = Inr stamp \<and> generate_sbom stamp lock = Some (Inr (JObj fs))
            \<and> run w = (case output of None \<Rightarrow> cs_print cs (dumps_indented (JObj fs) @ [CHR 0x0A])
                 | Some path \<Rightarrow> bnd (cs_mkdir_parent cs path) (\<lambda>_. cs_write_text cs path (dumps_indented (JObj fs) @ [CHR 0x0A]))) w))"
proof -
  obtain r where r: "created_sbom created lock = Some r" using created_sbom_ends by blast
  show ?thesis
  proof (cases r)
    case (Inl e)
    with r show ?thesis by (simp add: sbom_main_def bnd_def lift_def)
  next
    case (Inr document)
    with r obtain stamp where t: "created = Inr stamp" "generate_sbom stamp lock = Some (Inr document)"
      unfolding created_sbom_def by (cases created) (auto simp: bindE_Inr_iff)
    then obtain fs where "document = JObj fs" unfolding generate_sbom_def by (auto simp: bindE_Inr_iff)
    with r Inr t show ?thesis by (simp add: sbom_main_def bnd_def lift_def Let_def)
  qed
qed

end
