(* ===== verification/Spec2Isabelle.thy ===== *)
theory Spec2Isabelle
  imports Adapter_Properties Multipart_Properties Probe_Properties Factory_Properties Migration_Properties
    Client_Retry Stream Lifetime Release
begin

text \<open>
  A verification development for the Meridian OCI Distribution adapter, the Python package under
  \<^verbatim>\<open>src/src/meridian_storage/adapters/oci\<close>. The adapter stores objects in an OCI registry: the payload and a
  metadata envelope are blobs, a manifest ties them to an anchor manifest of the object id, and tags derived
  from hashes name the anchor, the latest and every version. It talks HTTP to a registry it does not trust.

  \<^bold>\<open>Conventions.\<close> A function that may raise returns \<open>exn + 'a\<close> (\<open>Prelude\<close>: \<open>bindE\<close>, \<open>guardE\<close>, \<open>catchE\<close>); a
  method with effects is an \<open>('w, 'a) io\<close>, a function of a world \<open>'w\<close> that returns an outcome and the world
  after it, also when it raises (\<open>bnd\<close>, \<open>catch\<close>, \<open>finally_io\<close>, \<open>outcome\<close>); the attributes of a mutable object are a
  record beside the world (\<open>inner\<close>, \<open>gets\<close>, \<open>assign\<close>). Octet strings and texts are \<open>string\<close>, texts in UTF-8.
  Code that is not in the repository is a parameter: \<open>object_common\<close> and \<open>payload_registry\<close> (object-common),
  \<open>multipart_common\<close>, \<open>http_env\<close> (\<open>httpx\<close>), \<open>runtime_env\<close> (the core's result classes, the file system, the
  fingerprint), \<open>migration\<close> (the catalog surface). What is proved against an arbitrary \<open>http_env\<close> holds
  whatever the server answers.

  \<^bold>\<open>The parts, their theories and what is shown.\<close>

  \<^item> Standard library: \<open>Codecs\<close> (SHA-256, HMAC, base64, UTF-8), \<open>Json\<close> and \<open>Json_Laws\<close> (\<open>json.loads\<close>,
    \<open>json.dumps\<close>, \<^verbatim>\<open>_json.py\<close>), \<open>Url\<close> and \<open>Url_Laws\<close> (\<open>urllib.parse\<close>), \<open>Timestamps\<close>. Reading back canonical JSON
    gives the sorted value; the URLs the client builds stay in the endpoint's origin.
  \<^item> \<open>Naming\<close> (\<^verbatim>\<open>_naming.py\<close>): tags and cursors. Tags are grammatical and their classes disjoint; cursors round-trip
    and are accepted only with a valid HMAC.
  \<^item> \<open>Config\<close>, \<open>Capabilities\<close> (\<^verbatim>\<open>descriptor/\<close>): the binding with its validation, and the capability manifest
    published for it. Accepted bindings satisfy \<open>binding_wf\<close>; the manifest says what the binding enables and nothing
    of where it points.
  \<^item> \<open>Models\<close>, \<open>Stream\<close> (\<^verbatim>\<open>transport/models.py\<close>, \<^verbatim>\<open>transport/stream.py\<close>): descriptors, manifests, the stored
    envelope, the chunk reader. Manifests and envelopes round-trip; the reader meets the contract
    \<open>byte_reader\<close> and never passes a failed body off as complete.
  \<^item> \<open>Client\<close> (\<^verbatim>\<open>transport/client.py\<close>): every operation of \<open>RegistryHttpClient\<close>. \<open>Client_Laws\<close>: bounded, expected,
    complete answers only; digests checked; credentials confined to the endpoint's origin; a request budget
    (locale \<open>metered_http\<close>). \<open>Client_Retry\<close>: reads recover from transient failures.
  \<^item> \<open>Retention\<close>, \<open>Adapter\<close> (\<^verbatim>\<open>retention/__init__.py\<close>, \<^verbatim>\<open>adapter.py\<close>): put, get, stat, read_range, list, delete and their
    helpers over a \<open>transport\<close>. \<open>Adapter_Laws\<close> proves integrity in the locale \<open>verified_transport\<close>, which the HTTP
    client satisfies against any server (interpretation \<open>http\<close>), and ties what the client hands out to what the server
    answered in the same run: \<open>served_object\<close> (a manifest, its config blob and the envelope in it), \<open>resolves_to\<close> (the
    object a reference names) and \<open>scans\<close> (the objects under a stretch of tags), over \<open>answered\<close> of \<open>Client_Laws\<close>.
  \<^item> \<open>Store\<close>: the abstract registry of tags, blobs and uploads and the locale \<open>registry_store\<close> of what a transport
    promises over it; put, stat, open and delete are proved once there. \<open>Registry\<close> models the stateful test registry
    (\<^verbatim>\<open>src/tests/support/registry.py\<close>), and \<open>Registry_Laws\<close> shows that the HTTP client over it refines the
    store (\<open>fake_setup\<close> with its sublocales; the laws of the URL operations of \<open>httpx\<close> are \<open>httpx_urls\<close>).
    \<open>Adapter_Properties\<close> draws the conclusions.
  \<^item> \<open>Multipart\<close> (\<^verbatim>\<open>multipart/__init__.py\<close>): sessions, parts, completion, abort. \<open>Multipart_Laws\<close> has the step relation
    \<open>multipart_step\<close> with its invariant, and \<open>left_at\<close>, over the closure \<open>acknowledged\<close> of accepted chunks, which says where a
    failed part leaves the upload that is then aborted; \<open>Multipart_Store\<close> and \<open>Multipart_Properties\<close> show that an upload in parts
    equals a plain put of the whole.
  \<^item> \<open>Probe\<close> (\<^verbatim>\<open>probe/__init__.py\<close>): the authenticated and the deep probe. \<open>Probe_Laws\<close> (locale \<open>probed_store\<close>) and
    \<open>Probe_Properties\<close>: the one only reads, the other is honest and cleans up.
  \<^item> \<open>Factory\<close> (\<^verbatim>\<open>_factory.py\<close>): the factory, the runtime, sessions. \<open>Factory_Laws\<close> has the lifecycle as the relation
    \<open>runtime_run\<close> over traces of calls, its invariant \<open>runtime_ok\<close>, and the locale \<open>ca_files\<close> of the file system;
    \<open>Factory_Properties\<close>: sessions only after verification, no CA file left behind.
  \<^item> \<open>Migration\<close> (\<^verbatim>\<open>migration.py\<close>) and \<open>Migration_Properties\<close>: an import commits exactly what was exported.
  \<^item> \<open>Lifetime\<close>: \<open>close\<close> and the context managers of the adapter and of the client. Each closes what it made itself, and
    only that.
  \<^item> The release scripts (\<^verbatim>\<open>src/scripts\<close>). \<open>Sbom\<close>: the bill of materials, whose closure of the lock is a \<open>while_option\<close>
    loop; \<open>Sbom_Laws\<close> shows by the loop invariant \<open>closing\<close> and a measure that it ends for every lock, cyclic ones
    included, and that the document lists exactly the packages the root needs (\<open>needed\<close>) and their dependencies.
    \<open>Artifacts\<close>: the checks of a build and what an accepted build is. \<open>Contracts\<close> and \<open>Contracts_Laws\<close>: the checks of the
    documents (with \<^verbatim>\<open>documents.py\<close> and \<^verbatim>\<open>_version.py\<close>), what a passed run says, and that the project file of the
    repository does not pass them. \<open>Release\<close>: the entry points. What \<open>tomllib\<close>, the archive modules, the e-mail parser
    and \<open>importlib.metadata\<close> return is the input (\<open>locked_package\<close>, \<open>wheel_archive\<close>, \<open>sdist_archive\<close>, \<open>checkout\<close>).
  \<^item> \<open>Example_Common\<close>, \<open>Example_Registry\<close>, \<open>Example_Put\<close>: concrete instances of the parameters, for the
    witnesses.

  \<^bold>\<open>Collisions.\<close> SHA-256 is modelled concretely and is not injective, so a property that depends on two
  contents having different digests says so: its conclusion is a disjunction with an explicit collision among
  the contents involved (\<open>collides\<close>), never an assumption of injectivity.

  \<^bold>\<open>Bounds and fuel.\<close> The JSON scanner recurses on the length of its text plus one, which \<open>loads_text_fuel\<close> shows
  to be enough. The retry loop recurses on the number of attempts the source loops over, an upload has one
  attempt or two as in the source, and the reader and the chunk loops recurse on the chunks. The closure of
  a lock has no bound and \<open>None\<close> would be a run that does not end; \<open>close_runtime_ends\<close> excludes it. Nothing else needs
  one. Integers are unbounded as in Python; floats occur as the timeout and in the comparison of documents, to 53 bits.

  \<^bold>\<open>Not modelled.\<close> Closing of HTTP responses, which changes no result; locks, since the model runs one call at a
  time, the order the locks enforce; the interpreter's limits (recursion, memory); the methods of the adapter that
  only pass a call on to its multipart manager and its read-only properties; the re-exports of the \<^verbatim>\<open>__init__.py\<close>
  files; the \<open>UnicodeEncodeError\<close> of encoding a text with a lone surrogate
  (\<open>canonical_json\<close>, \<open>object_id_hash\<close>), which is hashed and written here like any
  other; any dependence of what a payload stream delivers on the requests sent while it is read
  (\<open>upload_chunks\<close>, \<open>part_chunks\<close>); the redirects that one \<open>send\<close>
  follows, so the request budget counts calls of \<open>send\<close>; the checks of bracketed IP literals and of
  NFKC in \<open>urlsplit\<close>; argument parsing in the scripts, and the reading of TOML, ZIP, tar and e-mail
  headers, which is done by the standard library.
\<close>

end
